(* ===== verification/Prelude.thy ===== *)
theory Prelude
  imports Main "HOL-Library.Word" "HOL-Library.Char_ord" "HOL-Library.List_Lexorder"
    "HOL-Library.Sublist" "HOL-Library.Code_Target_Nat"
begin

text \<open>
  Shared vocabulary of the development: the machine integers of the Rust sources, the
  outcome of a fallible Rust computation, the conversions between text and octets, and the
  generic lemmas on lists and association lists that the component theories use.  Facts that
  several components need for simplification are collected in the \<^theory_text>\<open>named_theorems\<close>
  below.
\<close>

unbundle bit_operations_syntax

named_theorems wire_simps \<open>reading back what a wire primitive wrote\<close>
named_theorems json_simps \<open>lookups in JSON objects after an update\<close>
named_theorems enum_simps \<open>code tables of the protocol enumerations\<close>
named_theorems codec_simps \<open>defining equations of the field codecs\<close>

section \<open>Machine integers and outcomes\<close>

type_synonym u8 = "8 word"
type_synonym u16 = "16 word"
type_synonym u32 = "32 word"
type_synonym u64 = "64 word"
type_synonym bytes = "8 word list"

text \<open>
  The part of \<^verbatim>\<open>std::io::ErrorKind\<close> that the sources construct, and an error value with
  its message.
\<close>

datatype error_kind =
    InvalidInput | InvalidData | NotFound | NotConnected | ConnectionRefused
  | TimedOut | UnexpectedEof | Other

datatype io_error = IoError error_kind string

text \<open>
  The outcome of a Rust computation of type \<^verbatim>\<open>Result<'a, 'e>\<close>: a value, an error value the
  caller can inspect, or a panic, which no caller in the sources catches.
\<close>

datatype ('e, 'a) outcome = Ok 'a | Err 'e | Panic

type_synonym 'a io = "(io_error, 'a) outcome"

text \<open>The \<^verbatim>\<open>?\<close> operator and \<^verbatim>\<open>map\<close>, \<^verbatim>\<open>map_err\<close> and \<^verbatim>\<open>is_ok\<close> on results.\<close>

fun try_ok :: "('e, 'a) outcome \<Rightarrow> ('a \<Rightarrow> ('e, 'b) outcome) \<Rightarrow> ('e, 'b) outcome" where
  "try_ok (Ok x) f = f x"
| "try_ok (Err e) f = Err e"
| "try_ok Panic f = Panic"

definition map_ok :: "('a \<Rightarrow> 'b) \<Rightarrow> ('e, 'a) outcome \<Rightarrow> ('e, 'b) outcome" where
  "map_ok f r = try_ok r (\<lambda>x. Ok (f x))"

fun map_err :: "('e \<Rightarrow> 'f) \<Rightarrow> ('e, 'a) outcome \<Rightarrow> ('f, 'a) outcome" where
  "map_err f (Ok x) = Ok x"
| "map_err f (Err e) = Err (f e)"
| "map_err f Panic = Panic"

fun is_ok :: "('e, 'a) outcome \<Rightarrow> bool" where
  "is_ok (Ok x) = True"
| "is_ok (Err e) = False"
| "is_ok Panic = False"

definition ok_or :: "'e \<Rightarrow> 'a option \<Rightarrow> ('e, 'a) outcome" where
  "ok_or e m = (case m of None \<Rightarrow> Err e | Some x \<Rightarrow> Ok x)"

lemma map_ok_simps [simp]:
  "map_ok f (Ok x) = Ok (f x)" "map_ok f (Err e) = Err e" "map_ok f Panic = Panic"
  by (simp_all add: map_ok_def)

lemma ok_or_simps [simp]: "ok_or e (Some x) = Ok x" "ok_or e None = Err e"
  by (simp_all add: ok_or_def)

lemma try_ok_eq_Ok: "try_ok r f = Ok y \<longleftrightarrow> (\<exists>x. r = Ok x \<and> f x = Ok y)"
  by (cases r) auto

lemma map_ok_eq_Ok: "map_ok f r = Ok y \<longleftrightarrow> (\<exists>x. r = Ok x \<and> y = f x)"
  by (cases r) auto

lemma map_err_eq_Ok [simp]: "map_err f r = Ok y \<longleftrightarrow> r = Ok y"
  by (cases r) auto

lemma is_ok_iff: "is_ok r \<longleftrightarrow> (\<exists>x. r = Ok x)"
  by (cases r) auto

lemma try_ok_cong [fundef_cong]:
  "r = r' \<Longrightarrow> (\<And>x. r' = Ok x \<Longrightarrow> f x = g x) \<Longrightarrow> try_ok r f = try_ok r' g"
  by (cases r) auto

lemmas outcome_elims = try_ok_eq_Ok map_ok_eq_Ok

section \<open>Text and octets\<close>

text \<open>
  A Rust \<^verbatim>\<open>String\<close> is its UTF-8 encoding: a \<^typ>\<open>string\<close> whose characters are the octets, so
  that \<^const>\<open>length\<close> is \<^verbatim>\<open>str::len\<close>.
\<close>

definition byte_of :: "char \<Rightarrow> u8" where
  "byte_of c = word_of_nat (of_char c)"

definition char_at :: "u8 \<Rightarrow> char" where
  "char_at b = char_of (unat b)"

definition as_bytes :: "string \<Rightarrow> bytes" where
  "as_bytes s = map byte_of s"

definition of_bytes :: "bytes \<Rightarrow> string" where
  "of_bytes bs = map char_at bs"

lemma char_at_byte_of [simp]: "char_at (byte_of c) = c"
  by (simp add: char_at_def byte_of_def unat_of_nat)

lemma byte_of_char_at [simp]: "byte_of (char_at b) = b"
proof -
  have "unat b < 256" using unsigned_less [of b, where 'a = nat] by simp
  then show ?thesis by (simp add: char_at_def byte_of_def)
qed

lemma byte_of_inject [simp]: "byte_of c = byte_of d \<longleftrightarrow> c = d"
  by (metis char_at_byte_of)

lemma of_bytes_as_bytes [simp]: "of_bytes (as_bytes s) = s"
  by (simp add: of_bytes_def as_bytes_def comp_def)

lemma as_bytes_of_bytes [simp]: "as_bytes (of_bytes bs) = bs"
  by (simp add: of_bytes_def as_bytes_def comp_def)

lemma length_as_bytes [simp]: "length (as_bytes s) = length s"
  by (simp add: as_bytes_def)

lemma length_of_bytes [simp]: "length (of_bytes bs) = length bs"
  by (simp add: of_bytes_def)

lemma as_bytes_append [simp]: "as_bytes (s @ t) = as_bytes s @ as_bytes t"
  by (simp add: as_bytes_def)

lemma as_bytes_Nil [simp]: "as_bytes [] = []"
  by (simp add: as_bytes_def)

lemma as_bytes_Cons: "as_bytes (c # s) = byte_of c # as_bytes s"
  by (simp add: as_bytes_def)

lemma set_as_bytes: "set (as_bytes s) = byte_of ` set s"
  by (simp add: as_bytes_def)

section \<open>Lists and association lists\<close>

text \<open>\<^verbatim>\<open>Iterator::position\<close>: the index of the first element that satisfies a predicate.\<close>

fun position :: "('a \<Rightarrow> bool) \<Rightarrow> 'a list \<Rightarrow> nat option" where
  "position P [] = None"
| "position P (x # xs) = (if P x then Some 0 else map_option Suc (position P xs))"

lemma position_append_hit:
  "\<forall>x\<in>set xs. \<not> P x \<Longrightarrow> P y \<Longrightarrow> position P (xs @ y # ys) = Some (length xs)"
  by (induction xs) auto

lemma position_None: "position P xs = None \<longleftrightarrow> (\<forall>x\<in>set xs. \<not> P x)"
  by (induction xs) auto

lemma position_Some:
  "position P xs = Some n \<Longrightarrow> n < length xs \<and> P (xs ! n) \<and> (\<forall>i<n. \<not> P (xs ! i))"
proof (induction xs arbitrary: n)
  case (Cons x xs)
  show ?case
  proof (cases "P x")
    case True
    with Cons.prems show ?thesis by simp
  next
    case False
    with Cons.prems obtain m where m: "position P xs = Some m" and n: "n = Suc m" by auto
    from Cons.IH [OF m] False show ?thesis by (auto simp: n nth_Cons split: nat.split)
  qed
qed simp

text \<open>
  A map keyed by an ordered type and kept sorted, as \<^verbatim>\<open>BTreeMap\<close> keeps it: \<open>map_of\<close> is
  \<^verbatim>\<open>get\<close>, and \<open>btree_insert\<close> replaces the value of an existing key.
\<close>

fun btree_insert :: "'k::linorder \<Rightarrow> 'v \<Rightarrow> ('k \<times> 'v) list \<Rightarrow> ('k \<times> 'v) list" where
  "btree_insert k v [] = [(k, v)]"
| "btree_insert k v ((k', v') # m) =
     (if k < k' then (k, v) # (k', v') # m
      else if k = k' then (k, v) # m
      else (k', v') # btree_insert k v m)"

definition btree_ok :: "('k::linorder \<times> 'v) list \<Rightarrow> bool" where
  "btree_ok m = sorted_wrt (<) (map fst m)"

lemma map_of_btree_insert [simp]: "map_of (btree_insert k v m) = (map_of m)(k \<mapsto> v)"
  by (induction m) (auto simp: fun_eq_iff)

lemma keys_btree_insert [simp]: "fst ` set (btree_insert k v m) = insert k (fst ` set m)"
  by (induction k v m rule: btree_insert.induct) (simp_all add: insert_commute)

lemma btree_ok_Cons:
  "btree_ok (p # m) \<longleftrightarrow> (\<forall>x\<in>fst ` set m. fst p < x) \<and> btree_ok m"
  by (auto simp: btree_ok_def)

lemma btree_ok_insert: "btree_ok m \<Longrightarrow> btree_ok (btree_insert k v m)"
proof (induction m)
  case (Cons p m)
  obtain k' v' where p: "p = (k', v')" by (cases p)
  from Cons have IH: "btree_ok (btree_insert k v m)" by (simp add: btree_ok_Cons)
  consider "k < k'" | "k = k'" | "k' < k" by (meson linorder_neqE)
  then show ?case
  proof cases
    case 3
    then have "\<not> k < k'" "k \<noteq> k'" by auto
    moreover have "\<forall>x\<in>fst ` set (btree_insert k v m). k' < x"
      using Cons.prems 3 by (simp add: btree_ok_Cons p)
    ultimately show ?thesis using IH by (simp add: btree_ok_Cons p)
  qed (use Cons.prems in \<open>auto simp: p btree_ok_Cons\<close>)
qed (simp add: btree_ok_def)

lemma btree_ok_Nil [simp]: "btree_ok []"
  by (simp add: btree_ok_def)

lemma btree_ok_distinct: "btree_ok m \<Longrightarrow> distinct (map fst m)"
  by (induction m) (auto simp: btree_ok_def)

lemma btree_ext:
  assumes "btree_ok m" "btree_ok m'" "map_of m = map_of m'" shows "m = m'"
proof -
  have d: "distinct (map fst m)" "distinct (map fst m')"
    using assms by (simp_all add: btree_ok_distinct)
  then have s: "set m = set m'" using assms(3) by (simp add: map_of_inject_set)
  have "sorted (map fst m)" "sorted (map fst m')"
    using assms(1,2) by (auto simp: btree_ok_def intro: strict_sorted_imp_sorted)
  moreover have "inj_on fst (set m \<union> set m')"
    using d s by (simp add: distinct_map)
  ultimately show ?thesis using d s by (intro map_sorted_distinct_set_unique [of fst]) simp_all
qed

text \<open>\<^verbatim>\<open>Vec::remove\<close> at an index and \<^verbatim>\<open>HashMap\<close> updates in terms of maps.\<close>

definition remove_nth :: "nat \<Rightarrow> 'a list \<Rightarrow> 'a list" where
  "remove_nth n xs = take n xs @ drop (Suc n) xs"

lemma length_remove_nth: "n < length xs \<Longrightarrow> length (remove_nth n xs) = length xs - 1"
  by (simp add: remove_nth_def)

lemma set_remove_nth: "set (remove_nth n xs) \<subseteq> set xs"
  using set_take_subset [of n xs] set_drop_subset [of "Suc n" xs] by (auto simp: remove_nth_def)

lemma remove_nth_append_snoc [simp]: "remove_nth (length xs) (xs @ x # ys) = xs @ ys"
  by (simp add: remove_nth_def)

text \<open>The rotation of a list that starts at index \<open>k\<close>, as load balancers walk it.\<close>

definition rotation :: "nat \<Rightarrow> 'a list \<Rightarrow> 'a list" where
  "rotation k xs = map (\<lambda>i. xs ! ((k + i) mod length xs)) [0..<length xs]"

lemma rotation_eq_rotate: "rotation k xs = rotate k xs"
  by (rule nth_equalityI) (auto simp: rotation_def nth_rotate)

lemma set_rotation [simp]: "set (rotation k xs) = set xs"
  by (simp add: rotation_eq_rotate)

lemma length_rotation [simp]: "length (rotation k xs) = length xs"
  by (simp add: rotation_eq_rotate)

end
