(* ===== verification/Rust_Std.thy ===== *)
theory Rust_Std
  imports Prelude
begin

text \<open>
  The parts of the Rust standard library that the sources call on text: character case,
  slicing with its character-boundary check, hexadecimal formatting and parsing of integers,
  and the lossy UTF-8 decoding of octets.  The lemmas show that a formatted integer parses
  back, and that ASCII octets decode to themselves.
\<close>

section \<open>Character case\<close>

definition ascii_lower :: "char \<Rightarrow> char" where
  "ascii_lower c = (if CHR ''A'' \<le> c \<and> c \<le> CHR ''Z'' then char_of (of_char c + 32 :: nat) else c)"

definition ascii_upper :: "char \<Rightarrow> char" where
  "ascii_upper c = (if CHR ''a'' \<le> c \<and> c \<le> CHR ''z'' then char_of (of_char c - 32 :: nat) else c)"

text \<open>\<^verbatim>\<open>str::to_ascii_lowercase\<close>.\<close>

definition to_ascii_lowercase :: "string \<Rightarrow> string" where
  "to_ascii_lowercase s = map ascii_lower s"

text \<open>
  \<^verbatim>\<open>str::to_lowercase\<close> and \<^verbatim>\<open>str::to_uppercase\<close>, up to comparison with ASCII text, which is
  the only use the sources make of the result.  Apart from ASCII letters the characters whose
  Unicode lower case is ASCII are U+212A (Kelvin sign); those whose upper case is ASCII are
  U+0131 (dotless i), U+017F (long s), U+00DF (sharp s) and the ligatures U+FB00 to U+FB06.
  Every other character outside ASCII has an image outside ASCII and is left unchanged here.
\<close>

fun to_lowercase :: "string \<Rightarrow> string" where
  "to_lowercase (c # d # e # s) =
     (if c = CHR 0xE2 \<and> d = CHR 0x84 \<and> e = CHR 0xAA then CHR ''k'' # to_lowercase s
      else ascii_lower c # to_lowercase (d # e # s))"
| "to_lowercase s = map ascii_lower s"

definition ligature_upper :: "char \<Rightarrow> string option" where
  "ligature_upper e =
     map_of [(CHR 0x80, ''FF''), (CHR 0x81, ''FI''), (CHR 0x82, ''FL''), (CHR 0x83, ''FFI''),
             (CHR 0x84, ''FFL''), (CHR 0x85, ''ST''), (CHR 0x86, ''ST'')] e"

fun to_uppercase :: "string \<Rightarrow> string" where
  "to_uppercase [] = []"
| "to_uppercase [c] = [ascii_upper c]"
| "to_uppercase (c # d # s) =
     (if c = CHR 0xC4 \<and> d = CHR 0xB1 then CHR ''I'' # to_uppercase s
      else if c = CHR 0xC5 \<and> d = CHR 0xBF then CHR ''S'' # to_uppercase s
      else if c = CHR 0xC3 \<and> d = CHR 0x9F then ''SS'' @ to_uppercase s
      else if c = CHR 0xEF \<and> d = CHR 0xAC \<and> s \<noteq> [] \<and> ligature_upper (hd s) \<noteq> None
      then the (ligature_upper (hd s)) @ to_uppercase (tl s)
      else ascii_upper c # to_uppercase (d # s))"

text \<open>\<^verbatim>\<open>str::replace\<close> of a one-character pattern by the empty string.\<close>

definition strip_char :: "char \<Rightarrow> string \<Rightarrow> string" where
  "strip_char c s = filter (\<lambda>d. d \<noteq> c) s"

lemma set_strip_char: "set (strip_char c s) = set s - {c}"
  by (auto simp: strip_char_def)

section \<open>Slices\<close>

definition is_cont :: "u8 \<Rightarrow> bool" where
  "is_cont b = (b AND 0xC0 = 0x80)"

definition is_char_boundary :: "string \<Rightarrow> nat \<Rightarrow> bool" where
  "is_char_boundary s i =
     (i = 0 \<or> i = length s \<or> (i < length s \<and> \<not> is_cont (byte_of (s ! i))))"

text \<open>\<^verbatim>\<open>&s[a..b]\<close>: a slice off a character boundary or out of range panics.\<close>

definition str_slice :: "nat \<Rightarrow> nat \<Rightarrow> string \<Rightarrow> ('e, string) outcome" where
  "str_slice a b s =
     (if a \<le> b \<and> b \<le> length s \<and> is_char_boundary s a \<and> is_char_boundary s b
      then Ok (take (b - a) (drop a s)) else Panic)"

definition is_ascii :: "string \<Rightarrow> bool" where
  "is_ascii s = (\<forall>c\<in>set s. of_char c < (128 :: nat))"

lemma byte_of_less_128: "byte_of c < 128 \<longleftrightarrow> of_char c < (128 :: nat)"
proof -
  have "unat (byte_of c) = of_char c" by (simp add: byte_of_def unat_of_nat)
  then show ?thesis by (simp add: word_less_nat_alt)
qed

lemma not_is_cont_small:
  assumes "b < 128" shows "\<not> is_cont b"
proof
  assume "is_cont b"
  then have "bit (b AND 0xC0) 7" by (simp add: is_cont_def)
  then have "bit b 7" by (simp add: bit_simps)
  moreover have "\<not> bit b 7"
  proof -
    have "unat b < 2 ^ 7" using assms by (simp add: word_less_nat_alt)
    then have "\<not> bit (unat b) 7" by (simp add: bit_iff_odd)
    then show ?thesis by (simp add: bit_unsigned_iff)
  qed
  ultimately show False by blast
qed

lemma is_ascii_boundary:
  "is_ascii s \<Longrightarrow> i \<le> length s \<Longrightarrow> is_char_boundary s i"
  by (auto simp: is_char_boundary_def is_ascii_def not_is_cont_small byte_of_less_128)

lemma str_slice_ascii:
  "is_ascii s \<Longrightarrow> a \<le> b \<Longrightarrow> b \<le> length s \<Longrightarrow> str_slice a b s = Ok (take (b - a) (drop a s))"
  by (simp add: str_slice_def is_ascii_boundary)

section \<open>Integers as digits\<close>

fun digits :: "nat \<Rightarrow> nat \<Rightarrow> nat list" where
  "digits r n = (if r < 2 \<or> n < r then [n] else digits r (n div r) @ [n mod r])"

declare digits.simps [simp del]

definition of_digits :: "nat \<Rightarrow> nat list \<Rightarrow> nat" where
  "of_digits r ds = foldl (\<lambda>a d. a * r + d) 0 ds"

lemma of_digits_snoc [simp]: "of_digits r (ds @ [d]) = of_digits r ds * r + d"
  by (simp add: of_digits_def)

lemma of_digits_zeros [simp]: "of_digits r (replicate k 0 @ ds) = of_digits r ds"
  by (induction k) (simp_all add: of_digits_def)

lemma of_digits_digits [simp]: "of_digits r (digits r n) = n"
proof (induction r n rule: digits.induct)
  case (1 r n)
  then show ?case
    by (cases "r < 2 \<or> n < r") (subst digits.simps, auto simp: of_digits_def)+
qed

lemma digits_bound: "2 \<le> r \<Longrightarrow> d \<in> set (digits r n) \<Longrightarrow> d < r"
proof (induction r n rule: digits.induct)
  case (1 r n)
  show ?case
  proof (cases "n < r")
    case True
    with 1 show ?thesis by (auto simp: digits.simps [of r n])
  next
    case False
    then have "digits r n = digits r (n div r) @ [n mod r]"
      using 1 by (simp add: digits.simps [of r n])
    with 1 False show ?thesis by (auto simp: mod_less_divisor)
  qed
qed

lemma digits_nonempty [simp]: "digits r n \<noteq> []"
  by (subst digits.simps) simp

definition digit_char :: "char \<Rightarrow> nat \<Rightarrow> char" where
  "digit_char a d = (if d < 10 then char_of (48 + d) else char_of (of_char a + d - 10))"

definition char_digit :: "char \<Rightarrow> nat option" where
  "char_digit c =
     (if CHR ''0'' \<le> c \<and> c \<le> CHR ''9'' then Some (of_char c - 48)
      else if CHR ''a'' \<le> c \<and> c \<le> CHR ''z'' then Some (of_char c - 87)
      else if CHR ''A'' \<le> c \<and> c \<le> CHR ''Z'' then Some (of_char c - 55)
      else None)"

text \<open>
  \<^verbatim>\<open>format!("{:0wX}", n)\<close> (with \<open>a = CHR ''A''\<close>) and \<^verbatim>\<open>format!("{:0wx}", n)\<close>
  (\<open>a = CHR ''a''\<close>): at least \<open>w\<close> digits, more where the number needs them.
\<close>

definition fmt_hex :: "char \<Rightarrow> nat \<Rightarrow> nat \<Rightarrow> string" where
  "fmt_hex a w n =
     (let ds = digits 16 n in map (digit_char a) (replicate (w - length ds) 0 @ ds))"

abbreviation fmt_0X :: "nat \<Rightarrow> nat \<Rightarrow> string" where "fmt_0X \<equiv> fmt_hex CHR ''A''"
abbreviation fmt_0x :: "nat \<Rightarrow> nat \<Rightarrow> string" where "fmt_0x \<equiv> fmt_hex CHR ''a''"

text \<open>Decimal formatting, \<^verbatim>\<open>to_string\<close> of an unsigned integer.\<close>

definition fmt_dec :: "nat \<Rightarrow> string" where
  "fmt_dec n = map (digit_char CHR ''a'') (digits 10 n)"

text \<open>
  \<^verbatim>\<open>from_str_radix\<close> of an unsigned type with values below \<open>bound\<close>: an optional plus sign,
  at least one digit, no overflow.
\<close>

definition strip_plus :: "string \<Rightarrow> string" where
  "strip_plus s = (case s of c # r \<Rightarrow> if c = CHR ''+'' then r else s | [] \<Rightarrow> [])"

definition parse_digits :: "nat \<Rightarrow> string \<Rightarrow> nat option" where
  "parse_digits r s =
     (if s \<noteq> [] \<and> (\<forall>c\<in>set s. \<exists>d<r. char_digit c = Some d)
      then Some (of_digits r (map (\<lambda>c. the (char_digit c)) s)) else None)"

definition parse_unsigned :: "nat \<Rightarrow> nat \<Rightarrow> string \<Rightarrow> nat option" where
  "parse_unsigned bound r s =
     (case parse_digits r (strip_plus s) of
        Some n \<Rightarrow> if n < bound then Some n else None
      | None \<Rightarrow> None)"

lemma char_digit_table:
  "list_all (\<lambda>a. list_all (\<lambda>d. char_digit (digit_char a d) = Some d) [0..<16]) ''Aa''"
  by code_simp

lemma char_digit_digit_char:
  assumes "d < 16" "a = CHR ''A'' \<or> a = CHR ''a''"
  shows "char_digit (digit_char a d) = Some d"
proof -
  have "a \<in> set ''Aa''" "d \<in> set [0..<16]" using assms by auto
  then show ?thesis using char_digit_table by (auto simp only: list_all_iff)
qed

lemma digit_char_not_plus:
  assumes "d < 16" "a = CHR ''A'' \<or> a = CHR ''a''"
  shows "digit_char a d \<noteq> CHR ''+''"
proof -
  have "char_digit (CHR ''+'') = None" by (simp add: char_digit_def less_eq_char_def)
  then show ?thesis using char_digit_digit_char [OF assms] by auto
qed

lemma parse_digits_map:
  assumes "ds \<noteq> []" "\<forall>d\<in>set ds. d < r" "r \<le> 16" "a = CHR ''A'' \<or> a = CHR ''a''"
  shows "parse_digits r (map (digit_char a) ds) = Some (of_digits r ds)"
proof -
  have cd: "char_digit (digit_char a d) = Some d" if "d \<in> set ds" for d
    using that assms by (intro char_digit_digit_char) auto
  have "map (\<lambda>c. the (char_digit c)) (map (digit_char a) ds) = ds"
    by (simp add: comp_def cd map_idI)
  then show ?thesis using assms(1,2) cd by (auto simp: parse_digits_def)
qed

lemma parse_unsigned_map:
  assumes "ds \<noteq> []" "\<forall>d\<in>set ds. d < r" "r \<le> 16" "a = CHR ''A'' \<or> a = CHR ''a''"
    "of_digits r ds < bound"
  shows "parse_unsigned bound r (map (digit_char a) ds) = Some (of_digits r ds)"
proof -
  have "strip_plus (map (digit_char a) ds) = map (digit_char a) ds"
    using assms(1-4) digit_char_not_plus [of "hd ds" a] by (cases ds) (auto simp: strip_plus_def)
  then show ?thesis using assms by (simp add: parse_unsigned_def parse_digits_map)
qed

lemma parse_fmt_hex:
  assumes "n < bound" "a = CHR ''A'' \<or> a = CHR ''a''"
  shows "parse_unsigned bound 16 (fmt_hex a w n) = Some n"
proof -
  have "of_digits 16 (replicate k 0 @ digits 16 n) = n" for k by simp
  then show ?thesis using assms digits_bound [of 16 _ n]
    by (simp add: fmt_hex_def Let_def del: map_append map_replicate)
      (subst parse_unsigned_map, auto)
qed

section \<open>Lossy UTF-8 decoding\<close>

text \<open>
  \<^verbatim>\<open>String::from_utf8_lossy\<close>: every maximal prefix of an ill-formed sequence becomes
  U+FFFD.  \<open>utf8_step\<close> looks at the first character and returns how many octets it takes and
  whether they are well-formed.
\<close>

definition at :: "bytes \<Rightarrow> nat \<Rightarrow> u8" where
  "at bs i = (if i < length bs then bs ! i else 0)"

definition utf8_second3 :: "u8 \<Rightarrow> u8 \<Rightarrow> bool" where
  "utf8_second3 b c =
     (b = 0xE0 \<and> 0xA0 \<le> c \<and> c \<le> 0xBF \<or> 0xE1 \<le> b \<and> b \<le> 0xEC \<and> 0x80 \<le> c \<and> c \<le> 0xBF
      \<or> b = 0xED \<and> 0x80 \<le> c \<and> c \<le> 0x9F \<or> 0xEE \<le> b \<and> b \<le> 0xEF \<and> 0x80 \<le> c \<and> c \<le> 0xBF)"

definition utf8_second4 :: "u8 \<Rightarrow> u8 \<Rightarrow> bool" where
  "utf8_second4 b c =
     (b = 0xF0 \<and> 0x90 \<le> c \<and> c \<le> 0xBF \<or> 0xF1 \<le> b \<and> b \<le> 0xF3 \<and> 0x80 \<le> c \<and> c \<le> 0xBF
      \<or> b = 0xF4 \<and> 0x80 \<le> c \<and> c \<le> 0x8F)"

definition utf8_step :: "u8 \<Rightarrow> bytes \<Rightarrow> nat \<times> bool" where
  "utf8_step b bs =
     (if b < 0x80 then (1, True)
      else if 0xC2 \<le> b \<and> b \<le> 0xDF then
        (if is_cont (at bs 0) then (2, True) else (1, False))
      else if 0xE0 \<le> b \<and> b \<le> 0xEF then
        (if \<not> utf8_second3 b (at bs 0) then (1, False)
         else if \<not> is_cont (at bs 1) then (2, False) else (3, True))
      else if 0xF0 \<le> b \<and> b \<le> 0xF4 then
        (if \<not> utf8_second4 b (at bs 0) then (1, False)
         else if \<not> is_cont (at bs 1) then (2, False)
         else if \<not> is_cont (at bs 2) then (3, False) else (4, True))
      else (1, False))"

lemma utf8_step_pos: "0 < fst (utf8_step b bs)"
  by (simp add: utf8_step_def)

function from_utf8_lossy :: "bytes \<Rightarrow> bytes" where
  "from_utf8_lossy [] = []"
| "from_utf8_lossy (b # bs) =
     (if snd (utf8_step b bs) then take (fst (utf8_step b bs)) (b # bs) else [0xEF, 0xBF, 0xBD])
     @ from_utf8_lossy (drop (fst (utf8_step b bs)) (b # bs))"
  by pat_completeness auto
termination
  by (relation "measure length") (simp_all add: utf8_step_pos)

text \<open>The octets of a Rust \<^verbatim>\<open>String\<close> are well-formed: they decode to themselves.\<close>

definition utf8_ok :: "bytes \<Rightarrow> bool" where
  "utf8_ok bs = (from_utf8_lossy bs = bs)"

lemma from_utf8_lossy_small:
  "\<forall>b\<in>set bs. b < 0x80 \<Longrightarrow> from_utf8_lossy bs = bs"
  by (induction bs) (auto simp: utf8_step_def)

lemma utf8_ok_ascii: "is_ascii s \<Longrightarrow> utf8_ok (as_bytes s)"
  unfolding utf8_ok_def
  by (rule from_utf8_lossy_small)
    (auto simp: set_as_bytes is_ascii_def byte_of_less_128)

definition decode_text :: "bytes \<Rightarrow> string" where
  "decode_text bs = of_bytes (from_utf8_lossy bs)"

lemma decode_text_as_bytes: "utf8_ok (as_bytes s) \<Longrightarrow> decode_text (as_bytes s) = s"
  by (simp add: decode_text_def utf8_ok_def)

end
