(* ===== verification/Json.thy ===== *)
theory Json
  imports Rust_Std
begin

text \<open>
  The JSON values of \<^verbatim>\<open>serde_json\<close> that the program exchanges with its REST peers and uses
  as the decoded form of every PDU, with the accessors the sources call on them.  A JSON
  object is a sorted map (\<^verbatim>\<open>BTreeMap<String, Value>\<close>).  A number is an unsigned or a
  negative 64-bit integer or a float, given by its bits.
\<close>

datatype number = PosInt u64 | NegInt u64 | Float u64

datatype json =
    JNull
  | JBool bool
  | JNumber number
  | JString string
  | JArray "json list"
  | JObject "(string \<times> json) list"

type_synonym json_map = "(string \<times> json) list"

section \<open>Accessors\<close>

fun as_u64 :: "json \<Rightarrow> u64 option" where
  "as_u64 (JNumber (PosInt n)) = Some n"
| "as_u64 _ = None"

fun as_str :: "json \<Rightarrow> string option" where
  "as_str (JString s) = Some s"
| "as_str _ = None"

fun as_bool :: "json \<Rightarrow> bool option" where
  "as_bool (JBool b) = Some b"
| "as_bool _ = None"

fun as_array :: "json \<Rightarrow> json list option" where
  "as_array (JArray vs) = Some vs"
| "as_array _ = None"

text \<open>\<^verbatim>\<open>Value::get\<close> with a string key: \<open>None\<close> on everything that is not an object.\<close>

fun jget :: "string \<Rightarrow> json \<Rightarrow> json option" where
  "jget k (JObject m) = map_of m k"
| "jget k _ = None"

text \<open>The recurring \<^verbatim>\<open>get(k).and_then(as_str)\<close> and \<^verbatim>\<open>get(k).and_then(as_u64)\<close>, with defaults.\<close>

definition get_str :: "string \<Rightarrow> json \<Rightarrow> string option" where
  "get_str k v = Option.bind (jget k v) as_str"

definition get_u64 :: "string \<Rightarrow> json \<Rightarrow> u64 option" where
  "get_u64 k v = Option.bind (jget k v) as_u64"

definition str_or_empty :: "string \<Rightarrow> json \<Rightarrow> string" where
  "str_or_empty k v = (case get_str k v of Some s \<Rightarrow> s | None \<Rightarrow> [])"

definition u64_or :: "u64 \<Rightarrow> string \<Rightarrow> json \<Rightarrow> u64" where
  "u64_or d k v = (case get_u64 k v of Some n \<Rightarrow> n | None \<Rightarrow> d)"

section \<open>Updates\<close>

text \<open>\<^verbatim>\<open>as_object_mut().map(|obj| obj.insert(k, x))\<close>.\<close>

fun obj_insert :: "string \<Rightarrow> json \<Rightarrow> json \<Rightarrow> json" where
  "obj_insert k x (JObject m) = JObject (btree_insert k x m)"
| "obj_insert k x v = v"

text \<open>\<^verbatim>\<open>get_mut(k).map(|v| *v = x)\<close>: replaces the value of a key that is present.\<close>

fun obj_replace :: "string \<Rightarrow> json \<Rightarrow> json \<Rightarrow> json" where
  "obj_replace k x (JObject m) = (if map_of m k = None then JObject m else JObject (btree_insert k x m))"
| "obj_replace k x v = v"

text \<open>
  \<^verbatim>\<open>value[k] = x\<close>: inserts into an object, turns a null into an object, and panics on every
  other value.
\<close>

fun index_set :: "string \<Rightarrow> json \<Rightarrow> json \<Rightarrow> ('e, json) outcome" where
  "index_set k x (JObject m) = Ok (JObject (btree_insert k x m))"
| "index_set k x JNull = Ok (JObject [(k, x)])"
| "index_set k x _ = Panic"

text \<open>Inserting a list of fields in order, as the builders of JSON messages do.\<close>

fun insert_all :: "(string \<times> json) list \<Rightarrow> json_map \<Rightarrow> json_map" where
  "insert_all [] m = m"
| "insert_all ((k, v) # fs) m = insert_all fs (btree_insert k v m)"

definition jobject :: "(string \<times> json) list \<Rightarrow> json" where
  "jobject fs = JObject (insert_all fs [])"

definition jnum :: "'a::len word \<Rightarrow> json" where
  "jnum w = JNumber (PosInt (ucast w))"

section \<open>Well-formed values\<close>

fun json_wf :: "json \<Rightarrow> bool" where
  "json_wf (JArray vs) = (\<forall>v\<in>set vs. json_wf v)"
| "json_wf (JObject m) = (btree_ok m \<and> (\<forall>p\<in>set m. json_wf (snd p)))"
| "json_wf _ = True"

lemma jget_obj_insert [json_simps]:
  "jget k (obj_insert k' x (JObject m)) = (if k = k' then Some x else map_of m k)"
  by simp

lemma jget_obj_replace [json_simps]:
  "jget k (obj_replace k' x v) = (if k = k' \<and> jget k v \<noteq> None then Some x else jget k v)"
  by (cases v) auto

lemma index_set_get: "index_set k x v = Ok v' \<Longrightarrow>
    jget k' v' = (if k' = k then Some x else jget k' v)"
  by (cases v) auto

lemma map_of_insert_all:
  "map_of (insert_all fs m) k =
     (case map_of (rev fs) k of Some v \<Rightarrow> Some v | None \<Rightarrow> map_of m k)"
proof (induction fs arbitrary: m)
  case (Cons f fs)
  obtain k' v' where "f = (k', v')" by (cases f)
  then show ?case by (auto simp: Cons.IH map_add_def split: option.split)
qed simp

lemma insert_all_append: "insert_all (fs @ gs) m = insert_all gs (insert_all fs m)"
  by (induction fs arbitrary: m) auto

lemma set_btree_insert: "set (btree_insert k v m) \<subseteq> insert (k, v) (set m)"
  by (induction k v m rule: btree_insert.induct) auto

lemma json_wf_insert:
  "json_wf (JObject m) \<Longrightarrow> json_wf x \<Longrightarrow> json_wf (JObject (btree_insert k x m))"
  using set_btree_insert [of k x m] by (auto simp: btree_ok_insert)

lemma json_wf_insert_all:
  "json_wf (JObject m) \<Longrightarrow> \<forall>f\<in>set fs. json_wf (snd f) \<Longrightarrow> json_wf (JObject (insert_all fs m))"
proof (induction fs arbitrary: m)
  case (Cons f fs)
  obtain k v where f: "f = (k, v)" by (cases f)
  from Cons.prems have "json_wf (JObject (btree_insert k v m))"
    by (intro json_wf_insert) (auto simp: f)
  with Cons.IH Cons.prems(2) show ?case by (simp add: f)
qed simp

lemma btree_ok_insert_all: "btree_ok m \<Longrightarrow> btree_ok (insert_all fs m)"
  by (induction fs m rule: insert_all.induct) (simp_all add: btree_ok_insert)

text \<open>An object is restored by inserting its members in any order, repetitions included.\<close>

lemma insert_all_restore:
  assumes "btree_ok m" "set ks = fst ` set m"
  shows "insert_all (map (\<lambda>k. (k, the (map_of m k))) ks) [] = m"
proof (rule btree_ext)
  show "map_of (insert_all (map (\<lambda>k. (k, the (map_of m k))) ks) []) = map_of m"
  proof
    fix k
    have "map_of (map (\<lambda>k. (k, the (map_of m k))) (rev ks)) k = map_of m k"
    proof (cases "k \<in> set ks")
      case True
      then have "map_of m k \<noteq> None" by (simp add: assms(2) map_of_eq_None_iff)
      with True show ?thesis by (simp add: map_of_map_restrict restrict_map_def)
    next
      case False
      then have "map_of m k = None" by (simp add: assms(2) map_of_eq_None_iff)
      with False show ?thesis by (simp add: map_of_map_restrict)
    qed
    then show "map_of (insert_all (map (\<lambda>k. (k, the (map_of m k))) ks) []) k = map_of m k"
      by (simp add: map_of_insert_all rev_map split: option.split)
  qed
qed (simp_all add: assms btree_ok_insert_all)

lemma json_wf_obj_insert: "json_wf v \<Longrightarrow> json_wf x \<Longrightarrow> json_wf (obj_insert k x v)"
  by (cases v) (auto simp del: json_wf.simps intro: json_wf_insert)

lemma json_wf_obj_replace: "json_wf v \<Longrightarrow> json_wf x \<Longrightarrow> json_wf (obj_replace k x v)"
  by (cases v) (auto simp del: json_wf.simps intro: json_wf_insert)

lemma jget_json_wf: "json_wf v \<Longrightarrow> jget k v = Some x \<Longrightarrow> json_wf x"
  by (cases v) (force dest: map_of_SomeD)+

lemma jget_jobject: "jget k (jobject fs) = map_of (rev fs) k"
  by (simp add: jobject_def map_of_insert_all split: option.split)

lemma as_u64_jnum [simp]: "as_u64 (jnum w) = Some (ucast w)"
  by (simp add: jnum_def)

lemma get_str_Some: "get_str k v = Some s \<longleftrightarrow> jget k v = Some (JString s)"
proof -
  have "as_str x = Some s \<longleftrightarrow> x = JString s" for x by (cases x) auto
  then show ?thesis by (auto simp: get_str_def bind_eq_Some_conv)
qed

lemma get_u64_Some: "get_u64 k v = Some n \<longleftrightarrow> jget k v = Some (JNumber (PosInt n))"
proof -
  have "as_u64 x = Some n \<longleftrightarrow> x = JNumber (PosInt n)" for x
    by (cases x; cases "case x of JNumber y \<Rightarrow> y | _ \<Rightarrow> PosInt 0") auto
  then show ?thesis by (auto simp: get_u64_def bind_eq_Some_conv)
qed

end
