(* ===== verification/Enums.thy ===== *)
theory Enums
  imports Rust_Std
begin

text \<open>
  The one-octet protocol enumerations: type of number (\<^verbatim>\<open>ton.rs\<close>), numbering plan
  (\<^verbatim>\<open>npi.rs\<close>), service type (\<^verbatim>\<open>service_type.rs\<close>) and message state
  (\<^verbatim>\<open>message_state.rs\<close>).  What they and the enumerations of the later theories promise is the
  locale \<open>enum_codec\<close>: decoding inverts encoding; \<open>exact_enum_codec\<close> adds that nothing else
  decodes.  Each enumeration interprets them.
\<close>

section \<open>The contract of a coded enumeration\<close>

locale enum_codec =
  fixes enc :: "'e \<Rightarrow> 'w" and dec :: "'w \<Rightarrow> 'e option" and ok :: "'e \<Rightarrow> bool"
  assumes dec_enc: "ok x \<Longrightarrow> dec (enc x) = Some x"
begin

lemma enc_inj: "ok x \<Longrightarrow> ok y \<Longrightarrow> enc x = enc y \<Longrightarrow> x = y"
  by (metis dec_enc option.inject)

lemma enc_inj_on: "inj_on enc (Collect ok)"
  by (rule inj_onI) (auto intro: enc_inj)

lemma enc_distinct: "distinct xs \<Longrightarrow> \<forall>x\<in>set xs. ok x \<Longrightarrow> distinct (map enc xs)"
  by (auto simp: distinct_map intro: inj_onI enc_inj)

end

locale exact_enum_codec = enum_codec +
  assumes enc_dec: "dec w = Some x \<Longrightarrow> enc x = w"
    and dec_ok: "dec w = Some x \<Longrightarrow> ok x"
begin

lemma dec_inj: "dec w = Some x \<Longrightarrow> dec w' = Some x \<Longrightarrow> w = w'"
  by (metis enc_dec)

lemma dec_eq_Some: "dec w = Some x \<longleftrightarrow> ok x \<and> w = enc x"
  by (metis enc_dec dec_ok dec_enc)

lemma dec_eq_None: "dec w = None \<longleftrightarrow> w \<notin> enc ` Collect ok"
  by (auto simp: dec_enc image_iff) (metis dec_eq_Some not_None_eq)

end

text \<open>
  A numeric key of a text.  Texts with different keys are different, which is far cheaper to
  evaluate on a long table than the pairwise comparison of the texts.
\<close>

definition text_key :: "string \<Rightarrow> int" where
  "text_key s = foldl (\<lambda>a c. 3 * a + of_char c) 0 s"

lemma distinct_by_text_key: "distinct (map text_key ss) \<Longrightarrow> distinct ss"
  by (simp add: distinct_map)

text \<open>A literal table with distinct keys that lists every value under its code.\<close>

lemma map_of_table_enc:
  "distinct (map fst t) \<Longrightarrow> \<forall>p\<in>set t. f (snd p) = fst p \<Longrightarrow> x \<in> snd ` set t
    \<Longrightarrow> map_of t (f x) = Some x"
  by (auto intro!: map_of_is_SomeI)

lemma map_of_table_code:
  "map_of t w = Some x \<Longrightarrow> \<forall>p\<in>set t. f (snd p) = fst p \<Longrightarrow> f x = w"
  by (auto dest!: map_of_SomeD)

section \<open>Type of number\<close>

datatype TON =
    TON_Unknown | TON_International | TON_National | TON_NetworkSpecific
  | TON_SubscriberNumber | TON_Alphanumeric | TON_Abbreviated

primrec TON_as_u8 :: "TON \<Rightarrow> u8" where
  "TON_as_u8 TON_Unknown = 0x00"
| "TON_as_u8 TON_International = 0x01"
| "TON_as_u8 TON_National = 0x02"
| "TON_as_u8 TON_NetworkSpecific = 0x03"
| "TON_as_u8 TON_SubscriberNumber = 0x04"
| "TON_as_u8 TON_Alphanumeric = 0x05"
| "TON_as_u8 TON_Abbreviated = 0x06"

definition TON_from_u8 :: "u8 \<Rightarrow> TON option" where
  "TON_from_u8 value = map_of
    [(0x00, TON_Unknown), (0x01, TON_International), (0x02, TON_National),
     (0x03, TON_NetworkSpecific), (0x04, TON_SubscriberNumber), (0x05, TON_Alphanumeric),
     (0x06, TON_Abbreviated)] value"

definition TON_from_str :: "string \<Rightarrow> TON option" where
  "TON_from_str s = map_of
    [(''unknown'', TON_Unknown), (''international'', TON_International),
     (''national'', TON_National), (''networkspecific'', TON_NetworkSpecific),
     (''subscribernumber'', TON_SubscriberNumber), (''alphanumeric'', TON_Alphanumeric),
     (''abbreviated'', TON_Abbreviated)] (to_lowercase s)"

primrec TON_to_str :: "TON \<Rightarrow> string" where
  "TON_to_str TON_Unknown = ''Unknown''"
| "TON_to_str TON_International = ''International''"
| "TON_to_str TON_National = ''National''"
| "TON_to_str TON_NetworkSpecific = ''NetworkSpecific''"
| "TON_to_str TON_SubscriberNumber = ''SubscriberNumber''"
| "TON_to_str TON_Alphanumeric = ''Alphanumeric''"
| "TON_to_str TON_Abbreviated = ''Abbreviated''"

interpretation ton_code: exact_enum_codec TON_as_u8 TON_from_u8 "\<lambda>_. True"
proof unfold_locales
  show "TON_from_u8 (TON_as_u8 x) = Some x" for x
    by (induct x; code_simp)
  show "TON_from_u8 w = Some x \<Longrightarrow> TON_as_u8 x = w" for w x
    unfolding TON_from_u8_def by (erule map_of_table_code) simp
qed simp

interpretation ton_name: enum_codec TON_to_str TON_from_str "\<lambda>_. True"
  by unfold_locales (rename_tac x, induct_tac x; code_simp)

section \<open>Numbering plan indicator\<close>

datatype NPI =
    NPI_Unknown | NPI_ISDN | NPI_Data | NPI_Telex | NPI_LandMobile | NPI_National
  | NPI_Private | NPI_ERMES | NPI_Internet | NPI_WAPClientId

primrec NPI_as_u8 :: "NPI \<Rightarrow> u8" where
  "NPI_as_u8 NPI_Unknown = 0x00"
| "NPI_as_u8 NPI_ISDN = 0x01"
| "NPI_as_u8 NPI_Data = 0x03"
| "NPI_as_u8 NPI_Telex = 0x04"
| "NPI_as_u8 NPI_LandMobile = 0x06"
| "NPI_as_u8 NPI_National = 0x08"
| "NPI_as_u8 NPI_Private = 0x09"
| "NPI_as_u8 NPI_ERMES = 0x0A"
| "NPI_as_u8 NPI_Internet = 0x0E"
| "NPI_as_u8 NPI_WAPClientId = 0x12"

definition NPI_from_u8 :: "u8 \<Rightarrow> NPI option" where
  "NPI_from_u8 value = map_of
    [(0x00, NPI_Unknown), (0x01, NPI_ISDN), (0x03, NPI_Data), (0x04, NPI_Telex),
     (0x06, NPI_LandMobile), (0x08, NPI_National), (0x09, NPI_Private), (0x0A, NPI_ERMES),
     (0x0E, NPI_Internet), (0x12, NPI_WAPClientId)] value"

definition NPI_from_str :: "string \<Rightarrow> NPI option" where
  "NPI_from_str s = map_of
    [(''unknown'', NPI_Unknown), (''isdn'', NPI_ISDN), (''data'', NPI_Data),
     (''telex'', NPI_Telex), (''landmobile'', NPI_LandMobile), (''national'', NPI_National),
     (''private'', NPI_Private), (''ermes'', NPI_ERMES), (''internet'', NPI_Internet),
     (''wapclientid'', NPI_WAPClientId)] (to_lowercase s)"

primrec NPI_to_str :: "NPI \<Rightarrow> string" where
  "NPI_to_str NPI_Unknown = ''Unknown''"
| "NPI_to_str NPI_ISDN = ''ISDN''"
| "NPI_to_str NPI_Data = ''Data''"
| "NPI_to_str NPI_Telex = ''Telex''"
| "NPI_to_str NPI_LandMobile = ''LandMobile''"
| "NPI_to_str NPI_National = ''National''"
| "NPI_to_str NPI_Private = ''Private''"
| "NPI_to_str NPI_ERMES = ''ERMES''"
| "NPI_to_str NPI_Internet = ''Internet''"
| "NPI_to_str NPI_WAPClientId = ''WAPClientId''"

interpretation npi_code: exact_enum_codec NPI_as_u8 NPI_from_u8 "\<lambda>_. True"
proof unfold_locales
  show "NPI_from_u8 (NPI_as_u8 x) = Some x" for x
    by (induct x; code_simp)
  show "NPI_from_u8 w = Some x \<Longrightarrow> NPI_as_u8 x = w" for w x
    unfolding NPI_from_u8_def by (erule map_of_table_code) simp
qed simp

interpretation npi_name: enum_codec NPI_to_str NPI_from_str "\<lambda>_. True"
  by unfold_locales (rename_tac x, induct_tac x; code_simp)

section \<open>Service type\<close>

datatype ServiceType =
    ST_NULL | ST_CMT | ST_CPT | ST_VMN | ST_VMA | ST_WAP | ST_USSD | ST_CBS | ST_GUTS

definition ServiceType_from_str :: "string \<Rightarrow> ServiceType option" where
  "ServiceType_from_str s = map_of
    [('''', ST_NULL), (''CMT'', ST_CMT), (''CPT'', ST_CPT), (''VMN'', ST_VMN),
     (''VMA'', ST_VMA), (''WAP'', ST_WAP), (''USSD'', ST_USSD), (''CBS'', ST_CBS),
     (''GUTS'', ST_GUTS)] (to_uppercase s)"

primrec ServiceType_to_str :: "ServiceType \<Rightarrow> string" where
  "ServiceType_to_str ST_NULL = ''''"
| "ServiceType_to_str ST_CMT = ''CMT''"
| "ServiceType_to_str ST_CPT = ''CPT''"
| "ServiceType_to_str ST_VMN = ''VMN''"
| "ServiceType_to_str ST_VMA = ''VMA''"
| "ServiceType_to_str ST_WAP = ''WAP''"
| "ServiceType_to_str ST_USSD = ''USSD''"
| "ServiceType_to_str ST_CBS = ''CBS''"
| "ServiceType_to_str ST_GUTS = ''GUTS''"

interpretation service_type_name: enum_codec ServiceType_to_str ServiceType_from_str "\<lambda>_. True"
  by unfold_locales (rename_tac x, induct_tac x; code_simp)

section \<open>Message state\<close>

datatype MessageState =
    MS_SCHEDULED | MS_ENROUTE | MS_DELIVERED | MS_EXPIRED | MS_DELETED | MS_UNDELIVERABLE
  | MS_ACCEPTED | MS_UNKNOWN | MS_REJECTED | MS_SKIPPED

primrec MessageState_as_u8 :: "MessageState \<Rightarrow> u8" where
  "MessageState_as_u8 MS_SCHEDULED = 0x00"
| "MessageState_as_u8 MS_ENROUTE = 0x01"
| "MessageState_as_u8 MS_DELIVERED = 0x02"
| "MessageState_as_u8 MS_EXPIRED = 0x03"
| "MessageState_as_u8 MS_DELETED = 0x04"
| "MessageState_as_u8 MS_UNDELIVERABLE = 0x05"
| "MessageState_as_u8 MS_ACCEPTED = 0x06"
| "MessageState_as_u8 MS_UNKNOWN = 0x07"
| "MessageState_as_u8 MS_REJECTED = 0x08"
| "MessageState_as_u8 MS_SKIPPED = 0x09"

text \<open>\<^verbatim>\<open>from_u8\<close> panics on a value outside the table.\<close>

definition MessageState_from_u8 :: "u8 \<Rightarrow> (unit, MessageState) outcome" where
  "MessageState_from_u8 value =
    (case map_of
       [(0, MS_SCHEDULED), (1, MS_ENROUTE), (2, MS_DELIVERED), (3, MS_EXPIRED), (4, MS_DELETED),
        (5, MS_UNDELIVERABLE), (6, MS_ACCEPTED), (7, MS_UNKNOWN), (8, MS_REJECTED),
        (9, MS_SKIPPED)] value of
       Some s \<Rightarrow> Ok s | None \<Rightarrow> Panic)"

primrec MessageState_to_string :: "MessageState \<Rightarrow> string" where
  "MessageState_to_string MS_SCHEDULED = ''SCHEDULED''"
| "MessageState_to_string MS_ENROUTE = ''ENROUTE''"
| "MessageState_to_string MS_DELIVERED = ''DELIVERED''"
| "MessageState_to_string MS_EXPIRED = ''EXPIRED''"
| "MessageState_to_string MS_DELETED = ''DELETED''"
| "MessageState_to_string MS_UNDELIVERABLE = ''UNDELIVERABLE''"
| "MessageState_to_string MS_ACCEPTED = ''ACCEPTED''"
| "MessageState_to_string MS_UNKNOWN = ''UNKNOWN''"
| "MessageState_to_string MS_REJECTED = ''REJECTED''"
| "MessageState_to_string MS_SKIPPED = ''SKIPPED''"

definition MessageState_from_string :: "string \<Rightarrow> MessageState option" where
  "MessageState_from_string s = map_of
    [(''SCHEDULED'', MS_SCHEDULED), (''ENROUTE'', MS_ENROUTE), (''DELIVERED'', MS_DELIVERED),
     (''EXPIRED'', MS_EXPIRED), (''DELETED'', MS_DELETED),
     (''UNDELIVERABLE'', MS_UNDELIVERABLE), (''ACCEPTED'', MS_ACCEPTED),
     (''UNKNOWN'', MS_UNKNOWN), (''REJECTED'', MS_REJECTED), (''SKIPPED'', MS_SKIPPED)] s"

lemma MessageState_u8_round: "MessageState_from_u8 (MessageState_as_u8 x) = Ok x"
  by (induct x; code_simp)

lemma MessageState_as_u8_bound: "MessageState_as_u8 x \<le> 9"
  by (cases x) simp_all

interpretation message_state_name:
  exact_enum_codec MessageState_to_string MessageState_from_string "\<lambda>_. True"
proof unfold_locales
  show "MessageState_from_string (MessageState_to_string x) = Some x" for x
    by (induct x; code_simp)
  show "MessageState_from_string w = Some x \<Longrightarrow> MessageState_to_string x = w" for w x
    unfolding MessageState_from_string_def by (erule map_of_table_code) simp
qed simp

end
