(* ===== verification/Command_Ids.thy ===== *)
theory Command_Ids
  imports Enums
begin

text \<open>
  The SMPP command identifiers (\<^verbatim>\<open>command_ids.rs\<close>): their 32-bit codes, the names and
  hexadecimal texts under which a JSON message may give them, and the predicates that sort
  them into requests and responses of either side.  Every identifier but the placeholder
  \<open>Unknown\<close> is recovered from its code, from its name and from its hexadecimal text.
\<close>

datatype (plugins only: code size) CommandId =
    BindReceiver | BindReceiverResp | BindTransmitter | BindTransmitterResp | BindTransceiver
  | BindTransceiverResp | Unbind | UnbindResp | Outbind | SubmitSm | SubmitSmResp
  | SubmitMulti | SubmitMultiResp | DeliverSm | DeliverSmResp | DataSm | DataSmResp | QuerySm
  | QuerySmResp | CancelSm | CancelSmResp | ReplaceSm | ReplaceSmResp | EnquireLink
  | EnquireLinkResp | GenericNack | AlertNotification | BroadcastSm | BroadcastSmResp
  | QueryBroadcastSm | QueryBroadcastSmResp | CancelBroadcastSm | CancelBroadcastSmResp
  | Unknown

primrec CommandId_as_u32 :: "CommandId \<Rightarrow> u32" where
  "CommandId_as_u32 BindReceiver = 0x00000001"
| "CommandId_as_u32 BindReceiverResp = 0x80000001"
| "CommandId_as_u32 BindTransmitter = 0x00000002"
| "CommandId_as_u32 BindTransmitterResp = 0x80000002"
| "CommandId_as_u32 BindTransceiver = 0x00000009"
| "CommandId_as_u32 BindTransceiverResp = 0x80000009"
| "CommandId_as_u32 Unbind = 0x00000006"
| "CommandId_as_u32 UnbindResp = 0x80000006"
| "CommandId_as_u32 Outbind = 0x0000000B"
| "CommandId_as_u32 SubmitSm = 0x00000004"
| "CommandId_as_u32 SubmitSmResp = 0x80000004"
| "CommandId_as_u32 SubmitMulti = 0x00000021"
| "CommandId_as_u32 SubmitMultiResp = 0x80000021"
| "CommandId_as_u32 DeliverSm = 0x00000005"
| "CommandId_as_u32 DeliverSmResp = 0x80000005"
| "CommandId_as_u32 DataSm = 0x00000103"
| "CommandId_as_u32 DataSmResp = 0x80000103"
| "CommandId_as_u32 QuerySm = 0x00000003"
| "CommandId_as_u32 QuerySmResp = 0x80000003"
| "CommandId_as_u32 CancelSm = 0x00000008"
| "CommandId_as_u32 CancelSmResp = 0x80000008"
| "CommandId_as_u32 ReplaceSm = 0x00000007"
| "CommandId_as_u32 ReplaceSmResp = 0x80000007"
| "CommandId_as_u32 EnquireLink = 0x00000015"
| "CommandId_as_u32 EnquireLinkResp = 0x80000015"
| "CommandId_as_u32 GenericNack = 0x80000000"
| "CommandId_as_u32 AlertNotification = 0x00000102"
| "CommandId_as_u32 BroadcastSm = 0x00000111"
| "CommandId_as_u32 BroadcastSmResp = 0x80000111"
| "CommandId_as_u32 QueryBroadcastSm = 0x00000112"
| "CommandId_as_u32 QueryBroadcastSmResp = 0x80000112"
| "CommandId_as_u32 CancelBroadcastSm = 0x00000113"
| "CommandId_as_u32 CancelBroadcastSmResp = 0x80000113"
| "CommandId_as_u32 Unknown = 0xFFFFFFFF"

definition CommandId_from_u32 :: "u32 \<Rightarrow> CommandId option" where
  "CommandId_from_u32 value = map_of
    [(0x00000001, BindReceiver), (0x80000001, BindReceiverResp), (0x00000002, BindTransmitter),
     (0x80000002, BindTransmitterResp), (0x00000009, BindTransceiver),
     (0x80000009, BindTransceiverResp), (0x00000006, Unbind), (0x80000006, UnbindResp),
     (0x0000000B, Outbind), (0x00000004, SubmitSm), (0x80000004, SubmitSmResp),
     (0x00000021, SubmitMulti), (0x80000021, SubmitMultiResp), (0x00000005, DeliverSm),
     (0x80000005, DeliverSmResp), (0x00000103, DataSm), (0x80000103, DataSmResp),
     (0x00000003, QuerySm), (0x80000003, QuerySmResp), (0x00000008, CancelSm),
     (0x80000008, CancelSmResp), (0x00000007, ReplaceSm), (0x80000007, ReplaceSmResp),
     (0x00000015, EnquireLink), (0x80000015, EnquireLinkResp), (0x80000000, GenericNack),
     (0x00000102, AlertNotification), (0x00000111, BroadcastSm), (0x80000111, BroadcastSmResp),
     (0x00000112, QueryBroadcastSm), (0x80000112, QueryBroadcastSmResp),
     (0x00000113, CancelBroadcastSm), (0x80000113, CancelBroadcastSmResp)] value"

text \<open>The names \<^verbatim>\<open>from_str\<close> matches, after it removed dashes and underscores.\<close>

definition command_names :: "(string \<times> CommandId) list" where
  "command_names =
    [(''bindreceiver'', BindReceiver), (''bindreceiverresp'', BindReceiverResp),
     (''bindreceiverresponse'', BindReceiverResp), (''bindtransmitter'', BindTransmitter),
     (''bindtransmitterresp'', BindTransmitterResp),
     (''bindtransmitterresponse'', BindTransmitterResp), (''bindtransceiver'', BindTransceiver),
     (''bindtransceiverresp'', BindTransceiverResp),
     (''bindtransceiverresponse'', BindTransceiverResp), (''unbind'', Unbind),
     (''unbindresp'', UnbindResp), (''unbindresponse'', UnbindResp), (''outbind'', Outbind),
     (''submitsm'', SubmitSm), (''submitsmresp'', SubmitSmResp),
     (''submitsmresponse'', SubmitSmResp), (''submitmulti'', SubmitMulti),
     (''submitmultiresp'', SubmitMultiResp), (''submitmultiresponse'', SubmitMultiResp),
     (''deliversm'', DeliverSm), (''deliversmresp'', DeliverSmResp),
     (''deliversmresponse'', DeliverSmResp), (''datasm'', DataSm), (''datasmresp'', DataSmResp),
     (''datasmresponse'', DataSmResp), (''querysm'', QuerySm), (''querysmresp'', QuerySmResp),
     (''querysmresponse'', QuerySmResp), (''cancelsm'', CancelSm),
     (''cancelsmresp'', CancelSmResp), (''cancelsmresponse'', CancelSmResp),
     (''replacesm'', ReplaceSm), (''replacesmresp'', ReplaceSmResp),
     (''replacesmresponse'', ReplaceSmResp), (''enquirelink'', EnquireLink),
     (''enquirelinkresp'', EnquireLinkResp), (''enquirelinkresponse'', EnquireLinkResp),
     (''genericnack'', GenericNack), (''alertnotification'', AlertNotification),
     (''broadcastsm'', BroadcastSm), (''broadcastsmresp'', BroadcastSmResp),
     (''broadcastsmresponse'', BroadcastSmResp), (''querybroadcastsm'', QueryBroadcastSm),
     (''querybroadcastsmresp'', QueryBroadcastSmResp),
     (''querybroadcastsmresponse'', QueryBroadcastSmResp),
     (''cancelbroadcastsm'', CancelBroadcastSm),
     (''cancelbroadcastsmresp'', CancelBroadcastSmResp),
     (''cancelbroadcastsmresponse'', CancelBroadcastSmResp)]"

definition CommandId_from_str :: "string \<Rightarrow> CommandId option" where
  "CommandId_from_str s =
     (let name = strip_char CHR ''_'' (strip_char CHR ''-'' s) in
      case (if take 2 name = ''0x'' then parse_unsigned (2 ^ 32) 16 (drop 2 name) else None) of
        Some value \<Rightarrow> CommandId_from_u32 (word_of_nat value)
      | None \<Rightarrow> map_of command_names (to_ascii_lowercase name))"

primrec CommandId_to_str :: "CommandId \<Rightarrow> string" where
  "CommandId_to_str BindReceiver = ''BindReceiver''"
| "CommandId_to_str BindReceiverResp = ''BindReceiverResp''"
| "CommandId_to_str BindTransmitter = ''BindTransmitter''"
| "CommandId_to_str BindTransmitterResp = ''BindTransmitterResp''"
| "CommandId_to_str BindTransceiver = ''BindTransceiver''"
| "CommandId_to_str BindTransceiverResp = ''BindTransceiverResp''"
| "CommandId_to_str Unbind = ''Unbind''"
| "CommandId_to_str UnbindResp = ''UnbindResp''"
| "CommandId_to_str Outbind = ''Outbind''"
| "CommandId_to_str SubmitSm = ''SubmitSm''"
| "CommandId_to_str SubmitSmResp = ''SubmitSmResp''"
| "CommandId_to_str SubmitMulti = ''SubmitMulti''"
| "CommandId_to_str SubmitMultiResp = ''SubmitMultiResp''"
| "CommandId_to_str DeliverSm = ''DeliverSm''"
| "CommandId_to_str DeliverSmResp = ''DeliverSmResp''"
| "CommandId_to_str DataSm = ''DataSm''"
| "CommandId_to_str DataSmResp = ''DataSmResp''"
| "CommandId_to_str QuerySm = ''QuerySm''"
| "CommandId_to_str QuerySmResp = ''QuerySmResp''"
| "CommandId_to_str CancelSm = ''CancelSm''"
| "CommandId_to_str CancelSmResp = ''CancelSmResp''"
| "CommandId_to_str ReplaceSm = ''ReplaceSm''"
| "CommandId_to_str ReplaceSmResp = ''ReplaceSmResp''"
| "CommandId_to_str EnquireLink = ''EnquireLink''"
| "CommandId_to_str EnquireLinkResp = ''EnquireLinkResp''"
| "CommandId_to_str GenericNack = ''GenericNack''"
| "CommandId_to_str AlertNotification = ''AlertNotification''"
| "CommandId_to_str BroadcastSm = ''BroadcastSm''"
| "CommandId_to_str BroadcastSmResp = ''BroadcastSmResp''"
| "CommandId_to_str QueryBroadcastSm = ''QueryBroadcastSm''"
| "CommandId_to_str QueryBroadcastSmResp = ''QueryBroadcastSmResp''"
| "CommandId_to_str CancelBroadcastSm = ''CancelBroadcastSm''"
| "CommandId_to_str CancelBroadcastSmResp = ''CancelBroadcastSmResp''"
| "CommandId_to_str Unknown = ''Unknown''"

definition CommandId_is_response :: "CommandId \<Rightarrow> bool" where
  "CommandId_is_response c = (CommandId_as_u32 c AND 0x80000000 \<noteq> 0)"

definition CommandId_is_request :: "CommandId \<Rightarrow> bool" where
  "CommandId_is_request c = (\<not> CommandId_is_response c)"

definition is_client_message :: "CommandId \<Rightarrow> bool" where
  "is_client_message c = (c \<in> set
    [BindReceiver, BindTransmitter, BindTransceiver, Unbind, SubmitSm, SubmitMulti,
     DeliverSmResp, DataSm, QuerySm, CancelSm, ReplaceSm, EnquireLink, EnquireLinkResp,
     GenericNack, BroadcastSm, QueryBroadcastSm, CancelBroadcastSm])"

definition is_client_request :: "CommandId \<Rightarrow> bool" where
  "is_client_request c = (c \<in> set
    [BindReceiver, BindTransmitter, BindTransceiver, Unbind, SubmitSm, SubmitMulti, DataSm,
     QuerySm, CancelSm, ReplaceSm, BroadcastSm, QueryBroadcastSm, CancelBroadcastSm])"

definition is_smsc_message :: "CommandId \<Rightarrow> bool" where
  "is_smsc_message c = (c \<in> set
    [BindReceiverResp, BindTransmitterResp, BindTransceiverResp, Outbind, UnbindResp,
     SubmitSmResp, SubmitMultiResp, DeliverSm, DataSmResp, QuerySmResp, CancelSmResp,
     ReplaceSmResp, EnquireLink, EnquireLinkResp, GenericNack, BroadcastSmResp,
     AlertNotification, QueryBroadcastSmResp, CancelBroadcastSmResp])"

definition is_smsc_request :: "CommandId \<Rightarrow> bool" where
  "is_smsc_request c = (c \<in> set
    [Outbind, DeliverSm, AlertNotification])"

section \<open>Codes, names and hexadecimal texts are recovered\<close>

interpretation command_code:
  exact_enum_codec CommandId_as_u32 CommandId_from_u32 "\<lambda>c. c \<noteq> Unknown"
proof unfold_locales
  show "x \<noteq> Unknown \<Longrightarrow> CommandId_from_u32 (CommandId_as_u32 x) = Some x" for x
    by (induct x) (simp_all add: CommandId_from_u32_def)
  show "CommandId_from_u32 w = Some x \<Longrightarrow> CommandId_as_u32 x = w" for w x
    unfolding CommandId_from_u32_def by (erule map_of_table_code) simp
  show "CommandId_from_u32 w = Some x \<Longrightarrow> x \<noteq> Unknown" for w x
    unfolding CommandId_from_u32_def by (drule map_of_SomeD) auto
qed

lemma from_u32_as_u32 [enum_simps]: "c \<noteq> Unknown \<Longrightarrow> CommandId_from_u32 (CommandId_as_u32 c) = Some c"
  by (rule command_code.dec_enc)

lemma CommandId_from_to_str:
  "CommandId_from_str (CommandId_to_str c) = (if c = Unknown then None else Some c)"
  by (induct c; code_simp)

interpretation command_name:
  enum_codec CommandId_to_str CommandId_from_str "\<lambda>c. c \<noteq> Unknown"
  by unfold_locales (simp add: CommandId_from_to_str)

text \<open>\<^verbatim>\<open>format!("0x{:08X}", code)\<close>, the text under which decoded messages carry their command.\<close>

definition command_hex :: "u32 \<Rightarrow> string" where
  "command_hex w = ''0x'' @ fmt_0X 8 (unat w)"

lemma fmt_hex_chars:
  assumes "c \<in> set (fmt_hex a w n)" "a = CHR ''A'' \<or> a = CHR ''a''"
  shows "c \<noteq> CHR ''-'' \<and> c \<noteq> CHR ''_''"
proof -
  have "char_digit CHR ''-'' = None" "char_digit CHR ''_'' = None" by code_simp+
  moreover have "\<exists>d<16. c = digit_char a d"
    using assms digits_bound [of 16 _ n]
    by (auto simp: fmt_hex_def Let_def intro: exI [of _ "0::nat"])
  ultimately show ?thesis using char_digit_digit_char assms(2) by fastforce
qed

lemma CommandId_from_str_hex:
  "CommandId_from_str (command_hex w) = CommandId_from_u32 w"
proof -
  have keep: "strip_char c (command_hex w) = command_hex w" if "c = CHR ''-'' \<or> c = CHR ''_''" for c
    using that fmt_hex_chars [of _ "CHR ''A''"] by (auto simp: strip_char_def command_hex_def filter_id_conv)
  have "unat w < 2 ^ 32" using unsigned_less [of w, where 'a = nat] by simp
  then have "parse_unsigned (2 ^ 32) 16 (fmt_0X 8 (unat w)) = Some (unat w)"
    by (simp add: parse_fmt_hex)
  then show ?thesis
    by (simp add: CommandId_from_str_def keep Let_def) (simp add: command_hex_def)
qed

section \<open>Requests and responses\<close>

lemma is_response_iff:
  "CommandId_is_response c \<longleftrightarrow>
     c \<in> set [BindReceiverResp, BindTransmitterResp, BindTransceiverResp, UnbindResp, SubmitSmResp,
             SubmitMultiResp, DeliverSmResp, DataSmResp, QuerySmResp, CancelSmResp, ReplaceSmResp,
             EnquireLinkResp, GenericNack, BroadcastSmResp, QueryBroadcastSmResp,
             CancelBroadcastSmResp, Unknown]"
  by (induct c) (simp_all add: CommandId_is_response_def)

lemma client_request_is_request: "is_client_request c \<Longrightarrow> CommandId_is_request c \<and> is_client_message c"
  by (induct c) (simp_all add: is_client_request_def is_client_message_def CommandId_is_request_def
      is_response_iff)

lemma smsc_request_is_request: "is_smsc_request c \<Longrightarrow> CommandId_is_request c \<and> is_smsc_message c"
  by (induct c) (simp_all add: is_smsc_request_def is_smsc_message_def CommandId_is_request_def
      is_response_iff)

end
