(* ===== verification/Wire.thy ===== *)
theory Wire
  imports Json Command_Ids
begin

text \<open>
  The octet layer of \<^verbatim>\<open>message.rs\<close>: big-endian integers, C-octet strings and TLV
  triplets read from and written to a growing buffer, the PDU header, and the splitting of the
  receive buffer into PDUs.  A reader takes the buffer and returns what it read together with
  the buffer it leaves behind, which a failing reader may already have shortened.
\<close>

section \<open>Integers in network byte order\<close>

definition be_u16 :: "u8 \<Rightarrow> u8 \<Rightarrow> u16" where
  "be_u16 a b = push_bit 8 (ucast a) OR ucast b"

definition be_u32 :: "u8 \<Rightarrow> u8 \<Rightarrow> u8 \<Rightarrow> u8 \<Rightarrow> u32" where
  "be_u32 a b c d = push_bit 24 (ucast a) OR push_bit 16 (ucast b) OR push_bit 8 (ucast c) OR ucast d"

definition u16_be :: "u16 \<Rightarrow> bytes" where
  "u16_be w = [ucast (drop_bit 8 w), ucast w]"

definition u32_be :: "u32 \<Rightarrow> bytes" where
  "u32_be w = [ucast (drop_bit 24 w), ucast (drop_bit 16 w), ucast (drop_bit 8 w), ucast w]"

lemma length_u16_be [simp]: "length (u16_be w) = 2"
  by (simp add: u16_be_def)

lemma length_u32_be [simp]: "length (u32_be w) = 4"
  by (simp add: u32_be_def)

lemma be_u16_bytes [wire_simps]: "be_u16 (ucast (drop_bit 8 w)) (ucast w) = w"
  by (rule bit_word_eqI) (auto simp: be_u16_def bit_simps)

lemma be_u32_bytes [wire_simps]:
  "be_u32 (ucast (drop_bit 24 w)) (ucast (drop_bit 16 w)) (ucast (drop_bit 8 w)) (ucast w) = w"
proof (rule bit_word_eqI)
  fix n assume n: "n < LENGTH(32)"
  consider "n < 8" | "8 \<le> n" "n < 16" | "16 \<le> n" "n < 24" | "24 \<le> n" by linarith
  then show "bit (be_u32 (ucast (drop_bit 24 w)) (ucast (drop_bit 16 w)) (ucast (drop_bit 8 w)) (ucast w)) n
      = bit w n"
    by cases (use n in \<open>auto simp: be_u32_def bit_simps\<close>)
qed

lemma ucast_u8_bit: "bit (ucast (b :: u8) :: 'a::len word) n \<longleftrightarrow> n < 8 \<and> n < LENGTH('a) \<and> bit b n"
  using bit_imp_le_length [of b n] by (auto simp: bit_simps)

lemma u16_be_be_u16 [wire_simps]: "u16_be (be_u16 a b) = [a, b]"
  by (auto simp: u16_be_def be_u16_def ucast_u8_bit bit_simps intro!: bit_word_eqI)

lemma u32_be_be_u32 [wire_simps]: "u32_be (be_u32 a b c d) = [a, b, c, d]"
  by (auto simp: u32_be_def be_u32_def ucast_u8_bit bit_simps intro!: bit_word_eqI)

section \<open>Readers and writers\<close>

fun read_u8 :: "bytes \<Rightarrow> u8 option \<times> bytes" where
  "read_u8 (a # buf) = (Some a, buf)"
| "read_u8 [] = (None, [])"

fun read_u16 :: "bytes \<Rightarrow> u16 option \<times> bytes" where
  "read_u16 (a # b # buf) = (Some (be_u16 a b), buf)"
| "read_u16 buf = (None, buf)"

fun read_u32 :: "bytes \<Rightarrow> u32 option \<times> bytes" where
  "read_u32 (a # b # c # d # buf) = (Some (be_u32 a b c d), buf)"
| "read_u32 buf = (None, buf)"

text \<open>\<^verbatim>\<open>read\<close> refuses a length of zero.\<close>

definition read_bytes :: "nat \<Rightarrow> bytes \<Rightarrow> bytes option \<times> bytes" where
  "read_bytes n buf = (if 0 < n \<and> n \<le> length buf then (Some (take n buf), drop n buf) else (None, buf))"

fun peek_tlv_tag :: "bytes \<Rightarrow> u16 option" where
  "peek_tlv_tag (a # b # buf) = Some (be_u16 a b)"
| "peek_tlv_tag _ = None"

definition read_tlv :: "bytes \<Rightarrow> (u16 \<times> bytes) option \<times> bytes" where
  "read_tlv buf =
     (case read_u16 buf of (None, b1) \<Rightarrow> (None, b1) | (Some tag, b1) \<Rightarrow>
      case read_u16 b1 of (None, b2) \<Rightarrow> (None, b2) | (Some len, b2) \<Rightarrow>
      case read_bytes (unat len) b2 of (None, b3) \<Rightarrow> (None, b3) | (Some v, b3) \<Rightarrow>
      (Some (tag, v), b3))"

definition read_c_octet_str :: "bytes \<Rightarrow> string option \<times> bytes" where
  "read_c_octet_str buf =
     (case position (\<lambda>b. b = 0) buf of
        Some pos \<Rightarrow> (Some (decode_text (take pos buf)), drop (Suc pos) buf)
      | None \<Rightarrow> (None, buf))"

definition write_u8 :: "u8 \<Rightarrow> bytes \<Rightarrow> bytes" where
  "write_u8 value buf = buf @ [value]"

definition write_u16 :: "u16 \<Rightarrow> bytes \<Rightarrow> bytes" where
  "write_u16 value buf = buf @ u16_be value"

definition write_u32 :: "u32 \<Rightarrow> bytes \<Rightarrow> bytes" where
  "write_u32 value buf = buf @ u32_be value"

definition write_bytes :: "bytes \<Rightarrow> bytes \<Rightarrow> bytes" where
  "write_bytes data buf = buf @ data"

definition write_c_octet_str :: "string \<Rightarrow> bytes \<Rightarrow> bytes" where
  "write_c_octet_str s buf = write_u8 0 (buf @ as_bytes s)"

definition write_octet :: "string \<Rightarrow> bytes \<Rightarrow> bytes" where
  "write_octet s buf = buf @ as_bytes s"

text \<open>The length field of a TLV is the length of its value truncated to 16 bits.\<close>

definition write_tlv :: "u16 \<Rightarrow> bytes \<Rightarrow> bytes \<Rightarrow> bytes" where
  "write_tlv tag value buf =
     write_bytes value (write_u16 (word_of_nat (length value)) (write_u16 tag buf))"

definition write_c_octet_str_tlv :: "u16 \<Rightarrow> string \<Rightarrow> bytes \<Rightarrow> bytes" where
  "write_c_octet_str_tlv tag value buf =
     (let temp_buffer = write_c_octet_str value [] in
      write_u16 (word_of_nat (length temp_buffer)) (write_u16 tag buf) @ temp_buffer)"

definition write_u8_tlv :: "u16 \<Rightarrow> u8 \<Rightarrow> bytes \<Rightarrow> bytes" where
  "write_u8_tlv tag value buf = write_u8 value (write_u16 1 (write_u16 tag buf))"

definition write_u16_tlv :: "u16 \<Rightarrow> u16 \<Rightarrow> bytes \<Rightarrow> bytes" where
  "write_u16_tlv tag value buf = write_u16 value (write_u16 2 (write_u16 tag buf))"

lemmas write_defs = write_u8_def write_u16_def write_u32_def write_bytes_def
  write_c_octet_str_def write_octet_def

text \<open>What the writers append, the readers take off again.\<close>

lemma read_u16_u16_be [wire_simps]: "read_u16 (u16_be w @ buf) = (Some w, buf)"
  by (simp add: u16_be_def wire_simps)

lemma read_u32_u32_be [wire_simps]: "read_u32 (u32_be w @ buf) = (Some w, buf)"
  by (simp add: u32_be_def wire_simps)

lemma peek_tlv_tag_u16_be [wire_simps]: "peek_tlv_tag (u16_be w @ buf) = Some w"
  by (simp add: u16_be_def wire_simps)

lemma read_bytes_append [wire_simps]:
  "data \<noteq> [] \<Longrightarrow> read_bytes (length data) (data @ buf) = (Some data, buf)"
  by (simp add: read_bytes_def)

text \<open>A text can be a C-octet string when it is well-formed UTF-8 without a NUL octet.\<close>

definition c_string_ok :: "string \<Rightarrow> bool" where
  "c_string_ok s = (utf8_ok (as_bytes s) \<and> 0 \<notin> set (as_bytes s))"

lemma read_c_octet_str_append [wire_simps]:
  assumes "c_string_ok s"
  shows "read_c_octet_str (as_bytes s @ 0 # buf) = (Some s, buf)"
proof -
  have "position (\<lambda>b. b = 0) (as_bytes s @ 0 # buf) = Some (length (as_bytes s))"
    using assms by (intro position_append_hit) (auto simp: c_string_ok_def)
  then show ?thesis using assms
    by (simp add: read_c_octet_str_def decode_text_as_bytes c_string_ok_def)
qed

lemma read_tlv_append [wire_simps]:
  assumes "value \<noteq> []" "length value < 2 ^ 16"
  shows "read_tlv (u16_be tag @ u16_be (word_of_nat (length value)) @ value @ buf) = (Some (tag, value), buf)"
proof -
  have "unat (word_of_nat (length value) :: u16) = length value"
    using assms(2) by (simp add: unat_of_nat)
  then show ?thesis using assms(1) by (simp add: read_tlv_def wire_simps)
qed

lemma read_tlv_write_tlv:
  assumes "value \<noteq> []" "length value < 2 ^ 16"
  shows "read_tlv (write_tlv tag value [] @ buf) = (Some (tag, value), buf)"
  using read_tlv_append [OF assms] by (simp add: write_tlv_def write_defs)

text \<open>No reader returns a longer buffer than it was given; a successful \<open>read_tlv\<close> shortens it.\<close>

lemma read_u16_length: "length (snd (read_u16 buf)) \<le> length buf"
  by (cases buf rule: read_u16.cases) simp_all

lemma read_bytes_length: "length (snd (read_bytes n buf)) \<le> length buf"
  by (simp add: read_bytes_def)

lemma read_tlv_shortens:
  assumes "peek_tlv_tag buf \<noteq> None"
  shows "length (snd (read_tlv buf)) < length buf"
proof -
  obtain a b rest where buf: "buf = a # b # rest"
    using assms by (cases buf rule: peek_tlv_tag.cases) auto
  obtain m b2 where b2: "read_u16 rest = (m, b2)" by fastforce
  have "length b2 \<le> length rest" using read_u16_length [of rest] by (simp add: b2)
  moreover have "length (snd (read_bytes n b2)) \<le> length b2" for n by (rule read_bytes_length)
  ultimately have "length (snd (read_bytes n b2)) \<le> length rest" for n by (meson le_trans)
  then show ?thesis using \<open>length b2 \<le> length rest\<close>
    by (simp add: read_tlv_def buf b2 split: option.split prod.split)
      (metis less_Suc_eq_le less_SucI snd_conv)
qed

section \<open>A PDU\<close>

record SMPPMessage =
  message :: bytes

abbreviation SMPPMessage_of :: "bytes \<Rightarrow> SMPPMessage" where
  "SMPPMessage_of bs \<equiv> \<lparr>message = bs\<rparr>"

definition SMPP_HEADER_LENGTH :: nat where
  "SMPP_HEADER_LENGTH = 16"

definition SMPPMessage_len :: "SMPPMessage \<Rightarrow> nat" where
  "SMPPMessage_len m = length (message m)"

text \<open>Writing into the slice \<open>[k..k+4]\<close> panics when the message is shorter.\<close>

definition put_u32_at :: "nat \<Rightarrow> u32 \<Rightarrow> bytes \<Rightarrow> ('e, bytes) outcome" where
  "put_u32_at k w bs = (if k + 4 \<le> length bs then Ok (take k bs @ u32_be w @ drop (k + 4) bs) else Panic)"

definition update_length :: "SMPPMessage \<Rightarrow> ('e, SMPPMessage) outcome" where
  "update_length m = map_ok SMPPMessage_of (put_u32_at 0 (word_of_nat (length (message m))) (message m))"

definition update_sequence_number :: "u32 \<Rightarrow> SMPPMessage \<Rightarrow> ('e, SMPPMessage) outcome" where
  "update_sequence_number seq_num m = map_ok SMPPMessage_of (put_u32_at 12 seq_num (message m))"

definition u32_at :: "nat \<Rightarrow> bytes \<Rightarrow> u32 option" where
  "u32_at k bs = (if k + 4 \<le> length bs then fst (read_u32 (drop k bs)) else None)"

definition get_command_id :: "SMPPMessage \<Rightarrow> u32 option" where
  "get_command_id m = u32_at 4 (message m)"

definition is_request :: "SMPPMessage \<Rightarrow> bool" where
  "is_request m = (case get_command_id m of Some c \<Rightarrow> c AND 0x80000000 = 0 | None \<Rightarrow> False)"

definition get_command_status :: "SMPPMessage \<Rightarrow> u32 option" where
  "get_command_status m = u32_at 8 (message m)"

definition get_sequence_number :: "SMPPMessage \<Rightarrow> u32 option" where
  "get_sequence_number m = u32_at 12 (message m)"

definition to_hex :: "SMPPMessage \<Rightarrow> string" where
  "to_hex m = concat (map (\<lambda>b. fmt_0X 2 (unat b)) (message m))"

lemma put_u32_at_length: "put_u32_at k w bs = Ok bs' \<Longrightarrow> length bs' = length bs"
  by (auto simp: put_u32_at_def split: if_splits)

lemma u32_at_put_same:
  assumes "put_u32_at k w bs = Ok bs'" shows "u32_at k bs' = Some w"
proof -
  have k: "k + 4 \<le> length bs" and bs': "bs' = take k bs @ u32_be w @ drop (k + 4) bs"
    using assms by (auto simp: put_u32_at_def split: if_splits)
  from k have "drop k bs' = u32_be w @ drop (k + 4) bs" by (simp add: bs')
  with k show ?thesis by (simp add: u32_at_def wire_simps bs')
qed

lemma u32_at_put_other:
  assumes "put_u32_at k w bs = Ok bs'" "j + 4 \<le> k \<or> k + 4 \<le> j"
  shows "u32_at j bs' = u32_at j bs"
proof -
  have k: "k + 4 \<le> length bs" and bs': "bs' = take k bs @ u32_be w @ drop (k + 4) bs"
    using assms by (auto simp: put_u32_at_def split: if_splits)
  have take4: "fst (read_u32 xs) = fst (read_u32 (take 4 xs))" if "4 \<le> length xs" for xs
    using that by (cases xs rule: read_u32.cases) auto
  have "take 4 (drop j bs') = take 4 (drop j bs)"
  proof (rule nth_equalityI)
    show "length (take 4 (drop j bs')) = length (take 4 (drop j bs))"
      using put_u32_at_length [OF assms(1)] by simp
    fix i assume "i < length (take 4 (drop j bs'))"
    then have i: "i < 4" "j + i < length bs" "j + i < length bs'"
      using put_u32_at_length [OF assms(1)] by auto
    then have "bs' ! (j + i) = bs ! (j + i)"
      using k assms(2) by (auto simp: bs' nth_append)
    then show "take 4 (drop j bs') ! i = take 4 (drop j bs) ! i"
      using i by simp
  qed
  then show ?thesis using k take4 [of "drop j bs'"] take4 [of "drop j bs"]
    by (auto simp: u32_at_def bs')
qed

section \<open>The receive buffer\<close>

record SmppMessageBuffer =
  buffer :: bytes

definition SmppMessageBuffer_new :: SmppMessageBuffer where
  "SmppMessageBuffer_new = \<lparr>buffer = []\<rparr>"

definition SmppMessageBuffer_from_bytes :: "bytes \<Rightarrow> SmppMessageBuffer" where
  "SmppMessageBuffer_from_bytes bs = \<lparr>buffer = bs\<rparr>"

definition SmppMessageBuffer_len :: "SmppMessageBuffer \<Rightarrow> nat" where
  "SmppMessageBuffer_len b = length (buffer b)"

definition SmppMessageBuffer_write :: "bytes \<Rightarrow> SmppMessageBuffer \<Rightarrow> SmppMessageBuffer" where
  "SmppMessageBuffer_write data b = b\<lparr>buffer := buffer b @ data\<rparr>"

definition extract_message :: "SmppMessageBuffer \<Rightarrow> SMPPMessage option \<times> SmppMessageBuffer" where
  "extract_message b =
     (if length (buffer b) < 16 then (None, b)
      else let len = unat (the (u32_at 0 (buffer b))) in
        if len \<le> length (buffer b)
        then (Some (SMPPMessage_of (take len (buffer b))), b\<lparr>buffer := drop len (buffer b)\<rparr>)
        else (None, b))"

end
