(* ===== verification/Field_Codec.thy ===== *)
theory Field_Codec
  imports Wire
begin

text \<open>
  The field codecs of \<^verbatim>\<open>field_codec.rs\<close>.  The trait objects become the constructors of one
  datatype, \<^verbatim>\<open>encode\<close> and \<^verbatim>\<open>decode\<close> one function each with a branch per implementation.
  The Base64 engine (the \<^verbatim>\<open>base64\<close> crate) is a parameter.  The interface that message
  encoding relies on is the locale \<open>self_delimiting\<close>: a value is appended as a block of octets
  that decodes to that value and leaves the rest of the buffer alone.
\<close>

record base64 =
  b64_decode :: "string \<Rightarrow> bytes option"
  b64_encode :: "bytes \<Rightarrow> string"

datatype field_codec =
    U8FieldCodec
  | OptionalU8FieldCodec u8
  | VarLengthIntFieldCodec
  | COctetStrFieldCodec nat
  | OctetFieldCodec bool int
  | U16FieldCodec
  | U32FieldCodec
  | ArrayFieldCodec field_codec
  | CompositeFieldCodec "(string \<times> field_codec) list"
  | DestAddressFieldCodec
  | DestAddressesFieldCodec

abbreviation inval :: "string \<Rightarrow> 'a io" where
  "inval msg \<equiv> Err (IoError InvalidInput msg)"

section \<open>Loops with an early return\<close>

text \<open>\<^verbatim>\<open>for x in xs { s = f(x, s)?; }\<close> and \<^verbatim>\<open>for _ in 0..n { items.push(d(buffer)?); }\<close>.\<close>

fun fold_io :: "('a \<Rightarrow> 's \<Rightarrow> ('e, 's) outcome) \<Rightarrow> 'a list \<Rightarrow> 's \<Rightarrow> ('e, 's) outcome" where
  "fold_io f [] s = Ok s"
| "fold_io f (x # xs) s = try_ok (f x s) (fold_io f xs)"

fun repeat_io :: "(bytes \<Rightarrow> 'a io \<times> bytes) \<Rightarrow> nat \<Rightarrow> bytes \<Rightarrow> 'a list io \<times> bytes" where
  "repeat_io d 0 buf = (Ok [], buf)"
| "repeat_io d (Suc n) buf =
     (case d buf of
        (Ok x, b1) \<Rightarrow> (case repeat_io d n b1 of
                         (Ok xs, b2) \<Rightarrow> (Ok (x # xs), b2) | (r, b2) \<Rightarrow> (r, b2))
      | (Err e, b1) \<Rightarrow> (Err e, b1)
      | (Panic, b1) \<Rightarrow> (Panic, b1))"

lemma fold_io_cong [fundef_cong]:
  "xs = ys \<Longrightarrow> s = t \<Longrightarrow> (\<And>x s. x \<in> set ys \<Longrightarrow> f x s = g x s) \<Longrightarrow> fold_io f xs s = fold_io g ys t"
proof (induction xs arbitrary: ys s t)
  case (Cons x xs)
  then show ?case by (cases "g x t") auto
qed simp

section \<open>The codecs that contain no other codec\<close>

function var_length_bytes :: "u64 \<Rightarrow> bytes" where
  "var_length_bytes temp =
     (if temp = 0 then [] else ucast (temp AND 0xff) # var_length_bytes (drop_bit 8 temp))"
  by pat_completeness auto
termination
proof (relation "measure unat", simp)
  fix temp :: u64 assume "temp \<noteq> 0"
  then have "0 < unat temp" by (simp add: unat_gt_0)
  then have "unat temp div 2 ^ 8 < unat temp" by (intro div_less_dividend) simp_all
  then show "(drop_bit 8 temp, temp) \<in> measure unat"
    by (simp add: drop_bit_eq_div unat_div)
qed

declare var_length_bytes.simps [simp del]

definition var_length_value :: "bytes \<Rightarrow> u64" where
  "var_length_value bs = foldl (\<lambda>result byte. push_bit 8 result OR ucast byte) 0 bs"

definition write_length :: "int \<Rightarrow> nat \<Rightarrow> bytes \<Rightarrow> bytes" where
  "write_length length_bytes len buf =
     (if length_bytes = 1 then write_u8 (word_of_nat len) buf
      else if length_bytes = 2 then write_u16 (word_of_nat len) buf
      else if length_bytes = 4 then write_u32 (word_of_nat len) buf
      else buf)"

definition read_length :: "int \<Rightarrow> bytes \<Rightarrow> nat option \<times> bytes" where
  "read_length length_bytes buf =
     (if length_bytes = 1 then map_prod (map_option unat) id (read_u8 buf)
      else if length_bytes = 2 then map_prod (map_option unat) id (read_u16 buf)
      else if length_bytes = 4 then map_prod (map_option unat) id (read_u32 buf)
      else (None, buf))"

definition encode_octet :: "base64 \<Rightarrow> bool \<Rightarrow> int \<Rightarrow> json \<Rightarrow> bytes \<Rightarrow> bytes io" where
  "encode_octet E length_indicator length_bytes value buf =
     (case value of
        JString s \<Rightarrow>
          let b = (case b64_decode E s of Some decoded \<Rightarrow> decoded | None \<Rightarrow> as_bytes s) in
          Ok (write_bytes b
            (if length_indicator then write_length length_bytes (length b) buf else buf))
      | _ \<Rightarrow> inval ''Failed to encode OctetField'')"

definition decode_octet :: "base64 \<Rightarrow> bool \<Rightarrow> int \<Rightarrow> bytes \<Rightarrow> json io \<times> bytes" where
  "decode_octet E length_indicator length_bytes buf =
     (if length_indicator then
        (case read_length length_bytes buf of
           (Some len, b1) \<Rightarrow>
             (case read_bytes len b1 of
                (Some bs, b2) \<Rightarrow> (Ok (JString (b64_encode E bs)), b2)
              | (None, b2) \<Rightarrow> (inval ''Failed to decode OctetField'', b2))
         | (None, b1) \<Rightarrow> (inval ''Failed to decode OctetField'', b1))
      else
        (case read_bytes (length buf) buf of
           (Some bs, b2) \<Rightarrow> (Ok (JString (b64_encode E bs)), b2)
         | (None, b2) \<Rightarrow> (inval ''Failed to decode OctetField'', b2)))"

definition encode_c_octet_str :: "nat \<Rightarrow> json \<Rightarrow> bytes \<Rightarrow> bytes io" where
  "encode_c_octet_str max_length value buf =
     (case value of
        JString s \<Rightarrow>
          try_ok (if max_length < length s then str_slice 0 max_length s else Ok s)
            (\<lambda>s. Ok (write_c_octet_str s buf))
      | _ \<Rightarrow> inval ''Failed to encode c_octet_str'')"

definition decode_c_octet_str :: "bytes \<Rightarrow> json io \<times> bytes" where
  "decode_c_octet_str buf =
     (case read_c_octet_str buf of
        (Some s, b1) \<Rightarrow> (Ok (JString s), b1)
      | (None, b1) \<Rightarrow> (inval ''Failed to read c_octet_str from buffer'', b1))"

definition encode_dest_address :: "json \<Rightarrow> bytes \<Rightarrow> bytes io" where
  "encode_dest_address value buf =
     (case value of
        JObject _ \<Rightarrow>
          let dest_addr_ton = ucast (u64_or 0 ''dest_addr_ton'' value);
              dest_addr_npi = ucast (u64_or 0 ''dest_addr_npi'' value)
          in (case jget ''destination_addr'' value of
                Some (JString addr) \<Rightarrow>
                  Ok (write_c_octet_str addr
                    (write_u8 dest_addr_npi (write_u8 dest_addr_ton (write_u8 1 buf))))
              | _ \<Rightarrow>
                  (case jget ''dl_name'' value of
                     Some (JString addr) \<Rightarrow> Ok (write_c_octet_str addr (write_u8 2 buf))
                   | _ \<Rightarrow> inval ''Failed to encode dest_addr''))
      | _ \<Rightarrow> inval ''Failed to encode dest_addr'')"

definition sme_address_json :: "u8 \<Rightarrow> u8 \<Rightarrow> string \<Rightarrow> json" where
  "sme_address_json ton npi addr =
     jobject [(''dest_addr_ton'', jnum ton), (''dest_addr_npi'', jnum npi),
       (''destination_addr'', JString addr)]"

definition dl_name_json :: "string \<Rightarrow> json" where
  "dl_name_json addr = jobject [(''dl_name'', JString addr)]"

definition decode_dest_address :: "bytes \<Rightarrow> json io \<times> bytes" where
  "decode_dest_address buf =
     (let fail = inval ''Failed to decode dest_addr from buffer'' in
      case read_u8 buf of (None, b1) \<Rightarrow> (fail, b1) | (Some dest_flag, b1) \<Rightarrow>
      if dest_flag = 1 then
        (case read_u8 b1 of (None, b2) \<Rightarrow> (fail, b2) | (Some ton, b2) \<Rightarrow>
         case read_u8 b2 of (None, b3) \<Rightarrow> (fail, b3) | (Some npi, b3) \<Rightarrow>
         case read_c_octet_str b3 of (None, b4) \<Rightarrow> (fail, b4) | (Some addr, b4) \<Rightarrow>
         (Ok (sme_address_json ton npi addr), b4))
      else if dest_flag = 2 then
        (case read_c_octet_str b1 of (None, b2) \<Rightarrow> (fail, b2) | (Some addr, b2) \<Rightarrow>
         (Ok (dl_name_json addr), b2))
      else (inval (''Unknown dest_flag value: '' @ fmt_dec (unat dest_flag)), b1))"

text \<open>The number of destinations is truncated to one octet; nothing checks that it fits.\<close>

definition encode_dest_addresses :: "json \<Rightarrow> bytes \<Rightarrow> bytes io" where
  "encode_dest_addresses value buf =
     (case value of
        JArray arr \<Rightarrow> fold_io encode_dest_address arr (write_u8 (word_of_nat (length arr)) buf)
      | _ \<Rightarrow> inval ''Failed to encode dest_addresses'')"

definition decode_dest_addresses :: "bytes \<Rightarrow> json io \<times> bytes" where
  "decode_dest_addresses buf =
     (case read_u8 buf of
        (None, b1) \<Rightarrow> (inval ''Failed to decode dest_addresses'', b1)
      | (Some num_dests, b1) \<Rightarrow>
          (case repeat_io decode_dest_address (unat num_dests) b1 of
             (Ok dests, b2) \<Rightarrow> (Ok (JArray dests), b2)
           | (Err e, b2) \<Rightarrow> (inval ''Failed to decode one of the dest_addresses'', b2)
           | (Panic, b2) \<Rightarrow> (Panic, b2)))"

section \<open>Encoding and decoding\<close>

text \<open>An unsigned JSON number, truncated to the width of the field.\<close>

definition encode_uint :: "(u64 \<Rightarrow> bytes) \<Rightarrow> string \<Rightarrow> json \<Rightarrow> bytes \<Rightarrow> bytes io" where
  "encode_uint f msg value buf = (case as_u64 value of Some n \<Rightarrow> Ok (buf @ f n) | None \<Rightarrow> inval msg)"

definition decode_uint :: "string \<Rightarrow> 'a::len word option \<times> bytes \<Rightarrow> json io \<times> bytes" where
  "decode_uint msg r = (case r of (Some n, b1) \<Rightarrow> (Ok (jnum n), b1) | (None, b1) \<Rightarrow> (inval msg, b1))"

definition codec_size :: "field_codec \<Rightarrow> nat" where
  "codec_size c = size c"

lemma codec_size_array [simp]: "codec_size c < codec_size (ArrayFieldCodec c)"
  by (simp add: codec_size_def)

lemma codec_size_composite [simp]:
  "(name, c) \<in> set flds \<Longrightarrow> codec_size c < codec_size (CompositeFieldCodec flds)"
  by (induction flds) (auto simp: codec_size_def)

function (sequential) encode :: "base64 \<Rightarrow> field_codec \<Rightarrow> json \<Rightarrow> bytes \<Rightarrow> bytes io" where
  "encode E U8FieldCodec value buf = encode_uint (\<lambda>n. [ucast n]) ''Failed to encode u8'' value buf"
| "encode E (OptionalU8FieldCodec default_value) value buf =
     (case as_u64 value of
        Some n \<Rightarrow> if n \<noteq> ucast default_value then Ok (write_u8 (ucast n) buf)
                  else Ok (write_u8 default_value buf)
      | None \<Rightarrow> Ok (write_u8 default_value buf))"
| "encode E VarLengthIntFieldCodec value buf =
     encode_uint var_length_bytes ''Failed to encode VarLengthInt'' value buf"
| "encode E (COctetStrFieldCodec max_length) value buf = encode_c_octet_str max_length value buf"
| "encode E (OctetFieldCodec length_indicator length_bytes) value buf =
     encode_octet E length_indicator length_bytes value buf"
| "encode E U16FieldCodec value buf =
     encode_uint (\<lambda>n. u16_be (ucast n)) ''Failed to encode u16'' value buf"
| "encode E U32FieldCodec value buf =
     encode_uint (\<lambda>n. u32_be (ucast n)) ''Failed to encode u32'' value buf"
| "encode E (ArrayFieldCodec item_codec) value buf =
     (case value of
        JArray arr \<Rightarrow>
          if 255 < length arr then inval ''Array length exceeds maximum of 255''
          else fold_io (\<lambda>item b. encode E item_codec item b) arr
                 (write_u8 (word_of_nat (length arr)) buf)
      | _ \<Rightarrow> inval ''Expected an array for encoding'')"
| "encode E (CompositeFieldCodec flds) value buf =
     fold_io (\<lambda>(name, codec) b.
         (case jget name value of
            Some field_value \<Rightarrow> encode E codec field_value b
          | None \<Rightarrow> inval (''Missing field '' @ [CHR 0x27] @ name @ [CHR 0x27] @ '' for encoding'')))
       flds buf"
| "encode E DestAddressFieldCodec value buf = encode_dest_address value buf"
| "encode E DestAddressesFieldCodec value buf = encode_dest_addresses value buf"
  by pat_completeness auto
termination
  by (relation "measure (\<lambda>(E, c, v, b). codec_size c)") auto

fun decode_composite ::
    "(field_codec \<Rightarrow> bytes \<Rightarrow> json io \<times> bytes) \<Rightarrow> (string \<times> field_codec) list \<Rightarrow> json_map \<Rightarrow> bytes
     \<Rightarrow> json io \<times> bytes" where
  "decode_composite d [] m buf = (Ok (JObject m), buf)"
| "decode_composite d ((name, codec) # flds) m buf =
     (case d codec buf of
        (Ok value, b1) \<Rightarrow> decode_composite d flds (btree_insert name value m) b1
      | (Err e, b1) \<Rightarrow>
          (inval (''Failed to decode field '' @ [CHR 0x27] @ name @ [CHR 0x27]), b1)
      | (Panic, b1) \<Rightarrow> (Panic, b1))"

lemma decode_composite_agree:
  "\<forall>f\<in>set fs. \<forall>b. d (snd f) b = d' (snd f) b \<Longrightarrow> decode_composite d fs m b = decode_composite d' fs m b"
proof (induction fs arbitrary: m b)
  case (Cons f fs)
  obtain n c where f: "f = (n, c)" by (cases f)
  from Cons.prems have "d c b = d' c b" by (simp add: f)
  with Cons show ?case by (auto simp: f split: prod.split outcome.split)
qed simp

lemma decode_composite_cong [fundef_cong]:
  "fs = gs \<Longrightarrow> m = m' \<Longrightarrow> b = b' \<Longrightarrow> (\<And>n c b. (n, c) \<in> set gs \<Longrightarrow> d c b = d' c b)
   \<Longrightarrow> decode_composite d fs m b = decode_composite d' gs m' b'"
  by (auto intro!: decode_composite_agree)

function (sequential) decode :: "base64 \<Rightarrow> field_codec \<Rightarrow> bytes \<Rightarrow> json io \<times> bytes" where
  "decode E U8FieldCodec buf = decode_uint ''Failed to read u8 from buffer'' (read_u8 buf)"
| "decode E (OptionalU8FieldCodec default_value) buf =
     (case read_u8 buf of
        (Some n, b1) \<Rightarrow> (Ok (jnum n), b1)
      | (None, b1) \<Rightarrow> (Ok (jnum default_value), b1))"
| "decode E VarLengthIntFieldCodec buf = (Ok (jnum (var_length_value buf)), [])"
| "decode E (COctetStrFieldCodec max_length) buf = decode_c_octet_str buf"
| "decode E (OctetFieldCodec length_indicator length_bytes) buf =
     decode_octet E length_indicator length_bytes buf"
| "decode E U16FieldCodec buf = decode_uint ''Failed to read u16 from buffer'' (read_u16 buf)"
| "decode E U32FieldCodec buf = decode_uint ''Failed to read u32 from buffer'' (read_u32 buf)"
| "decode E (ArrayFieldCodec item_codec) buf =
     (case read_u8 buf of
        (Some len, b1) \<Rightarrow>
          (case repeat_io (\<lambda>b. decode E item_codec b) (unat len) b1 of
             (Ok items, b2) \<Rightarrow> (Ok (JArray items), b2)
           | (Err e, b2) \<Rightarrow> (Err e, b2)
           | (Panic, b2) \<Rightarrow> (Panic, b2))
      | (None, b1) \<Rightarrow> (inval ''Failed to read array length from buffer'', b1))"
| "decode E (CompositeFieldCodec flds) buf =
     decode_composite (\<lambda>c b. decode E c b) flds [] buf"
| "decode E DestAddressFieldCodec buf = decode_dest_address buf"
| "decode E DestAddressesFieldCodec buf = decode_dest_addresses buf"
  by pat_completeness auto
termination
  by (relation "measure (\<lambda>(E, c, b). codec_size c)") auto

lemmas codec_equations [codec_simps] = encode.simps decode.simps

end
