(* ===== verification/Codec_Laws.thy ===== *)
theory Codec_Laws
  imports Field_Codec
begin

text \<open>
  The contract of the field codecs.  The locale \<open>self_delimiting\<close> is what the encoders of
  arrays, of composite fields and of whole messages rely on; its lemmas lift the contract from
  one item to a sequence of items.  Every codec that may appear among the mandatory fields of
  a PDU satisfies it on its canonical values; the two codecs that read to the end of the
  buffer are treated as TLV values instead.
\<close>

section \<open>The interface\<close>

locale self_delimiting =
  fixes enc :: "json \<Rightarrow> bytes \<Rightarrow> bytes io"
    and dec :: "bytes \<Rightarrow> json io \<times> bytes"
    and canon :: "json \<Rightarrow> bool"
    and blk :: "json \<Rightarrow> bytes"
  assumes enc_blk: "canon v \<Longrightarrow> enc v buf = Ok (buf @ blk v)"
    and dec_blk: "canon v \<Longrightarrow> dec (blk v @ rest) = (Ok v, rest)"
begin

lemma round_trip: "canon v \<Longrightarrow> enc v [] = Ok bs \<Longrightarrow> dec (bs @ rest) = (Ok v, rest)"
  using enc_blk [of v "[]"] dec_blk [of v rest] by simp

lemma unique_parse:
  assumes "canon v" "canon w" "blk v @ r = blk w @ q"
  shows "v = w \<and> r = q"
proof -
  have "dec (blk v @ r) = (Ok v, r)" using assms(1) by (rule dec_blk)
  moreover have "dec (blk w @ q) = (Ok w, q)" using assms(2) by (rule dec_blk)
  ultimately show ?thesis using assms(3) by (metis outcome.inject(1) prod.inject)
qed

lemma enc_all:
  "\<forall>v\<in>set vs. canon v \<Longrightarrow> fold_io enc vs buf = Ok (buf @ concat (map blk vs))"
  by (induction vs arbitrary: buf) (simp_all add: enc_blk)

lemma dec_all:
  "\<forall>v\<in>set vs. canon v \<Longrightarrow> repeat_io dec (length vs) (concat (map blk vs) @ rest) = (Ok vs, rest)"
  by (induction vs arbitrary: rest) (simp_all add: dec_blk)

end

section \<open>Canonical values and their octets\<close>

text \<open>
  The values a codec produces when it decodes, hence those a peer gets back: numbers within
  the width of the field, texts within its length, non-empty Base64 texts, objects with exactly
  the listed members.
\<close>

definition fits :: "nat \<Rightarrow> json \<Rightarrow> bool" where
  "fits bound v = (case as_u64 v of Some n \<Rightarrow> unat n < bound | None \<Rightarrow> False)"

definition octet_value :: "base64 \<Rightarrow> json \<Rightarrow> bytes option" where
  "octet_value E v =
     (case as_str v of
        Some s \<Rightarrow> (case b64_decode E s of
                      Some b \<Rightarrow> if b \<noteq> [] \<and> b64_encode E b = s then Some b else None
                    | None \<Rightarrow> None)
      | None \<Rightarrow> None)"

definition sme_address_ok :: "json \<Rightarrow> bool" where
  "sme_address_ok v =
     (c_string_ok (str_or_empty ''destination_addr'' v) \<and>
      v = sme_address_json (ucast (u64_or 0 ''dest_addr_ton'' v))
        (ucast (u64_or 0 ''dest_addr_npi'' v)) (str_or_empty ''destination_addr'' v))"

definition dl_name_ok :: "json \<Rightarrow> bool" where
  "dl_name_ok v = (c_string_ok (str_or_empty ''dl_name'' v) \<and> v = dl_name_json (str_or_empty ''dl_name'' v))"

definition dest_address_ok :: "json \<Rightarrow> bool" where
  "dest_address_ok v = (sme_address_ok v \<or> dl_name_ok v)"

definition dest_address_block :: "json \<Rightarrow> bytes" where
  "dest_address_block v =
     (if sme_address_ok v
      then [1, ucast (u64_or 0 ''dest_addr_ton'' v), ucast (u64_or 0 ''dest_addr_npi'' v)]
           @ as_bytes (str_or_empty ''destination_addr'' v) @ [0]
      else 2 # as_bytes (str_or_empty ''dl_name'' v) @ [0])"

definition length_octets :: "int \<Rightarrow> nat \<Rightarrow> bytes" where
  "length_octets length_bytes n = write_length length_bytes n []"

lemma codec_size_composite_snd [simp]:
  "f \<in> set fs \<Longrightarrow> codec_size (snd f) < codec_size (CompositeFieldCodec fs)"
  using codec_size_composite [of "fst f" "snd f" fs] by simp

function (sequential) canonical :: "base64 \<Rightarrow> field_codec \<Rightarrow> json \<Rightarrow> bool" where
  "canonical E U8FieldCodec v = fits (2 ^ 8) v"
| "canonical E (OptionalU8FieldCodec d) v = fits (2 ^ 8) v"
| "canonical E U16FieldCodec v = fits (2 ^ 16) v"
| "canonical E U32FieldCodec v = fits (2 ^ 32) v"
| "canonical E VarLengthIntFieldCodec v = False"
| "canonical E (COctetStrFieldCodec max_length) v =
     (case as_str v of Some s \<Rightarrow> c_string_ok s \<and> length s \<le> max_length | None \<Rightarrow> False)"
| "canonical E (OctetFieldCodec length_indicator length_bytes) v =
     (length_indicator \<and> length_bytes \<in> {1, 2, 4} \<and>
      (case octet_value E v of Some b \<Rightarrow> length b < 2 ^ (8 * nat length_bytes) | None \<Rightarrow> False))"
| "canonical E (ArrayFieldCodec c) v =
     (case as_array v of
        Some arr \<Rightarrow> length arr \<le> 255 \<and> (\<forall>x\<in>set arr. canonical E c x)
      | None \<Rightarrow> False)"
| "canonical E (CompositeFieldCodec fs) v =
     (distinct (map fst fs) \<and> v = jobject (map (\<lambda>f. (fst f, the (jget (fst f) v))) fs) \<and>
      (\<forall>f\<in>set fs. jget (fst f) v \<noteq> None \<and> canonical E (snd f) (the (jget (fst f) v))))"
| "canonical E DestAddressFieldCodec v = dest_address_ok v"
| "canonical E DestAddressesFieldCodec v =
     (case as_array v of
        Some arr \<Rightarrow> length arr \<le> 255 \<and> (\<forall>x\<in>set arr. dest_address_ok x)
      | None \<Rightarrow> False)"
  by pat_completeness auto
termination
  by (relation "measure (\<lambda>(E, c, v). codec_size c)") auto

function (sequential) octets :: "base64 \<Rightarrow> field_codec \<Rightarrow> json \<Rightarrow> bytes" where
  "octets E U8FieldCodec v = [ucast (the (as_u64 v))]"
| "octets E (OptionalU8FieldCodec d) v = [ucast (the (as_u64 v))]"
| "octets E U16FieldCodec v = u16_be (ucast (the (as_u64 v)))"
| "octets E U32FieldCodec v = u32_be (ucast (the (as_u64 v)))"
| "octets E VarLengthIntFieldCodec v = var_length_bytes (the (as_u64 v))"
| "octets E (COctetStrFieldCodec max_length) v = as_bytes (the (as_str v)) @ [0]"
| "octets E (OctetFieldCodec length_indicator length_bytes) v =
     (let b = the (octet_value E v) in length_octets length_bytes (length b) @ b)"
| "octets E (ArrayFieldCodec c) v =
     (let arr = the (as_array v) in word_of_nat (length arr) # concat (map (\<lambda>x. octets E c x) arr))"
| "octets E (CompositeFieldCodec fs) v =
     concat (map (\<lambda>f. octets E (snd f) (the (jget (fst f) v))) fs)"
| "octets E DestAddressFieldCodec v = dest_address_block v"
| "octets E DestAddressesFieldCodec v =
     (let arr = the (as_array v) in word_of_nat (length arr) # concat (map dest_address_block arr))"
  by pat_completeness auto
termination
  by (relation "measure (\<lambda>(E, c, v). codec_size c)") auto

section \<open>Every codec keeps the contract\<close>

lemma ucast_ucast_small:
  fixes n :: "'a::len word"
  assumes "unat n < 2 ^ LENGTH('b::len)"
  shows "ucast (ucast n :: 'b word) = n"
proof -
  have "unat (take_bit LENGTH('b) n) = unat n"
    using assms by (simp add: unsigned_take_bit_eq take_bit_nat_eq_self)
  then have "take_bit LENGTH('b) n = n" by (simp only: word_unat_eq_iff)
  then show ?thesis by (simp add: unsigned_ucast_eq)
qed

lemma fits_jnumE:
  assumes "fits (2 ^ LENGTH('b::len)) v"
  obtains w :: "'b::len word" where "v = jnum w"
proof -
  obtain n where n: "as_u64 v = Some n" "unat n < 2 ^ LENGTH('b)"
    using assms by (auto simp: fits_def split: option.splits)
  then have "v = JNumber (PosInt n)" by (cases v rule: as_u64.cases) auto
  then have "v = jnum (ucast n :: 'b word)" using n(2) by (simp add: jnum_def ucast_ucast_small)
  then show ?thesis by (rule that)
qed

lemmas fits_u8E = fits_jnumE [where 'b = 8, simplified]
lemmas fits_u16E = fits_jnumE [where 'b = 16, simplified]
lemmas fits_u32E = fits_jnumE [where 'b = 32, simplified]

lemma ucast_widen [simp]:
  "ucast (ucast (a :: u8) :: u64) = a" "ucast (ucast (b :: u16) :: u64) = b"
  "ucast (ucast (c :: u32) :: u64) = c"
  by (simp_all add: unsigned_ucast_eq take_bit_word_eq_self)

lemma ucast_u8_inject: "(ucast (a :: u8) :: u64) = ucast b \<longleftrightarrow> a = b"
  by (metis ucast_widen(1))

lemma as_str_Some [simp]: "as_str v = Some s \<longleftrightarrow> v = JString s"
  by (cases v) auto

lemma as_array_Some [simp]: "as_array v = Some a \<longleftrightarrow> v = JArray a"
  by (cases v) auto

interpretation dest_address:
  self_delimiting encode_dest_address decode_dest_address dest_address_ok dest_address_block
proof unfold_locales
  fix v buf rest
  assume "dest_address_ok v"
  then consider "sme_address_ok v" | "\<not> sme_address_ok v" "dl_name_ok v"
    by (auto simp: dest_address_ok_def)
  then have "encode_dest_address v buf = Ok (buf @ dest_address_block v) \<and>
     decode_dest_address (dest_address_block v @ rest) = (Ok v, rest)"
  proof cases
    case 1
    let ?t = "ucast (u64_or 0 ''dest_addr_ton'' v) :: u8"
    let ?n = "ucast (u64_or 0 ''dest_addr_npi'' v) :: u8"
    let ?a = "str_or_empty ''destination_addr'' v"
    have v: "v = sme_address_json ?t ?n ?a" and ok: "c_string_ok ?a"
      using 1 by (simp_all add: sme_address_ok_def)
    have obj: "v = JObject (insert_all [(''dest_addr_ton'', jnum ?t), (''dest_addr_npi'', jnum ?n),
       (''destination_addr'', JString ?a)] [])"
      by (subst v) (simp only: sme_address_json_def jobject_def)
    have addr: "jget ''destination_addr'' v = Some (JString ?a)"
      by (subst v) (simp add: sme_address_json_def jget_jobject)
    have "encode_dest_address v buf = Ok (buf @ dest_address_block v)"
      using 1 addr by (subst encode_dest_address_def, subst obj)
        (simp add: Let_def dest_address_block_def write_defs)
    moreover have "decode_dest_address (dest_address_block v @ rest) = (Ok v, rest)"
      using 1 ok v by (simp add: dest_address_block_def decode_dest_address_def wire_simps)
    ultimately show ?thesis by blast
  next
    case 2
    let ?a = "str_or_empty ''dl_name'' v"
    have v: "v = dl_name_json ?a" and ok: "c_string_ok ?a"
      using 2 by (simp_all add: dl_name_ok_def)
    have obj: "v = JObject [(''dl_name'', JString ?a)]"
      by (subst v) (simp add: dl_name_json_def jobject_def)
    have get: "jget ''destination_addr'' v = None" "jget ''dl_name'' v = Some (JString ?a)"
      by (subst v, simp add: dl_name_json_def jget_jobject)+
    have "encode_dest_address v buf = Ok (buf @ dest_address_block v)"
      using 2 get by (subst encode_dest_address_def, subst obj)
        (simp add: Let_def dest_address_block_def write_defs)
    moreover have "decode_dest_address (dest_address_block v @ rest) = (Ok v, rest)"
      using 2 ok v by (simp add: dest_address_block_def decode_dest_address_def wire_simps)
    ultimately show ?thesis by blast
  qed
  then show "encode_dest_address v buf = Ok (buf @ dest_address_block v)"
    and "decode_dest_address (dest_address_block v @ rest) = (Ok v, rest)" by simp_all
qed

lemma write_length_eq: "write_length k n buf = buf @ length_octets k n"
  by (simp add: length_octets_def write_length_def write_defs)

lemma read_length_octets:
  assumes "k \<in> {1, 2, 4}" "n < 2 ^ (8 * nat k)"
  shows "read_length k (length_octets k n @ buf) = (Some n, buf)"
  using assms
  by (auto simp: length_octets_def write_length_def read_length_def write_defs wire_simps unat_of_nat)

lemma octet_law:
  assumes "canonical E (OctetFieldCodec i k) v"
  shows "encode E (OctetFieldCodec i k) v buf = Ok (buf @ octets E (OctetFieldCodec i k) v)"
    and "decode E (OctetFieldCodec i k) (octets E (OctetFieldCodec i k) v @ rest) = (Ok v, rest)"
proof -
  obtain b s where b: "octet_value E v = Some b" "length b < 2 ^ (8 * nat k)" and i: "i"
    and k: "k \<in> {1, 2, 4}" and v: "v = JString s" "b64_decode E s = Some b" "b \<noteq> []" "b64_encode E b = s"
    using assms by (auto simp: octet_value_def split: option.splits if_splits)
  show "encode E (OctetFieldCodec i k) v buf = Ok (buf @ octets E (OctetFieldCodec i k) v)"
    using b i v by (simp add: encode_octet_def write_length_eq write_defs)
  show "decode E (OctetFieldCodec i k) (octets E (OctetFieldCodec i k) v @ rest) = (Ok v, rest)"
    using b i v by (simp add: decode_octet_def read_length_octets [OF k b(2)] wire_simps)
qed

lemma c_octet_law:
  assumes "canonical E (COctetStrFieldCodec m) v"
  shows "encode E (COctetStrFieldCodec m) v buf = Ok (buf @ octets E (COctetStrFieldCodec m) v)"
    and "decode E (COctetStrFieldCodec m) (octets E (COctetStrFieldCodec m) v @ rest) = (Ok v, rest)"
  using assms
  by (auto simp: encode_c_octet_str_def decode_c_octet_str_def write_defs wire_simps split: option.splits)

lemma unat_count: "length arr \<le> 255 \<Longrightarrow> unat (word_of_nat (length arr) :: u8) = length arr"
  by (simp add: unat_of_nat)

text \<open>The members of a composite, decoded one after the other into the object.\<close>

lemma composite_enc:
  assumes "\<forall>f\<in>set fs. jget (fst f) v \<noteq> None
      \<and> self_delimiting (encode E (snd f)) (decode E (snd f)) (canonical E (snd f)) (octets E (snd f))
      \<and> canonical E (snd f) (the (jget (fst f) v))"
  shows "encode E (CompositeFieldCodec fs) v buf = Ok (buf @ octets E (CompositeFieldCodec fs) v)"
  using assms
proof (induction fs arbitrary: buf)
  case (Cons f fs)
  obtain n c where f: "f = (n, c)" by (cases f)
  obtain x where x: "jget n v = Some x" using Cons.prems f by auto
  have "encode E c x buf = Ok (buf @ octets E c x)"
    using Cons.prems x by (auto simp: f intro: self_delimiting.enc_blk)
  with Cons x show ?case by (simp add: f)
qed simp

lemma composite_dec:
  assumes "\<forall>f\<in>set fs. jget (fst f) v \<noteq> None
      \<and> self_delimiting (encode E (snd f)) (decode E (snd f)) (canonical E (snd f)) (octets E (snd f))
      \<and> canonical E (snd f) (the (jget (fst f) v))"
  shows "decode_composite (decode E) fs m (octets E (CompositeFieldCodec fs) v @ rest)
    = (Ok (JObject (insert_all (map (\<lambda>f. (fst f, the (jget (fst f) v))) fs) m)), rest)"
  using assms
proof (induction fs arbitrary: m)
  case (Cons f fs)
  obtain n c where f: "f = (n, c)" by (cases f)
  obtain x where x: "jget n v = Some x" using Cons.prems f by auto
  have "decode E c (octets E c x @ r) = (Ok x, r)" for r
    using Cons.prems x by (auto simp: f intro: self_delimiting.dec_blk)
  with Cons x show ?case by (simp add: f)
qed simp

theorem codec_contract:
  "self_delimiting (encode E c) (decode E c) (canonical E c) (octets E c)"
proof (induction c)
  case (ArrayFieldCodec c)
  show ?case
  proof unfold_locales
    fix v buf rest assume "canonical E (ArrayFieldCodec c) v"
    then obtain arr where v: "v = JArray arr" and len: "length arr \<le> 255"
      and ok: "\<forall>x\<in>set arr. canonical E c x" by (auto split: option.splits)
    show "encode E (ArrayFieldCodec c) v buf = Ok (buf @ octets E (ArrayFieldCodec c) v)"
      using v len self_delimiting.enc_all [OF ArrayFieldCodec ok] by (simp add: write_defs)
    show "decode E (ArrayFieldCodec c) (octets E (ArrayFieldCodec c) v @ rest) = (Ok v, rest)"
      using v self_delimiting.dec_all [OF ArrayFieldCodec ok] by (simp add: unat_count [OF len])
  qed
next
  case (CompositeFieldCodec fs)
  have IH: "self_delimiting (encode E (snd f)) (decode E (snd f)) (canonical E (snd f)) (octets E (snd f))"
    if "f \<in> set fs" for f
    using CompositeFieldCodec [OF that, of "snd f"] by (simp add: snds.intros)
  show ?case
  proof unfold_locales
    fix v buf rest assume v: "canonical E (CompositeFieldCodec fs) v"
    then have all: "\<forall>f\<in>set fs. jget (fst f) v \<noteq> None
      \<and> self_delimiting (encode E (snd f)) (decode E (snd f)) (canonical E (snd f)) (octets E (snd f))
      \<and> canonical E (snd f) (the (jget (fst f) v))" using IH by simp
    show "encode E (CompositeFieldCodec fs) v buf = Ok (buf @ octets E (CompositeFieldCodec fs) v)"
      using all by (rule composite_enc)
    have "JObject (insert_all (map (\<lambda>f. (fst f, the (jget (fst f) v))) fs) []) = v"
      using v by (simp add: jobject_def)
    then show "decode E (CompositeFieldCodec fs) (octets E (CompositeFieldCodec fs) v @ rest) = (Ok v, rest)"
      using composite_dec [OF all, of "[]" rest] by simp
  qed
next
  case DestAddressFieldCodec
  show ?case
    by unfold_locales (simp_all add: dest_address.enc_blk dest_address.dec_blk)
next
  case DestAddressesFieldCodec
  show ?case
  proof unfold_locales
    fix v buf rest assume "canonical E DestAddressesFieldCodec v"
    then obtain arr where v: "v = JArray arr" and len: "length arr \<le> 255"
      and ok: "\<forall>x\<in>set arr. dest_address_ok x" by (auto split: option.splits)
    show "encode E DestAddressesFieldCodec v buf = Ok (buf @ octets E DestAddressesFieldCodec v)"
      using v dest_address.enc_all [OF ok] by (simp add: encode_dest_addresses_def write_defs)
    show "decode E DestAddressesFieldCodec (octets E DestAddressesFieldCodec v @ rest) = (Ok v, rest)"
      using v dest_address.dec_all [OF ok] by (simp add: decode_dest_addresses_def unat_count [OF len])
  qed
next
  case (OctetFieldCodec i k)
  show ?case by unfold_locales (fact octet_law(1), fact octet_law(2))
next
  case (COctetStrFieldCodec m)
  show ?case by unfold_locales (fact c_octet_law(1), fact c_octet_law(2))
next
  case (OptionalU8FieldCodec d)
  show ?case
    by unfold_locales (auto elim!: fits_u8E simp: write_defs ucast_u8_inject)
next
  case VarLengthIntFieldCodec
  show ?case by unfold_locales simp_all
qed (unfold_locales; auto elim!: fits_u8E fits_u16E fits_u32E
      simp: encode_uint_def decode_uint_def wire_simps)+

interpretation field: self_delimiting "encode E c" "decode E c" "canonical E c" "octets E c" for E c
  by (rule codec_contract)

end
