(* ===== verification/Message_Tables.thy ===== *)
theory Message_Tables
  imports Codec_Laws
begin

text \<open>
  The static tables that drive message encoding: the TLV parameters and the codec of every
  mandatory field (\<^verbatim>\<open>field_codec.rs\<close>), and the field list of every command with its default
  values (\<^verbatim>\<open>message.rs\<close>).  The lemmas show that the tables are consistent: TLV names and tags
  are unique, every field that a command lists has a codec, and that codec is self-delimiting.
\<close>

section \<open>TLV parameters\<close>

record TLVFieldCodec =
  tag :: u16
  tlv_name :: string
  value_codec :: field_codec

abbreviation TLV :: "u16 \<Rightarrow> string \<Rightarrow> field_codec \<Rightarrow> TLVFieldCodec" where
  "TLV t n c \<equiv> \<lparr>tag = t, tlv_name = n, value_codec = c\<rparr>"

definition tlv_fields_1 :: "TLVFieldCodec list" where
  "tlv_fields_1 =
    [TLV 0x001D ''additional_status_info_text'' (COctetStrFieldCodec 256),
     TLV 0x130C ''alert_on_message_delivery'' (OptionalU8FieldCodec 0),
     TLV 0x060B ''billing_identification'' (OctetFieldCodec False 1),
     TLV 0x0606 ''broadcast_area_identifier'' (OctetFieldCodec False 1),
     TLV 0x0608 ''broadcast_area_success'' U8FieldCodec,
     TLV 0x0602 ''broadcast_content_type_info'' (OctetFieldCodec False 1),
     TLV 0x0600 ''broadcast_channel_indicator'' U8FieldCodec,
     TLV 0x0601 ''broadcast_content_type'' (OctetFieldCodec False 1),
     TLV 0x0609 ''broadcast_end_time'' (COctetStrFieldCodec 16),
     TLV 0x0607 ''broadcast_error_status'' U32FieldCodec,
     TLV 0x0605 ''broadcast_frequency_interval'' (OctetFieldCodec False 1),
     TLV 0x0603 ''broadcast_message_class'' U8FieldCodec,
     TLV 0x0604 ''broadcast_rep_num'' U16FieldCodec,
     TLV 0x060A ''broadcast_service_group'' (OctetFieldCodec False 1),
     TLV 0x0381 ''callback_num'' (OctetFieldCodec False 1),
     TLV 0x0303 ''callback_num_atag'' (OctetFieldCodec False 1),
     TLV 0x0302 ''callback_num_pres_ind'' U8FieldCodec,
     TLV 0x0428 ''congestion_state'' U8FieldCodec,
     TLV 0x0425 ''delivery_failure_reason'' U8FieldCodec,
     TLV 0x0613 ''dest_addr_np_country'' VarLengthIntFieldCodec,
     TLV 0x0612 ''dest_addr_np_information'' (OctetFieldCodec False 1),
     TLV 0x0611 ''dest_addr_np_resolution'' U8FieldCodec,
     TLV 0x0005 ''dest_addr_subunit'' U8FieldCodec,
     TLV 0x0007 ''dest_bearer_type'' U8FieldCodec]"

definition tlv_fields_2 :: "TLVFieldCodec list" where
  "tlv_fields_2 =
    [TLV 0x060E ''dest_network_id'' (COctetStrFieldCodec 65),
     TLV 0x0006 ''dest_network_type'' U8FieldCodec,
     TLV 0x0610 ''dest_node_id'' (OctetFieldCodec False 1),
     TLV 0x0203 ''dest_subaddress'' (OctetFieldCodec False 1),
     TLV 0x0008 ''dest_telematics_id'' U16FieldCodec,
     TLV 0x020B ''dest_port'' U16FieldCodec,
     TLV 0x1201 ''display_time'' U8FieldCodec,
     TLV 0x0420 ''dpf_result'' U8FieldCodec,
     TLV 0x1380 ''its_reply_type'' U8FieldCodec,
     TLV 0x1383 ''its_session_info'' (OctetFieldCodec False 1),
     TLV 0x020D ''language_indicator'' U8FieldCodec,
     TLV 0x0424 ''message_payload'' (OctetFieldCodec False 1),
     TLV 0x0427 ''message_state'' U8FieldCodec,
     TLV 0x0426 ''more_messages_to_send'' U8FieldCodec,
     TLV 0x0422 ''ms_availability_status'' U8FieldCodec,
     TLV 0x0030 ''ms_msg_wait_facilities'' U8FieldCodec,
     TLV 0x1204 ''ms_validity'' (OctetFieldCodec False 1),
     TLV 0x0423 ''network_error_code'' (OctetFieldCodec False 1),
     TLV 0x0304 ''number_of_messages'' U8FieldCodec,
     TLV 0x0019 ''payload_type'' U8FieldCodec,
     TLV 0x0201 ''privacy_indicator'' U8FieldCodec,
     TLV 0x0017 ''qos_time_to_live'' U32FieldCodec,
     TLV 0x001E ''receipted_message_id'' (COctetStrFieldCodec 65),
     TLV 0x020C ''sar_msg_ref_num'' U16FieldCodec]"

definition tlv_fields_3 :: "TLVFieldCodec list" where
  "tlv_fields_3 =
    [TLV 0x020F ''sar_segment_seqnum'' U8FieldCodec,
     TLV 0x020E ''sar_total_segments'' U8FieldCodec,
     TLV 0x0210 ''sc_interface_version'' U8FieldCodec,
     TLV 0x0421 ''set_dpf'' U8FieldCodec,
     TLV 0x1203 ''sms_signal'' U16FieldCodec,
     TLV 0x000D ''source_addr_subunit'' U8FieldCodec,
     TLV 0x000F ''source_bearer_type'' U8FieldCodec,
     TLV 0x060D ''source_network_id'' (COctetStrFieldCodec 65),
     TLV 0x000E ''source_network_type'' U8FieldCodec,
     TLV 0x060F ''source_node_id'' (OctetFieldCodec False 1),
     TLV 0x020A ''source_port'' U16FieldCodec,
     TLV 0x0202 ''source_subaddress'' (OctetFieldCodec False 1),
     TLV 0x0010 ''source_telematics_id'' U8FieldCodec,
     TLV 0x0204 ''user_message_reference'' U16FieldCodec,
     TLV 0x0205 ''user_response_code'' U8FieldCodec,
     TLV 0x0501 ''ussd_service_op'' U8FieldCodec]"

definition create_tlv_fields :: "TLVFieldCodec list" where
  "create_tlv_fields = tlv_fields_1 @ tlv_fields_2 @ tlv_fields_3"

text \<open>The two hash maps built from the list: a later entry replaces an earlier one.\<close>

definition NAMED_TLV_FIELDS :: "string \<rightharpoonup> TLVFieldCodec" where
  "NAMED_TLV_FIELDS n = map_of (rev (map (\<lambda>c. (tlv_name c, c)) create_tlv_fields)) n"

definition TAGGED_TLV_FIELDS :: "u16 \<rightharpoonup> TLVFieldCodec" where
  "TAGGED_TLV_FIELDS t = map_of (rev (map (\<lambda>c. (tag c, c)) create_tlv_fields)) t"

definition is_valid_tlv_field :: "string \<Rightarrow> bool" where
  "is_valid_tlv_field n = (NAMED_TLV_FIELDS n \<noteq> None)"

section \<open>Mandatory fields\<close>

definition create_field_codecs :: "(string \<times> field_codec) list" where
  "create_field_codecs =
    [(''system_id'', COctetStrFieldCodec 16),
     (''password'', COctetStrFieldCodec 9),
     (''system_type'', COctetStrFieldCodec 13),
     (''interface_version'', U8FieldCodec),
     (''addr_ton'', U8FieldCodec),
     (''addr_npi'', U8FieldCodec),
     (''address_range'', COctetStrFieldCodec 41),
     (''service_type'', COctetStrFieldCodec 6),
     (''source_addr_ton'', U8FieldCodec),
     (''source_addr_npi'', U8FieldCodec),
     (''source_addr'', COctetStrFieldCodec 21),
     (''dest_addr_ton'', U8FieldCodec),
     (''dest_addr_npi'', U8FieldCodec),
     (''destination_addr'', COctetStrFieldCodec 21),
     (''esm_class'', U8FieldCodec),
     (''protocol_id'', U8FieldCodec),
     (''priority_flag'', U8FieldCodec),
     (''schedule_delivery_time'', COctetStrFieldCodec 17),
     (''validity_period'', COctetStrFieldCodec 17),
     (''registered_delivery'', U8FieldCodec),
     (''replace_if_present_flag'', U8FieldCodec),
     (''data_coding'', U8FieldCodec),
     (''sm_default_msg_id'', U8FieldCodec),
     (''sm_length'', U8FieldCodec),
     (''short_message'', OctetFieldCodec True 1),
     (''message_id'', COctetStrFieldCodec 65),
     (''final_date'', COctetStrFieldCodec 17),
     (''message_state'', U8FieldCodec),
     (''error_code'', U8FieldCodec),
     (''number_of_dests'', U8FieldCodec),
     (''dest_flag'', U8FieldCodec),
     (''dest_addresses'', DestAddressesFieldCodec),
     (''dl_name'', COctetStrFieldCodec 21),
     (''unsuccess_smes'', ArrayFieldCodec (CompositeFieldCodec
         [(''dest_addr_ton'', U8FieldCodec),
          (''dest_addr_npi'', U8FieldCodec),
          (''destination_addr'', COctetStrFieldCodec 21),
          (''error_status_code'', U32FieldCodec)])),
     (''ms_availability_status'', U8FieldCodec),
     (''esme_addr_ton'', U8FieldCodec),
     (''esme_addr_npi'', U8FieldCodec),
     (''esme_addr'', COctetStrFieldCodec 65)]"

definition FIELD_CODECS :: "string \<rightharpoonup> field_codec" where
  "FIELD_CODECS n = map_of (rev create_field_codecs) n"

section \<open>The fields of each command\<close>

text \<open>A field without a default is \<open>None\<close>; the defaults are the number zero, the empty text or the protocol version.\<close>

type_synonym field_list = "(string \<times> json option) list"

abbreviation num0 :: "json option" where "num0 \<equiv> Some (JNumber (PosInt 0))"
abbreviation empty_str :: "json option" where "empty_str \<equiv> Some (JString [])"

definition bind_transmitter_fields :: field_list where
  "bind_transmitter_fields =
    [(''system_id'', None), (''password'', None), (''system_type'', None),
     (''interface_version'', Some (JNumber (PosInt 0x34))), (''addr_ton'', num0),
     (''addr_npi'', num0), (''address_range'', None)]"

definition bind_receiver_fields :: field_list where
  "bind_receiver_fields =
    [(''system_id'', None), (''password'', None), (''system_type'', None),
     (''interface_version'', Some (JNumber (PosInt 0x34))), (''addr_ton'', num0),
     (''addr_npi'', num0), (''address_range'', None)]"

definition bind_transceiver_fields :: field_list where
  "bind_transceiver_fields =
    [(''system_id'', None), (''password'', None), (''system_type'', None),
     (''interface_version'', Some (JNumber (PosInt 0x34))), (''addr_ton'', num0),
     (''addr_npi'', num0), (''address_range'', None)]"

definition outbind_fields :: field_list where
  "outbind_fields =
    [(''system_id'', None), (''password'', None)]"

definition alert_notification_fields :: field_list where
  "alert_notification_fields =
    [(''source_addr_ton'', num0), (''source_addr_npi'', num0), (''source_addr'', None),
     (''esme_addr_ton'', num0), (''esme_addr_npi'', num0), (''esme_addr'', None)]"

definition submit_sm_fields :: field_list where
  "submit_sm_fields =
    [(''service_type'', empty_str), (''source_addr_ton'', num0), (''source_addr_npi'', num0),
     (''source_addr'', empty_str), (''dest_addr_ton'', num0), (''dest_addr_npi'', num0),
     (''destination_addr'', None), (''esm_class'', num0), (''protocol_id'', num0),
     (''priority_flag'', num0), (''schedule_delivery_time'', empty_str),
     (''validity_period'', empty_str), (''registered_delivery'', num0),
     (''replace_if_present_flag'', num0), (''data_coding'', num0),
     (''sm_default_msg_id'', num0), (''short_message'', None)]"

definition data_sm_fields :: field_list where
  "data_sm_fields =
    [(''service_type'', empty_str), (''source_addr_ton'', num0), (''source_addr_npi'', num0),
     (''source_addr'', empty_str), (''dest_addr_ton'', num0), (''dest_addr_npi'', num0),
     (''destination_addr'', None), (''esm_class'', num0), (''registered_delivery'', num0),
     (''data_coding'', num0)]"

definition submit_multi_fields :: field_list where
  "submit_multi_fields =
    [(''service_type'', empty_str), (''source_addr_ton'', num0), (''source_addr_npi'', num0),
     (''source_addr'', empty_str), (''dest_addresses'', None), (''esm_class'', num0),
     (''protocol_id'', num0), (''priority_flag'', num0),
     (''schedule_delivery_time'', empty_str), (''validity_period'', empty_str),
     (''registered_delivery'', num0), (''replace_if_present_flag'', num0),
     (''data_coding'', num0), (''sm_default_msg_id'', num0), (''short_message'', None)]"

definition submit_multi_resp_fields :: field_list where
  "submit_multi_resp_fields =
    [(''message_id'', None), (''unsuccess_smes'', None)]"

definition deliver_sm_fields :: field_list where
  "deliver_sm_fields =
    [(''service_type'', empty_str), (''source_addr_ton'', num0), (''source_addr_npi'', num0),
     (''source_addr'', empty_str), (''dest_addr_ton'', num0), (''dest_addr_npi'', num0),
     (''destination_addr'', None), (''esm_class'', num0), (''protocol_id'', num0),
     (''priority_flag'', num0), (''schedule_delivery_time'', empty_str),
     (''validity_period'', empty_str), (''registered_delivery'', num0),
     (''replace_if_present_flag'', num0), (''data_coding'', num0),
     (''sm_default_msg_id'', num0), (''short_message'', None)]"

definition broadcast_sm_fields :: field_list where
  "broadcast_sm_fields =
    [(''service_type'', empty_str), (''source_addr_ton'', num0), (''source_addr_npi'', num0),
     (''source_addr'', empty_str), (''message_id'', empty_str), (''priority_flag'', num0),
     (''schedule_delivery_time'', empty_str), (''validity_period'', empty_str),
     (''replace_if_present_flag'', num0), (''data_coding'', num0), (''sm_default_msg_id'', num0)]"

definition cancel_sm_fields :: field_list where
  "cancel_sm_fields =
    [(''service_type'', empty_str), (''message_id'', empty_str), (''source_addr_ton'', num0),
     (''source_addr_npi'', num0), (''source_addr'', empty_str), (''dest_addr_ton'', num0),
     (''dest_addr_npi'', num0), (''destination_addr'', empty_str)]"

definition query_sm_fields :: field_list where
  "query_sm_fields =
    [(''message_id'', None), (''source_addr_ton'', num0), (''source_addr_npi'', num0),
     (''source_addr'', empty_str)]"

definition query_sm_resp_fields :: field_list where
  "query_sm_resp_fields =
    [(''message_id'', None), (''final_date'', None), (''message_state'', None),
     (''error_code'', None)]"

definition replace_sm_fields :: field_list where
  "replace_sm_fields =
    [(''message_id'', None), (''source_addr_ton'', num0), (''source_addr_npi'', num0),
     (''source_addr'', empty_str), (''schedule_delivery_time'', empty_str),
     (''validity_period'', empty_str), (''registered_delivery'', num0),
     (''sm_default_msg_id'', num0), (''short_message'', None)]"

definition query_broadcast_sm_fields :: field_list where
  "query_broadcast_sm_fields =
    [(''message_id'', empty_str), (''source_addr_ton'', num0), (''source_addr_npi'', num0),
     (''source_addr'', empty_str)]"

definition query_broadcast_sm_resp_fields :: field_list where
  "query_broadcast_sm_resp_fields =
    [(''message_id'', None), (''message_state'', None)]"

definition cancel_broadcast_sm_fields :: field_list where
  "cancel_broadcast_sm_fields =
    [(''service_type'', empty_str), (''message_id'', empty_str), (''source_addr_ton'', num0),
     (''source_addr_npi'', num0), (''source_addr'', empty_str)]"

definition create_command_fields :: "(CommandId \<times> field_list) list" where
  "create_command_fields =
    [(BindTransmitter, bind_transmitter_fields), (BindTransmitterResp, [(''system_id'', None)]),
     (BindReceiver, bind_receiver_fields), (BindReceiverResp, [(''system_id'', None)]),
     (BindTransceiver, bind_transceiver_fields), (BindTransceiverResp, [(''system_id'', None)]),
     (Outbind, outbind_fields), (Unbind, []), (UnbindResp, []), (EnquireLink, []),
     (EnquireLinkResp, []), (AlertNotification, alert_notification_fields), (GenericNack, []),
     (SubmitSm, submit_sm_fields), (SubmitSmResp, [(''message_id'', None)]),
     (DataSm, data_sm_fields), (DataSmResp, [(''message_id'', None)]),
     (SubmitMulti, submit_multi_fields), (SubmitMultiResp, submit_multi_resp_fields),
     (DeliverSm, deliver_sm_fields), (DeliverSmResp, [(''message_id'', None)]),
     (BroadcastSm, broadcast_sm_fields), (BroadcastSmResp, [(''message_id'', None)]),
     (CancelSm, cancel_sm_fields), (CancelSmResp, []), (QuerySm, query_sm_fields),
     (QuerySmResp, query_sm_resp_fields), (ReplaceSm, replace_sm_fields), (ReplaceSmResp, []),
     (QueryBroadcastSm, query_broadcast_sm_fields),
     (QueryBroadcastSmResp, query_broadcast_sm_resp_fields),
     (CancelBroadcastSm, cancel_broadcast_sm_fields), (CancelBroadcastSmResp, [])]"

definition MESSAGE_COMMAND_FIELDS :: "u32 \<rightharpoonup> field_list" where
  "MESSAGE_COMMAND_FIELDS w = map_of (rev (map (\<lambda>(c, fs). (CommandId_as_u32 c, fs)) create_command_fields)) w"

section \<open>Consistency of the tables\<close>

lemma tlv_names_distinct: "distinct (map tlv_name create_tlv_fields)"
  by (rule distinct_by_text_key) code_simp

lemma tlv_tags_distinct: "distinct (map tag create_tlv_fields)"
proof -
  have "distinct (map uint (map tag create_tlv_fields))" by code_simp
  then show ?thesis by (simp only: distinct_map)
qed

lemma tagged_tlv_lookup: "c \<in> set create_tlv_fields \<Longrightarrow> TAGGED_TLV_FIELDS (tag c) = Some c"
  unfolding TAGGED_TLV_FIELDS_def
  by (rule map_of_is_SomeI) (auto simp: rev_map [symmetric] comp_def tlv_tags_distinct)

lemma named_tlv_lookup: "c \<in> set create_tlv_fields \<Longrightarrow> NAMED_TLV_FIELDS (tlv_name c) = Some c"
  unfolding NAMED_TLV_FIELDS_def
  by (rule map_of_is_SomeI) (auto simp: rev_map [symmetric] comp_def tlv_names_distinct)

lemma named_tlv_Some: "NAMED_TLV_FIELDS n = Some c \<Longrightarrow> c \<in> set create_tlv_fields \<and> tlv_name c = n"
  by (auto simp: NAMED_TLV_FIELDS_def dest!: map_of_SomeD)

text \<open>A codec that never yields a value the self-delimiting contract excludes.\<close>

fun delimits :: "field_codec \<Rightarrow> bool" where
  "delimits VarLengthIntFieldCodec = False"
| "delimits (OctetFieldCodec length_indicator length_bytes) = (length_indicator \<and> length_bytes \<in> {1, 2, 4})"
| "delimits _ = True"

definition command_table_ok :: "(CommandId \<times> field_list) \<Rightarrow> bool" where
  "command_table_ok p =
     (fst p \<noteq> Unknown \<and> distinct (map (\<lambda>f. text_key (fst f)) (snd p)) \<and>
      (\<forall>f\<in>set (snd p). (case FIELD_CODECS (fst f) of Some c \<Rightarrow> delimits c | None \<Rightarrow> False)
         \<and> fst f \<notin> set [''command_name'', ''command_id'', ''command_status'', ''sequence_number'']))"

lemma command_tables_ok: "list_all command_table_ok create_command_fields"
  by code_simp

lemma command_codes_distinct: "distinct (map (\<lambda>p. CommandId_as_u32 (fst p)) create_command_fields)"
proof -
  have "distinct (map uint (map (\<lambda>p. CommandId_as_u32 (fst p)) create_command_fields))" by code_simp
  then show ?thesis by (simp only: distinct_map)
qed

lemma command_fields_lookup:
  "(c, fs) \<in> set create_command_fields \<Longrightarrow> MESSAGE_COMMAND_FIELDS (CommandId_as_u32 c) = Some fs"
  unfolding MESSAGE_COMMAND_FIELDS_def
  by (rule map_of_is_SomeI)
    (force simp: rev_map [symmetric] comp_def case_prod_unfold command_codes_distinct)+

lemma command_fields_Some:
  assumes "MESSAGE_COMMAND_FIELDS w = Some fs"
  obtains c where "(c, fs) \<in> set create_command_fields" "w = CommandId_as_u32 c" "c \<noteq> Unknown"
    "CommandId_from_u32 w = Some c"
proof -
  obtain c where c: "(c, fs) \<in> set create_command_fields" "w = CommandId_as_u32 c"
    using assms by (auto simp: MESSAGE_COMMAND_FIELDS_def dest!: map_of_SomeD)
  with command_tables_ok have "c \<noteq> Unknown" by (auto simp: list_all_iff command_table_ok_def)
  with c that show ?thesis by (simp add: enum_simps)
qed

lemma command_field_facts:
  assumes "MESSAGE_COMMAND_FIELDS w = Some fs"
  shows "distinct (map fst fs)"
    and "f \<in> set fs \<Longrightarrow> \<exists>c. FIELD_CODECS (fst f) = Some c \<and> delimits c"
    and "f \<in> set fs \<Longrightarrow> fst f \<notin> {''command_name'', ''command_id'', ''command_status'', ''sequence_number''}"
proof -
  obtain c where "(c, fs) \<in> set create_command_fields" using assms by (rule command_fields_Some)
  then have ok: "command_table_ok (c, fs)" using command_tables_ok by (auto simp: list_all_iff)
  then have "distinct (map text_key (map fst fs))" by (simp add: command_table_ok_def comp_def)
  then show "distinct (map fst fs)" by (rule distinct_by_text_key)
  show "f \<in> set fs \<Longrightarrow> \<exists>c. FIELD_CODECS (fst f) = Some c \<and> delimits c"
    using ok by (fastforce simp: command_table_ok_def split: option.splits)
  show "f \<in> set fs \<Longrightarrow> fst f \<notin> {''command_name'', ''command_id'', ''command_status'', ''sequence_number''}"
    using ok by (auto simp: command_table_ok_def)
qed

end
