(* ===== verification/Message_Codec.thy ===== *)
theory Message_Codec
  imports Message_Tables
begin

text \<open>
  Whole PDUs (\<^verbatim>\<open>msg.rs\<close>): building JSON requests and responses, encoding a JSON msg
  into a PDU with \<^verbatim>\<open>from_json\<close> and decoding a PDU with \<^verbatim>\<open>to_json\<close>.  The iteration order of
  the hash map \<^verbatim>\<open>NAMED_TLV_FIELDS\<close>, which the encoder walks, is unspecified in Rust: it is the
  argument \<open>order\<close>, any enumeration of the map's values.  The main result is that decoding
  inverts encoding on canonical messages, whatever the order.
\<close>

section \<open>Optional parameters\<close>

definition tlv_encode :: "base64 \<Rightarrow> TLVFieldCodec \<Rightarrow> json \<Rightarrow> bytes \<Rightarrow> bytes io" where
  "tlv_encode E c value buf =
     (case encode E (value_codec c) value [] of
        Ok temp_buffer \<Rightarrow>
          Ok (write_u16 (word_of_nat (length temp_buffer)) (write_u16 (tag c) buf) @ temp_buffer)
      | Err _ \<Rightarrow> inval ''Failed to encode TLVField''
      | Panic \<Rightarrow> Panic)"

definition tlv_decode :: "base64 \<Rightarrow> TLVFieldCodec \<Rightarrow> bytes \<Rightarrow> json io \<times> bytes" where
  "tlv_decode E c buf =
     (case read_tlv buf of
        (Some (t, value_bytes), b1) \<Rightarrow>
          if t = tag c then (fst (decode E (value_codec c) value_bytes), b1)
          else (inval (''Expected TLV tag '' @ fmt_0X 4 (unat (tag c)) @ '' but found ''
                  @ fmt_0X 4 (unat t)), b1)
      | (None, b1) \<Rightarrow> (inval ''Failed to read TLV from buffer'', b1))"

definition tlv_value_ok :: "base64 \<Rightarrow> field_codec \<Rightarrow> json \<Rightarrow> bool" where
  "tlv_value_ok E c v =
     (case c of
        OctetFieldCodec False _ \<Rightarrow> octet_value E v \<noteq> None
      | VarLengthIntFieldCodec \<Rightarrow> fits 256 v \<and> v \<noteq> JNumber (PosInt 0)
      | _ \<Rightarrow> canonical E c v)"

definition tlv_octets :: "base64 \<Rightarrow> field_codec \<Rightarrow> json \<Rightarrow> bytes" where
  "tlv_octets E c v =
     (case c of OctetFieldCodec False _ \<Rightarrow> the (octet_value E v) | _ \<Rightarrow> octets E c v)"

definition tlv_canonical :: "base64 \<Rightarrow> TLVFieldCodec \<Rightarrow> json \<Rightarrow> bool" where
  "tlv_canonical E c v =
     (tlv_value_ok E (value_codec c) v \<and> tlv_octets E (value_codec c) v \<noteq> [] \<and>
      length (tlv_octets E (value_codec c) v) < 2 ^ 16)"

definition tlv_block :: "base64 \<Rightarrow> TLVFieldCodec \<Rightarrow> json \<Rightarrow> bytes" where
  "tlv_block E c v =
     (let b = tlv_octets E (value_codec c) v in u16_be (tag c) @ u16_be (word_of_nat (length b)) @ b)"

lemma octet_value_Some:
  "octet_value E v = Some b \<longleftrightarrow>
     (\<exists>s. v = JString s \<and> b64_decode E s = Some b \<and> b \<noteq> [] \<and> b64_encode E b = s)"
  unfolding octet_value_def by (cases v; simp split: option.split) metis

lemma var_length_single:
  assumes "n \<noteq> (0 :: u8)"
  shows "var_length_bytes (ucast n) = [n]"
proof -
  have nz: "(ucast n :: u64) \<noteq> 0" using assms by (metis ucast_widen(1) ucast_0)
  have "drop_bit 8 (ucast n :: u64) = 0"
    by (rule bit_word_eqI) (simp add: bit_drop_bit_eq ucast_u8_bit)
  moreover have m: "(0xff :: u64) = mask 8" by (simp add: mask_eq_exp_minus_1)
  have "ucast ((ucast n :: u64) AND 0xff) = n"
    by (rule bit_word_eqI) (auto simp: m bit_simps ucast_u8_bit)
  ultimately show ?thesis using nz
    by (subst var_length_bytes.simps, simp) (subst var_length_bytes.simps, simp)
qed

lemma tlv_value_law:
  assumes "tlv_value_ok E c v" "tlv_octets E c v \<noteq> []"
  shows "encode E c v [] = Ok (tlv_octets E c v)"
    and "fst (decode E c (tlv_octets E c v)) = Ok v"
proof -
  consider (octet) k where "c = OctetFieldCodec False k" | (var) "c = VarLengthIntFieldCodec"
    | (other) "canonical E c v" "tlv_octets E c v = octets E c v"
    using assms(1) by (auto simp: tlv_value_ok_def tlv_octets_def split: field_codec.splits bool.splits)
  then have "encode E c v [] = Ok (tlv_octets E c v) \<and> fst (decode E c (tlv_octets E c v)) = Ok v"
  proof cases
    case octet
    then obtain s b where "octet_value E v = Some b" "v = JString s" "b64_decode E s = Some b" "b \<noteq> []"
      "b64_encode E b = s"
      using assms(1) by (auto simp: tlv_value_ok_def octet_value_Some)
    then show ?thesis
      by (simp add: octet tlv_octets_def encode_octet_def decode_octet_def write_defs read_bytes_def)
  next
    case var
    then obtain n :: u8 where v: "v = jnum n"
      using assms(1) by (auto simp: tlv_value_ok_def elim!: fits_u8E)
    then have "n \<noteq> 0" using assms(1) by (auto simp: var tlv_value_ok_def jnum_def)
    with v show ?thesis
      by (simp add: var tlv_octets_def encode_uint_def var_length_single var_length_value_def)
        (simp add: jnum_def)
  next
    case other
    then show ?thesis using field.enc_blk [of E c v "[]"] field.dec_blk [of E c v "[]"] by simp
  qed
  then show "encode E c v [] = Ok (tlv_octets E c v)"
    and "fst (decode E c (tlv_octets E c v)) = Ok v" by simp_all
qed

interpretation tlv: self_delimiting "tlv_encode E c" "tlv_decode E c" "tlv_canonical E c" "tlv_block E c"
  for E c
proof unfold_locales
  fix v buf rest
  assume ok: "tlv_canonical E c v"
  then have law: "encode E (value_codec c) v [] = Ok (tlv_octets E (value_codec c) v)"
    "fst (decode E (value_codec c) (tlv_octets E (value_codec c) v)) = Ok v"
    by (simp_all add: tlv_canonical_def tlv_value_law)
  show "tlv_encode E c v buf = Ok (buf @ tlv_block E c v)"
    by (simp add: tlv_encode_def law(1) tlv_block_def Let_def write_defs)
  show "tlv_decode E c (tlv_block E c v @ rest) = (Ok v, rest)"
    using ok by (simp add: tlv_decode_def tlv_block_def Let_def wire_simps law(2) tlv_canonical_def)
qed

section \<open>JSON requests and responses\<close>

definition create_json_request :: "u32 \<Rightarrow> u32 \<Rightarrow> (string \<times> json) list \<Rightarrow> json" where
  "create_json_request command_id sequence_number additional_fields =
     jobject ([(''command_id'', JString (command_hex command_id)),
       (''sequence_number'', jnum sequence_number)] @ additional_fields)"

definition create_json_response :: "u32 \<Rightarrow> u32 \<Rightarrow> u32 \<Rightarrow> (string \<times> json) list \<Rightarrow> json" where
  "create_json_response command_id sequence_number command_status additional_fields =
     jobject ([(''command_id'', JString (command_hex (0x80000000 OR command_id))),
       (''command_status'', jnum command_status),
       (''sequence_number'', jnum sequence_number)] @ additional_fields)"

definition command_from_name :: "json \<Rightarrow> CommandId option" where
  "command_from_name msg =
     (case jget ''command_name'' msg of
        Some (JString command_name) \<Rightarrow> CommandId_from_str command_name
      | _ \<Rightarrow> None)"

definition extract_command_id :: "json \<Rightarrow> CommandId option" where
  "extract_command_id msg =
     (case jget ''command_id'' msg of
        Some (JNumber n) \<Rightarrow>
          (case as_u64 (JNumber n) of Some w \<Rightarrow> CommandId_from_u32 (ucast w) | None \<Rightarrow> None)
      | Some (JString command_name) \<Rightarrow> CommandId_from_str command_name
      | _ \<Rightarrow> command_from_name msg)"

section \<open>Encoding a msg\<close>

text \<open>A header number that is absent counts as zero; one that is not an unsigned number is not written.\<close>

definition write_header_number :: "string \<Rightarrow> json \<Rightarrow> bytes \<Rightarrow> bytes" where
  "write_header_number k msg buf =
     (case as_u64 (case jget k msg of Some v \<Rightarrow> v | None \<Rightarrow> JNumber (PosInt 0)) of
        Some n \<Rightarrow> write_u32 (ucast n) buf
      | None \<Rightarrow> buf)"

definition encode_field :: "base64 \<Rightarrow> json \<Rightarrow> string \<times> json option \<Rightarrow> bytes \<Rightarrow> bytes io" where
  "encode_field E msg f buf =
     (case FIELD_CODECS (fst f) of
        None \<Rightarrow> inval (''Unknown field: '' @ fst f)
      | Some codec \<Rightarrow>
          (case (case jget (fst f) msg of Some v \<Rightarrow> Some v | None \<Rightarrow> snd f) of
             Some value \<Rightarrow>
               map_err (\<lambda>_. IoError InvalidInput (''Failed to encode field: '' @ fst f))
                 (encode E codec value buf)
           | None \<Rightarrow> inval (''Missing field: '' @ fst f)))"

definition encode_tlv_field :: "base64 \<Rightarrow> json \<Rightarrow> TLVFieldCodec \<Rightarrow> bytes \<Rightarrow> bytes io" where
  "encode_tlv_field E msg c buf =
     (case jget (tlv_name c) msg of
        Some value \<Rightarrow>
          map_err (\<lambda>_. IoError InvalidInput (''Failed to encode TLV field: '' @ tlv_name c))
            (tlv_encode E c value buf)
      | None \<Rightarrow> Ok buf)"

definition encode_message_with_fields ::
    "base64 \<Rightarrow> TLVFieldCodec list \<Rightarrow> u32 \<Rightarrow> json \<Rightarrow> SMPPMessage io" where
  "encode_message_with_fields E order command_id msg =
     (let buf = write_header_number ''sequence_number'' msg
            (write_header_number ''command_status'' msg
              (write_u32 command_id (write_u32 0 [])))
      in case MESSAGE_COMMAND_FIELDS command_id of
           None \<Rightarrow> inval (''Unknown command_id: '' @ command_hex command_id)
         | Some fs \<Rightarrow>
             try_ok (fold_io (encode_field E msg) fs buf) (\<lambda>buf.
             try_ok (fold_io (encode_tlv_field E msg) order buf) (\<lambda>buf.
             update_length (SMPPMessage_of buf))))"

definition from_json :: "base64 \<Rightarrow> TLVFieldCodec list \<Rightarrow> json \<Rightarrow> SMPPMessage io" where
  "from_json E order msg =
     (case extract_command_id msg of
        Some cmd_id \<Rightarrow> encode_message_with_fields E order (CommandId_as_u32 cmd_id) msg
      | None \<Rightarrow> inval ''Missing command_id/command_name in message'')"

text \<open>An iteration order of the hash map: each of its entries once.\<close>

definition tlv_order :: "TLVFieldCodec list \<Rightarrow> bool" where
  "tlv_order order = (distinct order \<and> set order = set create_tlv_fields)"

section \<open>Decoding a msg\<close>

fun decode_fields :: "base64 \<Rightarrow> field_list \<Rightarrow> json_map \<Rightarrow> bytes \<Rightarrow> json_map io \<times> bytes" where
  "decode_fields E [] m buf = (Ok m, buf)"
| "decode_fields E (f # fs) m buf =
     (case FIELD_CODECS (fst f) of
        None \<Rightarrow> (inval (''Unknown field: '' @ fst f), buf)
      | Some codec \<Rightarrow>
          (case decode E codec buf of
             (Ok value, b1) \<Rightarrow> decode_fields E fs (btree_insert (fst f) value m) b1
           | (Err _, b1) \<Rightarrow> (inval (''Failed to decode field: '' @ fst f), b1)
           | (Panic, b1) \<Rightarrow> (Panic, b1)))"

lemma tlv_decode_shortens:
  "peek_tlv_tag buf = Some t \<Longrightarrow> length (snd (tlv_decode E c buf)) < length buf"
  using read_tlv_shortens [of buf] by (auto simp: tlv_decode_def split: prod.splits option.splits)

text \<open>A parameter that fails to decode is recorded as null; every round consumes octets.\<close>

function decode_tlvs :: "base64 \<Rightarrow> json_map \<Rightarrow> bytes \<Rightarrow> json_map io" where
  "decode_tlvs E m buf =
     (case peek_tlv_tag buf of
        None \<Rightarrow> Ok m
      | Some t \<Rightarrow>
          (case TAGGED_TLV_FIELDS t of
             None \<Rightarrow> inval (''Unknown TLV tag: 0x'' @ fmt_0X 4 (unat t))
           | Some c \<Rightarrow>
               (case fst (tlv_decode E c buf) of
                  Ok value \<Rightarrow> decode_tlvs E (btree_insert (tlv_name c) value m) (snd (tlv_decode E c buf))
                | Err _ \<Rightarrow> decode_tlvs E (btree_insert (tlv_name c) JNull m) (snd (tlv_decode E c buf))
                | Panic \<Rightarrow> Panic)))"
  by pat_completeness auto
termination
  by (relation "measure (\<lambda>(E, m, buf). length buf)") (auto intro: tlv_decode_shortens)

declare decode_tlvs.simps [simp del]

definition to_json :: "base64 \<Rightarrow> SMPPMessage \<Rightarrow> json io" where
  "to_json E msg =
     (let (_, b1) = read_u32 (message msg);
          (command_id, b2) = read_u32 b1;
          (command_status, b3) = read_u32 b2;
          (sequence_number, b4) = read_u32 b3
      in case sequence_number of
           None \<Rightarrow> inval ''Failed to read sequence_number''
         | Some seq \<Rightarrow>
             let cid = (case command_id of Some c \<Rightarrow> c | None \<Rightarrow> 0);
                 m = insert_all
                   [(''command_name'', JString (case CommandId_from_u32 cid of
                        Some c \<Rightarrow> CommandId_to_str c | None \<Rightarrow> ''Unknown'')),
                    (''command_id'', JString (command_hex cid)),
                    (''command_status'', jnum (case command_status of Some s \<Rightarrow> s | None \<Rightarrow> 0)),
                    (''sequence_number'', jnum seq)] []
             in case MESSAGE_COMMAND_FIELDS cid of
                  None \<Rightarrow> inval (''Unknown command_id: '' @ command_hex cid)
                | Some fs \<Rightarrow>
                    (case decode_fields E fs m b4 of
                       (Ok m, b5) \<Rightarrow> map_ok JObject (decode_tlvs E m b5)
                     | (Err e, _) \<Rightarrow> Err e
                     | (Panic, _) \<Rightarrow> Panic))"

section \<open>Canonical messages\<close>

text \<open>
  What \<^verbatim>\<open>to_json\<close> produces for a well-formed PDU: the four header members, every mandatory
  field of the command with a canonical value, and otherwise only optional parameters with
  canonical values.
\<close>

definition header_keys :: "string list" where
  "header_keys = [''command_name'', ''command_id'', ''command_status'', ''sequence_number'']"

definition header_number_ok :: "string \<Rightarrow> json \<Rightarrow> bool" where
  "header_number_ok k v = (case jget k v of Some x \<Rightarrow> fits (2 ^ 32) x | None \<Rightarrow> False)"

definition field_ok :: "base64 \<Rightarrow> json \<Rightarrow> string \<Rightarrow> bool" where
  "field_ok E v n =
     (case FIELD_CODECS n of
        Some c \<Rightarrow> (case jget n v of Some x \<Rightarrow> canonical E c x | None \<Rightarrow> False)
      | None \<Rightarrow> False)"

definition member_ok :: "base64 \<Rightarrow> string list \<Rightarrow> string \<times> json \<Rightarrow> bool" where
  "member_ok E names p =
     (case NAMED_TLV_FIELDS (fst p) of
        Some c \<Rightarrow> tlv_canonical E c (snd p)
      | None \<Rightarrow> fst p \<in> set (header_keys @ names))"

definition message_ok_for :: "base64 \<Rightarrow> json_map \<Rightarrow> CommandId \<Rightarrow> field_list \<Rightarrow> bool" where
  "message_ok_for E m c fs =
     (btree_ok m \<and>
      map_of m ''command_name'' = Some (JString (CommandId_to_str c)) \<and>
      map_of m ''command_id'' = Some (JString (command_hex (CommandId_as_u32 c))) \<and>
      header_number_ok ''command_status'' (JObject m) \<and>
      header_number_ok ''sequence_number'' (JObject m) \<and>
      list_all (\<lambda>f. field_ok E (JObject m) (fst f)) fs \<and>
      list_all (member_ok E (map fst fs)) m)"

definition message_ok :: "base64 \<Rightarrow> json \<Rightarrow> bool" where
  "message_ok E v =
     (case v of
        JObject m \<Rightarrow>
          (case extract_command_id v of
             Some c \<Rightarrow>
               (case MESSAGE_COMMAND_FIELDS (CommandId_as_u32 c) of
                  Some fs \<Rightarrow> message_ok_for E m c fs
                | None \<Rightarrow> False)
           | None \<Rightarrow> False)
      | _ \<Rightarrow> False)"

lemma message_okE:
  assumes "message_ok E v"
  obtains m c fs where "v = JObject m" "extract_command_id v = Some c"
    "MESSAGE_COMMAND_FIELDS (CommandId_as_u32 c) = Some fs" "message_ok_for E m c fs"
  using assms by (auto simp: message_ok_def split: json.splits option.splits)

section \<open>Decoding inverts encoding\<close>

definition fields_block :: "base64 \<Rightarrow> json \<Rightarrow> field_list \<Rightarrow> bytes" where
  "fields_block E v fs =
     concat (map (\<lambda>f. octets E (the (FIELD_CODECS (fst f))) (the (jget (fst f) v))) fs)"

definition tlvs_present :: "json \<Rightarrow> TLVFieldCodec list \<Rightarrow> TLVFieldCodec list" where
  "tlvs_present v order = filter (\<lambda>c. jget (tlv_name c) v \<noteq> None) order"

definition tlvs_block :: "base64 \<Rightarrow> json \<Rightarrow> TLVFieldCodec list \<Rightarrow> bytes" where
  "tlvs_block E v cs = concat (map (\<lambda>c. tlv_block E c (the (jget (tlv_name c) v))) cs)"

lemma field_okE:
  assumes "field_ok E v n"
  obtains c x where "FIELD_CODECS n = Some c" "jget n v = Some x" "canonical E c x"
  using assms by (auto simp: field_ok_def split: option.splits)

lemma encode_fields_block:
  "list_all (\<lambda>f. field_ok E v (fst f)) fs
    \<Longrightarrow> fold_io (encode_field E v) fs buf = Ok (buf @ fields_block E v fs)"
proof (induction fs arbitrary: buf)
  case (Cons f fs)
  then obtain c x where "FIELD_CODECS (fst f) = Some c" "jget (fst f) v = Some x" "canonical E c x"
    by (auto elim: field_okE)
  with Cons show ?case by (simp add: encode_field_def field.enc_blk fields_block_def)
qed (simp add: fields_block_def)

lemma decode_fields_block:
  "list_all (\<lambda>f. field_ok E v (fst f)) fs
    \<Longrightarrow> decode_fields E fs m (fields_block E v fs @ rest)
        = (Ok (insert_all (map (\<lambda>f. (fst f, the (jget (fst f) v))) fs) m), rest)"
proof (induction fs arbitrary: m)
  case (Cons f fs)
  then obtain c x where "FIELD_CODECS (fst f) = Some c" "jget (fst f) v = Some x" "canonical E c x"
    by (auto elim: field_okE)
  with Cons show ?case by (simp add: fields_block_def field.dec_blk)
qed (simp add: fields_block_def)

lemma encode_tlvs_block:
  "\<forall>c\<in>set (tlvs_present v cs). tlv_canonical E c (the (jget (tlv_name c) v))
    \<Longrightarrow> fold_io (encode_tlv_field E v) cs buf = Ok (buf @ tlvs_block E v (tlvs_present v cs))"
proof (induction cs arbitrary: buf)
  case (Cons c cs)
  show ?case
  proof (cases "jget (tlv_name c) v")
    case None
    with Cons show ?thesis by (simp add: encode_tlv_field_def tlvs_present_def)
  next
    case (Some x)
    with Cons show ?thesis
      by (simp add: encode_tlv_field_def tlvs_present_def tlv.enc_blk tlvs_block_def)
  qed
qed (simp add: tlvs_present_def tlvs_block_def)

lemma peek_tlv_block: "peek_tlv_tag (tlv_block E c v @ rest) = Some (tag c)"
  by (simp add: tlv_block_def Let_def wire_simps)

lemma decode_tlvs_block:
  assumes "\<forall>c\<in>set cs. c \<in> set create_tlv_fields \<and> tlv_canonical E c (the (jget (tlv_name c) v))"
  shows "decode_tlvs E m (tlvs_block E v cs)
    = Ok (insert_all (map (\<lambda>c. (tlv_name c, the (jget (tlv_name c) v))) cs) m)"
  using assms
proof (induction cs arbitrary: m)
  case Nil
  then show ?case by (simp add: tlvs_block_def decode_tlvs.simps)
next
  case (Cons c cs)
  let ?x = "the (jget (tlv_name c) v)"
  have "tlv_decode E c (tlv_block E c ?x @ tlvs_block E v cs) = (Ok ?x, tlvs_block E v cs)"
    using Cons.prems by (simp add: tlv.dec_blk)
  moreover have "tlvs_block E v (c # cs) = tlv_block E c ?x @ tlvs_block E v cs"
    by (simp add: tlvs_block_def)
  ultimately show ?case using Cons
    by (simp add: decode_tlvs.simps [of _ _ "tlv_block _ _ _ @ _"] peek_tlv_block tagged_tlv_lookup)
qed

definition header_block :: "nat \<Rightarrow> CommandId \<Rightarrow> json \<Rightarrow> bytes" where
  "header_block n c v = u32_be (word_of_nat n) @ u32_be (CommandId_as_u32 c)
     @ u32_be (ucast (the (get_u64 ''command_status'' v)))
     @ u32_be (ucast (the (get_u64 ''sequence_number'' v)))"

definition message_block :: "base64 \<Rightarrow> TLVFieldCodec list \<Rightarrow> CommandId \<Rightarrow> field_list \<Rightarrow> json \<Rightarrow> bytes" where
  "message_block E order c fs v =
     (let body = fields_block E v fs @ tlvs_block E v (tlvs_present v order)
      in header_block (16 + length body) c v @ body)"

lemma header_number_okE:
  assumes "header_number_ok k v"
  obtains w :: u32 where "jget k v = Some (jnum w)"
  using assms by (auto simp: header_number_ok_def split: option.splits elim!: fits_u32E)

lemma write_header_number_ok:
  "jget k v = Some (jnum (w :: u32)) \<Longrightarrow> write_header_number k v buf = buf @ u32_be w"
  by (simp add: write_header_number_def write_defs)

lemma get_u64_jnum: "jget k v = Some (jnum w) \<Longrightarrow> get_u64 k v = Some (ucast w)"
  by (simp add: get_u64_def)

lemma message_tlvs_canonical:
  assumes "message_ok_for E m c fs" "set cs \<subseteq> set create_tlv_fields"
    "t \<in> set (tlvs_present (JObject m) cs)"
  shows "t \<in> set create_tlv_fields \<and> tlv_canonical E t (the (jget (tlv_name t) (JObject m)))"
proof -
  obtain x where x: "map_of m (tlv_name t) = Some x" and t: "t \<in> set create_tlv_fields"
    using assms(2,3) by (auto simp: tlvs_present_def)
  then have "member_ok E (map fst fs) (tlv_name t, x)"
    using assms(1) by (auto simp: message_ok_for_def list_all_iff dest!: map_of_SomeD)
  then show ?thesis using x t by (simp add: member_ok_def named_tlv_lookup)
qed

lemma from_json_block:
  assumes "message_ok_for E m c fs" "extract_command_id (JObject m) = Some c"
    "MESSAGE_COMMAND_FIELDS (CommandId_as_u32 c) = Some fs" "set order \<subseteq> set create_tlv_fields"
  shows "from_json E order (JObject m) = Ok (SMPPMessage_of (message_block E order c fs (JObject m)))"
proof -
  let ?v = "JObject m"
  obtain st sq :: u32 where h: "jget ''command_status'' ?v = Some (jnum st)"
    "jget ''sequence_number'' ?v = Some (jnum sq)"
    using assms(1) by (auto simp: message_ok_for_def elim!: header_number_okE)
  have "fold_io (encode_tlv_field E ?v) order buf = Ok (buf @ tlvs_block E ?v (tlvs_present ?v order))" for buf
    using message_tlvs_canonical [OF assms(1,4)] by (intro encode_tlvs_block) blast
  moreover have "fold_io (encode_field E ?v) fs buf = Ok (buf @ fields_block E ?v fs)" for buf
    using assms(1) by (intro encode_fields_block) (simp add: message_ok_for_def)
  ultimately show ?thesis
    using assms(2,3) h
    by (simp add: from_json_def encode_message_with_fields_def write_header_number_ok Let_def
        update_length_def put_u32_at_def message_block_def header_block_def get_u64_jnum write_defs
        del: jget.simps) 
qed

lemma message_keys:
  assumes "message_ok_for E m c fs" "tlv_order order"
  shows "set (header_keys @ map fst fs @ map tlv_name (tlvs_present (JObject m) order)) = fst ` set m"
proof
  have dom: "k \<in> fst ` set m \<longleftrightarrow> jget k (JObject m) \<noteq> None" for k
    by (simp add: map_of_eq_None_iff)
  have "jget k (JObject m) \<noteq> None" if "k \<in> set header_keys" for k
    using that assms(1) by (auto simp: header_keys_def message_ok_for_def elim!: header_number_okE)
  moreover have "jget (fst f) (JObject m) \<noteq> None" if "f \<in> set fs" for f
    using that assms(1) by (auto simp: message_ok_for_def list_all_iff elim!: field_okE)
  ultimately show "set (header_keys @ map fst fs @ map tlv_name (tlvs_present (JObject m) order)) \<subseteq> fst ` set m"
    unfolding dom subset_iff by (auto simp: tlvs_present_def)
  show "fst ` set m \<subseteq> set (header_keys @ map fst fs @ map tlv_name (tlvs_present (JObject m) order))"
  proof
    fix k assume k: "k \<in> fst ` set m"
    then obtain x where "(k, x) \<in> set m" by auto
    then have ok: "member_ok E (map fst fs) (k, x)"
      using assms(1) by (auto simp: message_ok_for_def list_all_iff)
    show "k \<in> set (header_keys @ map fst fs @ map tlv_name (tlvs_present (JObject m) order))"
    proof (cases "NAMED_TLV_FIELDS k")
      case None
      with ok show ?thesis by (auto simp: member_ok_def)
    next
      case (Some t)
      then have "t \<in> set order" "tlv_name t = k"
        using named_tlv_Some assms(2) by (auto simp: tlv_order_def)
      then show ?thesis using k unfolding dom by (auto simp: tlvs_present_def)
    qed
  qed
qed

lemma to_json_block:
  assumes "message_ok_for E m c fs" "c \<noteq> Unknown"
    "MESSAGE_COMMAND_FIELDS (CommandId_as_u32 c) = Some fs" "tlv_order order"
  shows "to_json E (SMPPMessage_of (message_block E order c fs (JObject m))) = Ok (JObject m)"
proof -
  let ?v = "JObject m"
  let ?ks = "header_keys @ map fst fs @ map tlv_name (tlvs_present ?v order)"
  obtain st sq :: u32 where h: "map_of m ''command_status'' = Some (jnum st)"
    "map_of m ''sequence_number'' = Some (jnum sq)"
    using assms(1) by (auto simp: message_ok_for_def elim!: header_number_okE)
  have ord: "set order \<subseteq> set create_tlv_fields" using assms(4) by (simp add: tlv_order_def)
  have tlvs: "decode_tlvs E n (tlvs_block E ?v (tlvs_present ?v order))
     = Ok (insert_all (map (\<lambda>c. (tlv_name c, the (jget (tlv_name c) ?v))) (tlvs_present ?v order)) n)" for n
    using message_tlvs_canonical [OF assms(1) ord] by (intro decode_tlvs_block) blast
  have flds: "decode_fields E fs n (fields_block E ?v fs @ rest)
     = (Ok (insert_all (map (\<lambda>f. (fst f, the (jget (fst f) ?v))) fs) n), rest)" for n rest
    using assms(1) by (intro decode_fields_block) (simp add: message_ok_for_def)
  have hdr: "[(''command_name'', JString (CommandId_to_str c)),
      (''command_id'', JString (command_hex (CommandId_as_u32 c))),
      (''command_status'', jnum st), (''sequence_number'', jnum sq)]
    = map (\<lambda>k. (k, the (map_of m k))) header_keys"
    using assms(1) h by (simp add: header_keys_def message_ok_for_def)
  have keys: "set ?ks = fst ` set m"
    using assms(1,4) by (rule message_keys)
  have "insert_all (map (\<lambda>k. (k, the (map_of m k))) ?ks) [] = m"
    using assms(1) keys by (intro insert_all_restore) (simp_all add: message_ok_for_def)
  then show ?thesis
    using h assms(2,3)
    by (simp add: to_json_def message_block_def header_block_def Let_def wire_simps enum_simps
        get_u64_jnum flds tlvs hdr insert_all_append comp_def
        del: insert_all.simps)
qed

end
