(* ===== verification/Base64_Standard.thy ===== *)
theory Base64_Standard
  imports Codec_Laws
begin

text \<open>
  The Base64 engine is a third-party crate and a parameter of the codecs.  The documented law
  that the program relies on is \<open>base64_law\<close>: decoding inverts encoding.  This theory shows
  that the law can hold, on the standard alphabet with padding of RFC 4648, so that concrete
  messages can be evaluated.
\<close>

definition base64_law :: "base64 \<Rightarrow> bool" where
  "base64_law E = (\<forall>b. b64_decode E (b64_encode E b) = Some b)"

lemma octet_value_encoded:
  "base64_law E \<Longrightarrow> b \<noteq> [] \<Longrightarrow> octet_value E (JString (b64_encode E b)) = Some b"
  by (simp add: base64_law_def octet_value_def)

definition b64_alphabet :: string where
  "b64_alphabet = ''ABCDEFGHIJKLMNOPQRSTUVWXYZabcdefghijklmnopqrstuvwxyz0123456789+/''"

definition b64_digit :: "nat \<Rightarrow> char" where
  "b64_digit n = b64_alphabet ! n"

definition b64_value :: "char \<Rightarrow> nat option" where
  "b64_value c = position (\<lambda>d. d = c) b64_alphabet"

fun std_encode :: "bytes \<Rightarrow> string" where
  "std_encode [] = []"
| "std_encode [a] = [b64_digit (unat a div 4), b64_digit (unat a mod 4 * 16), CHR ''='', CHR ''='']"
| "std_encode [a, b] =
     [b64_digit (unat a div 4), b64_digit (unat a mod 4 * 16 + unat b div 16),
      b64_digit (unat b mod 16 * 4), CHR ''='']"
| "std_encode (a # b # c # rest) =
     [b64_digit (unat a div 4), b64_digit (unat a mod 4 * 16 + unat b div 16),
      b64_digit (unat b mod 16 * 4 + unat c div 64), b64_digit (unat c mod 64)] @ std_encode rest"

text \<open>Padding ends the text; the bits that padding leaves unused must be zero.\<close>

definition std_decode_group :: "char \<Rightarrow> char \<Rightarrow> char \<Rightarrow> char \<Rightarrow> bool \<Rightarrow> bytes option" where
  "std_decode_group p q r s final =
     (case (b64_value p, b64_value q) of
        (Some i, Some j) \<Rightarrow>
          let a = word_of_nat (i * 4 + j div 16) in
          if final \<and> r = CHR ''='' \<and> s = CHR ''='' then (if j mod 16 = 0 then Some [a] else None)
          else (case b64_value r of
                  None \<Rightarrow> None
                | Some k \<Rightarrow>
                    let b = word_of_nat (j mod 16 * 16 + k div 4) in
                    if final \<and> s = CHR ''='' then (if k mod 4 = 0 then Some [a, b] else None)
                    else (case b64_value s of
                            None \<Rightarrow> None
                          | Some l \<Rightarrow> Some [a, b, word_of_nat (k mod 4 * 64 + l)]))
      | _ \<Rightarrow> None)"

fun std_decode :: "string \<Rightarrow> bytes option" where
  "std_decode [] = Some []"
| "std_decode (p # q # r # s # rest) =
     (case (std_decode_group p q r s (rest = []), std_decode rest) of
        (Some bs, Some cs) \<Rightarrow> Some (bs @ cs)
      | _ \<Rightarrow> None)"
| "std_decode _ = None"

definition std_base64 :: base64 where
  "std_base64 = \<lparr>b64_decode = std_decode, b64_encode = std_encode\<rparr>"

lemma b64_value_digit: "n < 64 \<Longrightarrow> b64_value (b64_digit n) = Some n"
proof -
  have "list_all (\<lambda>n. b64_value (b64_digit n) = Some n) [0..<64]" by code_simp
  then show "n < 64 \<Longrightarrow> b64_value (b64_digit n) = Some n" by (simp add: list_all_iff)
qed

lemma b64_value_padding: "b64_value CHR ''='' = None"
  by code_simp

lemma b64_digit_not_padding: "n < 64 \<Longrightarrow> b64_digit n \<noteq> CHR ''=''"
  using b64_value_digit b64_value_padding by force

lemma word_of_nat_unat: "(word_of_nat (unat (a :: u8)) :: u8) = a"
  by simp

lemma std_digits:
  fixes a b c :: u8
  shows "unat a div 4 < 64" "unat a mod 4 * 16 < 64" "unat a mod 4 * 16 + unat b div 16 < 64"
    "unat b mod 16 * 4 < 64" "unat b mod 16 * 4 + unat c div 64 < 64" "unat c mod 64 < 64"
    "unat a div 4 * 4 + (unat a mod 4 * 16) div 16 = unat a"
    "unat a div 4 * 4 + (unat a mod 4 * 16 + unat b div 16) div 16 = unat a"
    "(unat a mod 4 * 16 + unat b div 16) mod 16 * 16 + (unat b mod 16 * 4) div 4 = unat b"
    "(unat a mod 4 * 16 + unat b div 16) mod 16 * 16 + (unat b mod 16 * 4 + unat c div 64) div 4 = unat b"
    "(unat b mod 16 * 4 + unat c div 64) mod 4 * 64 + unat c mod 64 = unat c"
proof -
  have bounds: "unat a < 256" "unat b < 256" "unat c < 256"
    using unsigned_less [of a, where 'a = nat] unsigned_less [of b, where 'a = nat]
      unsigned_less [of c, where 'a = nat] by simp_all
  then have q: "unat a div 4 < 64" "unat b div 16 < 16" "unat c div 64 < 4" by simp_all
  have m: "unat a mod 4 < 4" "unat b mod 16 < 16" by simp_all
  show "unat a div 4 < 64" "unat a mod 4 * 16 < 64" "unat a mod 4 * 16 + unat b div 16 < 64"
    "unat b mod 16 * 4 < 64" "unat b mod 16 * 4 + unat c div 64 < 64" "unat c mod 64 < 64"
    using q m by linarith+
  show "unat a div 4 * 4 + (unat a mod 4 * 16) div 16 = unat a"
    "unat a div 4 * 4 + (unat a mod 4 * 16 + unat b div 16) div 16 = unat a"
    "(unat a mod 4 * 16 + unat b div 16) mod 16 * 16 + (unat b mod 16 * 4) div 4 = unat b"
    "(unat a mod 4 * 16 + unat b div 16) mod 16 * 16 + (unat b mod 16 * 4 + unat c div 64) div 4 = unat b"
    "(unat b mod 16 * 4 + unat c div 64) mod 4 * 64 + unat c mod 64 = unat c"
    using q by (simp_all add: div_add1_eq [of _ _ 16] div_add1_eq [of _ _ 4] mod_add_eq)
qed

lemma std_quotients:
  fixes b c :: u8
  shows "unat b div 16 div 16 = 0" "unat b div 16 mod 16 = unat b div 16"
    "unat c div 64 div 4 = 0" "unat c div 64 mod 4 = unat c div 64"
proof -
  have "unat b < 256" "unat c < 256"
    using unsigned_less [of b, where 'a = nat] unsigned_less [of c, where 'a = nat] by simp_all
  then have "unat b div 16 < 16" "unat c div 64 < 4" by simp_all
  then show "unat b div 16 div 16 = 0" "unat b div 16 mod 16 = unat b div 16"
    "unat c div 64 div 4 = 0" "unat c div 64 mod 4 = unat c div 64"
    by (simp_all only: div_less mod_less)
qed

lemmas std_simps = std_decode_group_def Let_def b64_value_digit b64_digit_not_padding
  b64_value_padding std_digits std_quotients word_of_nat_unat

lemma std_decode_encode: "std_decode (std_encode b) = Some b"
proof (induction b rule: std_encode.induct)
  case (2 a)
  then show ?case by (simp add: std_simps del: of_nat_add of_nat_mult)
next
  case (3 a b)
  then show ?case by (simp add: std_simps del: of_nat_add of_nat_mult)
next
  case (4 a b c rest)
  then show ?case by (simp add: std_simps del: of_nat_add of_nat_mult)
qed simp

lemma std_base64_law: "base64_law std_base64"
  by (simp add: base64_law_def std_base64_def std_decode_encode)

end
