(* ===== verification/Message_Samples.thy ===== *)
theory Message_Samples
  imports Message_Codec Base64_Standard
begin

text \<open>
  Concrete messages, evaluated with the standard Base64 alphabet, on which the properties of
  the codec are instantiated.
\<close>

section \<open>Concrete messages\<close>

definition sample_submit_sm :: json where
  "sample_submit_sm = jobject
    [(''command_name'', JString ''SubmitSm''), (''command_id'', JString ''0x00000004''),
     (''command_status'', JNumber (PosInt 0)), (''sequence_number'', JNumber (PosInt 77)),
     (''service_type'', JString ''CMT''), (''source_addr_ton'', JNumber (PosInt 1)),
     (''source_addr_npi'', JNumber (PosInt 1)), (''source_addr'', JString ''1234''),
     (''dest_addr_ton'', JNumber (PosInt 1)), (''dest_addr_npi'', JNumber (PosInt 1)),
     (''destination_addr'', JString ''5678''), (''esm_class'', JNumber (PosInt 0)),
     (''protocol_id'', JNumber (PosInt 0)), (''priority_flag'', JNumber (PosInt 0)),
     (''schedule_delivery_time'', JString []), (''validity_period'', JString []),
     (''registered_delivery'', JNumber (PosInt 1)), (''replace_if_present_flag'', JNumber (PosInt 0)),
     (''data_coding'', JNumber (PosInt 0)), (''sm_default_msg_id'', JNumber (PosInt 0)),
     (''short_message'', JString (std_encode (as_bytes ''hello''))),
     (''dest_port'', JNumber (PosInt 5000))]"

definition sample_enquire_link :: json where
  "sample_enquire_link = jobject
    [(''command_name'', JString ''EnquireLink''), (''command_id'', JString ''0x00000015''),
     (''command_status'', JNumber (PosInt 0)), (''sequence_number'', JNumber (PosInt 3))]"

lemma tlv_order_table: "tlv_order create_tlv_fields"
  using tlv_names_distinct by (simp add: tlv_order_def distinct_map)

lemma tlv_order_rev: "tlv_order (rev create_tlv_fields)"
  using tlv_order_table by (simp add: tlv_order_def)

lemma sample_submit_sm_ok: "message_ok std_base64 sample_submit_sm"
  by code_simp

lemma sample_enquire_link_ok: "message_ok std_base64 sample_enquire_link"
  by code_simp

definition sample_enquire_pdu :: SMPPMessage where
  "sample_enquire_pdu = SMPPMessage_of [0, 0, 0, 16, 0, 0, 0, 0x15, 0, 0, 0, 0, 0, 0, 0, 3]"

lemma sample_enquire_link_pdu:
  "from_json std_base64 create_tlv_fields sample_enquire_link = Ok sample_enquire_pdu"
  by code_simp

end
