(* ===== verification/Message_Laws.thy ===== *)
theory Message_Laws
  imports Message_Samples
begin

text \<open>
  Properties of the PDU codec: decoding inverts encoding, the header of an encoded PDU, the
  error results of the encoder, and the shape of what the decoder returns.
\<close>

section \<open>Decoding inverts encoding\<close>

lemma message_ok_not_unknown: "MESSAGE_COMMAND_FIELDS (CommandId_as_u32 c) = Some fs \<Longrightarrow> c \<noteq> Unknown"
proof
  assume "c = Unknown" "MESSAGE_COMMAND_FIELDS (CommandId_as_u32 c) = Some fs"
  moreover have "MESSAGE_COMMAND_FIELDS (CommandId_as_u32 Unknown) = None" by code_simp
  ultimately show False by simp
qed

lemma canonical_round_trip:
  assumes "message_ok E v" "tlv_order order"
  shows "\<exists>p. from_json E order v = Ok p \<and> to_json E p = Ok v"
proof -
  obtain m c fs where v: "v = JObject m" "extract_command_id v = Some c"
    "MESSAGE_COMMAND_FIELDS (CommandId_as_u32 c) = Some fs" "message_ok_for E m c fs"
    using assms(1) by (rule message_okE)
  moreover have "set order \<subseteq> set create_tlv_fields" using assms(2) by (simp add: tlv_order_def)
  moreover have "c \<noteq> Unknown" using v(3) by (rule message_ok_not_unknown)
  ultimately show ?thesis using from_json_block to_json_block assms(2) by blast
qed

section \<open>The header of an encoded PDU\<close>

text \<open>Every encoder only appends to the buffer.\<close>

lemma fold_io_prefix:
  assumes "fold_io f xs s = Ok t" "\<And>x s t. x \<in> set xs \<Longrightarrow> f x s = Ok t \<Longrightarrow> prefix s t"
  shows "prefix s t"
  using assms
proof (induction xs arbitrary: s)
  case (Cons x xs)
  then obtain u where "f x s = Ok u" "fold_io f xs u = Ok t" by (auto simp: try_ok_eq_Ok)
  with Cons show ?case by (meson list.set_intros prefix_order.trans)
qed simp

lemma encode_dest_address_prefix: "encode_dest_address v buf = Ok b \<Longrightarrow> prefix buf b"
  by (auto simp: encode_dest_address_def write_defs Let_def split: json.splits option.splits)

lemma encode_uint_prefix: "encode_uint f msg v buf = Ok b \<Longrightarrow> prefix buf b"
  by (auto simp: encode_uint_def split: option.splits)

lemma encode_c_octet_str_prefix: "encode_c_octet_str n v buf = Ok b \<Longrightarrow> prefix buf b"
  by (cases v) (auto simp: encode_c_octet_str_def write_defs try_ok_eq_Ok)

lemma encode_octet_prefix: "encode_octet E i k v buf = Ok b \<Longrightarrow> prefix buf b"
  by (cases v) (auto simp: encode_octet_def write_length_eq write_defs Let_def)

lemma counted_prefix:
  assumes "fold_io f arr (write_u8 n buf) = Ok b" "\<And>x s t. x \<in> set arr \<Longrightarrow> f x s = Ok t \<Longrightarrow> prefix s t"
  shows "prefix buf b"
proof -
  have "prefix (write_u8 n buf) b" using assms by (rule fold_io_prefix)
  then show ?thesis by (auto simp: write_defs dest: append_prefixD)
qed

lemma encode_prefix: "encode E c v buf = Ok b \<Longrightarrow> prefix buf b"
proof (induction c arbitrary: v buf b)
  case (ArrayFieldCodec c)
  then show ?case by (cases v) (auto split: if_splits intro: counted_prefix)
next
  case (CompositeFieldCodec fs)
  have "prefix s t" if "f \<in> set fs"
    "(case jget (fst f) v of Some x \<Rightarrow> encode E (snd f) x s | None \<Rightarrow> inval (''Missing field '' @ [CHR 0x27] @ fst f @ [CHR 0x27] @ '' for encoding'')) = Ok t" for f s t
    using that CompositeFieldCodec.IH [OF that(1), of "snd f"] by (auto simp: snds.intros split: option.splits)
  then show ?case using CompositeFieldCodec.prems
    by (intro fold_io_prefix [of _ fs buf b]) (auto simp: case_prod_unfold)
next
  case DestAddressesFieldCodec
  then show ?case
    by (cases v) (auto simp: encode_dest_addresses_def intro: counted_prefix encode_dest_address_prefix)
qed (auto simp: encode_uint_prefix encode_c_octet_str_prefix encode_octet_prefix
      encode_dest_address_prefix write_defs split: option.splits if_splits)

lemma encode_field_prefix: "encode_field E v f buf = Ok b \<Longrightarrow> prefix buf b"
  by (auto simp: encode_field_def encode_prefix split: option.splits)

lemma encode_tlv_field_prefix: "encode_tlv_field E v c buf = Ok b \<Longrightarrow> prefix buf b"
  by (auto simp: encode_tlv_field_def tlv_encode_def write_defs split: option.splits outcome.splits)

lemma from_json_prefix:
  assumes "from_json E order v = Ok p" "extract_command_id v = Some c"
  obtains bs rest where "update_length (SMPPMessage_of bs) = (Ok p :: SMPPMessage io)"
    "bs = write_header_number ''sequence_number'' v (write_header_number ''command_status'' v
            (u32_be 0 @ u32_be (CommandId_as_u32 c))) @ rest"
proof -
  let ?buf = "write_header_number ''sequence_number'' v (write_header_number ''command_status'' v
            (u32_be 0 @ u32_be (CommandId_as_u32 c)))"
  obtain fs b1 b2 where "fold_io (encode_field E v) fs ?buf = Ok b1"
    "fold_io (encode_tlv_field E v) order b1 = Ok b2"
    "update_length (SMPPMessage_of b2) = (Ok p :: SMPPMessage io)"
    using assms
    by (auto simp: from_json_def encode_message_with_fields_def Let_def try_ok_eq_Ok write_u32_def
        split: option.splits)
  moreover have "prefix ?buf b1" "prefix b1 b2"
    using calculation(1,2) by (meson fold_io_prefix encode_field_prefix encode_tlv_field_prefix)+
  ultimately show ?thesis using that by (meson prefix_def prefix_order.trans)
qed

definition header_number :: "string \<Rightarrow> json \<Rightarrow> u32 option" where
  "header_number k v =
     (case jget k v of None \<Rightarrow> Some 0 | Some x \<Rightarrow> map_option ucast (as_u64 x))"

lemma write_header_number_eq:
  "write_header_number k v buf =
     buf @ (case header_number k v of Some n \<Rightarrow> u32_be n | None \<Rightarrow> [])"
  by (auto simp: write_header_number_def header_number_def write_defs split: option.splits)

lemma u32_at_append:
  "k = length xs \<Longrightarrow> u32_at k (xs @ u32_be w @ ys) = Some w"
  by (simp add: u32_at_def wire_simps)

lemma update_length_bytes:
  assumes "update_length (SMPPMessage_of (u32_be w @ rest)) = Ok p"
  shows "message p = u32_be (word_of_nat (4 + length rest)) @ rest"
  using assms by (auto simp: update_length_def put_u32_at_def outcome_elims)

lemma from_json_bytes:
  assumes "from_json E order v = Ok p" "extract_command_id v = Some c"
  obtains rest where "message p = u32_be (word_of_nat (length (message p))) @ u32_be (CommandId_as_u32 c)
      @ (case header_number ''command_status'' v of Some n \<Rightarrow> u32_be n | None \<Rightarrow> [])
      @ (case header_number ''sequence_number'' v of Some n \<Rightarrow> u32_be n | None \<Rightarrow> []) @ rest"
proof -
  obtain bs rest where bs: "update_length (SMPPMessage_of bs) = (Ok p :: SMPPMessage io)"
    "bs = write_header_number ''sequence_number'' v (write_header_number ''command_status'' v
            (u32_be 0 @ u32_be (CommandId_as_u32 c))) @ rest"
    using assms by (rule from_json_prefix)
  let ?tail = "u32_be (CommandId_as_u32 c)
      @ (case header_number ''command_status'' v of Some n \<Rightarrow> u32_be n | None \<Rightarrow> [])
      @ (case header_number ''sequence_number'' v of Some n \<Rightarrow> u32_be n | None \<Rightarrow> []) @ rest"
  have "update_length (SMPPMessage_of (u32_be 0 @ ?tail)) = (Ok p :: SMPPMessage io)"
    using bs by (simp add: write_header_number_eq)
  then have "message p = u32_be (word_of_nat (4 + length ?tail)) @ ?tail"
    by (rule update_length_bytes)
  moreover from this have "length (message p) = 4 + length ?tail" by simp
  ultimately show ?thesis using that [of rest] by simp
qed

lemma four_words:
  "u32_at 0 (u32_be a @ bs) = Some a" "u32_at 4 (u32_be a @ u32_be b @ bs) = Some b"
  "u32_at 8 (u32_be a @ u32_be b @ u32_be c @ bs) = Some c"
  "u32_at 12 (u32_be a @ u32_be b @ u32_be c @ u32_be d @ bs) = Some d"
  using u32_at_append [of 0 "[]" a bs] u32_at_append [of 4 "u32_be a" b bs]
    u32_at_append [of 8 "u32_be a @ u32_be b" c bs]
    u32_at_append [of 12 "u32_be a @ u32_be b @ u32_be c" d bs] by simp_all

lemma from_json_words:
  assumes "from_json E order v = Ok p" "extract_command_id v = Some c"
    "header_number ''command_status'' v = Some st" "header_number ''sequence_number'' v = Some sq"
  shows "u32_at 0 (message p) = Some (word_of_nat (SMPPMessage_len p))
    \<and> get_command_id p = Some (CommandId_as_u32 c)
    \<and> get_command_status p = Some st \<and> get_sequence_number p = Some sq \<and> 16 \<le> SMPPMessage_len p"
proof -
  obtain rest where p: "message p = u32_be (word_of_nat (length (message p))) @ u32_be (CommandId_as_u32 c)
      @ u32_be st @ u32_be sq @ rest"
    using from_json_bytes [OF assms(1,2)] assms(3,4) by force
  let ?b = "u32_be (word_of_nat (length (message p))) @ u32_be (CommandId_as_u32 c) @ u32_be st @ u32_be sq @ rest"
  have "u32_at 0 ?b = Some (word_of_nat (length (message p)))" "u32_at 4 ?b = Some (CommandId_as_u32 c)"
    "u32_at 8 ?b = Some st" "u32_at 12 ?b = Some sq" "16 \<le> length ?b"
    by (simp_all only: four_words) simp
  then show ?thesis
    unfolding SMPPMessage_len_def get_command_id_def get_command_status_def get_sequence_number_def
    using p by metis
qed

section \<open>Panics\<close>

text \<open>No octet sequence makes a decoder panic.\<close>

lemma repeat_io_no_panic:
  "(\<And>b. fst (d b) \<noteq> Panic) \<Longrightarrow> fst (repeat_io d n buf) \<noteq> Panic"
proof (induction n arbitrary: buf)
  case (Suc n)
  obtain r b1 where r: "d buf = (r, b1)" by fastforce
  obtain q b2 where q: "repeat_io d n b1 = (q, b2)" by fastforce
  have "r \<noteq> Panic" "q \<noteq> Panic" using Suc.prems [of buf] Suc.IH [OF Suc.prems, of b1] r q by simp_all
  then show ?case by (cases r; cases q) (simp_all add: r q)
qed simp

lemma decode_composite_no_panic:
  "(\<And>f b. f \<in> set fs \<Longrightarrow> fst (d (snd f) b) \<noteq> Panic) \<Longrightarrow> fst (decode_composite d fs m buf) \<noteq> Panic"
proof (induction fs arbitrary: m buf)
  case (Cons f fs)
  obtain r b1 where r: "d (snd f) buf = (r, b1)" by fastforce
  have "r \<noteq> Panic" using Cons.prems [of f buf] r by simp
  with Cons r show ?case by (cases f; cases r) simp_all
qed simp

lemma decode_dest_address_no_panic: "fst (decode_dest_address buf) \<noteq> Panic"
  by (simp add: decode_dest_address_def Let_def split: prod.split option.split)

lemma decode_no_panic: "fst (decode E c buf) \<noteq> Panic"
proof (induction c arbitrary: buf)
  case (ArrayFieldCodec c)
  obtain n b1 where n: "read_u8 buf = (n, b1)" by fastforce
  obtain r b2 where r: "repeat_io (decode E c) (unat (the n)) b1 = (r, b2)" by fastforce
  have "r \<noteq> Panic" using repeat_io_no_panic [where d = "decode E c" and n = "unat (the n)" and buf = b1] ArrayFieldCodec r by simp
  then show ?case by (cases n; cases r) (use n r in simp_all)
next
  case (CompositeFieldCodec fs)
  have "fst (decode E (snd f) b) \<noteq> Panic" if "f \<in> set fs" for f b
    using CompositeFieldCodec [OF that, of "snd f"] by (simp add: snds.intros)
  then show ?case by (simp add: decode_composite_no_panic)
next
  case DestAddressesFieldCodec
  obtain n b1 where n: "read_u8 buf = (n, b1)" by fastforce
  obtain r b2 where r: "repeat_io decode_dest_address (unat (the n)) b1 = (r, b2)" by fastforce
  have "r \<noteq> Panic"
    using repeat_io_no_panic [where d = decode_dest_address and n = "unat (the n)" and buf = b1]
      decode_dest_address_no_panic r by simp
  then show ?case by (cases n; cases r) (use n r in \<open>simp_all add: decode_dest_addresses_def\<close>)
qed (simp_all add: decode_uint_def decode_c_octet_str_def decode_octet_def decode_dest_address_no_panic
      split: prod.split option.split)

lemma decode_fields_no_panic: "fst (decode_fields E fs m buf) \<noteq> Panic"
proof (induction fs arbitrary: m buf)
  case (Cons f fs)
  show ?case
  proof (cases "FIELD_CODECS (fst f)")
    case (Some c)
    obtain r b1 where r: "decode E c buf = (r, b1)" by fastforce
    have "r \<noteq> Panic" using decode_no_panic [of E c buf] r by simp
    with Cons r Some show ?thesis by (cases r) simp_all
  qed simp
qed simp

lemma tlv_decode_no_panic: "fst (tlv_decode E c buf) \<noteq> Panic"
  by (auto simp: tlv_decode_def decode_no_panic split: prod.splits option.splits)

lemma decode_tlvs_no_panic: "decode_tlvs E m buf \<noteq> Panic"
proof (induction E m buf rule: decode_tlvs.induct)
  case (1 E m buf)
  show ?case
  proof (cases "peek_tlv_tag buf")
    case None
    then show ?thesis by (simp add: decode_tlvs.simps [of E m buf])
  next
    case t: (Some t)
    show ?thesis
    proof (cases "TAGGED_TLV_FIELDS t")
      case None
      with t show ?thesis by (simp add: decode_tlvs.simps [of E m buf])
    next
      case c: (Some c)
      show ?thesis using 1 [OF t c] t c tlv_decode_no_panic [of E c buf]
        by (cases "fst (tlv_decode E c buf)") (simp_all add: decode_tlvs.simps [of E m buf])
    qed
  qed
qed

text \<open>What a decoder returns is well-formed.\<close>

lemma repeat_io_wf:
  "(\<And>b v b1. d b = (Ok v, b1) \<Longrightarrow> json_wf v) \<Longrightarrow> repeat_io d n buf = (Ok vs, b2) \<Longrightarrow> \<forall>v\<in>set vs. json_wf v"
proof (induction n arbitrary: buf vs)
  case (Suc n)
  obtain r b1 where r: "d buf = (r, b1)" by fastforce
  obtain q b3 where q: "repeat_io d n b1 = (q, b3)" by fastforce
  show ?case
  proof (cases r; cases q)
    fix x xs assume rq: "r = Ok x" "q = Ok xs"
    then have "vs = x # xs" using Suc.prems(2) r q by simp
    moreover have "json_wf x" using Suc.prems(1) r rq by blast
    moreover have "\<forall>v\<in>set xs. json_wf v" using Suc.IH [of b1 xs] Suc.prems r q rq \<open>vs = x # xs\<close> by simp
    ultimately show ?thesis by simp
  qed (use Suc.prems(2) r q in simp_all)
qed simp

lemma decode_composite_wf:
  assumes "\<And>f b v b1. f \<in> set fs \<Longrightarrow> d (snd f) b = (Ok v, b1) \<Longrightarrow> json_wf v"
    "json_wf (JObject m)" "decode_composite d fs m buf = (Ok v, b2)"
  shows "json_wf v"
  using assms
proof (induction fs arbitrary: m buf)
  case (Cons f fs)
  obtain r b1 where r: "d (snd f) buf = (r, b1)" by fastforce
  obtain x where x: "r = Ok x" using Cons.prems(3) r by (cases f; cases r) simp_all
  then have "json_wf (JObject (btree_insert (fst f) x m))"
    using Cons.prems(1) [of f] Cons.prems(2) r by (intro json_wf_insert) auto
  moreover have "decode_composite d fs (btree_insert (fst f) x m) b1 = (Ok v, b2)"
    using Cons.prems(3) r x by (cases f) simp
  ultimately show ?case using Cons.IH Cons.prems(1) by (meson list.set_intros(2))
qed auto

lemma jobject_wf: "\<forall>f\<in>set fs. json_wf (snd f) \<Longrightarrow> json_wf (jobject fs)"
  unfolding jobject_def by (rule json_wf_insert_all) simp_all

lemma jnum_wf [simp]: "json_wf (jnum w)"
  by (simp add: jnum_def)

lemma decode_dest_address_wf: "decode_dest_address buf = (Ok v, b1) \<Longrightarrow> json_wf v"
  by (auto simp: decode_dest_address_def sme_address_json_def dl_name_json_def Let_def jobject_wf
      split: prod.splits option.splits if_splits)

lemma decode_wf: "decode E c buf = (Ok v, b1) \<Longrightarrow> json_wf v"
proof (induction c arbitrary: buf v b1)
  case (ArrayFieldCodec c)
  obtain n b2 where n: "read_u8 buf = (n, b2)" by fastforce
  obtain r b3 where r: "repeat_io (decode E c) (unat (the n)) b2 = (r, b3)" by fastforce
  have "\<forall>v\<in>set vs. json_wf v" if "r = Ok vs" for vs
    by (rule repeat_io_wf [where d = "decode E c" and buf = b2, OF _ r [unfolded that]]) (rule ArrayFieldCodec.IH)
  then show ?case using ArrayFieldCodec.prems n r by (cases n; cases r) auto
next
  case (CompositeFieldCodec fs)
  have "json_wf x" if "f \<in> set fs" "decode E (snd f) b = (Ok x, b')" for f b x b'
    using CompositeFieldCodec.IH [OF that(1), of "snd f" b x b'] that by (simp add: snds.intros)
  then show ?case
    by (rule decode_composite_wf [where d = "decode E" and fs = fs and m = "[]"])
      (use CompositeFieldCodec.prems in simp_all)
next
  case DestAddressesFieldCodec
  obtain n b2 where n: "read_u8 buf = (n, b2)" by fastforce
  obtain r b3 where r: "repeat_io decode_dest_address (unat (the n)) b2 = (r, b3)" by fastforce
  have "\<forall>v\<in>set vs. json_wf v" if "r = Ok vs" for vs
    by (rule repeat_io_wf [where d = decode_dest_address and buf = b2, OF _ r [unfolded that]]) (rule decode_dest_address_wf)
  then show ?case using DestAddressesFieldCodec n r
    by (cases n; cases r) (auto simp: decode_dest_addresses_def)
next
  case (OctetFieldCodec i k)
  then show ?case by (auto simp: decode_octet_def split: prod.splits option.splits if_splits)
next
  case (COctetStrFieldCodec m)
  then show ?case by (auto simp: decode_c_octet_str_def split: prod.splits option.splits)
next
  case DestAddressFieldCodec
  then show ?case by (auto dest: decode_dest_address_wf)
qed (auto simp: decode_uint_def split: prod.splits option.splits)

lemma decode_fields_wf:
  "json_wf (JObject m) \<Longrightarrow> decode_fields E fs m buf = (Ok n, b) \<Longrightarrow> json_wf (JObject n)"
proof (induction fs arbitrary: m buf)
  case (Cons f fs)
  obtain c r b1 where c: "FIELD_CODECS (fst f) = Some c" "decode E c buf = (r, b1)"
    using Cons.prems(2) by (cases "FIELD_CODECS (fst f)") (auto split: prod.splits)
  obtain x where x: "r = Ok x" using Cons.prems(2) c by (cases r) simp_all
  then have "json_wf (JObject (btree_insert (fst f) x m))"
    using decode_wf c Cons.prems(1) by (metis json_wf_insert)
  moreover have "decode_fields E fs (btree_insert (fst f) x m) b1 = (Ok n, b)"
    using Cons.prems(2) c x by simp
  ultimately show ?case by (rule Cons.IH)
qed simp

lemma tlv_decode_wf: "fst (tlv_decode E c buf) = Ok v \<Longrightarrow> json_wf v"
  by (auto simp: tlv_decode_def split: prod.splits option.splits if_splits) (metis decode_wf prod.collapse)

text \<open>Errors of the decoder.\<close>

definition is_inval :: "'a io \<Rightarrow> bool" where
  "is_inval r = (\<exists>e. r = inval e)"

lemma is_inval_simps [simp]:
  "is_inval (Err e) \<longleftrightarrow> (\<exists>m. e = IoError InvalidInput m)" "\<not> is_inval (Ok x)" "\<not> is_inval Panic"
  by (auto simp: is_inval_def)

lemma decode_tlvs_result:
  assumes "json_wf (JObject m)"
  shows "is_inval (decode_tlvs E m buf) \<or> (\<exists>n. decode_tlvs E m buf = Ok n \<and> json_wf (JObject n))"
  using assms
proof (induction E m buf rule: decode_tlvs.induct)
  case (1 E m buf)
  show ?case
  proof (cases "peek_tlv_tag buf")
    case None
    then show ?thesis using 1 by (simp add: decode_tlvs.simps [of E m buf])
  next
    case t: (Some t)
    show ?thesis
    proof (cases "TAGGED_TLV_FIELDS t")
      case None
      with t show ?thesis by (simp add: decode_tlvs.simps [of E m buf])
    next
      case c: (Some c)
      show ?thesis
      proof (cases "fst (tlv_decode E c buf)")
        case (Ok v)
        then have "json_wf (JObject (btree_insert (tlv_name c) v m))"
          using tlv_decode_wf "1.prems" by (metis json_wf_insert)
        from 1(1) [OF t c Ok this] show ?thesis using t c Ok by (simp add: decode_tlvs.simps [of E m buf])
      next
        case (Err e)
        have "json_wf (JObject (btree_insert (tlv_name c) JNull m))"
          using "1.prems" json_wf.simps(3) by (metis json_wf_insert)
        from 1(2) [OF t c Err this] show ?thesis using t c Err by (simp add: decode_tlvs.simps [of E m buf])
      qed (use tlv_decode_no_panic in blast)
    qed
  qed
qed

lemma decode_fields_result:
  "is_inval (fst (decode_fields E fs m buf)) \<or> (\<exists>n. fst (decode_fields E fs m buf) = Ok n)"
proof (induction fs arbitrary: m buf)
  case (Cons f fs)
  show ?case
  proof (cases "FIELD_CODECS (fst f)")
    case (Some c)
    obtain r b1 where r: "decode E c buf = (r, b1)" by fastforce
    have "r \<noteq> Panic" using decode_no_panic [of E c buf] r by simp
    with Cons r Some show ?thesis by (cases r) simp_all
  qed simp
qed simp

lemma to_json_body:
  assumes "json_wf (JObject m)"
  shows "is_inval (case decode_fields E fs m buf of
            (Ok m, b5) \<Rightarrow> map_ok JObject (decode_tlvs E m b5) | (Err e, _) \<Rightarrow> Err e | (Panic, _) \<Rightarrow> Panic)
    \<or> (\<exists>n. (case decode_fields E fs m buf of
            (Ok m, b5) \<Rightarrow> map_ok JObject (decode_tlvs E m b5) | (Err e, _) \<Rightarrow> Err e | (Panic, _) \<Rightarrow> Panic)
          = Ok (JObject n) \<and> json_wf (JObject n))"
proof -
  obtain r b5 where r: "decode_fields E fs m buf = (r, b5)" by fastforce
  show ?thesis
  proof (cases r)
    case (Ok n)
    then have "json_wf (JObject n)" using assms r decode_fields_wf by metis
    from decode_tlvs_result [OF this, of E b5] show ?thesis
      using r Ok by (cases "decode_tlvs E n b5") auto
  qed (use decode_fields_result [of E fs m buf] r in simp_all)
qed

lemma to_json_result:
  "is_inval (to_json E p) \<or> (\<exists>m. to_json E p = Ok (JObject m) \<and> json_wf (JObject m))"
proof -
  obtain a b1 c b2 s b3 q b4 where r: "read_u32 (message p) = (a, b1)" "read_u32 b1 = (c, b2)"
    "read_u32 b2 = (s, b3)" "read_u32 b3 = (q, b4)" by (metis prod.exhaust)
  have wf: "json_wf (JObject (insert_all [(''command_name'', JString n), (''command_id'', JString i),
      (''command_status'', jnum (st :: u32)), (''sequence_number'', jnum (sq :: u32))] []))" for n i st sq
    by (rule json_wf_insert_all) auto
  show ?thesis
  proof (cases q)
    case None
    then show ?thesis by (simp add: to_json_def r)
  next
    case (Some sq)
    then show ?thesis using to_json_body [OF wf]
      by (simp add: to_json_def r Let_def del: json_wf.simps insert_all.simps split: option.split)
  qed
qed

lemma to_json_no_panic: "to_json E p \<noteq> Panic"
  using to_json_result [of E p] by auto

text \<open>A JSON value all of whose texts are ASCII, so that truncating them cannot split a character.\<close>

fun json_ascii :: "json \<Rightarrow> bool" where
  "json_ascii (JString s) = is_ascii s"
| "json_ascii (JArray vs) = (\<forall>v\<in>set vs. json_ascii v)"
| "json_ascii (JObject m) = (\<forall>p\<in>set m. json_ascii (snd p))"
| "json_ascii _ = True"

lemma jget_ascii: "json_ascii v \<Longrightarrow> jget k v = Some x \<Longrightarrow> json_ascii x"
  by (cases v) (force dest: map_of_SomeD)+

lemma fold_io_no_panic:
  "(\<And>x s. x \<in> set xs \<Longrightarrow> f x s \<noteq> Panic) \<Longrightarrow> fold_io f xs s \<noteq> Panic"
proof (induction xs arbitrary: s)
  case (Cons x xs)
  then show ?case by (cases "f x s") auto
qed simp

lemma encode_dest_address_no_panic: "encode_dest_address v buf \<noteq> Panic"
  by (auto simp: encode_dest_address_def Let_def split: json.splits option.splits)

lemma encode_c_octet_str_no_panic: "json_ascii v \<Longrightarrow> encode_c_octet_str n v buf \<noteq> Panic"
  by (cases v) (auto simp: encode_c_octet_str_def str_slice_ascii)

lemma encode_no_panic: "json_ascii v \<Longrightarrow> encode E c v buf \<noteq> Panic"
proof (induction c arbitrary: v buf)
  case (ArrayFieldCodec c)
  then show ?case by (cases v) (auto intro!: fold_io_no_panic)
next
  case (CompositeFieldCodec fs)
  have "encode E (snd f) x b \<noteq> Panic" if "f \<in> set fs" "jget (fst f) v = Some x" for f x b
    using that CompositeFieldCodec by (metis jget_ascii snds.intros)
  then show ?case by (auto split: option.splits intro!: fold_io_no_panic)
next
  case DestAddressesFieldCodec
  then show ?case
    by (cases v) (auto simp: encode_dest_addresses_def encode_dest_address_no_panic intro!: fold_io_no_panic)
next
  case (OctetFieldCodec i k)
  then show ?case by (cases v) (simp_all add: encode_octet_def Let_def)
qed (simp_all add: encode_uint_def encode_c_octet_str_no_panic encode_dest_address_no_panic split: option.split)

lemma try_ok_PanicE:
  assumes "try_ok r f = Panic" obtains "r = Panic" | x where "r = Ok x" "f x = Panic"
  using assms by (cases r) auto

lemma map_err_Panic [simp]: "map_err f r = Panic \<longleftrightarrow> r = Panic"
  by (cases r) auto

lemma command_defaults_ascii:
  assumes "MESSAGE_COMMAND_FIELDS w = Some fs" "f \<in> set fs" "snd f = Some d"
  shows "json_ascii d"
proof -
  have all: "list_all (\<lambda>p. list_all (\<lambda>f. case snd f of None \<Rightarrow> True | Some d \<Rightarrow> json_ascii d) (snd p)) create_command_fields"
    by code_simp
  obtain c where "(c, fs) \<in> set create_command_fields" using assms(1) by (rule command_fields_Some)
  with all assms(2,3) show ?thesis by (fastforce simp: list_all_iff)
qed

lemma encode_field_no_panic:
  assumes "json_ascii v" "\<And>d. snd f = Some d \<Longrightarrow> json_ascii d"
  shows "encode_field E v f b \<noteq> Panic"
  using assms encode_no_panic jget_ascii
  by (auto simp: encode_field_def split: option.splits)

lemma encode_tlv_field_no_panic:
  assumes "json_ascii v" shows "encode_tlv_field E v c b \<noteq> Panic"
  using assms encode_no_panic jget_ascii
  by (auto simp: encode_tlv_field_def tlv_encode_def split: option.splits outcome.splits)

section \<open>Properties\<close>

text \<open>
  C4.  Decoding inverts encoding: a canonical JSON message is encoded into a PDU that decodes
  to the same message, whatever order the hash map of optional parameters is walked in.
\<close>

theorem message_round_trip:
  assumes "message_ok E v" "tlv_order order"
  shows "\<exists>p. from_json E order v = Ok p \<and> to_json E p = Ok v"
  using assms by (rule canonical_round_trip)

theorem message_round_trip_witness:
  "message_ok std_base64 sample_submit_sm \<and> tlv_order (rev create_tlv_fields) \<and>
   (\<exists>p. from_json std_base64 (rev create_tlv_fields) sample_submit_sm = Ok p \<and>
        to_json std_base64 p = Ok sample_submit_sm)"
  using message_round_trip [OF sample_submit_sm_ok tlv_order_rev] sample_submit_sm_ok tlv_order_rev
  by blast



text \<open>
  A command status that is present but not an unsigned number (for instance the text
  \<open>0x00000000\<close> that \<^verbatim>\<open>command_id\<close> would accept) is silently left out of the header: the
  sequence number lands in the place of the command status.
\<close>

theorem from_json_text_status:
  assumes "from_json E order v = Ok p" "extract_command_id v = Some c"
    "get_str ''command_status'' v = Some s" "header_number ''sequence_number'' v = Some sq"
  shows "get_command_status p = Some sq"
proof -
  have "header_number ''command_status'' v = None"
    using assms(3) by (simp add: get_str_Some header_number_def)
  then obtain rest where p: "message p = u32_be (word_of_nat (length (message p))) @ u32_be (CommandId_as_u32 c)
      @ u32_be sq @ rest"
    using from_json_bytes [OF assms(1,2)] assms(4) by force
  have "u32_at 8 (u32_be (word_of_nat (length (message p))) @ u32_be (CommandId_as_u32 c) @ u32_be sq @ rest) = Some sq"
    by (simp only: four_words)
  then show ?thesis unfolding get_command_status_def using p by metis
qed

definition text_status_message :: json where
  "text_status_message = jobject
    [(''command_name'', JString ''EnquireLink''), (''command_status'', JString ''0x00000000''),
     (''sequence_number'', JNumber (PosInt 3))]"

lemma text_status_encoded:
  "from_json std_base64 create_tlv_fields text_status_message
     = Ok (SMPPMessage_of [0, 0, 0, 12, 0, 0, 0, 0x15, 0, 0, 0, 3])"
  by code_simp

theorem from_json_text_status_witness:
  "get_command_status (SMPPMessage_of [0, 0, 0, 12, 0, 0, 0, 0x15, 0, 0, 0, 3]) = Some 3"
proof (rule from_json_text_status [OF text_status_encoded])
  show "extract_command_id text_status_message = Some EnquireLink" by code_simp
  show "get_str ''command_status'' text_status_message = Some ''0x00000000''" by code_simp
  show "header_number ''sequence_number'' text_status_message = Some 3" by code_simp
qed


text \<open>
  C31.  Encoding never panics on a message whose texts are ASCII.  (A longer text with multi-byte
  characters can panic: see \<open>from_json_panics\<close>.)
\<close>

theorem from_json_no_panic:
  assumes "json_ascii v" shows "from_json E order v \<noteq> Panic"
proof -
  have "encode_message_with_fields E order w v \<noteq> Panic" for w
  proof (cases "MESSAGE_COMMAND_FIELDS w")
    case None
    then show ?thesis by (simp add: encode_message_with_fields_def)
  next
    case (Some fs)
    let ?buf = "write_header_number ''sequence_number'' v (write_header_number ''command_status'' v
            (write_u32 w (write_u32 0 [])))"
    have "fold_io (encode_field E v) fs ?buf \<noteq> Panic"
      by (intro fold_io_no_panic encode_field_no_panic assms) (rule command_defaults_ascii [OF Some])
    moreover have "fold_io (encode_tlv_field E v) order b \<noteq> Panic" for b
      by (intro fold_io_no_panic encode_tlv_field_no_panic assms)
    moreover have "update_length (SMPPMessage_of b2) \<noteq> Panic"
      if "fold_io (encode_field E v) fs ?buf = Ok b1" "fold_io (encode_tlv_field E v) order b1 = Ok b2" for b1 b2
    proof -
      have "prefix ?buf b1" "prefix b1 b2"
        using that by (meson fold_io_prefix encode_field_prefix encode_tlv_field_prefix)+
      then have "length ?buf \<le> length b2" by (meson le_trans prefix_length_le)
      then show ?thesis
        by (simp add: update_length_def put_u32_at_def write_header_number_eq write_defs)
    qed
    ultimately show ?thesis using Some
      by (cases "fold_io (encode_field E v) fs ?buf")
        (auto simp: encode_message_with_fields_def Let_def elim!: try_ok_PanicE)
  qed
  then show ?thesis by (simp add: from_json_def split: option.split)
qed

theorem from_json_no_panic_witness:
  "json_ascii sample_submit_sm \<and> from_json std_base64 create_tlv_fields sample_submit_sm \<noteq> Panic"
proof -
  have "json_ascii sample_submit_sm" by code_simp
  then show ?thesis using from_json_no_panic by blast
qed

definition wide_address_message :: json where
  "wide_address_message = jobject
    [(''command_name'', JString ''QuerySm''), (''message_id'', JString ''7''),
     (''source_addr'', JString (replicate 20 CHR ''1'' @ [CHR 0xC3, CHR 0xBC]))]"

text \<open>
  A text that is cut inside a multi-byte character panics: an address of 22
  octets whose limit of 21 falls inside the two octets of a character.
\<close>

theorem from_json_panics: "from_json E order wide_address_message = Panic"
  by code_simp

end
