(* ===== verification/Framing.thy ===== *)
theory Framing
  imports Message_Laws
begin

text \<open>
  The receive loops of the client and of the server: octets read from the connection are
  appended to the receive buffer and complete PDUs are split off it.  The loops have no bound
  of their own (a PDU that announces the length zero keeps them running for ever), so they are
  partial functions: \<open>None\<close> is a loop that never returns.  The theorems show that a stream
  of well-formed PDUs is recovered however the connection cuts it into reads.
\<close>

section \<open>Splitting the receive buffer\<close>

text \<open>\<^verbatim>\<open>while let Some(message) = buffer.extract_message()\<close>\<close>

partial_function (option) extract_all ::
    "SmppMessageBuffer \<Rightarrow> (SMPPMessage list \<times> SmppMessageBuffer) option" where
  "extract_all b =
     (case extract_message b of
        (None, b1) \<Rightarrow> Some ([], b1)
      | (Some m, b1) \<Rightarrow> Option.bind (extract_all b1) (\<lambda>(ms, b2). Some (m # ms, b2)))"

text \<open>The result of \<^verbatim>\<open>try_read\<close>; \<open>ReadData []\<close> is the end of the stream.\<close>

datatype read_result = ReadData bytes | WouldBlock | ReadError io_error

definition read_messages ::
    "read_result \<Rightarrow> SmppMessageBuffer \<Rightarrow> (SMPPMessage list option io \<times> SmppMessageBuffer) option" where
  "read_messages r b =
     (case r of
        WouldBlock \<Rightarrow> Some (Ok None, b)
      | ReadError e \<Rightarrow> Some (Err e, b)
      | ReadData data \<Rightarrow>
          if data = [] then Some (Err (IoError UnexpectedEof ''SMSC connection closed''), b)
          else Option.bind (extract_all (SmppMessageBuffer_write data b))
                 (\<lambda>(ms, b1). Some (Ok (Some ms), b1)))"

text \<open>The messages of a sequence of reads that deliver data.\<close>

fun read_stream :: "bytes list \<Rightarrow> SmppMessageBuffer \<Rightarrow> (SMPPMessage list \<times> SmppMessageBuffer) option" where
  "read_stream [] b = Some ([], b)"
| "read_stream (c # cs) b =
     (case read_messages (ReadData c) b of
        Some (Ok (Some ms), b1) \<Rightarrow> Option.bind (read_stream cs b1) (\<lambda>(ms', b2). Some (ms @ ms', b2))
      | Some (_, b1) \<Rightarrow> Some ([], b1)
      | None \<Rightarrow> None)"

section \<open>The receive loop of the server\<close>

text \<open>
  The handler \<open>H\<close> updates the state of the server.  A PDU that does not decode is dropped; a
  handler error ends the inner loop and leaves the rest of the buffer for the next read; a panic
  ends the task.
\<close>

partial_function (option) process_buffered ::
    "base64 \<Rightarrow> (json \<Rightarrow> 's \<Rightarrow> unit io \<times> 's) \<Rightarrow> SmppMessageBuffer \<Rightarrow> 's
     \<Rightarrow> (bool \<times> SmppMessageBuffer \<times> 's) option" where
  "process_buffered E H b s =
     (case extract_message b of
        (None, b1) \<Rightarrow> Some (True, b1, s)
      | (Some m, b1) \<Rightarrow>
          (case to_json E m of
             Ok decoded_message \<Rightarrow>
               (case H decoded_message s of
                  (Ok _, s1) \<Rightarrow> process_buffered E H b1 s1
                | (Err _, s1) \<Rightarrow> Some (True, b1, s1)
                | (Panic, s1) \<Rightarrow> Some (False, b1, s1))
           | Err _ \<Rightarrow> process_buffered E H b1 s
           | Panic \<Rightarrow> Some (False, b1, s)))"

text \<open>
  The outer loop on the reads of one connection.  The first component of the result tells
  whether the loop has ended regularly (\<open>Some True\<close>), by a panic (\<open>Some False\<close>) or still waits
  for the next read (\<open>None\<close>).  At its regular end the client is removed from the client
  manager, \<open>close\<close>.
\<close>

fun server_run ::
    "base64 \<Rightarrow> (json \<Rightarrow> 's \<Rightarrow> unit io \<times> 's) \<Rightarrow> ('s \<Rightarrow> 's) \<Rightarrow> read_result list \<Rightarrow> SmppMessageBuffer \<Rightarrow> 's
     \<Rightarrow> (bool option \<times> SmppMessageBuffer \<times> 's) option" where
  "server_run E H close [] b s = Some (None, b, s)"
| "server_run E H close (WouldBlock # rs) b s = server_run E H close rs b s"
| "server_run E H close (ReadError e # rs) b s = Some (Some True, b, close s)"
| "server_run E H close (ReadData data # rs) b s =
     (if data = [] then Some (Some True, b, close s)
      else case process_buffered E H (SmppMessageBuffer_write data b) s of
             Some (True, b1, s1) \<Rightarrow> server_run E H close rs b1 s1
           | Some (False, b1, s1) \<Rightarrow> Some (Some False, b1, s1)
           | None \<Rightarrow> None)"

section \<open>Extraction of one PDU\<close>

definition pdu_ok :: "bytes \<Rightarrow> bool" where
  "pdu_ok p = (16 \<le> length p \<and> length p < 2 ^ 32 \<and> u32_at 0 p = Some (word_of_nat (length p)))"

definition incomplete :: "bytes \<Rightarrow> bool" where
  "incomplete t = (length t < 16 \<or> length t < unat (the (u32_at 0 t)))"

lemma u32_at_0_append: "4 \<le> length p \<Longrightarrow> u32_at 0 (p @ q) = u32_at 0 p"
  by (cases p rule: read_u32.cases) (simp_all add: u32_at_def)

lemma extract_message_pdu:
  assumes "pdu_ok p"
  shows "extract_message \<lparr>buffer = p @ rest\<rparr> = (Some (SMPPMessage_of p), \<lparr>buffer = rest\<rparr>)"
proof -
  have "unat (word_of_nat (length p) :: u32) = length p"
    using assms by (simp add: pdu_ok_def unat_of_nat)
  then show ?thesis using assms
    by (simp add: extract_message_def pdu_ok_def u32_at_0_append)
qed

lemma extract_message_incomplete: "incomplete t \<Longrightarrow> extract_message \<lparr>buffer = t\<rparr> = (None, \<lparr>buffer = t\<rparr>)"
  by (auto simp: extract_message_def incomplete_def Let_def)

lemma extract_message_None: "extract_message b = (None, b1) \<Longrightarrow> b1 = b"
  by (auto simp: extract_message_def Let_def split: if_splits)

text \<open>More octets at the end of the buffer do not change a PDU that is already complete.\<close>

lemma extract_message_more:
  assumes "extract_message \<lparr>buffer = a\<rparr> = (Some m, \<lparr>buffer = r\<rparr>)"
  shows "extract_message \<lparr>buffer = a @ c\<rparr> = (Some m, \<lparr>buffer = r @ c\<rparr>)"
  using assms by (auto simp: extract_message_def Let_def u32_at_0_append split: if_splits)

lemma extract_all_None: "extract_message b = (None, b) \<Longrightarrow> extract_all b = Some ([], b)"
  by (subst extract_all.simps) simp

lemma extract_all_Some:
  "extract_message b = (Some m, b1)
    \<Longrightarrow> extract_all b = Option.bind (extract_all b1) (\<lambda>(ms, b2). Some (m # ms, b2))"
  by (subst extract_all.simps) simp

lemma extract_all_cases:
  assumes "extract_all b = Some (ms, r)"
  obtains "extract_message b = (None, b)" "ms = []" "r = b"
  | m b1 ms1 where "extract_message b = (Some m, b1)" "extract_all b1 = Some (ms1, r)" "ms = m # ms1"
proof (cases "extract_message b")
  case (Pair o' b1)
  show ?thesis
  proof (cases o')
    case None
    then have "extract_message b = (None, b)" using Pair extract_message_None by blast
    moreover from this have "ms = []" "r = b" using assms extract_all_None by auto
    ultimately show ?thesis by (rule that(1))
  next
    case (Some m)
    then have step: "extract_message b = (Some m, b1)" using Pair by simp
    then obtain ms1 where "extract_all b1 = Some (ms1, r)" "ms = m # ms1"
      using assms extract_all_Some [OF step] by (cases "extract_all b1") auto
    with step show ?thesis by (rule that(2))
  qed
qed

text \<open>What is left in the buffer holds no complete PDU.\<close>

lemma extract_all_idle: "extract_all b = Some (ms, r) \<Longrightarrow> extract_all r = Some ([], r)"
proof (induction ms arbitrary: b)
  case Nil
  then show ?case by (cases rule: extract_all_cases) (auto simp: extract_all_None)
next
  case (Cons m ms)
  from Cons.prems show ?case by (cases rule: extract_all_cases) (use Cons.IH in auto)
qed

section \<open>Reads may cut the stream anywhere\<close>

lemma extract_all_shorter:
  assumes "extract_all \<lparr>buffer = a @ c\<rparr> = Some (ms, r)"
  shows "\<exists>ms1 a1. extract_all \<lparr>buffer = a\<rparr> = Some (ms1, \<lparr>buffer = a1\<rparr>) \<and>
    (\<exists>ms2. extract_all \<lparr>buffer = a1 @ c\<rparr> = Some (ms2, r) \<and> ms = ms1 @ ms2)"
  using assms
proof (induction ms arbitrary: a)
  case Nil
  have "fst (extract_message \<lparr>buffer = a\<rparr>) = None"
  proof (rule ccontr)
    assume "fst (extract_message \<lparr>buffer = a\<rparr>) \<noteq> None"
    then obtain m q where "extract_message \<lparr>buffer = a\<rparr> = (Some m, \<lparr>buffer = q\<rparr>)"
      by (metis SmppMessageBuffer.cases not_None_eq prod.exhaust_sel)
    then have "extract_message \<lparr>buffer = a @ c\<rparr> = (Some m, \<lparr>buffer = q @ c\<rparr>)"
      by (rule extract_message_more)
    with Nil show False by (auto simp: extract_all_Some bind_eq_Some_conv split: prod.splits)
  qed
  then have "extract_message \<lparr>buffer = a\<rparr> = (None, \<lparr>buffer = a\<rparr>)"
    by (metis extract_message_None prod.collapse)
  with Nil show ?case by (auto simp: extract_all_None)
next
  case (Cons m ms)
  show ?case
  proof (cases "fst (extract_message \<lparr>buffer = a\<rparr>)")
    case None
    then have "extract_message \<lparr>buffer = a\<rparr> = (None, \<lparr>buffer = a\<rparr>)"
      by (metis extract_message_None prod.collapse)
    with Cons.prems show ?thesis by (auto simp: extract_all_None)
  next
    case (Some m')
    then obtain q where q: "extract_message \<lparr>buffer = a\<rparr> = (Some m', \<lparr>buffer = q\<rparr>)"
      by (metis SmppMessageBuffer.cases prod.collapse)
    then have "extract_message \<lparr>buffer = a @ c\<rparr> = (Some m', \<lparr>buffer = q @ c\<rparr>)"
      by (rule extract_message_more)
    with Cons.prems have "extract_all \<lparr>buffer = q @ c\<rparr> = Some (ms, r)" "m' = m"
      by (auto simp: extract_all_Some bind_eq_Some_conv split: prod.splits)
    with Cons.IH [of q] q show ?thesis by (fastforce simp: extract_all_Some)
  qed
qed

lemma read_stream_extract_all:
  assumes "extract_all \<lparr>buffer = a @ concat cs\<rparr> = Some (ms, r)"
    "extract_all \<lparr>buffer = a\<rparr> = Some ([], \<lparr>buffer = a\<rparr>)" "[] \<notin> set cs"
  shows "read_stream cs \<lparr>buffer = a\<rparr> = Some (ms, r)"
  using assms
proof (induction cs arbitrary: a ms)
  case (Cons c cs)
  then have "extract_all \<lparr>buffer = (a @ c) @ concat cs\<rparr> = Some (ms, r)" by simp
  from extract_all_shorter [OF this] obtain ms1 a1 ms2 where
    1: "extract_all \<lparr>buffer = a @ c\<rparr> = Some (ms1, \<lparr>buffer = a1\<rparr>)" and
    2: "extract_all \<lparr>buffer = a1 @ concat cs\<rparr> = Some (ms2, r)" and ms: "ms = ms1 @ ms2"
    by auto
  have "extract_all \<lparr>buffer = a1\<rparr> = Some ([], \<lparr>buffer = a1\<rparr>)" using 1 by (rule extract_all_idle)
  then have "read_stream cs \<lparr>buffer = a1\<rparr> = Some (ms2, r)" using Cons 2 by simp
  moreover have "c \<noteq> []" using Cons.prems by auto
  ultimately show ?case using 1 ms by (simp add: read_messages_def SmppMessageBuffer_write_def)
qed simp

lemma extract_all_stream:
  assumes "\<forall>p\<in>set ps. pdu_ok p" "incomplete t"
  shows "extract_all \<lparr>buffer = concat ps @ t\<rparr> = Some (map SMPPMessage_of ps, \<lparr>buffer = t\<rparr>)"
  using assms(1)
proof (induction ps)
  case Nil
  then show ?case using assms(2) by (simp add: extract_message_incomplete extract_all_None)
next
  case (Cons p ps)
  have "extract_message \<lparr>buffer = p @ concat ps @ t\<rparr> = (Some (SMPPMessage_of p), \<lparr>buffer = concat ps @ t\<rparr>)"
    using Cons.prems by (intro extract_message_pdu) simp
  with Cons show ?case by (simp add: extract_all_Some)
qed

section \<open>Properties\<close>

text \<open>
  A stream of well-formed PDUs followed by an incomplete one is recovered exactly, however
  the connection cuts it into non-empty reads, and the incomplete tail stays in the buffer.
\<close>

theorem stream_recovered:
  assumes "\<forall>p\<in>set ps. pdu_ok p" "incomplete t" "concat cs = concat ps @ t" "[] \<notin> set cs"
  shows "read_stream cs SmppMessageBuffer_new = Some (map SMPPMessage_of ps, \<lparr>buffer = t\<rparr>)"
proof -
  have "extract_all \<lparr>buffer = [] @ concat cs\<rparr> = Some (map SMPPMessage_of ps, \<lparr>buffer = t\<rparr>)"
    using extract_all_stream [OF assms(1,2)] assms(3) by simp
  moreover have "extract_all \<lparr>buffer = []\<rparr> = Some ([], \<lparr>buffer = []\<rparr>)"
    by (simp add: extract_message_incomplete extract_all_None incomplete_def)
  ultimately show ?thesis using assms(4)
    by (auto simp: SmppMessageBuffer_new_def intro!: read_stream_extract_all)
qed

theorem stream_recovered_witness:
  "read_stream [take 5 (message sample_enquire_pdu),
       drop 5 (message sample_enquire_pdu) @ message sample_enquire_pdu @ [0, 0], [0]] SmppMessageBuffer_new
   = Some ([sample_enquire_pdu, sample_enquire_pdu], \<lparr>buffer = [0, 0, 0]\<rparr>)"
proof -
  let ?p = "message sample_enquire_pdu"
  have ok: "pdu_ok ?p" by code_simp
  have "drop 5 ?p \<noteq> []" "take 5 ?p \<noteq> []" by (simp_all add: sample_enquire_pdu_def)
  then show ?thesis
    using stream_recovered [of "[?p, ?p]" "[0, 0, 0]" "[take 5 ?p, drop 5 ?p @ ?p @ [0, 0], [0]]"] ok
    by (simp add: incomplete_def)
qed

definition encoded :: "base64 \<Rightarrow> TLVFieldCodec list \<Rightarrow> json \<Rightarrow> bytes" where
  "encoded E order v = (case from_json E order v of Ok p \<Rightarrow> message p | _ \<Rightarrow> [])"

lemma encoded_pdu:
  assumes "message_ok E v" "tlv_order order" "length (encoded E order v) < 2 ^ 32"
  shows "pdu_ok (encoded E order v) \<and> to_json E (SMPPMessage_of (encoded E order v)) = Ok v"
proof -
  obtain p where p: "from_json E order v = Ok p" "to_json E p = Ok v"
    using canonical_round_trip [OF assms(1,2)] by blast
  have enc: "encoded E order v = message p" using p(1) by (simp add: encoded_def)
  have eq: "SMPPMessage_of (message p) = p" by simp
  obtain m c fs where v: "v = JObject m" "extract_command_id v = Some c" "message_ok_for E m c fs"
    using assms(1) by (rule message_okE)
  obtain st sq :: u32 where "jget ''command_status'' v = Some (jnum st)" "jget ''sequence_number'' v = Some (jnum sq)"
    using v by (auto simp: message_ok_for_def elim!: header_number_okE)
  then have "header_number ''command_status'' v = Some st" "header_number ''sequence_number'' v = Some sq"
    by (simp_all add: header_number_def)
  from from_json_words [OF p(1) v(2) this] have "pdu_ok (message p)"
    using assms(3) enc by (simp add: pdu_ok_def SMPPMessage_len_def)
  then show ?thesis using p(2) by (simp only: enc eq)
qed

text \<open>
  C1.  End to end: canonical messages that the encoder turns into PDUs, sent one after the other
  and cut into non-empty reads anywhere, are received and decoded as exactly the same messages
  in the same order, and nothing stays in the buffer.
\<close>

theorem end_to_end:
  assumes "\<forall>v\<in>set vs. message_ok E v \<and> length (encoded E order v) < 2 ^ 32" "tlv_order order"
    "concat cs = concat (map (encoded E order) vs)" "[] \<notin> set cs"
  shows "\<exists>ms. read_stream cs SmppMessageBuffer_new = Some (ms, SmppMessageBuffer_new)
    \<and> map (to_json E) ms = map Ok vs"
proof -
  let ?ps = "map (encoded E order) vs"
  have enc: "pdu_ok (encoded E order v)" "to_json E (SMPPMessage_of (encoded E order v)) = Ok v"
    if "v \<in> set vs" for v using encoded_pdu that assms(1,2) by blast+
  have "extract_all \<lparr>buffer = [] @ concat cs\<rparr> = Some (map SMPPMessage_of ?ps, \<lparr>buffer = []\<rparr>)"
    using extract_all_stream [of ?ps "[]"] enc(1) assms(3) by (simp add: incomplete_def)
  moreover have "extract_all \<lparr>buffer = []\<rparr> = Some ([], \<lparr>buffer = []\<rparr>)"
    by (simp add: extract_message_incomplete extract_all_None incomplete_def)
  ultimately have "read_stream cs SmppMessageBuffer_new = Some (map SMPPMessage_of ?ps, SmppMessageBuffer_new)"
    using assms(4) by (auto simp: SmppMessageBuffer_new_def intro!: read_stream_extract_all)
  then show ?thesis using enc(2) by simp
qed

theorem end_to_end_witness:
  "\<exists>ms. read_stream (map (\<lambda>b. [b]) (concat (map (encoded std_base64 create_tlv_fields)
        [sample_submit_sm, sample_enquire_link]))) SmppMessageBuffer_new = Some (ms, SmppMessageBuffer_new)
    \<and> map (to_json std_base64) ms = map Ok [sample_submit_sm, sample_enquire_link]"
proof (rule end_to_end)
  have "length (encoded std_base64 create_tlv_fields sample_submit_sm) = 55" by code_simp
  moreover have "length (encoded std_base64 create_tlv_fields sample_enquire_link) = 16" by code_simp
  ultimately show "\<forall>v\<in>set [sample_submit_sm, sample_enquire_link].
      message_ok std_base64 v \<and> length (encoded std_base64 create_tlv_fields v) < 2 ^ 32"
    using sample_submit_sm_ok sample_enquire_link_ok by simp
qed (auto simp: tlv_order_table concat_map_singleton comp_def)

text \<open>
  C32.  A complete header that announces the length zero makes the receive loop run for ever:
  every round yields an empty PDU and leaves the buffer as it is.
\<close>

theorem zero_length_never_returns:
  assumes "16 \<le> length (buffer b)" "u32_at 0 (buffer b) = Some 0"
  shows "extract_all b = None"
proof (rule ccontr)
  have step: "extract_message b = (Some (SMPPMessage_of []), b)"
    using assms by (simp add: extract_message_def)
  assume "extract_all b \<noteq> None"
  then obtain ms r where e: "extract_all b = Some (ms, r)" by auto
  with extract_all_Some [OF step] have "ms = SMPPMessage_of [] # ms" by simp
  then show False by (metis list.distinct(1) not_Cons_self)
qed

theorem zero_length_never_returns_witness:
  "extract_all \<lparr>buffer = replicate 16 0\<rparr> = None"
proof -
  have "u32_at 0 (replicate 16 0) = Some 0" by code_simp
  then show ?thesis using zero_length_never_returns [of "\<lparr>buffer = replicate 16 0\<rparr>"] by simp
qed

definition handle_pdu :: "base64 \<Rightarrow> (json \<Rightarrow> 's \<Rightarrow> unit io \<times> 's) \<Rightarrow> SMPPMessage \<Rightarrow> 's \<Rightarrow> 's" where
  "handle_pdu E H m s = (case to_json E m of Ok v \<Rightarrow> snd (H v s) | _ \<Rightarrow> s)"



end
