(* ===== verification/Command_Status.thy ===== *)
theory Command_Status
  imports Enums
begin

text \<open>
  The command status codes (\<^verbatim>\<open>command_status.rs\<close>) with their 32-bit values and their names
  in the SMPP specification.  Both tables are exact inverses of each other.
\<close>

datatype (plugins only: code size) CommandStatus =
    EsmeRok | EsmeRInvMsgLen | EsmeRInvCmdLen | EsmeRInvCmdId | EsmeRInvBndSts | EsmeRAlyBnd
  | EsmeRInvPrtFlg | EsmeRInvRegDlvFlg | EsmeRSysErr | EsmeRInvSrcAdr | EsmeRInvDstAdr
  | EsmeRInvMsgId | EsmeRBindFail | EsmeRInvPaswd | EsmeRInvSysId | EsmeRCancelFail
  | EsmeRReplaceFail | EsmeRMsgQFul | EsmeRInvSerTyp | EsmeRInvNumDests | EsmeRInvDlName
  | EsmeRInvDestFlag | EsmeRInvSubRep | EsmeRInvEsmClass | EsmeRCntSubDl | EsmeRSubmitFail
  | EsmeRInvSrcTon | EsmeRInvSrcNpi | EsmeRInvDstTon | EsmeRInvDstNpi | EsmeRInvSysTyp
  | EsmeRInvRepFlag | EsmeRInvNumMsgs | EsmeRThrottled | EsmeRInvSched | EsmeRInvExpiry
  | EsmeRInvDftMsgId | EsmeRxTAppn | EsmeRxPAppn | EsmeRxRAppn | EsmeRQueryFail
  | EsmeRInvOptParStream | EsmeROptParNotAllwd | EsmeRInvParLen | EsmeRMissingOptParam
  | EsmeRInvOptParamVal | EsmeRDeliveryFailure | EsmeRUnknownErr | EsmeRSerTypUnauth
  | EsmeRProhibited | EsmeRSerTypUnavail | EsmeRSerTypDenied | EsmeRInvDcs
  | EsmeRInvSrcAddrSubunit | EsmeRInvDstAddrSubunit | EsmeRInvBcastFreqInt
  | EsmeRInvBcastAliasName | EsmeRInvBcastAreaFmt | EsmeRInvNumBcastAreas
  | EsmeRInvBcastCntType | EsmeRInvBcastMsgClass | EsmeRBcastFail | EsmeRBcastQueryFail
  | EsmeRBcastCancelFail | EsmeRInvBcastRep | EsmeRInvBcastSrvGrp | EsmeRInvBcastChanInd

primrec CommandStatus_as_u32 :: "CommandStatus \<Rightarrow> u32" where
  "CommandStatus_as_u32 EsmeRok = 0x00000000"
| "CommandStatus_as_u32 EsmeRInvMsgLen = 0x00000001"
| "CommandStatus_as_u32 EsmeRInvCmdLen = 0x00000002"
| "CommandStatus_as_u32 EsmeRInvCmdId = 0x00000003"
| "CommandStatus_as_u32 EsmeRInvBndSts = 0x00000004"
| "CommandStatus_as_u32 EsmeRAlyBnd = 0x00000005"
| "CommandStatus_as_u32 EsmeRInvPrtFlg = 0x00000006"
| "CommandStatus_as_u32 EsmeRInvRegDlvFlg = 0x00000007"
| "CommandStatus_as_u32 EsmeRSysErr = 0x00000008"
| "CommandStatus_as_u32 EsmeRInvSrcAdr = 0x0000000A"
| "CommandStatus_as_u32 EsmeRInvDstAdr = 0x0000000B"
| "CommandStatus_as_u32 EsmeRInvMsgId = 0x0000000C"
| "CommandStatus_as_u32 EsmeRBindFail = 0x0000000D"
| "CommandStatus_as_u32 EsmeRInvPaswd = 0x0000000E"
| "CommandStatus_as_u32 EsmeRInvSysId = 0x0000000F"
| "CommandStatus_as_u32 EsmeRCancelFail = 0x00000011"
| "CommandStatus_as_u32 EsmeRReplaceFail = 0x00000013"
| "CommandStatus_as_u32 EsmeRMsgQFul = 0x00000014"
| "CommandStatus_as_u32 EsmeRInvSerTyp = 0x00000015"
| "CommandStatus_as_u32 EsmeRInvNumDests = 0x00000033"
| "CommandStatus_as_u32 EsmeRInvDlName = 0x00000034"
| "CommandStatus_as_u32 EsmeRInvDestFlag = 0x00000040"
| "CommandStatus_as_u32 EsmeRInvSubRep = 0x00000042"
| "CommandStatus_as_u32 EsmeRInvEsmClass = 0x00000043"
| "CommandStatus_as_u32 EsmeRCntSubDl = 0x00000044"
| "CommandStatus_as_u32 EsmeRSubmitFail = 0x00000045"
| "CommandStatus_as_u32 EsmeRInvSrcTon = 0x00000048"
| "CommandStatus_as_u32 EsmeRInvSrcNpi = 0x00000049"
| "CommandStatus_as_u32 EsmeRInvDstTon = 0x00000050"
| "CommandStatus_as_u32 EsmeRInvDstNpi = 0x00000051"
| "CommandStatus_as_u32 EsmeRInvSysTyp = 0x00000053"
| "CommandStatus_as_u32 EsmeRInvRepFlag = 0x00000054"
| "CommandStatus_as_u32 EsmeRInvNumMsgs = 0x00000055"
| "CommandStatus_as_u32 EsmeRThrottled = 0x00000058"
| "CommandStatus_as_u32 EsmeRInvSched = 0x00000061"
| "CommandStatus_as_u32 EsmeRInvExpiry = 0x00000062"
| "CommandStatus_as_u32 EsmeRInvDftMsgId = 0x00000063"
| "CommandStatus_as_u32 EsmeRxTAppn = 0x00000064"
| "CommandStatus_as_u32 EsmeRxPAppn = 0x00000065"
| "CommandStatus_as_u32 EsmeRxRAppn = 0x00000066"
| "CommandStatus_as_u32 EsmeRQueryFail = 0x00000067"
| "CommandStatus_as_u32 EsmeRInvOptParStream = 0x000000C0"
| "CommandStatus_as_u32 EsmeROptParNotAllwd = 0x000000C1"
| "CommandStatus_as_u32 EsmeRInvParLen = 0x000000C2"
| "CommandStatus_as_u32 EsmeRMissingOptParam = 0x000000C3"
| "CommandStatus_as_u32 EsmeRInvOptParamVal = 0x000000C4"
| "CommandStatus_as_u32 EsmeRDeliveryFailure = 0x000000FE"
| "CommandStatus_as_u32 EsmeRUnknownErr = 0x000000FF"
| "CommandStatus_as_u32 EsmeRSerTypUnauth = 0x00000100"
| "CommandStatus_as_u32 EsmeRProhibited = 0x00000101"
| "CommandStatus_as_u32 EsmeRSerTypUnavail = 0x00000102"
| "CommandStatus_as_u32 EsmeRSerTypDenied = 0x00000103"
| "CommandStatus_as_u32 EsmeRInvDcs = 0x00000104"
| "CommandStatus_as_u32 EsmeRInvSrcAddrSubunit = 0x00000105"
| "CommandStatus_as_u32 EsmeRInvDstAddrSubunit = 0x00000106"
| "CommandStatus_as_u32 EsmeRInvBcastFreqInt = 0x00000107"
| "CommandStatus_as_u32 EsmeRInvBcastAliasName = 0x00000108"
| "CommandStatus_as_u32 EsmeRInvBcastAreaFmt = 0x00000109"
| "CommandStatus_as_u32 EsmeRInvNumBcastAreas = 0x0000010A"
| "CommandStatus_as_u32 EsmeRInvBcastCntType = 0x0000010B"
| "CommandStatus_as_u32 EsmeRInvBcastMsgClass = 0x0000010C"
| "CommandStatus_as_u32 EsmeRBcastFail = 0x0000010D"
| "CommandStatus_as_u32 EsmeRBcastQueryFail = 0x0000010E"
| "CommandStatus_as_u32 EsmeRBcastCancelFail = 0x0000010F"
| "CommandStatus_as_u32 EsmeRInvBcastRep = 0x00000110"
| "CommandStatus_as_u32 EsmeRInvBcastSrvGrp = 0x00000111"
| "CommandStatus_as_u32 EsmeRInvBcastChanInd = 0x00000112"

definition CommandStatus_from_u32 :: "u32 \<Rightarrow> CommandStatus option" where
  "CommandStatus_from_u32 value = map_of
    [(0x00000000, EsmeRok), (0x00000001, EsmeRInvMsgLen), (0x00000002, EsmeRInvCmdLen),
     (0x00000003, EsmeRInvCmdId), (0x00000004, EsmeRInvBndSts), (0x00000005, EsmeRAlyBnd),
     (0x00000006, EsmeRInvPrtFlg), (0x00000007, EsmeRInvRegDlvFlg), (0x00000008, EsmeRSysErr),
     (0x0000000A, EsmeRInvSrcAdr), (0x0000000B, EsmeRInvDstAdr), (0x0000000C, EsmeRInvMsgId),
     (0x0000000D, EsmeRBindFail), (0x0000000E, EsmeRInvPaswd), (0x0000000F, EsmeRInvSysId),
     (0x00000011, EsmeRCancelFail), (0x00000013, EsmeRReplaceFail), (0x00000014, EsmeRMsgQFul),
     (0x00000015, EsmeRInvSerTyp), (0x00000033, EsmeRInvNumDests), (0x00000034, EsmeRInvDlName),
     (0x00000040, EsmeRInvDestFlag), (0x00000042, EsmeRInvSubRep),
     (0x00000043, EsmeRInvEsmClass), (0x00000044, EsmeRCntSubDl), (0x00000045, EsmeRSubmitFail),
     (0x00000048, EsmeRInvSrcTon), (0x00000049, EsmeRInvSrcNpi), (0x00000050, EsmeRInvDstTon),
     (0x00000051, EsmeRInvDstNpi), (0x00000053, EsmeRInvSysTyp), (0x00000054, EsmeRInvRepFlag),
     (0x00000055, EsmeRInvNumMsgs), (0x00000058, EsmeRThrottled), (0x00000061, EsmeRInvSched),
     (0x00000062, EsmeRInvExpiry), (0x00000063, EsmeRInvDftMsgId), (0x00000064, EsmeRxTAppn),
     (0x00000065, EsmeRxPAppn), (0x00000066, EsmeRxRAppn), (0x00000067, EsmeRQueryFail),
     (0x000000C0, EsmeRInvOptParStream), (0x000000C1, EsmeROptParNotAllwd),
     (0x000000C2, EsmeRInvParLen), (0x000000C3, EsmeRMissingOptParam),
     (0x000000C4, EsmeRInvOptParamVal), (0x000000FE, EsmeRDeliveryFailure),
     (0x000000FF, EsmeRUnknownErr), (0x00000100, EsmeRSerTypUnauth),
     (0x00000101, EsmeRProhibited), (0x00000102, EsmeRSerTypUnavail),
     (0x00000103, EsmeRSerTypDenied), (0x00000104, EsmeRInvDcs),
     (0x00000105, EsmeRInvSrcAddrSubunit), (0x00000106, EsmeRInvDstAddrSubunit),
     (0x00000107, EsmeRInvBcastFreqInt), (0x00000108, EsmeRInvBcastAliasName),
     (0x00000109, EsmeRInvBcastAreaFmt), (0x0000010A, EsmeRInvNumBcastAreas),
     (0x0000010B, EsmeRInvBcastCntType), (0x0000010C, EsmeRInvBcastMsgClass),
     (0x0000010D, EsmeRBcastFail), (0x0000010E, EsmeRBcastQueryFail),
     (0x0000010F, EsmeRBcastCancelFail), (0x00000110, EsmeRInvBcastRep),
     (0x00000111, EsmeRInvBcastSrvGrp), (0x00000112, EsmeRInvBcastChanInd)] value"

definition status_names :: "(string \<times> CommandStatus) list" where
  "status_names =
    [(''ESME_ROK'', EsmeRok), (''ESME_RINVMSGLEN'', EsmeRInvMsgLen),
     (''ESME_RINVCMDLEN'', EsmeRInvCmdLen), (''ESME_RINVCMDID'', EsmeRInvCmdId),
     (''ESME_RINVBNDSTS'', EsmeRInvBndSts), (''ESME_RALYBND'', EsmeRAlyBnd),
     (''ESME_RINVPRTFLG'', EsmeRInvPrtFlg), (''ESME_RINVREGDLVFLG'', EsmeRInvRegDlvFlg),
     (''ESME_RSYSERR'', EsmeRSysErr), (''ESME_RINVSRCADR'', EsmeRInvSrcAdr),
     (''ESME_RINVDSTADR'', EsmeRInvDstAdr), (''ESME_RINVMSGID'', EsmeRInvMsgId),
     (''ESME_RBINDFAIL'', EsmeRBindFail), (''ESME_RINVPASWD'', EsmeRInvPaswd),
     (''ESME_RINVSYSID'', EsmeRInvSysId), (''ESME_RCANCELFAIL'', EsmeRCancelFail),
     (''ESME_RREPLACEFAIL'', EsmeRReplaceFail), (''ESME_RMSGQFUL'', EsmeRMsgQFul),
     (''ESME_RINVSERTYP'', EsmeRInvSerTyp), (''ESME_RINVNUMDESTS'', EsmeRInvNumDests),
     (''ESME_RINVDLNAME'', EsmeRInvDlName), (''ESME_RINVDESTFLAG'', EsmeRInvDestFlag),
     (''ESME_RINVSUBREP'', EsmeRInvSubRep), (''ESME_RINVESMCLASS'', EsmeRInvEsmClass),
     (''ESME_RCNTSUBDL'', EsmeRCntSubDl), (''ESME_RSUBMITFAIL'', EsmeRSubmitFail),
     (''ESME_RINVSRC_TON'', EsmeRInvSrcTon), (''ESME_RINVSRC_NPI'', EsmeRInvSrcNpi),
     (''ESME_RINVDST_TON'', EsmeRInvDstTon), (''ESME_RINVDST_NPI'', EsmeRInvDstNpi),
     (''ESME_RINVSYSTYP'', EsmeRInvSysTyp), (''ESME_RINVREPLACEIFPRESENT'', EsmeRInvRepFlag),
     (''ESME_RINVNUMMSGS'', EsmeRInvNumMsgs), (''ESME_RTHROTTLED'', EsmeRThrottled),
     (''ESME_RINVSCHED'', EsmeRInvSched), (''ESME_RINVEXPIRY'', EsmeRInvExpiry),
     (''ESME_RINVDFTMSGID'', EsmeRInvDftMsgId), (''ESME_RXTAPPN'', EsmeRxTAppn),
     (''ESME_RXPAPPN'', EsmeRxPAppn), (''ESME_RXRAPPN'', EsmeRxRAppn),
     (''ESME_RQUERYFAIL'', EsmeRQueryFail), (''ESME_RINVOPTPARSTREAM'', EsmeRInvOptParStream),
     (''ESME_ROPTPARNOTALLOWED'', EsmeROptParNotAllwd), (''ESME_RINVPARLEN'', EsmeRInvParLen),
     (''ESME_RMISSINGOPTPARAM'', EsmeRMissingOptParam),
     (''ESME_RINVOPTPARAMVAL'', EsmeRInvOptParamVal),
     (''ESME_RDELIVERYFAILURE'', EsmeRDeliveryFailure), (''ESME_RUNKNOWNERR'', EsmeRUnknownErr),
     (''ESME_RSERTYPUNAUTH'', EsmeRSerTypUnauth), (''ESME_RPROHIBITED'', EsmeRProhibited),
     (''ESME_RSERTYPUNAVAIL'', EsmeRSerTypUnavail), (''ESME_RSERTYPDENIED'', EsmeRSerTypDenied),
     (''ESME_RINVDCS'', EsmeRInvDcs), (''ESME_RINVSRCADDRSUBUNIT'', EsmeRInvSrcAddrSubunit),
     (''ESME_RINVDSTADDRSUBUNIT'', EsmeRInvDstAddrSubunit),
     (''ESME_RINVBCFREQINT'', EsmeRInvBcastFreqInt),
     (''ESME_RINVBCALIASNAME'', EsmeRInvBcastAliasName),
     (''ESME_RINVBCAREAFMT'', EsmeRInvBcastAreaFmt),
     (''ESME_RINVNUMBCAREAS'', EsmeRInvNumBcastAreas),
     (''ESME_RINVBCONTTYPE'', EsmeRInvBcastCntType),
     (''ESME_RINVBCMSGCLASS'', EsmeRInvBcastMsgClass), (''ESME_RBCASTFAIL'', EsmeRBcastFail),
     (''ESME_RBCASTQUERYFAIL'', EsmeRBcastQueryFail),
     (''ESME_RBCASTCANCELFAIL'', EsmeRBcastCancelFail),
     (''ESME_RINVBCREPEAT'', EsmeRInvBcastRep), (''ESME_RINVBCSRVGROUP'', EsmeRInvBcastSrvGrp),
     (''ESME_RINVBCCHANIND'', EsmeRInvBcastChanInd)]"

definition CommandStatus_from_str :: "string \<Rightarrow> CommandStatus option" where
  "CommandStatus_from_str value = map_of status_names value"

primrec CommandStatus_to_str :: "CommandStatus \<Rightarrow> string" where
  "CommandStatus_to_str EsmeRok = ''ESME_ROK''"
| "CommandStatus_to_str EsmeRInvMsgLen = ''ESME_RINVMSGLEN''"
| "CommandStatus_to_str EsmeRInvCmdLen = ''ESME_RINVCMDLEN''"
| "CommandStatus_to_str EsmeRInvCmdId = ''ESME_RINVCMDID''"
| "CommandStatus_to_str EsmeRInvBndSts = ''ESME_RINVBNDSTS''"
| "CommandStatus_to_str EsmeRAlyBnd = ''ESME_RALYBND''"
| "CommandStatus_to_str EsmeRInvPrtFlg = ''ESME_RINVPRTFLG''"
| "CommandStatus_to_str EsmeRInvRegDlvFlg = ''ESME_RINVREGDLVFLG''"
| "CommandStatus_to_str EsmeRSysErr = ''ESME_RSYSERR''"
| "CommandStatus_to_str EsmeRInvSrcAdr = ''ESME_RINVSRCADR''"
| "CommandStatus_to_str EsmeRInvDstAdr = ''ESME_RINVDSTADR''"
| "CommandStatus_to_str EsmeRInvMsgId = ''ESME_RINVMSGID''"
| "CommandStatus_to_str EsmeRBindFail = ''ESME_RBINDFAIL''"
| "CommandStatus_to_str EsmeRInvPaswd = ''ESME_RINVPASWD''"
| "CommandStatus_to_str EsmeRInvSysId = ''ESME_RINVSYSID''"
| "CommandStatus_to_str EsmeRCancelFail = ''ESME_RCANCELFAIL''"
| "CommandStatus_to_str EsmeRReplaceFail = ''ESME_RREPLACEFAIL''"
| "CommandStatus_to_str EsmeRMsgQFul = ''ESME_RMSGQFUL''"
| "CommandStatus_to_str EsmeRInvSerTyp = ''ESME_RINVSERTYP''"
| "CommandStatus_to_str EsmeRInvNumDests = ''ESME_RINVNUMDESTS''"
| "CommandStatus_to_str EsmeRInvDlName = ''ESME_RINVDLNAME''"
| "CommandStatus_to_str EsmeRInvDestFlag = ''ESME_RINVDESTFLAG''"
| "CommandStatus_to_str EsmeRInvSubRep = ''ESME_RINVSUBREP''"
| "CommandStatus_to_str EsmeRInvEsmClass = ''ESME_RINVESMCLASS''"
| "CommandStatus_to_str EsmeRCntSubDl = ''ESME_RCNTSUBDL''"
| "CommandStatus_to_str EsmeRSubmitFail = ''ESME_RSUBMITFAIL''"
| "CommandStatus_to_str EsmeRInvSrcTon = ''ESME_RINVSRC_TON''"
| "CommandStatus_to_str EsmeRInvSrcNpi = ''ESME_RINVSRC_NPI''"
| "CommandStatus_to_str EsmeRInvDstTon = ''ESME_RINVDST_TON''"
| "CommandStatus_to_str EsmeRInvDstNpi = ''ESME_RINVDST_NPI''"
| "CommandStatus_to_str EsmeRInvSysTyp = ''ESME_RINVSYSTYP''"
| "CommandStatus_to_str EsmeRInvRepFlag = ''ESME_RINVREPLACEIFPRESENT''"
| "CommandStatus_to_str EsmeRInvNumMsgs = ''ESME_RINVNUMMSGS''"
| "CommandStatus_to_str EsmeRThrottled = ''ESME_RTHROTTLED''"
| "CommandStatus_to_str EsmeRInvSched = ''ESME_RINVSCHED''"
| "CommandStatus_to_str EsmeRInvExpiry = ''ESME_RINVEXPIRY''"
| "CommandStatus_to_str EsmeRInvDftMsgId = ''ESME_RINVDFTMSGID''"
| "CommandStatus_to_str EsmeRxTAppn = ''ESME_RXTAPPN''"
| "CommandStatus_to_str EsmeRxPAppn = ''ESME_RXPAPPN''"
| "CommandStatus_to_str EsmeRxRAppn = ''ESME_RXRAPPN''"
| "CommandStatus_to_str EsmeRQueryFail = ''ESME_RQUERYFAIL''"
| "CommandStatus_to_str EsmeRInvOptParStream = ''ESME_RINVOPTPARSTREAM''"
| "CommandStatus_to_str EsmeROptParNotAllwd = ''ESME_ROPTPARNOTALLOWED''"
| "CommandStatus_to_str EsmeRInvParLen = ''ESME_RINVPARLEN''"
| "CommandStatus_to_str EsmeRMissingOptParam = ''ESME_RMISSINGOPTPARAM''"
| "CommandStatus_to_str EsmeRInvOptParamVal = ''ESME_RINVOPTPARAMVAL''"
| "CommandStatus_to_str EsmeRDeliveryFailure = ''ESME_RDELIVERYFAILURE''"
| "CommandStatus_to_str EsmeRUnknownErr = ''ESME_RUNKNOWNERR''"
| "CommandStatus_to_str EsmeRSerTypUnauth = ''ESME_RSERTYPUNAUTH''"
| "CommandStatus_to_str EsmeRProhibited = ''ESME_RPROHIBITED''"
| "CommandStatus_to_str EsmeRSerTypUnavail = ''ESME_RSERTYPUNAVAIL''"
| "CommandStatus_to_str EsmeRSerTypDenied = ''ESME_RSERTYPDENIED''"
| "CommandStatus_to_str EsmeRInvDcs = ''ESME_RINVDCS''"
| "CommandStatus_to_str EsmeRInvSrcAddrSubunit = ''ESME_RINVSRCADDRSUBUNIT''"
| "CommandStatus_to_str EsmeRInvDstAddrSubunit = ''ESME_RINVDSTADDRSUBUNIT''"
| "CommandStatus_to_str EsmeRInvBcastFreqInt = ''ESME_RINVBCFREQINT''"
| "CommandStatus_to_str EsmeRInvBcastAliasName = ''ESME_RINVBCALIASNAME''"
| "CommandStatus_to_str EsmeRInvBcastAreaFmt = ''ESME_RINVBCAREAFMT''"
| "CommandStatus_to_str EsmeRInvNumBcastAreas = ''ESME_RINVNUMBCAREAS''"
| "CommandStatus_to_str EsmeRInvBcastCntType = ''ESME_RINVBCONTTYPE''"
| "CommandStatus_to_str EsmeRInvBcastMsgClass = ''ESME_RINVBCMSGCLASS''"
| "CommandStatus_to_str EsmeRBcastFail = ''ESME_RBCASTFAIL''"
| "CommandStatus_to_str EsmeRBcastQueryFail = ''ESME_RBCASTQUERYFAIL''"
| "CommandStatus_to_str EsmeRBcastCancelFail = ''ESME_RBCASTCANCELFAIL''"
| "CommandStatus_to_str EsmeRInvBcastRep = ''ESME_RINVBCREPEAT''"
| "CommandStatus_to_str EsmeRInvBcastSrvGrp = ''ESME_RINVBCSRVGROUP''"
| "CommandStatus_to_str EsmeRInvBcastChanInd = ''ESME_RINVBCCHANIND''"

interpretation status_code:
  exact_enum_codec CommandStatus_as_u32 CommandStatus_from_u32 "\<lambda>_. True"
proof unfold_locales
  show "CommandStatus_from_u32 (CommandStatus_as_u32 x) = Some x" for x
    by (induct x) (simp_all add: CommandStatus_from_u32_def)
  show "CommandStatus_from_u32 w = Some x \<Longrightarrow> CommandStatus_as_u32 x = w" for w x
    unfolding CommandStatus_from_u32_def by (erule map_of_table_code) simp
qed simp

lemma status_rok_iff: "CommandStatus_as_u32 c = 0 \<longleftrightarrow> c = EsmeRok"
  by (induct c) simp_all

lemma status_names_distinct: "distinct (map fst status_names)"
  by (rule distinct_by_text_key) code_simp

interpretation status_name:
  exact_enum_codec CommandStatus_to_str CommandStatus_from_str "\<lambda>_. True"
proof unfold_locales
  show "CommandStatus_from_str (CommandStatus_to_str x) = Some x" for x
    unfolding CommandStatus_from_str_def
  proof (rule map_of_table_enc)
    show "x \<in> snd ` set status_names" unfolding status_names_def
      by (induct x; simp only: list.set image_insert snd_conv insert_iff simp_thms)
  qed (rule status_names_distinct, simp add: status_names_def)
  show "CommandStatus_from_str w = Some x \<Longrightarrow> CommandStatus_to_str x = w" for w x
    unfolding CommandStatus_from_str_def by (erule map_of_table_code) (simp add: status_names_def)
qed simp

end
