(* ===== verification/Rust_Text.thy ===== *)
theory Rust_Text
  imports Rust_Std
begin

text \<open>
  Searching, trimming and splitting of texts, as \<^verbatim>\<open>str::find\<close>, \<^verbatim>\<open>rfind\<close>, \<^verbatim>\<open>contains\<close>,
  \<^verbatim>\<open>trim\<close>, \<^verbatim>\<open>trim_start_matches\<close>, \<^verbatim>\<open>trim_end_matches\<close> and \<^verbatim>\<open>split\<close> do it on UTF-8 octets.
\<close>

section \<open>Searching\<close>

definition starts_with :: "string \<Rightarrow> string \<Rightarrow> bool" where
  "starts_with p s = (take (length p) s = p)"

definition ends_with :: "string \<Rightarrow> string \<Rightarrow> bool" where
  "ends_with p s = (length p \<le> length s \<and> drop (length s - length p) s = p)"

fun find_text :: "string \<Rightarrow> string \<Rightarrow> nat option" where
  "find_text p [] = (if p = [] then Some 0 else None)"
| "find_text p (c # s) = (if starts_with p (c # s) then Some 0 else map_option Suc (find_text p s))"

definition contains_text :: "string \<Rightarrow> string \<Rightarrow> bool" where
  "contains_text p s = (find_text p s \<noteq> None)"

definition rfind_char :: "char \<Rightarrow> string \<Rightarrow> nat option" where
  "rfind_char c s = map_option (\<lambda>i. length s - 1 - i) (position (\<lambda>d. d = c) (rev s))"

lemma find_text_Some: "find_text p s = Some i \<Longrightarrow> i + length p \<le> length s"
proof (induction s arbitrary: i)
  case (Cons c s)
  show ?case
  proof (cases "starts_with p (c # s)")
    case True
    then have "length p \<le> length (c # s)"
      unfolding starts_with_def by (metis length_take min.absorb_iff2 min.commute)
    with True Cons.prems show ?thesis by simp
  next
    case False
    with Cons show ?thesis by auto
  qed
qed (auto split: if_splits)

section \<open>Trimming\<close>

text \<open>Repeatedly removing a prefix that is one of some non-empty patterns.\<close>

function strip_front :: "string list \<Rightarrow> string \<Rightarrow> string" where
  "strip_front ps s =
     (case find (\<lambda>p. p \<noteq> [] \<and> starts_with p s) ps of
        Some p \<Rightarrow> if s = [] then [] else strip_front ps (drop (length p) s)
      | None \<Rightarrow> s)"
  by pat_completeness auto
termination
  by (relation "measure (\<lambda>(ps, s). length s)") (auto simp: find_Some_iff)

declare strip_front.simps [simp del]

definition trim_start_matches :: "string \<Rightarrow> string \<Rightarrow> string" where
  "trim_start_matches p s = strip_front [p] s"

definition trim_end_matches :: "string \<Rightarrow> string \<Rightarrow> string" where
  "trim_end_matches p s = rev (strip_front [rev p] (rev s))"

text \<open>The UTF-8 encodings of the characters with the Unicode property \<^verbatim>\<open>White_Space\<close>.\<close>

definition white_space :: "string list" where
  "white_space =
     [[CHR 0x09], [CHR 0x0A], [CHR 0x0B], [CHR 0x0C], [CHR 0x0D], [CHR 0x20],
      [CHR 0xC2, CHR 0x85], [CHR 0xC2, CHR 0xA0], [CHR 0xE1, CHR 0x9A, CHR 0x80]]
     @ map (\<lambda>c. [CHR 0xE2, CHR 0x80, c])
         [CHR 0x80, CHR 0x81, CHR 0x82, CHR 0x83, CHR 0x84, CHR 0x85, CHR 0x86, CHR 0x87, CHR 0x88,
          CHR 0x89, CHR 0x8A, CHR 0xA8, CHR 0xA9, CHR 0xAF]
     @ [[CHR 0xE2, CHR 0x81, CHR 0x9F], [CHR 0xE3, CHR 0x80, CHR 0x80]]"

definition trim :: "string \<Rightarrow> string" where
  "trim s = rev (strip_front (map rev white_space) (rev (strip_front white_space s)))"

section \<open>Splitting\<close>

function split_text :: "string \<Rightarrow> string \<Rightarrow> string list" where
  "split_text sep s =
     (if sep = [] then [s]
      else case find_text sep s of
             None \<Rightarrow> [s]
           | Some i \<Rightarrow> take i s # split_text sep (drop (i + length sep) s))"
  by pat_completeness auto
termination
proof (relation "measure (\<lambda>(sep, s). length s)", goal_cases)
  case (2 sep s i)
  then have "i + length sep \<le> length s" by (intro find_text_Some)
  with 2 show ?case by (cases sep) auto
qed simp

declare split_text.simps [simp del]

text \<open>A separator whose first character does not occur in the part before it.\<close>

lemma find_text_hit: "c \<notin> set a \<Longrightarrow> find_text (c # p) (a @ (c # p) @ b) = Some (length a)"
  by (induction a) (auto simp: starts_with_def)

lemma find_text_miss: "c \<notin> set a \<Longrightarrow> find_text (c # p) a = None"
  by (induction a) (auto simp: starts_with_def)

lemma split_text_Cons:
  "c \<notin> set a \<Longrightarrow> split_text (c # p) (a @ (c # p) @ b) = a # split_text (c # p) b"
  using find_text_hit [of c a p b] by (subst split_text.simps) simp

lemma split_text_single: "c \<notin> set a \<Longrightarrow> split_text (c # p) a = [a]"
  using find_text_miss [of c a p] by (subst split_text.simps) simp

lemma strip_front_once:
  assumes "p \<noteq> []" "\<not> starts_with p s"
  shows "strip_front [p] (p @ s) = s"
proof -
  have "strip_front [p] s = s" using assms(2) by (subst strip_front.simps) simp
  then show ?thesis using assms(1) by (subst strip_front.simps) (simp add: starts_with_def)
qed

end
