(* ===== verification/Esm_Class.thy ===== *)
theory Esm_Class
  imports Enums Rust_Text
begin

text \<open>
  The \<^verbatim>\<open>esm_class\<close> octet of a message (\<^verbatim>\<open>esm_class.rs\<close>): four bit fields, their decoding
  from and encoding into the octet, their textual form, and merging.
\<close>

section \<open>The bit fields\<close>

datatype MessageMode = MM_Default | MM_Datagram | MM_Transaction | MM_StoreAndForward

definition MessageMode_from_u8 :: "u8 \<Rightarrow> MessageMode" where
  "MessageMode_from_u8 value =
     (let v = value AND 0b00000011 in
      if v = 0b00000000 then MM_Default else if v = 0b00000001 then MM_Datagram
      else if v = 0b00000010 then MM_Transaction else if v = 0b00000011 then MM_StoreAndForward
      else MM_Default)"

primrec MessageMode_as_u8 :: "MessageMode \<Rightarrow> u8" where
  "MessageMode_as_u8 MM_Default = 0b00000000"
| "MessageMode_as_u8 MM_Datagram = 0b00000001"
| "MessageMode_as_u8 MM_Transaction = 0b00000010"
| "MessageMode_as_u8 MM_StoreAndForward = 0b00000011"

primrec MessageMode_to_string :: "MessageMode \<Rightarrow> string" where
  "MessageMode_to_string MM_Default = ''Default''"
| "MessageMode_to_string MM_Datagram = ''Datagram''"
| "MessageMode_to_string MM_Transaction = ''Transaction''"
| "MessageMode_to_string MM_StoreAndForward = ''StoreAndForward''"

definition MessageMode_from_string :: "string \<Rightarrow> MessageMode option" where
  "MessageMode_from_string value =
     map_of [(''default'', MM_Default), (''datagram'', MM_Datagram), (''transaction'', MM_Transaction),
       (''forward'', MM_Transaction), (''storeandforward'', MM_StoreAndForward),
       (''storeforward'', MM_StoreAndForward)]
       (to_lowercase (strip_char CHR ''-'' (strip_char CHR ''_'' value)))"

definition is_default :: "MessageMode \<Rightarrow> bool" where "is_default m = (m = MM_Default)"
definition is_store_forward :: "MessageMode \<Rightarrow> bool" where "is_store_forward m = (m = MM_StoreAndForward)"
definition is_transaction :: "MessageMode \<Rightarrow> bool" where "is_transaction m = (m = MM_Transaction)"
definition is_datagram :: "MessageMode \<Rightarrow> bool" where "is_datagram m = (m = MM_Datagram)"

datatype MessageType = MT_Default | MT_DeliveryReceipt | MT_IntermediateDeliveryNotification

definition MessageType_from_u8 :: "u8 \<Rightarrow> MessageType" where
  "MessageType_from_u8 value =
     (let v = value AND 0b00100100 in
      if v = 0b00000000 then MT_Default else if v = 0b00000100 then MT_DeliveryReceipt
      else if v = 0b00100000 then MT_IntermediateDeliveryNotification else MT_Default)"

primrec MessageType_as_u8 :: "MessageType \<Rightarrow> u8" where
  "MessageType_as_u8 MT_Default = 0b00000000"
| "MessageType_as_u8 MT_DeliveryReceipt = 0b00000100"
| "MessageType_as_u8 MT_IntermediateDeliveryNotification = 0b00100000"

primrec MessageType_to_string :: "MessageType \<Rightarrow> string" where
  "MessageType_to_string MT_Default = ''Default''"
| "MessageType_to_string MT_DeliveryReceipt = ''DeliveryReceipt''"
| "MessageType_to_string MT_IntermediateDeliveryNotification = ''IntermediateDeliveryNotification''"

definition MessageType_from_string :: "string \<Rightarrow> MessageType option" where
  "MessageType_from_string value =
     map_of [(''Default'', MT_Default), (''DeliveryReceipt'', MT_DeliveryReceipt),
       (''IntermediateDeliveryNotification'', MT_IntermediateDeliveryNotification)] value"

text \<open>\<^verbatim>\<open>Unknown\<close> has no discriminant of its own: it is one more than \<^verbatim>\<open>ConversationAbort\<close>.\<close>

datatype Ansi41Specific =
  A41_DeliveryAcknowledgement | A41_UserAcknowledgement | A41_ConversationAbort | A41_Unknown

definition Ansi41Specific_from_u8 :: "u8 \<Rightarrow> Ansi41Specific" where
  "Ansi41Specific_from_u8 value =
     (let v = value AND 0b00011000 in
      if v = 0b00001000 then A41_DeliveryAcknowledgement
      else if v = 0b00010000 then A41_UserAcknowledgement
      else if v = 0b00011000 then A41_ConversationAbort else A41_Unknown)"

definition is_delivery_ack :: "Ansi41Specific \<Rightarrow> bool" where
  "is_delivery_ack a = (a = A41_DeliveryAcknowledgement \<or> a = A41_UserAcknowledgement)"

primrec Ansi41Specific_as_u8 :: "Ansi41Specific \<Rightarrow> u8" where
  "Ansi41Specific_as_u8 A41_DeliveryAcknowledgement = 0b00001000"
| "Ansi41Specific_as_u8 A41_UserAcknowledgement = 0b00010000"
| "Ansi41Specific_as_u8 A41_ConversationAbort = 0b00011000"
| "Ansi41Specific_as_u8 A41_Unknown = 0b00011001"

primrec Ansi41Specific_to_string :: "Ansi41Specific \<Rightarrow> string" where
  "Ansi41Specific_to_string A41_DeliveryAcknowledgement = ''DeliveryAcknowledgement''"
| "Ansi41Specific_to_string A41_UserAcknowledgement = ''UserAcknowledgement''"
| "Ansi41Specific_to_string A41_ConversationAbort = ''ConversationAbort''"
| "Ansi41Specific_to_string A41_Unknown = ''Unknown''"

definition Ansi41Specific_from_string :: "string \<Rightarrow> Ansi41Specific" where
  "Ansi41Specific_from_string value =
     (case map_of [(''DeliveryAcknowledgement'', A41_DeliveryAcknowledgement),
        (''UserAcknowledgement'', A41_UserAcknowledgement),
        (''ConversationAbort'', A41_ConversationAbort), (''Unknown'', A41_Unknown)] value of
        Some a \<Rightarrow> a | None \<Rightarrow> A41_Unknown)"

datatype GSMSpecific = GSM_NoSpecific | GSM_UDHIndicator | GSM_ReplyPath | GSM_UDHAndReplyPath

definition GSMSpecific_from_u8 :: "u8 \<Rightarrow> GSMSpecific" where
  "GSMSpecific_from_u8 value =
     (let v = value AND 0b11000000 in
      if v = 0b00000000 then GSM_NoSpecific else if v = 0b01000000 then GSM_UDHIndicator
      else if v = 0b10000000 then GSM_ReplyPath else if v = 0b11000000 then GSM_UDHAndReplyPath
      else GSM_NoSpecific)"

primrec GSMSpecific_as_u8 :: "GSMSpecific \<Rightarrow> u8" where
  "GSMSpecific_as_u8 GSM_NoSpecific = 0b00000000"
| "GSMSpecific_as_u8 GSM_UDHIndicator = 0b01000000"
| "GSMSpecific_as_u8 GSM_ReplyPath = 0b10000000"
| "GSMSpecific_as_u8 GSM_UDHAndReplyPath = 0b11000000"

primrec GSMSpecific_to_string :: "GSMSpecific \<Rightarrow> string" where
  "GSMSpecific_to_string GSM_NoSpecific = ''NoSpecific''"
| "GSMSpecific_to_string GSM_UDHIndicator = ''UDHIndicator''"
| "GSMSpecific_to_string GSM_ReplyPath = ''ReplyPath''"
| "GSMSpecific_to_string GSM_UDHAndReplyPath = ''UDHAndReplyPath''"

definition GSMSpecific_from_string :: "string \<Rightarrow> GSMSpecific" where
  "GSMSpecific_from_string value =
     (case map_of [(''NoSpecific'', GSM_NoSpecific), (''UDHIndicator'', GSM_UDHIndicator),
        (''ReplyPath'', GSM_ReplyPath), (''UDHAndReplyPath'', GSM_UDHAndReplyPath)] value of
        Some g \<Rightarrow> g | None \<Rightarrow> GSM_NoSpecific)"

section \<open>The octet\<close>

record EsmClass =
  message_mode :: MessageMode
  message_type :: MessageType
  ansi41_specific :: Ansi41Specific
  gsm_specific :: GSMSpecific

definition EsmClass_default :: EsmClass where
  "EsmClass_default =
     \<lparr>message_mode = MM_Default, message_type = MT_Default, ansi41_specific = A41_Unknown,
      gsm_specific = GSM_NoSpecific\<rparr>"

definition merge_from :: "EsmClass \<Rightarrow> EsmClass \<Rightarrow> EsmClass" where
  "merge_from self other =
     \<lparr>message_mode = (if message_mode other \<noteq> MM_Default then message_mode other else message_mode self),
      message_type = (if message_type other \<noteq> MT_Default then message_type other else message_type self),
      ansi41_specific = (if ansi41_specific other \<noteq> A41_Unknown then ansi41_specific other
                         else ansi41_specific self),
      gsm_specific = (if gsm_specific other \<noteq> GSM_NoSpecific then gsm_specific other
                      else gsm_specific self)\<rparr>"

definition EsmClass_from_u8 :: "u8 \<Rightarrow> EsmClass option" where
  "EsmClass_from_u8 value =
     Some \<lparr>message_mode = MessageMode_from_u8 value, message_type = MessageType_from_u8 value,
       ansi41_specific = Ansi41Specific_from_u8 value, gsm_specific = GSMSpecific_from_u8 value\<rparr>"

definition EsmClass_as_u8 :: "EsmClass \<Rightarrow> u8" where
  "EsmClass_as_u8 e =
     (((0 OR MessageMode_as_u8 (message_mode e)) OR MessageType_as_u8 (message_type e))
        OR Ansi41Specific_as_u8 (ansi41_specific e)) OR GSMSpecific_as_u8 (gsm_specific e)"

definition EsmClass_to_string :: "EsmClass \<Rightarrow> string" where
  "EsmClass_to_string e =
     ''EsmClass { message_mode: '' @ MessageMode_to_string (message_mode e)
     @ '', message_type: '' @ MessageType_to_string (message_type e)
     @ '', ansi41_specific: '' @ Ansi41Specific_to_string (ansi41_specific e)
     @ '', gsm_specific: '' @ GSMSpecific_to_string (gsm_specific e) @ '' }''"

definition EsmClass_from_string :: "string \<Rightarrow> EsmClass option" where
  "EsmClass_from_string value =
     (let parts = map trim (split_text '','' (trim_end_matches ''}'' (trim_start_matches ''EsmClass {'' value)))
      in if length parts \<noteq> 4 then None
         else case MessageMode_from_string (trim (trim_start_matches ''message_mode: '' (parts ! 0))) of
                None \<Rightarrow> None
              | Some mode \<Rightarrow>
                  (case MessageType_from_string (trim (trim_start_matches ''message_type: '' (parts ! 1))) of
                     None \<Rightarrow> None
                   | Some type \<Rightarrow>
                       Some \<lparr>message_mode = mode, message_type = type,
                         ansi41_specific = Ansi41Specific_from_string
                           (trim (trim_start_matches ''ansi41_specific: '' (parts ! 2))),
                         gsm_specific = GSMSpecific_from_string
                           (trim (trim_start_matches ''gsm_specific: '' (parts ! 3)))\<rparr>))"

section \<open>Laws of the fields\<close>

interpretation message_mode_name: enum_codec MessageMode_to_string MessageMode_from_string "\<lambda>_. True"
  by unfold_locales (induct_tac x; code_simp)

interpretation message_type_name: enum_codec MessageType_to_string MessageType_from_string "\<lambda>_. True"
  by unfold_locales (induct_tac x; code_simp)

text \<open>Each field read from the octet, written back.\<close>

lemma u8_bits_eqI:
  fixes a b :: u8
  assumes "bit a 0 = bit b 0" "bit a 1 = bit b 1" "bit a 2 = bit b 2" "bit a 3 = bit b 3"
    "bit a 4 = bit b 4" "bit a 5 = bit b 5" "bit a 6 = bit b 6" "bit a 7 = bit b 7"
  shows "a = b"
proof (rule bit_word_eqI)
  fix n assume "n < LENGTH(8)"
  then have "n \<in> {0, 1, 2, 3, 4, 5, 6, 7}" by auto
  with assms show "bit a n = bit b n" by auto
qed

lemma u8_two_bits:
  fixes v :: u8
  shows "v AND 0x03 = (if bit v 1 then 2 else 0) OR (if bit v 0 then 1 else 0)"
    and "v AND 0x24 = (if bit v 5 then 0x20 else 0) OR (if bit v 2 then 4 else 0)"
    and "v AND 0x18 = (if bit v 4 then 0x10 else 0) OR (if bit v 3 then 8 else 0)"
    and "v AND 0xC0 = (if bit v 7 then 0x80 else 0) OR (if bit v 6 then 0x40 else 0)"
  by (rule u8_bits_eqI; simp add: bit_simps)+

lemma esm_fields_written_back:
  fixes v :: u8
  shows "MessageMode_as_u8 (MessageMode_from_u8 v) = v AND 0x03"
    and "MessageType_as_u8 (MessageType_from_u8 v) = (if v AND 0x24 = 0x24 then 0 else v AND 0x24)"
    and "Ansi41Specific_as_u8 (Ansi41Specific_from_u8 v) = (if v AND 0x18 = 0 then 0x19 else v AND 0x18)"
    and "GSMSpecific_as_u8 (GSMSpecific_from_u8 v) = v AND 0xC0"
  by (simp_all add: MessageMode_from_u8_def MessageType_from_u8_def Ansi41Specific_from_u8_def
      GSMSpecific_from_u8_def u8_two_bits)

lemma two_bit_octet: "(w :: u8) < 4 \<Longrightarrow> w AND 0x03 = w"
proof -
  assume "w < 4"
  then have "unat w < 2 ^ 2" by (simp add: word_less_nat_alt)
  then have "take_bit 2 w = w" by (simp add: word_unat_eq_iff unsigned_take_bit_eq take_bit_nat_eq_self)
  moreover have "(0x03 :: u8) = mask 2" by (simp add: mask_eq_exp_minus_1)
  ultimately show ?thesis by (simp add: take_bit_eq_mask)
qed

interpretation message_mode_code:
  exact_enum_codec MessageMode_as_u8 "\<lambda>w. if w < 4 then Some (MessageMode_from_u8 w) else None" "\<lambda>_. True"
proof unfold_locales
  show "(if MessageMode_as_u8 x < 4 then Some (MessageMode_from_u8 (MessageMode_as_u8 x)) else None) = Some x" for x
    by (induct x; code_simp)
  show "(if w < 4 then Some (MessageMode_from_u8 w) else None) = Some x \<Longrightarrow> MessageMode_as_u8 x = w" for w x
    by (auto simp: esm_fields_written_back two_bit_octet split: if_splits)
qed simp

lemma esm_parts:
  "MessageMode_from_string (trim (trim_start_matches ''message_mode: ''
     (trim ('' message_mode: '' @ MessageMode_to_string m)))) = Some m"
  "MessageType_from_string (trim (trim_start_matches ''message_type: ''
     (trim ('' message_type: '' @ MessageType_to_string t)))) = Some t"
  "Ansi41Specific_from_string (trim (trim_start_matches ''ansi41_specific: ''
     (trim ('' ansi41_specific: '' @ Ansi41Specific_to_string a)))) = a"
  "GSMSpecific_from_string (trim (trim_start_matches ''gsm_specific: ''
     (trim ('' gsm_specific: '' @ GSMSpecific_to_string g @ '' '')))) = g"
  by ((induct m; code_simp), (induct t; code_simp), (induct a; code_simp), (induct g; code_simp))

lemma esm_names_no_comma:
  "CHR '','' \<notin> set (MessageMode_to_string m)" "CHR '','' \<notin> set (MessageType_to_string t)"
  "CHR '','' \<notin> set (Ansi41Specific_to_string a)" "CHR '','' \<notin> set (GSMSpecific_to_string g)"
  by ((induct m; simp), (induct t; simp), (induct a; simp), (induct g; simp))

lemma esm_text_trimmed:
  "trim_end_matches ''}'' (trim_start_matches ''EsmClass {'' (EsmClass_to_string e)) =
     ('' message_mode: '' @ MessageMode_to_string (message_mode e)) @ CHR '','' #
     ('' message_type: '' @ MessageType_to_string (message_type e)) @ CHR '','' #
     ('' ansi41_specific: '' @ Ansi41Specific_to_string (ansi41_specific e)) @ CHR '','' #
     ('' gsm_specific: '' @ GSMSpecific_to_string (gsm_specific e) @ '' '')"
proof -
  let ?t = "'' message_mode: '' @ MessageMode_to_string (message_mode e)
     @ '', message_type: '' @ MessageType_to_string (message_type e)
     @ '', ansi41_specific: '' @ Ansi41Specific_to_string (ansi41_specific e)
     @ '', gsm_specific: '' @ GSMSpecific_to_string (gsm_specific e)"
  have "EsmClass_to_string e = ''EsmClass {'' @ ?t @ '' }''" by (simp add: EsmClass_to_string_def)
  then have "trim_start_matches ''EsmClass {'' (EsmClass_to_string e) = ?t @ '' }''"
    by (simp only: trim_start_matches_def) (rule strip_front_once; simp add: starts_with_def)
  moreover have "strip_front [''}''] (''}'' @ '' '' @ rev ?t) = '' '' @ rev ?t"
    by (rule strip_front_once; simp add: starts_with_def)
  ultimately have "trim_end_matches ''}'' (trim_start_matches ''EsmClass {'' (EsmClass_to_string e)) = ?t @ '' ''"
    by (simp add: trim_end_matches_def)
  then show ?thesis by simp
qed

section \<open>Properties\<close>

text \<open>
  Which \<^verbatim>\<open>esm_class\<close> octets survive decoding and encoding: those whose ANSI-41 bits are
  not zero and whose type bits are not both set.  Every octet without ANSI-41 bits, the default
  \<open>0\<close> included, comes back with the bits of the number 25 set.
\<close>

theorem esm_class_octet:
  "EsmClass_as_u8 (the (EsmClass_from_u8 v)) =
     (if v AND 0x24 = 0x24 then v AND 0xDB else v) OR (if v AND 0x18 = 0 then 0x19 else 0)"
  by (rule u8_bits_eqI; simp add: EsmClass_as_u8_def EsmClass_from_u8_def esm_fields_written_back bit_simps)

text \<open>Every \<^verbatim>\<open>EsmClass\<close> value is read back from its textual form.\<close>

theorem esm_class_text: "EsmClass_from_string (EsmClass_to_string e) = Some e"
proof -
  have "split_text '','' (trim_end_matches ''}'' (trim_start_matches ''EsmClass {'' (EsmClass_to_string e))) =
    ['' message_mode: '' @ MessageMode_to_string (message_mode e),
     '' message_type: '' @ MessageType_to_string (message_type e),
     '' ansi41_specific: '' @ Ansi41Specific_to_string (ansi41_specific e),
     '' gsm_specific: '' @ GSMSpecific_to_string (gsm_specific e) @ '' '']"
    unfolding esm_text_trimmed
    by (subst split_text_Cons [where p = "[]", simplified], simp add: esm_names_no_comma)+
      (subst split_text_single, simp_all add: esm_names_no_comma)
  then show ?thesis by (simp add: EsmClass_from_string_def Let_def esm_parts del: append.simps)
qed

end
