(* ===== verification/Registered_Delivery.thy ===== *)
theory Registered_Delivery
  imports Esm_Class
begin

text \<open>
  The \<^verbatim>\<open>registered_delivery\<close> octet of a message (\<^verbatim>\<open>registered_delivery.rs\<close>): which receipts,
  acknowledgements and notifications the sender asks for.  The decoders of the single fields
  mark the impossible case as unreachable, which is a panic.
\<close>

section \<open>The fields\<close>

datatype DeliveryReceipt =
    DR_NoRequested | DR_RequestedWhenDeliverySucessOrFailure | DR_RequestedWhenDeliveryFailure
  | DR_RequestedWhenDeliverySuccess

definition DeliveryReceipt_from_u8 :: "u8 \<Rightarrow> (unit, DeliveryReceipt) outcome" where
  "DeliveryReceipt_from_u8 value =
     (let v = value AND 0b00000011 in
      if v = 0b00000000 then Ok DR_NoRequested
      else if v = 0b00000001 then Ok DR_RequestedWhenDeliverySucessOrFailure
      else if v = 0b00000010 then Ok DR_RequestedWhenDeliveryFailure
      else if v = 0b00000011 then Ok DR_RequestedWhenDeliverySuccess else Panic)"

definition is_delivery_receipt_requested :: "DeliveryReceipt \<Rightarrow> bool" where
  "is_delivery_receipt_requested d = (d \<noteq> DR_NoRequested)"

primrec DeliveryReceipt_to_u8 :: "DeliveryReceipt \<Rightarrow> u8" where
  "DeliveryReceipt_to_u8 DR_NoRequested = 0b00000000"
| "DeliveryReceipt_to_u8 DR_RequestedWhenDeliverySucessOrFailure = 0b00000001"
| "DeliveryReceipt_to_u8 DR_RequestedWhenDeliveryFailure = 0b00000010"
| "DeliveryReceipt_to_u8 DR_RequestedWhenDeliverySuccess = 0b00000011"

primrec DeliveryReceipt_to_string :: "DeliveryReceipt \<Rightarrow> string" where
  "DeliveryReceipt_to_string DR_NoRequested = ''NoRequested''"
| "DeliveryReceipt_to_string DR_RequestedWhenDeliverySucessOrFailure = ''RequestedWhenDeliverySucessOrFailure''"
| "DeliveryReceipt_to_string DR_RequestedWhenDeliveryFailure = ''RequestedWhenDeliveryFailure''"
| "DeliveryReceipt_to_string DR_RequestedWhenDeliverySuccess = ''RequestedWhenDeliverySuccess''"

definition DeliveryReceipt_from_string :: "string \<Rightarrow> DeliveryReceipt option" where
  "DeliveryReceipt_from_string value =
     map_of [(''NoRequested'', DR_NoRequested),
       (''RequestedWhenDeliverySucessOrFailure'', DR_RequestedWhenDeliverySucessOrFailure),
       (''RequestedWhenDeliveryFailure'', DR_RequestedWhenDeliveryFailure),
       (''RequestedWhenDeliverySuccess'', DR_RequestedWhenDeliverySuccess)] value"

datatype SMEOriginatedAcknowledgement =
    SA_NoRequested | SA_DeliveryAckRequested | SA_ManualAckRequest | SA_DeliveryAckAndManualAckRequested

definition SMEOriginatedAcknowledgement_from_u8 ::
    "u8 \<Rightarrow> (unit, SMEOriginatedAcknowledgement) outcome" where
  "SMEOriginatedAcknowledgement_from_u8 value =
     (let v = value AND 0b00001100 in
      if v = 0b00000000 then Ok SA_NoRequested
      else if v = 0b00000100 then Ok SA_DeliveryAckRequested
      else if v = 0b00001000 then Ok SA_ManualAckRequest
      else if v = 0b00001100 then Ok SA_DeliveryAckAndManualAckRequested else Panic)"

definition is_sme_ack_requested :: "SMEOriginatedAcknowledgement \<Rightarrow> bool" where
  "is_sme_ack_requested a = (a \<noteq> SA_NoRequested)"

primrec SMEOriginatedAcknowledgement_to_u8 :: "SMEOriginatedAcknowledgement \<Rightarrow> u8" where
  "SMEOriginatedAcknowledgement_to_u8 SA_NoRequested = 0b00000000"
| "SMEOriginatedAcknowledgement_to_u8 SA_DeliveryAckRequested = 0b00000100"
| "SMEOriginatedAcknowledgement_to_u8 SA_ManualAckRequest = 0b00001000"
| "SMEOriginatedAcknowledgement_to_u8 SA_DeliveryAckAndManualAckRequested = 0b00001100"

primrec SMEOriginatedAcknowledgement_to_string :: "SMEOriginatedAcknowledgement \<Rightarrow> string" where
  "SMEOriginatedAcknowledgement_to_string SA_NoRequested = ''NoRequested''"
| "SMEOriginatedAcknowledgement_to_string SA_DeliveryAckRequested = ''DeliveryAckRequested''"
| "SMEOriginatedAcknowledgement_to_string SA_ManualAckRequest = ''ManualAckRequest''"
| "SMEOriginatedAcknowledgement_to_string SA_DeliveryAckAndManualAckRequested =
     ''DeliveryAckAndManualAckRequested''"

definition SMEOriginatedAcknowledgement_from_string :: "string \<Rightarrow> SMEOriginatedAcknowledgement option" where
  "SMEOriginatedAcknowledgement_from_string value =
     map_of [(''NoRequested'', SA_NoRequested), (''DeliveryAckRequested'', SA_DeliveryAckRequested),
       (''ManualAckRequest'', SA_ManualAckRequest),
       (''DeliveryAckAndManualAckRequested'', SA_DeliveryAckAndManualAckRequested)] value"

datatype IntermediateNotification = IN_NoRequested | IN_Requested

definition IntermediateNotification_from_u8 :: "u8 \<Rightarrow> (unit, IntermediateNotification) outcome" where
  "IntermediateNotification_from_u8 value =
     (let v = value AND 0b00010000 in
      if v = 0b00000000 then Ok IN_NoRequested else if v = 0b00010000 then Ok IN_Requested else Panic)"

primrec IntermediateNotification_to_u8 :: "IntermediateNotification \<Rightarrow> u8" where
  "IntermediateNotification_to_u8 IN_NoRequested = 0b00000000"
| "IntermediateNotification_to_u8 IN_Requested = 0b00010000"

primrec IntermediateNotification_to_string :: "IntermediateNotification \<Rightarrow> string" where
  "IntermediateNotification_to_string IN_NoRequested = ''NoRequested''"
| "IntermediateNotification_to_string IN_Requested = ''Requested''"

definition IntermediateNotification_from_string :: "string \<Rightarrow> IntermediateNotification option" where
  "IntermediateNotification_from_string value =
     map_of [(''NoRequested'', IN_NoRequested), (''Requested'', IN_Requested)] value"

section \<open>The octet\<close>

record RegisteredDelivery =
  delivery_receipt :: DeliveryReceipt
  sme_acked :: SMEOriginatedAcknowledgement
  intermediate_notification :: IntermediateNotification

definition RegisteredDelivery_default :: RegisteredDelivery where
  "RegisteredDelivery_default =
     \<lparr>delivery_receipt = DR_NoRequested, sme_acked = SA_NoRequested,
      intermediate_notification = IN_NoRequested\<rparr>"

definition RegisteredDelivery_to_u8 :: "RegisteredDelivery \<Rightarrow> u8" where
  "RegisteredDelivery_to_u8 r =
     ((0 OR DeliveryReceipt_to_u8 (delivery_receipt r))
        OR SMEOriginatedAcknowledgement_to_u8 (sme_acked r))
        OR IntermediateNotification_to_u8 (intermediate_notification r)"

text \<open>The decoder repeats the three matches of the field decoders.\<close>

definition RegisteredDelivery_from_u8 :: "u8 \<Rightarrow> (unit, RegisteredDelivery) outcome" where
  "RegisteredDelivery_from_u8 value =
     try_ok (DeliveryReceipt_from_u8 value) (\<lambda>d.
     try_ok (SMEOriginatedAcknowledgement_from_u8 value) (\<lambda>s.
     try_ok (IntermediateNotification_from_u8 value) (\<lambda>i.
     Ok \<lparr>delivery_receipt = d, sme_acked = s, intermediate_notification = i\<rparr>)))"

definition RegisteredDelivery_to_string :: "RegisteredDelivery \<Rightarrow> string" where
  "RegisteredDelivery_to_string r =
     ''RegisteredDelivery { delivery_receipt: '' @ DeliveryReceipt_to_string (delivery_receipt r)
     @ '', sme_acked: '' @ SMEOriginatedAcknowledgement_to_string (sme_acked r)
     @ '', intermediate_notification: ''
     @ IntermediateNotification_to_string (intermediate_notification r) @ '' }''"

definition RegisteredDelivery_from_string :: "string \<Rightarrow> RegisteredDelivery option" where
  "RegisteredDelivery_from_string value =
     (let parts = split_text '', ''
            (trim_end_matches '' }'' (trim_start_matches ''RegisteredDelivery { '' value))
      in if length parts \<noteq> 3 then None
         else case DeliveryReceipt_from_string (trim (trim_start_matches ''delivery_receipt: '' (parts ! 0))) of
                None \<Rightarrow> None
              | Some d \<Rightarrow>
                  (case SMEOriginatedAcknowledgement_from_string
                          (trim (trim_start_matches ''sme_acked: '' (parts ! 1))) of
                     None \<Rightarrow> None
                   | Some s \<Rightarrow>
                       (case IntermediateNotification_from_string
                               (trim (trim_start_matches ''intermediate_notification: '' (parts ! 2))) of
                          None \<Rightarrow> None
                        | Some i \<Rightarrow>
                            Some \<lparr>delivery_receipt = d, sme_acked = s, intermediate_notification = i\<rparr>)))"

section \<open>Laws\<close>

interpretation delivery_receipt_name:
  enum_codec DeliveryReceipt_to_string DeliveryReceipt_from_string "\<lambda>_. True"
  by unfold_locales (induct_tac x; code_simp)

interpretation sme_ack_name:
  enum_codec SMEOriginatedAcknowledgement_to_string SMEOriginatedAcknowledgement_from_string "\<lambda>_. True"
  by unfold_locales (induct_tac x; code_simp)

interpretation intermediate_name:
  enum_codec IntermediateNotification_to_string IntermediateNotification_from_string "\<lambda>_. True"
  by unfold_locales (induct_tac x; code_simp)

lemma u8_more_bits:
  fixes v :: u8
  shows "v AND 0x0C = (if bit v 3 then 8 else 0) OR (if bit v 2 then 4 else 0)"
    and "v AND 0x10 = (if bit v 4 then 0x10 else 0)"
  by (rule u8_bits_eqI; simp add: bit_simps)+

lemma registered_fields_written_back:
  fixes v :: u8
  shows "map_ok DeliveryReceipt_to_u8 (DeliveryReceipt_from_u8 v) = Ok (v AND 0x03)"
    and "map_ok SMEOriginatedAcknowledgement_to_u8 (SMEOriginatedAcknowledgement_from_u8 v) = Ok (v AND 0x0C)"
    and "map_ok IntermediateNotification_to_u8 (IntermediateNotification_from_u8 v) = Ok (v AND 0x10)"
  by (simp_all add: DeliveryReceipt_from_u8_def SMEOriginatedAcknowledgement_from_u8_def
      IntermediateNotification_from_u8_def u8_two_bits u8_more_bits)

lemma registered_parts:
  "DeliveryReceipt_from_string (trim (trim_start_matches ''delivery_receipt: ''
     (''delivery_receipt: '' @ DeliveryReceipt_to_string d))) = Some d"
  "SMEOriginatedAcknowledgement_from_string (trim (trim_start_matches ''sme_acked: ''
     (''sme_acked: '' @ SMEOriginatedAcknowledgement_to_string s))) = Some s"
  "IntermediateNotification_from_string (trim (trim_start_matches ''intermediate_notification: ''
     (''intermediate_notification: '' @ IntermediateNotification_to_string i))) = Some i"
  by ((induct d; code_simp), (induct s; code_simp), (induct i; code_simp))

section \<open>Properties\<close>

text \<open>
  Decoding a \<^verbatim>\<open>registered_delivery\<close> octet never reaches the unreachable branch, and
  encoding the result gives the octet back with its three reserved bits cleared; every value
  survives encoding and decoding.
\<close>

theorem registered_delivery_octet:
  "map_ok RegisteredDelivery_to_u8 (RegisteredDelivery_from_u8 v) = Ok (v AND 0x1F)
   \<and> RegisteredDelivery_from_u8 (RegisteredDelivery_to_u8 r) = Ok r"
proof
  obtain d s i where f: "DeliveryReceipt_from_u8 v = Ok d" "SMEOriginatedAcknowledgement_from_u8 v = Ok s"
    "IntermediateNotification_from_u8 v = Ok i"
    and b: "DeliveryReceipt_to_u8 d = v AND 0x03" "SMEOriginatedAcknowledgement_to_u8 s = v AND 0x0C"
      "IntermediateNotification_to_u8 i = v AND 0x10"
    using registered_fields_written_back [of v] by (auto simp: map_ok_eq_Ok)
  have "(v AND 0x03) OR (v AND 0x0C) OR (v AND 0x10) = v AND 0x1F"
    by (rule u8_bits_eqI; simp add: bit_simps)
  then show "map_ok RegisteredDelivery_to_u8 (RegisteredDelivery_from_u8 v) = Ok (v AND 0x1F)"
    by (simp add: RegisteredDelivery_from_u8_def RegisteredDelivery_to_u8_def f b or.assoc)
  obtain d s i where r: "r = \<lparr>delivery_receipt = d, sme_acked = s, intermediate_notification = i\<rparr>"
    by (rule RegisteredDelivery.cases)
  show "RegisteredDelivery_from_u8 (RegisteredDelivery_to_u8 r) = Ok r"
    unfolding r by (induct d; induct s; induct i; code_simp)
qed

text \<open>Every \<^verbatim>\<open>RegisteredDelivery\<close> value is read back from its textual form.\<close>

theorem registered_delivery_text:
  "RegisteredDelivery_from_string (RegisteredDelivery_to_string r) = Some r"
proof -
  let ?d = "''delivery_receipt: '' @ DeliveryReceipt_to_string (delivery_receipt r)"
  let ?s = "''sme_acked: '' @ SMEOriginatedAcknowledgement_to_string (sme_acked r)"
  let ?i = "''intermediate_notification: '' @ IntermediateNotification_to_string (intermediate_notification r)"
  let ?t = "?d @ '', '' @ ?s @ '', '' @ ?i"
  have "RegisteredDelivery_to_string r = ''RegisteredDelivery { '' @ ?t @ '' }''"
    by (simp add: RegisteredDelivery_to_string_def)
  then have "trim_start_matches ''RegisteredDelivery { '' (RegisteredDelivery_to_string r) = ?t @ '' }''"
    by (simp only: trim_start_matches_def) (rule strip_front_once; simp add: starts_with_def)
  moreover have "\<not> starts_with ''} '' (rev ?t)"
    by (cases "intermediate_notification r") (simp_all add: starts_with_def)
  then have "strip_front [''} ''] (''} '' @ rev ?t) = rev ?t" by (intro strip_front_once) simp_all
  ultimately have "trim_end_matches '' }'' (trim_start_matches ''RegisteredDelivery { '' (RegisteredDelivery_to_string r)) = ?t"
    by (simp add: trim_end_matches_def)
  moreover have "CHR '','' \<notin> set ?d" "CHR '','' \<notin> set ?s" "CHR '','' \<notin> set ?i"
    by ((cases "delivery_receipt r"; simp), (cases "sme_acked r"; simp),
        (cases "intermediate_notification r"; simp))
  then have "split_text '', '' ?t = [?d, ?s, ?i]"
    using split_text_Cons [of "CHR '',''" ?d "'' ''" "?s @ '', '' @ ?i"]
      split_text_Cons [of "CHR '',''" ?s "'' ''" ?i] split_text_single [of "CHR '',''" ?i "'' ''"]
    by metis
  ultimately show ?thesis by (simp add: RegisteredDelivery_from_string_def registered_parts del: append.simps)
qed

end
