(* ===== verification/Delivery_Receipts.thy ===== *)
theory Delivery_Receipts
  imports Registered_Delivery
begin

text \<open>
  The registry of receipt URLs (\<^verbatim>\<open>smsc_client/delivery_receipt_manager.rs\<close>): for every message
  that asked for receipts, where to post them, what was asked for, what has arrived, and until
  when.  An instant is a number of milliseconds; every reading of the clock is an argument.
\<close>

type_synonym receipt_entry = "string \<times> RegisteredDelivery \<times> EsmClass \<times> int"

record DeliveryReceiptManager =
  receipt_urls :: "string \<rightharpoonup> receipt_entry"
  next_clean_time :: int

abbreviation minutes :: "int \<Rightarrow> int" where "minutes n \<equiv> n * 60000"
abbreviation hours :: "int \<Rightarrow> int" where "hours n \<equiv> n * 3600000"

section \<open>Operations\<close>

definition DeliveryReceiptManager_new :: "int \<Rightarrow> DeliveryReceiptManager" where
  "DeliveryReceiptManager_new now = \<lparr>receipt_urls = Map.empty, next_clean_time = now + minutes 5\<rparr>"

definition retain_map :: "('v \<Rightarrow> bool) \<Rightarrow> ('k \<rightharpoonup> 'v) \<Rightarrow> ('k \<rightharpoonup> 'v)" where
  "retain_map P m k = (case m k of Some v \<Rightarrow> if P v then Some v else None | None \<Rightarrow> None)"

definition expire_time :: "receipt_entry \<Rightarrow> int" where
  "expire_time e = snd (snd (snd e))"

definition clean_expired_entries :: "int \<Rightarrow> int \<Rightarrow> DeliveryReceiptManager \<Rightarrow> DeliveryReceiptManager" where
  "clean_expired_entries now now' m =
     (if next_clean_time m > now then m
      else \<lparr>receipt_urls = retain_map (\<lambda>e. expire_time e > now) (receipt_urls m),
            next_clean_time = now' + minutes 5\<rparr>)"

definition nothing_requested :: "RegisteredDelivery \<Rightarrow> bool" where
  "nothing_requested r =
     (delivery_receipt r = DR_NoRequested \<and> intermediate_notification r = IN_NoRequested \<and>
      sme_acked r = SA_NoRequested)"

definition register_receipt_url ::
    "int \<Rightarrow> int \<Rightarrow> int \<Rightarrow> string \<Rightarrow> string \<Rightarrow> RegisteredDelivery \<Rightarrow> DeliveryReceiptManager
     \<Rightarrow> DeliveryReceiptManager" where
  "register_receipt_url t1 t2 t3 message_id receipt_url registered_delivery m =
     (if nothing_requested registered_delivery then m
      else let m' = clean_expired_entries t1 t2 m in
        m'\<lparr>receipt_urls := (receipt_urls m')(message_id \<mapsto>
             (receipt_url, registered_delivery, EsmClass_default, t3 + hours 1))\<rparr>)"

definition is_all_receipt_requested :: "RegisteredDelivery \<Rightarrow> EsmClass \<Rightarrow> bool" where
  "is_all_receipt_requested rd ec =
     (if is_delivery_receipt_requested (delivery_receipt rd) \<and> message_type ec \<noteq> MT_DeliveryReceipt then False
      else if intermediate_notification rd = IN_Requested
           \<and> message_type ec \<noteq> MT_IntermediateDeliveryNotification then False
      else if is_sme_ack_requested (sme_acked rd) \<and> \<not> is_delivery_ack (ansi41_specific ec) then False
      else True)"

definition get_receipt_url ::
    "int \<Rightarrow> string \<Rightarrow> EsmClass \<Rightarrow> DeliveryReceiptManager \<Rightarrow> string option \<times> DeliveryReceiptManager" where
  "get_receipt_url now message_id esm_class m =
     (case receipt_urls m message_id of
        Some (receipt_url, rd, existing, expire) \<Rightarrow>
          let url = (if expire > now then Some receipt_url else None);
              urls = (receipt_urls m)(message_id \<mapsto> (receipt_url, rd, merge_from existing esm_class, expire))
          in if is_all_receipt_requested rd esm_class
             then (url, m\<lparr>receipt_urls := urls(message_id := None)\<rparr>)
             else (url, m\<lparr>receipt_urls := urls\<rparr>)
      | None \<Rightarrow> (None, m))"

definition remove_receipt_info :: "string \<Rightarrow> DeliveryReceiptManager \<Rightarrow> DeliveryReceiptManager" where
  "remove_receipt_info message_id m = m\<lparr>receipt_urls := (receipt_urls m)(message_id := None)\<rparr>"

section \<open>Histories\<close>

text \<open>The registries that a sequence of operations can produce, at any clock readings.\<close>

inductive receipts_reach :: "DeliveryReceiptManager \<Rightarrow> bool" where
  created: "receipts_reach (DeliveryReceiptManager_new now)"
| registered: "receipts_reach m \<Longrightarrow> receipts_reach (register_receipt_url t1 t2 t3 mid url rd m)"
| looked_up: "receipts_reach m \<Longrightarrow> receipts_reach (snd (get_receipt_url now mid ec m))"
| removed: "receipts_reach m \<Longrightarrow> receipts_reach (remove_receipt_info mid m)"

definition receipts_inv :: "DeliveryReceiptManager \<Rightarrow> bool" where
  "receipts_inv m = (\<forall>mid e. receipt_urls m mid = Some e \<longrightarrow> \<not> nothing_requested (fst (snd e)))"

lemma receipts_inv_clean: "receipts_inv m \<Longrightarrow> receipts_inv (clean_expired_entries t1 t2 m)"
  by (auto simp: clean_expired_entries_def receipts_inv_def retain_map_def split: option.splits if_splits) blast

lemma receipts_inv_register: "receipts_inv m \<Longrightarrow> receipts_inv (register_receipt_url t1 t2 t3 mid url rd m)"
  using receipts_inv_clean [of m t1 t2]
  by (auto simp: register_receipt_url_def receipts_inv_def Let_def)

lemma receipts_inv_get: "receipts_inv m \<Longrightarrow> receipts_inv (snd (get_receipt_url now mid ec m))"
  by (auto simp: get_receipt_url_def receipts_inv_def Let_def split: option.splits if_splits)

lemma receipts_inv_remove: "receipts_inv m \<Longrightarrow> receipts_inv (remove_receipt_info mid m)"
  by (auto simp: remove_receipt_info_def receipts_inv_def)

text \<open>The lookup of one message leaves the entries of the others alone.\<close>

lemma get_receipt_url_other:
  "mid' \<noteq> mid \<Longrightarrow> receipt_urls (snd (get_receipt_url now mid ec m)) mid' = receipt_urls m mid'"
  by (auto simp: get_receipt_url_def Let_def split: option.split)

definition requests_both :: "RegisteredDelivery \<Rightarrow> bool" where
  "requests_both rd =
     (is_delivery_receipt_requested (delivery_receipt rd) \<and> intermediate_notification rd = IN_Requested)"

lemma requests_both_incomplete: "requests_both rd \<Longrightarrow> \<not> is_all_receipt_requested rd ec"
  by (auto simp: requests_both_def is_all_receipt_requested_def)

section \<open>Properties\<close>

text \<open>
  In every registry that a history of operations produces, each entry asks for at least
  one receipt, acknowledgement or notification.
\<close>

theorem receipt_registry_invariant:
  assumes "receipts_reach m" shows "receipts_inv m"
  using assms
proof induction
  case (created now)
  then show ?case by (simp add: receipts_inv_def DeliveryReceiptManager_new_def)
qed (simp_all add: receipts_inv_register receipts_inv_get receipts_inv_remove)

theorem receipt_registry_invariant_witness:
  "receipts_inv (register_receipt_url 0 0 0 ''m1'' ''http://a'' \<lparr>delivery_receipt =
     DR_RequestedWhenDeliverySuccess, sme_acked = SA_NoRequested,
     intermediate_notification = IN_NoRequested\<rparr> (DeliveryReceiptManager_new 0))"
  by (rule receipt_registry_invariant) (intro receipts_reach.intros)

text \<open>
  After a registration that asks for a receipt, the URL of the message is returned exactly
  until the expiry time, one hour later, whatever the registry was before.
\<close>

theorem receipt_lookup:
  assumes "\<not> nothing_requested rd"
  shows "fst (get_receipt_url now mid ec (register_receipt_url t1 t2 t3 mid url rd m))
        = (if now < t3 + hours 1 then Some url else None)"
  using assms by (simp add: get_receipt_url_def register_receipt_url_def Let_def)

definition receipt_and_notification :: RegisteredDelivery where
  "receipt_and_notification = \<lparr>delivery_receipt = DR_RequestedWhenDeliverySucessOrFailure,
     sme_acked = SA_NoRequested, intermediate_notification = IN_Requested\<rparr>"

theorem receipt_lookup_witness:
  "fst (get_receipt_url 3599999 ''m1'' EsmClass_default
     (register_receipt_url 0 0 0 ''m1'' ''http://a'' receipt_and_notification (DeliveryReceiptManager_new 0)))
   = Some ''http://a''"
proof -
  have "\<not> nothing_requested receipt_and_notification" by code_simp
  from receipt_lookup [OF this] show ?thesis by simp
qed

text \<open>
  A message that asked for a delivery receipt and for intermediate notifications is never
  complete: whatever notifications arrive for it, in whatever order, its entry stays in the
  registry until it expires and is cleaned up.
\<close>

theorem combined_request_never_completes:
  assumes "receipt_urls m mid = Some (url, rd, ec0, t)" "requests_both rd"
  shows "\<exists>ec1. receipt_urls (fold (\<lambda>(now, ec) m. snd (get_receipt_url now mid ec m)) ns m) mid
      = Some (url, rd, ec1, t)"
  using assms(1)
proof (induction ns arbitrary: m ec0)
  case (Cons n ns)
  obtain now ec where n: "n = (now, ec)" by (cases n)
  have "receipt_urls (snd (get_receipt_url now mid ec m)) mid = Some (url, rd, merge_from ec0 ec, t)"
    using Cons.prems requests_both_incomplete [OF assms(2)] by (simp add: get_receipt_url_def Let_def)
  from Cons.IH [OF this] show ?case by (simp add: n)
qed auto

theorem combined_request_never_completes_witness:
  "\<exists>ec1. receipt_urls (fold (\<lambda>(now, ec) m. snd (get_receipt_url now ''m1'' ec m))
       [(1, EsmClass_default\<lparr>message_type := MT_DeliveryReceipt\<rparr>),
        (2, EsmClass_default\<lparr>message_type := MT_IntermediateDeliveryNotification\<rparr>)]
       (register_receipt_url 0 0 0 ''m1'' ''http://a'' receipt_and_notification (DeliveryReceiptManager_new 0)))
     ''m1'' = Some (''http://a'', receipt_and_notification, ec1, 3600000)"
proof (rule combined_request_never_completes)
  show "requests_both receipt_and_notification" by code_simp
  show "receipt_urls (register_receipt_url 0 0 0 ''m1'' ''http://a'' receipt_and_notification
      (DeliveryReceiptManager_new 0)) ''m1''
    = Some (''http://a'', receipt_and_notification, EsmClass_default, 3600000)"
    by (simp add: register_receipt_url_def nothing_requested_def receipt_and_notification_def Let_def)
qed

end
