(* ===== verification/Config.thy ===== *)
theory Config
  imports Esm_Class Message_Codec
begin

text \<open>
  Configuration (\<^verbatim>\<open>config.rs\<close>): the parts of it that steer behaviour, and the operations on
  decoded messages of \<^verbatim>\<open>message.rs\<close> that need them: expansion of distribution lists and
  substitution of predefined messages.
\<close>

section \<open>Data\<close>

datatype LoadBalancingAlgorithm = RoundRobin | FailOver

definition LoadBalancingAlgorithm_from :: "string \<Rightarrow> LoadBalancingAlgorithm" where
  "LoadBalancingAlgorithm_from s =
     (let t = to_lowercase s in
      if t \<in> set [''roundrobin'', ''round_robin'', ''ro'', ''round-robin''] then RoundRobin
      else if t \<in> set [''failover'', ''fail_over'', ''fo'', ''fail-over''] then FailOver
      else RoundRobin)"

definition LoadBalancingAlgorithm_default :: LoadBalancingAlgorithm where
  "LoadBalancingAlgorithm_default = RoundRobin"

record SmscConnectionConfig =
  sc_address :: string
  sc_system_id :: string
  sc_password :: string
  sc_system_type :: string
  sc_addr_ton :: u8
  sc_addr_npi :: u8
  sc_address_range :: string
  sc_interface_version :: u8

record RequestHandlerConfig =
  rh_dest_addresses :: "string list option"
  rh_dest_address_patterns :: "string list option"
  rh_urls :: "string list"
  rh_algorithm :: "string option"

record UserCredential =
  uc_system_id :: string
  uc_password :: string

record Address =
  ton :: u8
  npi :: u8
  address :: string

record DistributionListConfig =
  dl_name :: string
  dl_addresses :: "Address list"

datatype MessageStorageConfig =
    MSC_InMemory
  | MSC_Sqlite string
  | MSC_Postgres string
  | MSC_Redis string "string option"
  | MSC_RabbitMQ string string
  | MSC_MySQL string

record UserAuthConfig =
  users_file :: "string option"
  auth_url :: "string option"

text \<open>The members of \<^verbatim>\<open>ServerConfig\<close> that the modelled operations read.\<close>

record ServerConfig =
  request_handlers :: "RequestHandlerConfig list option"
  user_auth :: UserAuthConfig
  distribution_list :: "DistributionListConfig list option"
  message_store :: "MessageStorageConfig option"
  default_validity_period :: "u32 option"
  default_mc_mode :: "string option"
  predefined_messages :: "string list option"
  default_service_type :: "string option"

section \<open>Defaults\<close>

definition get_default_validity_period :: "ServerConfig \<Rightarrow> u32" where
  "get_default_validity_period c = (case default_validity_period c of Some v \<Rightarrow> v | None \<Rightarrow> 3600)"

definition get_default_mc_mode :: "ServerConfig \<Rightarrow> MessageMode" where
  "get_default_mc_mode c =
     (let message_mode =
        (case MessageMode_from_string
                (case default_mc_mode c of Some s \<Rightarrow> s | None \<Rightarrow> ''storeandforward'') of
           Some m \<Rightarrow> m | None \<Rightarrow> MM_StoreAndForward)
      in if message_mode = MM_Default then MM_StoreAndForward else message_mode)"

text \<open>
  The subtraction \<^verbatim>\<open>index - 1\<close> on \<^verbatim>\<open>usize\<close> panics for the index zero in a build with
  overflow checks and otherwise wraps to a number that no list reaches.
\<close>

definition get_predefined_message :: "bool \<Rightarrow> ServerConfig \<Rightarrow> nat \<Rightarrow> (unit, string option) outcome" where
  "get_predefined_message overflow_checks c index =
     (case predefined_messages c of
        Some ms \<Rightarrow>
          if index = 0 then (if overflow_checks then Panic else Ok None)
          else if index - 1 < length ms then Ok (Some (ms ! (index - 1))) else Ok None
      | None \<Rightarrow> Ok None)"

definition get_default_service_type :: "ServerConfig \<Rightarrow> string" where
  "get_default_service_type c = (case default_service_type c of Some s \<Rightarrow> s | None \<Rightarrow> [])"

definition get_default_session_init_timer :: u32 where "get_default_session_init_timer = 30"
definition get_default_enquire_link_timer :: u32 where "get_default_enquire_link_timer = 30"
definition get_default_inactive_timer :: u32 where "get_default_inactive_timer = 300"
definition get_default_response_timer :: u32 where "get_default_response_timer = 30"
definition get_default_bind_type :: string where "get_default_bind_type = ''transceiver''"

section \<open>Distribution lists\<close>

record DistrubutionList =
  dl :: "string \<rightharpoonup> Address list"

definition DistrubutionList_create_from :: "DistributionListConfig list \<Rightarrow> DistrubutionList" where
  "DistrubutionList_create_from configs =
     \<lparr>dl = map_of (rev (map (\<lambda>c. (dl_name c, dl_addresses c)) configs))\<rparr>"

definition DistrubutionList_get :: "DistrubutionList \<Rightarrow> string \<Rightarrow> Address list option" where
  "DistrubutionList_get d name = dl d name"

definition json_address :: "json \<Rightarrow> Address option" where
  "json_address v =
     (case (get_u64 ''dest_addr_ton'' v, get_u64 ''dest_addr_npi'' v, get_str ''destination_addr'' v) of
        (Some t, Some n, Some a) \<Rightarrow> Some \<lparr>ton = ucast t, npi = ucast n, address = a\<rparr>
      | _ \<Rightarrow> None)"

definition expand_address :: "DistrubutionList \<Rightarrow> json \<Rightarrow> Address list" where
  "expand_address d addr =
     (case json_address addr of
        Some a \<Rightarrow> [a]
      | None \<Rightarrow>
          (case get_str ''dl_name'' addr of
             Some name \<Rightarrow> (case DistrubutionList_get d name of Some as \<Rightarrow> as | None \<Rightarrow> [])
           | None \<Rightarrow> []))"

definition extract_destionation_addresses :: "json \<Rightarrow> DistrubutionList \<Rightarrow> Address list io" where
  "extract_destionation_addresses decoded_message d =
     Ok (case extract_command_id decoded_message of
           Some c \<Rightarrow>
             if c = SubmitSm \<or> c = DataSm \<or> c = DeliverSm
             then (case json_address decoded_message of Some a \<Rightarrow> [a] | None \<Rightarrow> [])
             else if c = SubmitMulti
             then (case Option.bind (jget ''dest_addresses'' decoded_message) as_array of
                     Some dest_addresses \<Rightarrow> concat (map (expand_address d) dest_addresses)
                   | None \<Rightarrow> [])
             else []
         | None \<Rightarrow> [])"

section \<open>Predefined messages\<close>

definition replace_message_with_predefined :: "string \<Rightarrow> json \<Rightarrow> json io" where
  "replace_message_with_predefined predefined_message value =
     (case extract_command_id value of
        Some c \<Rightarrow>
          if c = SubmitSm \<or> c = DataSm \<or> c = DeliverSm
          then (case jget ''short_message'' value of
                  Some short_message \<Rightarrow>
                    if as_str short_message = None \<or> as_str short_message = Some []
                    then Ok (obj_replace ''short_message'' (JString predefined_message) value)
                    else Ok value
                | None \<Rightarrow> inval ''Missing short_message field'')
          else Ok value
      | None \<Rightarrow> Ok value)"

section \<open>Properties\<close>

lemma json_address_sme: "json_address (sme_address_json t n a) = Some \<lparr>ton = t, npi = n, address = a\<rparr>"
  by (simp add: json_address_def sme_address_json_def get_u64_def get_str_def jget_jobject)

lemma expand_address_cases:
  "expand_address d (sme_address_json t n a) = [\<lparr>ton = t, npi = n, address = a\<rparr>]"
  "expand_address d (dl_name_json name) = (case dl d name of Some as \<Rightarrow> as | None \<Rightarrow> [])"
proof -
  show "expand_address d (sme_address_json t n a) = [\<lparr>ton = t, npi = n, address = a\<rparr>]"
    by (simp add: expand_address_def json_address_sme)
  have "json_address (dl_name_json name) = None" "get_str ''dl_name'' (dl_name_json name) = Some name"
    by (simp_all add: json_address_def dl_name_json_def get_u64_def get_str_def jget_jobject)
  then show "expand_address d (dl_name_json name) = (case dl d name of Some as \<Rightarrow> as | None \<Rightarrow> [])"
    by (simp add: expand_address_def DistrubutionList_get_def)
qed

text \<open>The destinations of a \<^verbatim>\<open>submit_multi\<close>: single addresses and names of distribution lists.\<close>

datatype destination = Sme Address | ListName string

definition destination_json :: "destination \<Rightarrow> json" where
  "destination_json x =
     (case x of Sme a \<Rightarrow> sme_address_json (ton a) (npi a) (address a) | ListName n \<Rightarrow> dl_name_json n)"

definition destination_addresses :: "DistributionListConfig list \<Rightarrow> destination \<Rightarrow> Address list" where
  "destination_addresses configs x =
     (case x of
        Sme a \<Rightarrow> [a]
      | ListName n \<Rightarrow>
          (case find (\<lambda>c. dl_name c = n) (rev configs) of Some c \<Rightarrow> dl_addresses c | None \<Rightarrow> []))"

lemma map_of_find:
  "map_of (map (\<lambda>c. (f c, g c)) cs) n = map_option g (find (\<lambda>c. f c = n) cs)"
  by (induction cs) auto

lemma expand_destination:
  "expand_address (DistrubutionList_create_from configs) (destination_json x) = destination_addresses configs x"
proof (cases x)
  case (Sme a)
  then show ?thesis by (simp add: destination_json_def destination_addresses_def expand_address_cases)
next
  case (ListName n)
  have "dl (DistrubutionList_create_from configs) n = map_option dl_addresses (find (\<lambda>c. dl_name c = n) (rev configs))"
    by (simp add: DistrubutionList_create_from_def rev_map map_of_find)
  then show ?thesis
    by (simp add: ListName destination_json_def destination_addresses_def expand_address_cases split: option.split)
qed

text \<open>
  The destinations of a decoded \<^verbatim>\<open>submit_multi\<close> are expanded in order: an address stands for
  itself, the name of a distribution list for the addresses of its last definition in the
  configuration, and an unknown name for nothing.
\<close>

theorem submit_multi_destinations:
  assumes "extract_command_id v = Some SubmitMulti"
    "jget ''dest_addresses'' v = Some (JArray (map destination_json xs))"
  shows "extract_destionation_addresses v (DistrubutionList_create_from configs)
    = Ok (concat (map (destination_addresses configs) xs))"
  using assms by (simp add: extract_destionation_addresses_def comp_def expand_destination)

definition sample_multi :: json where
  "sample_multi = jobject [(''command_name'', JString ''SubmitMulti''),
     (''dest_addresses'', JArray (map destination_json
        [Sme \<lparr>ton = 1, npi = 1, address = ''555''\<rparr>, ListName ''staff'', ListName ''nobody'']))]"

theorem submit_multi_destinations_witness:
  "extract_destionation_addresses sample_multi (DistrubutionList_create_from
      [\<lparr>dl_name = ''staff'', dl_addresses = [\<lparr>ton = 1, npi = 1, address = ''100''\<rparr>, \<lparr>ton = 1, npi = 1, address = ''101''\<rparr>]\<rparr>])
   = Ok (concat (map (destination_addresses
      [\<lparr>dl_name = ''staff'', dl_addresses = [\<lparr>ton = 1, npi = 1, address = ''100''\<rparr>, \<lparr>ton = 1, npi = 1, address = ''101''\<rparr>]\<rparr>])
        [Sme \<lparr>ton = 1, npi = 1, address = ''555''\<rparr>, ListName ''staff'', ListName ''nobody'']))"
proof (rule submit_multi_destinations)
  show "extract_command_id sample_multi = Some SubmitMulti" by code_simp
  show "jget ''dest_addresses'' sample_multi = Some (JArray (map destination_json
        [Sme \<lparr>ton = 1, npi = 1, address = ''555''\<rparr>, ListName ''staff'', ListName ''nobody'']))"
    unfolding sample_multi_def jget_jobject by simp
qed

lemma get_default_mc_mode_not_default: "get_default_mc_mode c \<noteq> MM_Default"
  by (simp add: get_default_mc_mode_def Let_def)

end
