(* ===== verification/Times.thy ===== *)
theory Times
  imports Config
begin

text \<open>
  Delivery times: \<^verbatim>\<open>parse_absolute_relative_time\<close> of \<^verbatim>\<open>field_codec.rs\<close> and the accessors
  \<^verbatim>\<open>get_schedule_delivery_time\<close>, \<^verbatim>\<open>get_validity_period\<close> and \<^verbatim>\<open>get_destination_address\<close> of
  \<^verbatim>\<open>message_storage.rs\<close>.  A \<^verbatim>\<open>DateTime<Local>\<close> is its instant, in nanoseconds; the calendar of
  the \<^verbatim>\<open>chrono\<close> crate is a parameter, and the clock reading \<open>now\<close> an argument.
\<close>

section \<open>The calendar\<close>

type_synonym instant = int

text \<open>
  \<open>naive_of\<close> is \<^verbatim>\<open>NaiveDateTime::parse_from_str(_, "%y%m%d%H%M%S")\<close>, \<open>of_local\<close> is
  \<^verbatim>\<open>Local.from_local_datetime\<close>, which has no unique answer around a change of the clocks, and the
  additions of \<^verbatim>\<open>Days\<close>, \<^verbatim>\<open>Months\<close> and \<^verbatim>\<open>Duration\<close> have none out of the range of dates; where
  there is no answer the program panics.
\<close>

record chrono =
  naive_of :: "string \<Rightarrow> int option"
  of_local :: "int \<Rightarrow> instant option"
  plus_days :: "nat \<Rightarrow> instant \<Rightarrow> instant option"
  plus_months :: "nat \<Rightarrow> instant \<Rightarrow> instant option"
  plus_duration :: "int \<Rightarrow> int \<Rightarrow> int option"

definition seconds :: "int \<Rightarrow> int" where "seconds s = s * 1000000000"
definition minutes :: "int \<Rightarrow> int" where "minutes m = seconds (m * 60)"
definition hours :: "int \<Rightarrow> int" where "hours h = minutes (h * 60)"
definition milliseconds :: "int \<Rightarrow> int" where "milliseconds n = n * 1000000"

definition or_panic :: "'a option \<Rightarrow> ('e, 'a) outcome" where
  "or_panic x = (case x of Some v \<Rightarrow> Ok v | None \<Rightarrow> Panic)"

lemma or_panic_simps [simp]: "or_panic (Some x) = Ok x" "or_panic None = Panic"
  by (simp_all add: or_panic_def)

text \<open>\<^verbatim>\<open>str::parse::<i64>\<close>.\<close>

definition parse_i64 :: "string \<Rightarrow> int option" where
  "parse_i64 s =
     (case s of
        c # r \<Rightarrow>
          if c = CHR ''-''
          then (case parse_digits 10 r of
                  Some n \<Rightarrow> if n \<le> 2 ^ 63 then Some (- int n) else None | None \<Rightarrow> None)
          else map_option int (parse_unsigned (2 ^ 63) 10 s)
      | [] \<Rightarrow> None)"

section \<open>Parsing\<close>

definition time_digits :: "nat \<Rightarrow> nat \<Rightarrow> string \<Rightarrow> (string, nat) outcome" where
  "time_digits a b s = try_ok (str_slice a b s) (\<lambda>t. or_panic (parse_unsigned (2 ^ 32) 10 t))"

definition parse_relative :: "chrono \<Rightarrow> instant \<Rightarrow> string \<Rightarrow> (string, instant) outcome" where
  "parse_relative C now s =
     try_ok (time_digits 0 2 s) (\<lambda>year.
     try_ok (time_digits 2 4 s) (\<lambda>month.
     try_ok (time_digits 4 6 s) (\<lambda>day.
     try_ok (time_digits 6 8 s) (\<lambda>hour.
     try_ok (time_digits 8 10 s) (\<lambda>minute.
     try_ok (time_digits 10 12 s) (\<lambda>second.
     try_ok (or_panic (plus_days C (day + year * 365) now)) (\<lambda>t.
     try_ok (or_panic (plus_months C month t)) (\<lambda>t.
     try_ok (or_panic (plus_duration C (hours (int hour)) t)) (\<lambda>t.
     try_ok (or_panic (plus_duration C (minutes (int minute)) t)) (\<lambda>t.
     or_panic (plus_duration C (seconds (int second)) t)))))))))))"

definition parse_absolute :: "chrono \<Rightarrow> string \<Rightarrow> string \<Rightarrow> (string, instant) outcome" where
  "parse_absolute C p s =
     try_ok (str_slice 0 12 s) (\<lambda>d.
     case naive_of C d of
       Some dt \<Rightarrow>
         try_ok (str_slice 13 15 s) (\<lambda>q.
         try_ok (str_slice 12 13 s) (\<lambda>u.
         let nn = (case parse_i64 q of Some n \<Rightarrow> n | None \<Rightarrow> 0);
             t = (case parse_i64 u of Some n \<Rightarrow> n | None \<Rightarrow> 0);
             offset = (if p = ''+'' then - minutes (nn * 15) else minutes (nn * 15))
         in try_ok (or_panic (plus_duration C offset dt)) (\<lambda>dt.
            try_ok (or_panic (plus_duration C (milliseconds (t * 100)) dt)) (\<lambda>dt.
            or_panic (of_local C dt)))))
     | None \<Rightarrow> Err (''Failed to parse absolute_time: '' @ s))"

definition parse_absolute_relative_time ::
    "chrono \<Rightarrow> instant \<Rightarrow> string \<Rightarrow> (string, instant) outcome" where
  "parse_absolute_relative_time C now time_str =
     (if length time_str \<noteq> 16 then Err (''Invalid absolute_time format: '' @ time_str)
      else try_ok (str_slice 15 16 time_str) (\<lambda>p.
        if p = ''R'' then parse_relative C now time_str
        else if p = ''+'' \<or> p = ''-'' then parse_absolute C p time_str
        else Err (''Invalid absolute_time format: '' @ time_str)))"

section \<open>Accessors of a message\<close>

definition get_schedule_delivery_time :: "chrono \<Rightarrow> instant \<Rightarrow> json \<Rightarrow> (string, instant) outcome" where
  "get_schedule_delivery_time C now v =
     (case get_str ''schedule_delivery_time'' v of
        Some s \<Rightarrow> parse_absolute_relative_time C now s
      | None \<Rightarrow> Err ''schedule_delivery_time not found in the message'')"

definition get_validity_period :: "chrono \<Rightarrow> instant \<Rightarrow> json \<Rightarrow> u32 \<Rightarrow> (string, instant) outcome" where
  "get_validity_period C now v default_period =
     (case get_str ''validity_period'' v of
        Some s \<Rightarrow> parse_absolute_relative_time C now s
      | None \<Rightarrow>
          (case get_str ''qos_time_to_live'' v of
             Some q \<Rightarrow>
               or_panic (plus_duration C (seconds (case parse_i64 q of Some n \<Rightarrow> n | None \<Rightarrow> 0)) now)
           | None \<Rightarrow>
               (case get_schedule_delivery_time C now v of
                  Ok dt \<Rightarrow> or_panic (plus_duration C (seconds (uint default_period)) dt)
                | Err _ \<Rightarrow> or_panic (plus_duration C (seconds (uint default_period)) now)
                | Panic \<Rightarrow> Panic)))"

definition get_destination_address :: "json \<Rightarrow> (string, Address) outcome" where
  "get_destination_address v =
     (case (get_str ''destination_addr'' v, get_u64 ''dest_addr_ton'' v, get_u64 ''dest_addr_npi'' v) of
        (Some a, Some t, Some n) \<Rightarrow> Ok \<lparr>ton = ucast t, npi = ucast n, address = a\<rparr>
      | _ \<Rightarrow> Err ''Missing destination address or its TON/NPI in the message'')"

section \<open>Properties\<close>

text \<open>The \<^verbatim>\<open>match\<close> of the storages that turns a failed parse into a missing time.\<close>

fun time_or_none :: "(string, instant) outcome \<Rightarrow> (io_error, instant option) outcome" where
  "time_or_none (Ok t) = Ok (Some t)"
| "time_or_none (Err e) = Ok None"
| "time_or_none Panic = Panic"

lemma time_or_none_not_Err [simp]: "time_or_none r \<noteq> Err e"
  by (cases r) auto

lemma empty_time [simp]: "parse_absolute_relative_time C now [] = Err ''Invalid absolute_time format: ''"
  by (simp add: parse_absolute_relative_time_def)

text \<open>A calendar in which every day has 24 hours and every month 30 days.\<close>

definition plain_chrono :: chrono where
  "plain_chrono = \<lparr>naive_of = (\<lambda>s. map_option (\<lambda>n. seconds (int n)) (parse_digits 10 s)), of_local = Some,
     plus_days = (\<lambda>n t. Some (t + hours (24 * int n))), plus_months = (\<lambda>n t. Some (t + hours (720 * int n))),
     plus_duration = (\<lambda>d t. Some (t + d))\<rparr>"

text \<open>
  What the sources rely on in \<^verbatim>\<open>chrono\<close>: durations are added to instants, and adding a number
  of days or months has an answer.
\<close>

definition chrono_ok :: "chrono \<Rightarrow> bool" where
  "chrono_ok C = ((\<forall>d t. plus_duration C d t = Some (t + d)) \<and> (\<forall>n t. plus_days C n t \<noteq> None) \<and>
     (\<forall>n t. plus_months C n t \<noteq> None))"

lemma chrono_ok_plain: "chrono_ok plain_chrono"
  by (simp add: chrono_ok_def plain_chrono_def)

definition two_digits :: "nat \<Rightarrow> string \<Rightarrow> bool" where
  "two_digits i s = (parse_unsigned (2 ^ 32) 10 (take 2 (drop i s)) \<noteq> None)"

lemma time_digits_ascii:
  assumes "is_ascii s" "i + 2 \<le> length s"
  shows "time_digits i (i + 2) s = or_panic (parse_unsigned (2 ^ 32) 10 (take 2 (drop i s)))"
  using assms by (simp add: time_digits_def str_slice_ascii)

lemma try_time_digits_Panic: "try_ok (time_digits a b s) (\<lambda>_. Panic) = Panic"
  by (auto simp: time_digits_def or_panic_def str_slice_def split: option.split)

lemma parse_relative_outcome:
  assumes "chrono_ok C" "is_ascii s" "length s = 16"
  shows "if \<forall>i\<in>{0, 2, 4, 6, 8, 10}. two_digits i s
         then \<exists>t. parse_relative C now s = Ok t else parse_relative C now s = Panic"
proof -
  have td: "time_digits i j s = or_panic (parse_unsigned (2 ^ 32) 10 (take 2 (drop i s)))"
    if "i \<le> 10" "j = i + 2" for i j
    unfolding that(2) using that(1) assms by (intro time_digits_ascii) auto
  have t: "time_digits 0 2 s = or_panic (parse_unsigned (2 ^ 32) 10 (take 2 (drop 0 s)))"
    "time_digits 2 4 s = or_panic (parse_unsigned (2 ^ 32) 10 (take 2 (drop 2 s)))"
    "time_digits 4 6 s = or_panic (parse_unsigned (2 ^ 32) 10 (take 2 (drop 4 s)))"
    "time_digits 6 8 s = or_panic (parse_unsigned (2 ^ 32) 10 (take 2 (drop 6 s)))"
    "time_digits 8 10 s = or_panic (parse_unsigned (2 ^ 32) 10 (take 2 (drop 8 s)))"
    "time_digits 10 12 s = or_panic (parse_unsigned (2 ^ 32) 10 (take 2 (drop 10 s)))"
    by (rule td; simp)+
  have C: "plus_duration C d x = Some (x + d)" "\<exists>y. plus_days C n x = Some y" "\<exists>y. plus_months C n x = Some y" for d n x
    using assms(1) by (auto simp: chrono_ok_def)
  show ?thesis
  proof (cases "\<forall>i\<in>{0, 2, 4, 6, 8, 10}. two_digits i s")
    case True
    then obtain y m d h mi se where f:
      "time_digits 0 2 s = Ok y" "time_digits 2 4 s = Ok m" "time_digits 4 6 s = Ok d"
      "time_digits 6 8 s = Ok h" "time_digits 8 10 s = Ok mi" "time_digits 10 12 s = Ok se"
      unfolding t two_digits_def by auto
    obtain t1 t2 where "plus_days C (d + y * 365) now = Some t1" "plus_months C m t1 = Some t2"
      using C by meson
    with True show ?thesis by (simp add: parse_relative_def f C(1))
  next
    case False
    then have "\<exists>i\<in>{0, 2, 4, 6, 8, 10}. or_panic (parse_unsigned (2 ^ 32) 10 (take 2 (drop i s))) = (Panic :: (string, nat) outcome)"
      unfolding two_digits_def by auto
    then have "time_digits 0 2 s = Panic \<or> time_digits 2 4 s = Panic \<or> time_digits 4 6 s = Panic \<or>
      time_digits 6 8 s = Panic \<or> time_digits 8 10 s = Panic \<or> time_digits 10 12 s = Panic"
      unfolding t by blast
    then have "parse_relative C now s = Panic"
      unfolding parse_relative_def by (elim disjE) (simp_all add: try_time_digits_Panic)
    with False show ?thesis by simp
  qed
qed

end
