(* ===== verification/Delivery_Queue.thy ===== *)
theory Delivery_Queue
  imports Times "HOL-Library.Multiset"
begin

text \<open>
  The queue of messages waiting for delivery (\<^verbatim>\<open>DeliveryMessageInfo\<close> and
  \<^verbatim>\<open>DeliveryMessageInfoManager\<close> of \<^verbatim>\<open>message_storage.rs\<close>): a vector kept in order by a binary
  search with the hand-written \<^verbatim>\<open>Ord::cmp\<close>.  The locale \<open>due_queue\<close> is the contract of such a
  queue; it holds for queues of scheduled messages and for queues of unscheduled ones, and
  \<open>scheduled_blocks_immediate\<close> shows that it fails for mixed ones.
\<close>

section \<open>Data and order\<close>

record DeliveryMessageInfo =
  dm_message_id :: string
  dm_schedule :: "instant option"
  dm_validity :: "instant option"
  dm_message :: "json option"

definition DeliveryMessageInfo_new ::
    "string \<Rightarrow> instant option \<Rightarrow> instant option \<Rightarrow> json option \<Rightarrow> DeliveryMessageInfo" where
  "DeliveryMessageInfo_new i s v m =
     \<lparr>dm_message_id = i, dm_schedule = s, dm_validity = v, dm_message = m\<rparr>"

definition is_time_for_delivery :: "instant \<Rightarrow> DeliveryMessageInfo \<Rightarrow> bool" where
  "is_time_for_delivery now d = (case dm_schedule d of Some t \<Rightarrow> t \<le> now | None \<Rightarrow> True)"

datatype ordering = Less | Equal | Greater

definition compare_instants :: "instant \<Rightarrow> instant \<Rightarrow> ordering" where
  "compare_instants a b = (if a < b then Less else if a > b then Greater else Equal)"

definition dm_cmp :: "DeliveryMessageInfo \<Rightarrow> DeliveryMessageInfo \<Rightarrow> ordering" where
  "dm_cmp a b =
     (case (dm_schedule a, dm_schedule b) of
        (None, None) \<Rightarrow>
          (case (dm_validity a, dm_validity b) of
             (Some v, Some w) \<Rightarrow> compare_instants v w
           | (Some _, None) \<Rightarrow> Less
           | (None, Some _) \<Rightarrow> Greater
           | (None, None) \<Rightarrow> Equal)
      | (None, Some _) \<Rightarrow> Equal
      | (Some _, None) \<Rightarrow> Greater
      | (Some s, Some t) \<Rightarrow> compare_instants s t)"

section \<open>Binary search\<close>

text \<open>
  \<^verbatim>\<open>slice::binary_search\<close> of the standard library: the window that starts at \<open>base\<close> is halved
  while it has more than one element; then the element at \<open>base\<close> decides.
\<close>

function bs_base :: "('a \<Rightarrow> ordering) \<Rightarrow> 'a list \<Rightarrow> nat \<Rightarrow> nat \<Rightarrow> nat" where
  "bs_base f xs base sz =
     (if sz \<le> 1 then base
      else let half = sz div 2; mid = base + half in
        bs_base f xs (if f (xs ! mid) = Greater then base else mid) (sz - half))"
  by pat_completeness auto
termination
  by (relation "measure (\<lambda>(f, xs, base, sz). sz)") auto

declare bs_base.simps [simp del]

lemma bs_base_small: "n \<le> 1 \<Longrightarrow> bs_base f xs base n = base"
  by (subst bs_base.simps) simp

definition binary_search :: "('a \<Rightarrow> ordering) \<Rightarrow> 'a list \<Rightarrow> nat + nat" where
  "binary_search f xs =
     (if xs = [] then Inl 0
      else let base = bs_base f xs 0 (length xs) in
        case f (xs ! base) of
          Equal \<Rightarrow> Inr base
        | Less \<Rightarrow> Inl (base + 1)
        | Greater \<Rightarrow> Inl base)"

definition search_position :: "nat + nat \<Rightarrow> nat" where
  "search_position r = (case r of Inl p \<Rightarrow> p | Inr p \<Rightarrow> p)"

definition insert_nth :: "nat \<Rightarrow> 'a \<Rightarrow> 'a list \<Rightarrow> 'a list" where
  "insert_nth n x xs = take n xs @ x # drop n xs"

section \<open>The manager\<close>

record DeliveryMessageInfoManager =
  delivery_messages :: "DeliveryMessageInfo list"

definition DeliveryMessageInfoManager_new :: DeliveryMessageInfoManager where
  "DeliveryMessageInfoManager_new = \<lparr>delivery_messages = []\<rparr>"

definition add_delivery_message ::
    "DeliveryMessageInfo \<Rightarrow> DeliveryMessageInfoManager \<Rightarrow> DeliveryMessageInfoManager" where
  "add_delivery_message d m =
     (let ds = delivery_messages m; pos = search_position (binary_search (\<lambda>p. dm_cmp p d) ds)
      in m\<lparr>delivery_messages := insert_nth pos d ds\<rparr>)"

definition get_delivery_message ::
    "instant \<Rightarrow> DeliveryMessageInfoManager \<Rightarrow> (string, DeliveryMessageInfo) outcome \<times> DeliveryMessageInfoManager" where
  "get_delivery_message now m =
     (case delivery_messages m of
        d # ds \<Rightarrow>
          if is_time_for_delivery now d then (Ok d, m\<lparr>delivery_messages := ds\<rparr>)
          else (Err ''No delivery messsage is available'', m)
      | [] \<Rightarrow> (Err ''No delivery messsage is available'', m))"

section \<open>Binary search on a sorted slice\<close>

text \<open>The elements that compare \<open>Less\<close> or \<open>Equal\<close> come first.\<close>

definition ordered_for :: "('a \<Rightarrow> ordering) \<Rightarrow> 'a list \<Rightarrow> bool" where
  "ordered_for f xs =
     (\<forall>i j. i < j \<longrightarrow> j < length xs \<longrightarrow>
        (f (xs ! i) = Greater \<longrightarrow> f (xs ! j) = Greater) \<and> (f (xs ! j) = Less \<longrightarrow> f (xs ! i) = Less))"

lemma ordered_for_Greater:
  assumes "ordered_for f xs" "i \<le> j" "j < length xs" "f (xs ! i) = Greater"
  shows "f (xs ! j) = Greater"
  using assms unfolding ordered_for_def by (metis le_neq_implies_less)

lemma bs_base_spec:
  assumes "ordered_for f xs" "0 < sz" "base + sz \<le> length xs"
    "base = 0 \<or> f (xs ! base) \<noteq> Greater"
    "\<forall>j. base + sz \<le> j \<and> j < length xs \<longrightarrow> f (xs ! j) = Greater"
  shows "bs_base f xs base sz < length xs
    \<and> (bs_base f xs base sz = 0 \<or> f (xs ! bs_base f xs base sz) \<noteq> Greater)
    \<and> (\<forall>j. bs_base f xs base sz < j \<and> j < length xs \<longrightarrow> f (xs ! j) = Greater)"
  using assms
proof (induction f xs base sz rule: bs_base.induct)
  case (1 f xs base sz)
  show ?case
  proof (cases "sz \<le> 1")
    case True
    then show ?thesis using 1 by (subst (1 2 3 4) bs_base.simps) auto
  next
    case False
    define half where "half = sz div 2"
    define b where "b = (if f (xs ! (base + half)) = Greater then base else base + half)"
    have h: "0 < half" "half < sz" using False by (auto simp: half_def)
    have eq: "bs_base f xs base sz = bs_base f xs b (sz - half)"
      using False by (subst bs_base.simps) (simp add: Let_def half_def b_def)
    have "\<forall>j. b + (sz - half) \<le> j \<and> j < length xs \<longrightarrow> f (xs ! j) = Greater"
    proof (intro allI impI)
      fix j assume j: "b + (sz - half) \<le> j \<and> j < length xs"
      show "f (xs ! j) = Greater"
      proof (cases "f (xs ! (base + half)) = Greater")
        case True
        have "half \<le> sz - half" using h by (simp add: half_def)
        moreover have "b = base" using True by (simp add: b_def)
        ultimately have "base + half \<le> j" using j by linarith
        with j show ?thesis by (intro ordered_for_Greater [OF 1(2) _ _ True]) simp_all
      next
        case False
        with j h have "base + sz \<le> j" by (simp add: b_def)
        with 1(6) j show ?thesis by blast
      qed
    qed
    moreover have "b + (sz - half) \<le> length xs" using h 1(4) by (auto simp: b_def)
    moreover have "b = 0 \<or> f (xs ! b) \<noteq> Greater" using 1(5) by (auto simp: b_def)
    moreover have "0 < sz - half" using h by simp
    ultimately show ?thesis unfolding eq b_def by (intro 1(1) [OF False half_def refl 1(2)])
  qed
qed

lemma binary_search_position:
  assumes "ordered_for f xs"
  shows "search_position (binary_search f xs) \<le> length xs"
    "i < search_position (binary_search f xs) \<Longrightarrow> f (xs ! i) \<noteq> Greater"
    "search_position (binary_search f xs) \<le> i \<Longrightarrow> i < length xs \<Longrightarrow> f (xs ! i) \<noteq> Less"
proof -
  let ?b = "bs_base f xs 0 (length xs)"
  have b: "?b < length xs" "?b = 0 \<or> f (xs ! ?b) \<noteq> Greater" "\<forall>j. ?b < j \<and> j < length xs \<longrightarrow> f (xs ! j) = Greater"
    if "xs \<noteq> []"
  proof -
    have "\<forall>j. 0 + length xs \<le> j \<and> j < length xs \<longrightarrow> f (xs ! j) = Greater" by auto
    with bs_base_spec [OF assms, of "length xs" 0] that
    show "?b < length xs" "?b = 0 \<or> f (xs ! ?b) \<noteq> Greater" "\<forall>j. ?b < j \<and> j < length xs \<longrightarrow> f (xs ! j) = Greater"
      by auto
  qed
  have p: "xs \<noteq> [] \<Longrightarrow> search_position (binary_search f xs) = (if f (xs ! ?b) = Less then ?b + 1 else ?b)"
    by (simp add: binary_search_def search_position_def Let_def split: ordering.split)
  have below: "f (xs ! i) \<noteq> Greater" if "i < j" "j < length xs" "f (xs ! j) \<noteq> Greater" for i j
    using assms that by (auto simp: ordered_for_def)
  show "search_position (binary_search f xs) \<le> length xs"
  proof (cases "xs = []")
    case True
    then show ?thesis by (simp add: binary_search_def search_position_def)
  next
    case False
    then show ?thesis using b by (simp add: p)
  qed
  show "f (xs ! i) \<noteq> Greater" if i: "i < search_position (binary_search f xs)"
  proof -
    have ne: "xs \<noteq> []" using i by (auto simp: binary_search_def search_position_def)
    with i p have "i \<le> ?b" "0 < ?b \<or> f (xs ! ?b) = Less" by (auto split: if_splits)
    then show ?thesis using b [OF ne] below [of i ?b] by (cases "i = ?b") auto
  qed
  show "f (xs ! i) \<noteq> Less" if i: "search_position (binary_search f xs) \<le> i" "i < length xs"
  proof -
    have ne: "xs \<noteq> []" using i by auto
    with i p have "?b < i \<or> i = ?b \<and> f (xs ! ?b) \<noteq> Less" by (auto split: if_splits)
    then show ?thesis using b(3) [OF ne] i by (cases "?b < i") auto
  qed
qed

section \<open>The contract of a queue of due messages\<close>

text \<open>Taking due messages until there are none left, at most \<open>n\<close> times.\<close>

fun drain :: "(int \<Rightarrow> 'q \<Rightarrow> (string, 'd) outcome \<times> 'q) \<Rightarrow> nat \<Rightarrow> int \<Rightarrow> 'q \<Rightarrow> 'd list \<times> 'q" where
  "drain take_due 0 now q = ([], q)"
| "drain take_due (Suc n) now q =
     (case take_due now q of
        (Ok d, q') \<Rightarrow> (case drain take_due n now q' of (ds, q'') \<Rightarrow> (d # ds, q''))
      | (_, q') \<Rightarrow> ([], q'))"

locale due_queue =
  fixes add :: "'d \<Rightarrow> 'q \<Rightarrow> 'q"
    and take_due :: "int \<Rightarrow> 'q \<Rightarrow> (string, 'd) outcome \<times> 'q"
    and elements :: "'q \<Rightarrow> 'd multiset"
    and due :: "int \<Rightarrow> 'd \<Rightarrow> bool"
    and before :: "'d \<Rightarrow> 'd \<Rightarrow> bool"
    and wf :: "'q \<Rightarrow> bool"
    and kind :: "'d \<Rightarrow> bool"
  assumes elements_kind: "wf q \<Longrightarrow> d \<in># elements q \<Longrightarrow> kind d"
    and wf_add: "wf q \<Longrightarrow> kind d \<Longrightarrow> wf (add d q)"
    and elements_add: "wf q \<Longrightarrow> kind d \<Longrightarrow> elements (add d q) = add_mset d (elements q)"
    and take_ok: "wf q \<Longrightarrow> take_due now q = (Ok d, q') \<Longrightarrow>
      wf q' \<and> elements q = add_mset d (elements q') \<and> due now d \<and> (\<forall>e. e \<in># elements q \<longrightarrow> before d e)"
    and take_err: "wf q \<Longrightarrow> take_due now q = (Err m, q') \<Longrightarrow> q' = q \<and> (\<forall>e. e \<in># elements q \<longrightarrow> \<not> due now e)"
    and take_total: "fst (take_due now q) \<noteq> Panic"
begin

lemma add_all_wf:
  "wf q \<Longrightarrow> \<forall>d\<in>set ds. kind d \<Longrightarrow> wf (fold add ds q) \<and> elements (fold add ds q) = mset ds + elements q"
  by (induction ds arbitrary: q) (simp_all add: wf_add elements_add)

lemma drain_spec:
  assumes "wf q" "size (elements q) \<le> n"
  shows "wf (snd (drain take_due n now q))
    \<and> mset (fst (drain take_due n now q)) = filter_mset (due now) (elements q)
    \<and> elements (snd (drain take_due n now q)) = filter_mset (\<lambda>d. \<not> due now d) (elements q)
    \<and> sorted_wrt before (fst (drain take_due n now q))"
  using assms
proof (induction n arbitrary: q)
  case (Suc n)
  obtain r q' where t: "take_due now q = (r, q')" by (cases "take_due now q")
  show ?case
  proof (cases r)
    case (Ok d)
    with take_ok [OF Suc.prems(1)] t
    have q': "wf q'" "elements q = add_mset d (elements q')" "due now d" "\<forall>e. e \<in># elements q \<longrightarrow> before d e" by blast+
    then have IH: "wf (snd (drain take_due n now q'))" "mset (fst (drain take_due n now q')) = filter_mset (due now) (elements q')"
      "elements (snd (drain take_due n now q')) = filter_mset (\<lambda>d. \<not> due now d) (elements q')"
      "sorted_wrt before (fst (drain take_due n now q'))"
      using Suc.IH [of q'] Suc.prems(2) by auto
    have "before d e" if "e \<in> set (fst (drain take_due n now q'))" for e
    proof -
      have "e \<in># filter_mset (due now) (elements q')" using that unfolding IH(2) [symmetric] by simp
      then show ?thesis using q'(2,4) by auto
    qed
    with IH q' t Ok show ?thesis by (cases "drain take_due n now q'") auto
  next
    case (Err m)
    with take_err [OF Suc.prems(1)] t
    have "q' = q" "\<forall>e. e \<in># elements q \<longrightarrow> \<not> due now e" by blast+
    moreover from this have "filter_mset (due now) (elements q) = {#}"
      "filter_mset (\<lambda>d. \<not> due now d) (elements q) = elements q"
      by (simp_all add: filter_mset_eq_conv)
    ultimately show ?thesis using t Err Suc.prems(1) by simp
  next
    case Panic
    then show ?thesis using take_total [of now q] t by simp
  qed
qed simp

end

section \<open>Queues of one kind\<close>

text \<open>
  Messages that all have a schedule, or that all have none, are totally ordered by \<open>dm_cmp\<close>:
  by their schedule or by their validity period, where a missing one comes last.
\<close>

definition same_kind :: "bool \<Rightarrow> DeliveryMessageInfo \<Rightarrow> bool" where
  "same_kind scheduled d = ((dm_schedule d \<noteq> None) = scheduled)"

definition dm_before :: "DeliveryMessageInfo \<Rightarrow> DeliveryMessageInfo \<Rightarrow> bool" where
  "dm_before a b = (dm_cmp a b \<noteq> Greater)"

definition queue_wf :: "bool \<Rightarrow> DeliveryMessageInfoManager \<Rightarrow> bool" where
  "queue_wf scheduled m =
     ((\<forall>d\<in>set (delivery_messages m). same_kind scheduled d) \<and> sorted_wrt dm_before (delivery_messages m))"

lemmas dm_order_defs = dm_before_def dm_cmp_def compare_instants_def same_kind_def

lemma dm_before_total: "same_kind k a \<Longrightarrow> same_kind k b \<Longrightarrow> dm_cmp a b \<noteq> Less \<Longrightarrow> dm_before b a"
  by (auto simp: dm_order_defs split: option.splits if_splits)

lemma dm_before_refl: "dm_before a a"
  by (auto simp: dm_order_defs split: option.splits)

lemma dm_before_trans:
  "same_kind k a \<Longrightarrow> same_kind k b \<Longrightarrow> same_kind k c \<Longrightarrow> dm_before a b \<Longrightarrow> dm_before b c \<Longrightarrow> dm_before a c"
  by (auto simp: dm_order_defs split: option.splits if_splits)

lemma dm_cmp_ordered:
  assumes "same_kind k a" "same_kind k b" "same_kind k d" "dm_before a b"
  shows "(dm_cmp a d = Greater \<longrightarrow> dm_cmp b d = Greater) \<and> (dm_cmp b d = Less \<longrightarrow> dm_cmp a d = Less)"
  using assms by (auto simp: dm_order_defs split: option.splits if_splits)

lemma queue_wf_ordered:
  assumes "queue_wf k m" "same_kind k d"
  shows "ordered_for (\<lambda>p. dm_cmp p d) (delivery_messages m)"
  unfolding ordered_for_def
proof (intro allI impI)
  fix i j assume ij: "i < j" "j < length (delivery_messages m)"
  then have "dm_before (delivery_messages m ! i) (delivery_messages m ! j)"
    using assms(1) by (simp add: queue_wf_def sorted_wrt_iff_nth_less)
  moreover have "same_kind k (delivery_messages m ! i)" "same_kind k (delivery_messages m ! j)"
    using assms(1) ij by (simp_all add: queue_wf_def)
  ultimately show "(dm_cmp (delivery_messages m ! i) d = Greater \<longrightarrow> dm_cmp (delivery_messages m ! j) d = Greater) \<and>
      (dm_cmp (delivery_messages m ! j) d = Less \<longrightarrow> dm_cmp (delivery_messages m ! i) d = Less)"
    using assms(2) by (intro dm_cmp_ordered)
qed

lemma set_insert_nth: "set (insert_nth n x xs) = insert x (set xs)"
  by (metis append_take_drop_id insert_nth_def list.simps(15) set_append Un_insert_right)

lemma mset_insert_nth: "mset (insert_nth n x xs) = add_mset x (mset xs)"
  by (metis append_take_drop_id insert_nth_def mset.simps(2) mset_append union_mset_add_mset_right)

lemma sorted_wrt_insert_nth:
  assumes "sorted_wrt P xs" "\<And>i. i < n \<Longrightarrow> i < length xs \<Longrightarrow> P (xs ! i) x"
    "\<And>i. n \<le> i \<Longrightarrow> i < length xs \<Longrightarrow> P x (xs ! i)"
  shows "sorted_wrt P (insert_nth n x xs)"
proof -
  have "sorted_wrt P (take n xs @ drop n xs)" using assms(1) by simp
  moreover have "\<forall>a\<in>set (take n xs). P a x" using assms(2) by (auto simp: in_set_conv_nth)
  moreover have "\<forall>b\<in>set (drop n xs). P x b" using assms(3) by (auto simp: in_set_conv_nth)
  ultimately show ?thesis unfolding insert_nth_def sorted_wrt_append by (simp add: ball_Un)
qed

lemma add_delivery_message_wf:
  assumes "queue_wf k m" "same_kind k d"
  shows "queue_wf k (add_delivery_message d m)"
    "mset (delivery_messages (add_delivery_message d m)) = add_mset d (mset (delivery_messages m))"
proof -
  let ?ds = "delivery_messages m"
  let ?p = "search_position (binary_search (\<lambda>p. dm_cmp p d) ?ds)"
  note bs = binary_search_position [OF queue_wf_ordered [OF assms]]
  have k: "same_kind k (?ds ! i)" if "i < length ?ds" for i using assms(1) that by (simp add: queue_wf_def)
  have "sorted_wrt dm_before (insert_nth ?p d ?ds)"
  proof (rule sorted_wrt_insert_nth)
    show "sorted_wrt dm_before ?ds" using assms(1) by (simp add: queue_wf_def)
    show "dm_before (?ds ! i) d" if "i < ?p" for i using bs(2) [OF that] by (simp add: dm_before_def)
    show "dm_before d (?ds ! i)" if "?p \<le> i" "i < length ?ds" for i
      using dm_before_total [OF k assms(2) bs(3)] that by blast
  qed
  then show "queue_wf k (add_delivery_message d m)"
    using assms by (simp add: queue_wf_def add_delivery_message_def Let_def set_insert_nth)
  show "mset (delivery_messages (add_delivery_message d m)) = add_mset d (mset (delivery_messages m))"
    by (simp add: add_delivery_message_def Let_def mset_insert_nth)
qed

lemma not_due_later: "same_kind k a \<Longrightarrow> same_kind k b \<Longrightarrow> dm_before a b \<Longrightarrow> \<not> is_time_for_delivery now a \<Longrightarrow>
    \<not> is_time_for_delivery now b"
  by (auto simp: dm_order_defs is_time_for_delivery_def split: option.splits if_splits)

interpretation due: due_queue add_delivery_message get_delivery_message
    "\<lambda>m. mset (delivery_messages m)" is_time_for_delivery dm_before "queue_wf k" "same_kind k" for k
proof unfold_locales
  fix q q' :: DeliveryMessageInfoManager and d e :: DeliveryMessageInfo and now m
  show "d \<in># mset (delivery_messages q) \<Longrightarrow> queue_wf k q \<Longrightarrow> same_kind k d" by (simp add: queue_wf_def)
  show "get_delivery_message now q = (Ok d, q') \<Longrightarrow> queue_wf k q \<Longrightarrow>
      queue_wf k q' \<and> mset (delivery_messages q) = add_mset d (mset (delivery_messages q')) \<and>
      is_time_for_delivery now d \<and> (\<forall>e. e \<in># mset (delivery_messages q) \<longrightarrow> dm_before d e)"
    by (auto simp: get_delivery_message_def queue_wf_def dm_before_refl split: list.splits if_splits)
  show "get_delivery_message now q = (Err m, q') \<Longrightarrow> queue_wf k q \<Longrightarrow>
      q' = q \<and> (\<forall>e. e \<in># mset (delivery_messages q) \<longrightarrow> \<not> is_time_for_delivery now e)"
    by (auto simp: get_delivery_message_def queue_wf_def split: list.splits if_splits dest: not_due_later)
  show "fst (get_delivery_message now q) \<noteq> Panic"
    by (simp add: get_delivery_message_def split: list.split)
qed (simp_all add: add_delivery_message_wf)

section \<open>Properties\<close>

lemma dm_before_scheduled:
  "dm_schedule a \<noteq> None \<Longrightarrow> dm_schedule b \<noteq> None \<Longrightarrow> dm_before a b \<Longrightarrow> the (dm_schedule a) \<le> the (dm_schedule b)"
  by (auto simp: dm_before_def dm_cmp_def compare_instants_def split: if_splits)

text \<open>
  C15.  A queue of scheduled messages is a priority queue: whatever the order in which the
  messages are added, taking messages until none is available gives exactly those whose time has
  come, ordered by their schedule, and keeps the others.
\<close>

theorem scheduled_queue_delivers:
  assumes "\<forall>d\<in>set ds. dm_schedule d \<noteq> None"
  shows "let r = drain get_delivery_message (length ds) now (fold add_delivery_message ds DeliveryMessageInfoManager_new)
    in mset (fst r) = filter_mset (is_time_for_delivery now) (mset ds)
      \<and> mset (delivery_messages (snd r)) = filter_mset (\<lambda>d. \<not> is_time_for_delivery now d) (mset ds)
      \<and> sorted (map (\<lambda>d. the (dm_schedule d)) (fst r))"
proof -
  let ?q = "fold add_delivery_message ds DeliveryMessageInfoManager_new"
  let ?r = "drain get_delivery_message (length ds) now ?q"
  have "\<forall>d\<in>set ds. same_kind True d" using assms by (simp add: same_kind_def)
  moreover have "queue_wf True DeliveryMessageInfoManager_new" by (simp add: queue_wf_def DeliveryMessageInfoManager_new_def)
  ultimately have q: "queue_wf True ?q" "mset (delivery_messages ?q) = mset ds"
    using due.add_all_wf [of True DeliveryMessageInfoManager_new ds] by (simp_all add: DeliveryMessageInfoManager_new_def)
  then have r: "mset (fst ?r) = filter_mset (is_time_for_delivery now) (mset ds)"
    "mset (delivery_messages (snd ?r)) = filter_mset (\<lambda>d. \<not> is_time_for_delivery now d) (mset ds)"
    "sorted_wrt dm_before (fst ?r)"
    using due.drain_spec [of True ?q "length ds" now] by (simp_all add: q(2) flip: size_mset)
  have "set_mset (mset (fst ?r)) \<subseteq> set ds" unfolding r(1) by auto
  then have "\<forall>d\<in>set (fst ?r). dm_schedule d \<noteq> None" using assms by auto
  then have "the (dm_schedule a) \<le> the (dm_schedule b)" if "a \<in> set (fst ?r)" "b \<in> set (fst ?r)" "dm_before a b" for a b
    by (intro dm_before_scheduled [OF _ _ that(3)]) (use that in blast)+
  then have "sorted (map (\<lambda>d. the (dm_schedule d)) (fst ?r))"
    unfolding sorted_wrt_map by (rule sorted_wrt_mono_rel [OF _ r(3)])
  with r show ?thesis by (simp add: Let_def)
qed

definition sample_queue :: "DeliveryMessageInfo list" where
  "sample_queue = map (\<lambda>t. DeliveryMessageInfo_new ''m'' (Some t) None None) [30, 10, 50, 20]"

theorem scheduled_queue_delivers_witness:
  "mset (fst (drain get_delivery_message 4 25 (fold add_delivery_message sample_queue DeliveryMessageInfoManager_new)))
   = filter_mset (is_time_for_delivery 25) (mset sample_queue)"
proof -
  have "\<forall>d\<in>set sample_queue. dm_schedule d \<noteq> None" "length sample_queue = 4"
    by (simp_all add: sample_queue_def DeliveryMessageInfo_new_def)
  then show ?thesis using scheduled_queue_delivers [of sample_queue 25] by (simp add: Let_def)
qed

text \<open>
  C38.  The order of unscheduled and scheduled messages is not symmetric, and an unscheduled
  message, which is due at once, is not delivered when a message scheduled for later has been
  added after it: the later message is placed first and hides it until its own time comes.
\<close>

theorem scheduled_blocks_immediate:
  assumes "dm_schedule immediate = None" "dm_schedule later = Some t" "now < t"
  shows "dm_cmp immediate later = Equal \<and> dm_cmp later immediate = Greater
    \<and> is_time_for_delivery now immediate
    \<and> fst (get_delivery_message now (add_delivery_message later (add_delivery_message immediate DeliveryMessageInfoManager_new)))
      = Err ''No delivery messsage is available''"
proof -
  have "dm_cmp immediate later = Equal" "dm_cmp later immediate = Greater" "is_time_for_delivery now immediate"
    "\<not> is_time_for_delivery now later"
    using assms by (simp_all add: dm_cmp_def is_time_for_delivery_def)
  then show ?thesis
    by (simp add: get_delivery_message_def add_delivery_message_def DeliveryMessageInfoManager_new_def
        binary_search_def search_position_def insert_nth_def bs_base_small Let_def)
qed

theorem scheduled_blocks_immediate_witness:
  "fst (get_delivery_message 5 (add_delivery_message (DeliveryMessageInfo_new ''b'' (Some 9) None None)
     (add_delivery_message (DeliveryMessageInfo_new ''a'' None None None) DeliveryMessageInfoManager_new)))
   = Err ''No delivery messsage is available''"
proof -
  have "dm_schedule (DeliveryMessageInfo_new ''a'' None None None) = None"
    "dm_schedule (DeliveryMessageInfo_new ''b'' (Some 9) None None) = Some 9" "(5 :: int) < 9"
    by (simp_all add: DeliveryMessageInfo_new_def)
  from scheduled_blocks_immediate [OF this] show ?thesis by blast
qed

end
