(* ===== verification/Actions.thy ===== *)
theory Actions
  imports Prelude
begin

text \<open>
  Fallible steps on a state: the \<^verbatim>\<open>async fn\<close>s of a connection return a \<^verbatim>\<open>std::io::Result\<close> and work
  on the state they share.  An action gives its result and the state after it, also when it
  fails; \<open>act_bind\<close> is the \<^verbatim>\<open>?\<close> operator between two of them.
\<close>

type_synonym ('s, 'a) action = "'s \<Rightarrow> 'a io \<times> 's"

definition act_return :: "'a \<Rightarrow> ('s, 'a) action" where
  "act_return x s = (Ok x, s)"

definition act_io :: "'a io \<Rightarrow> ('s, 'a) action" where
  "act_io r s = (r, s)"

definition act_bind :: "('s, 'a) action \<Rightarrow> ('a \<Rightarrow> ('s, 'b) action) \<Rightarrow> ('s, 'b) action" where
  "act_bind m f s =
     (case m s of
        (Ok x, s') \<Rightarrow> f x s'
      | (Err e, s') \<Rightarrow> (Err e, s')
      | (Panic, s') \<Rightarrow> (Panic, s'))"

definition act_map_err :: "(io_error \<Rightarrow> io_error) \<Rightarrow> ('s, 'a) action \<Rightarrow> ('s, 'a) action" where
  "act_map_err g m s = map_prod (map_err g) id (m s)"

text \<open>\<^verbatim>\<open>match m.await { Ok(x) => f(x), Err(e) => g(e) }\<close>.\<close>

definition act_match :: "('s, 'a) action \<Rightarrow> ('a \<Rightarrow> ('s, 'b) action) \<Rightarrow> (io_error \<Rightarrow> ('s, 'b) action) \<Rightarrow> ('s, 'b) action" where
  "act_match m f g s =
     (case m s of
        (Ok x, s') \<Rightarrow> f x s'
      | (Err e, s') \<Rightarrow> g e s'
      | (Panic, s') \<Rightarrow> (Panic, s'))"

lemma act_bind_return [simp]: "act_bind (act_return x) f = f x"
  by (simp add: fun_eq_iff act_bind_def act_return_def)

lemma act_bind_io_Ok [simp]: "act_bind (act_io (Ok x)) f = f x"
  by (simp add: fun_eq_iff act_bind_def act_io_def)

lemma act_bind_Ok:
  "act_bind m f s = (Ok y, s') \<longleftrightarrow> (\<exists>x s1. m s = (Ok x, s1) \<and> f x s1 = (Ok y, s'))"
  by (auto simp: act_bind_def split: prod.splits outcome.splits)

definition io_error_text :: "string \<Rightarrow> io_error \<Rightarrow> io_error" where
  "io_error_text pre e = (case e of IoError _ msg \<Rightarrow> IoError Other (pre @ msg))"

section \<open>What an action changes and writes\<close>

text \<open>
  \<open>preserves view m\<close>: the action does not change what \<open>view\<close> shows of the state.
  \<open>emits view P m\<close>, where \<open>view\<close> shows what has been written: the action writes at most one PDU,
  which satisfies \<open>P\<close>, and exactly one when it succeeds.
\<close>

definition preserves :: "('s \<Rightarrow> 'c) \<Rightarrow> ('s, 'a) action \<Rightarrow> bool" where
  "preserves view m = (\<forall>s. view (snd (m s)) = view s)"

definition emits :: "('s \<Rightarrow> bytes list) \<Rightarrow> (bytes \<Rightarrow> bool) \<Rightarrow> ('s, 'a) action \<Rightarrow> bool" where
  "emits view P m =
     (\<forall>s. \<exists>ds. view (snd (m s)) = view s @ ds \<and> length ds \<le> 1 \<and> (\<forall>d\<in>set ds. P d) \<and>
        (is_ok (fst (m s)) \<longrightarrow> length ds = 1))"

lemma preserves_return: "preserves view (act_return x)"
  by (simp add: preserves_def act_return_def)

lemma preserves_io: "preserves view (act_io r)"
  by (simp add: preserves_def act_io_def)

lemma preserves_bind:
  assumes "preserves view m" "\<And>x. preserves view (f x)" shows "preserves view (act_bind m f)"
  unfolding preserves_def
proof
  fix s
  obtain r s' where m: "m s = (r, s')" by (cases "m s")
  then have "view s' = view s" using assms(1) by (metis preserves_def snd_conv)
  with m assms(2) show "view (snd (act_bind m f s)) = view s"
    by (cases r) (simp_all add: act_bind_def preserves_def)
qed

lemma preserves_match:
  assumes "preserves view m" "\<And>x. preserves view (f x)" "\<And>e. preserves view (g e)" shows "preserves view (act_match m f g)"
  unfolding preserves_def
proof
  fix s
  obtain r s' where m: "m s = (r, s')" by (cases "m s")
  then have "view s' = view s" using assms(1) by (metis preserves_def snd_conv)
  with m assms(2,3) show "view (snd (act_match m f g s)) = view s"
    by (cases r) (simp_all add: act_match_def preserves_def)
qed

lemma preserves_emits_bind:
  assumes "preserves view m" "\<And>x. emits view P (f x)" shows "emits view P (act_bind m f)"
  unfolding emits_def
proof
  fix s
  obtain r s' where m: "m s = (r, s')" by (cases "m s")
  then have q: "view s' = view s" using assms(1) by (metis preserves_def snd_conv)
  show "\<exists>ds. view (snd (act_bind m f s)) = view s @ ds \<and> length ds \<le> 1 \<and> (\<forall>d\<in>set ds. P d) \<and>
      (is_ok (fst (act_bind m f s)) \<longrightarrow> length ds = 1)"
  proof (cases r)
    case (Ok x)
    with m q assms(2) [of x, unfolded emits_def, rule_format, of s'] show ?thesis by (simp add: act_bind_def)
  qed (use m q in \<open>simp_all add: act_bind_def\<close>)
qed

lemma emits_preserves_bind:
  assumes "emits view P m" "\<And>x. preserves view (f x)" shows "emits view P (act_bind m f)"
  unfolding emits_def
proof
  fix s
  obtain r s' where m: "m s = (r, s')" by (cases "m s")
  obtain ds where ds: "view s' = view s @ ds" "length ds \<le> 1" "\<forall>d\<in>set ds. P d" "is_ok r \<longrightarrow> length ds = 1"
    using assms(1) m unfolding emits_def by (metis fst_conv snd_conv)
  show "\<exists>ds. view (snd (act_bind m f s)) = view s @ ds \<and> length ds \<le> 1 \<and> (\<forall>d\<in>set ds. P d) \<and>
      (is_ok (fst (act_bind m f s)) \<longrightarrow> length ds = 1)"
  proof (cases r)
    case (Ok x)
    then have "view (snd (f x s')) = view s @ ds" using assms(2) [of x] ds(1) by (simp add: preserves_def)
    with ds m Ok show ?thesis by (intro exI [of _ ds]) (simp add: act_bind_def)
  qed (use m ds in \<open>auto simp: act_bind_def\<close>)
qed

lemma emits_match:
  assumes "emits view P m" "\<And>x. preserves view (f x)" "\<And>e. preserves view (g e)"
  shows "\<exists>ds. view (snd (act_match m f g s)) = view s @ ds \<and> length ds \<le> 1 \<and> (\<forall>d\<in>set ds. P d)"
proof -
  obtain r s' where m: "m s = (r, s')" by (cases "m s")
  obtain ds where ds: "view s' = view s @ ds" "length ds \<le> 1" "\<forall>d\<in>set ds. P d"
    using assms(1) m unfolding emits_def by (metis snd_conv)
  have "view (snd (act_match m f g s)) = view s'"
    using assms(2,3) m by (cases r) (simp_all add: act_match_def preserves_def)
  with ds show ?thesis by auto
qed

lemma emits_map_err:
  fixes m :: "('s, 'a) action"
  assumes "emits view P m" shows "emits view P (act_map_err g m)"
proof -
  have "is_ok (map_err g r) \<longleftrightarrow> is_ok r" for r :: "'a io" by (cases r) simp_all
  with assms show ?thesis by (simp add: emits_def act_map_err_def map_prod_def split_beta)
qed

lemma preserves_map_err: "preserves view m \<Longrightarrow> preserves view (act_map_err g m)"
  by (simp add: preserves_def act_map_err_def)

lemma preserves_if: "preserves view m \<Longrightarrow> preserves view m' \<Longrightarrow> preserves view (\<lambda>s. (if b s then m else m') s)"
  by (simp add: preserves_def)

lemma preserves_cond: "(b \<Longrightarrow> preserves view m) \<Longrightarrow> (\<not> b \<Longrightarrow> preserves view m') \<Longrightarrow> preserves view (if b then m else m')"
  by simp

section \<open>What an action returns\<close>

definition yields :: "('a \<Rightarrow> bool) \<Rightarrow> ('s, 'a) action \<Rightarrow> bool" where
  "yields Q m = (\<forall>s x. fst (m s) = Ok x \<longrightarrow> Q x)"

lemma yieldsD: "yields Q m \<Longrightarrow> m s = (Ok x, s') \<Longrightarrow> Q x"
  by (metis fst_conv yields_def)

lemma yields_return: "Q x \<Longrightarrow> yields Q (act_return x)"
  by (simp add: yields_def act_return_def)

lemma yields_io: "(\<And>x. r = Ok x \<Longrightarrow> Q x) \<Longrightarrow> yields Q (act_io r)"
  by (simp add: yields_def act_io_def)

lemma yields_bind:
  assumes "yields R m" "\<And>x. R x \<Longrightarrow> yields Q (f x)" shows "yields Q (act_bind m f)"
  unfolding yields_def
proof (intro allI impI)
  fix s x assume "fst (act_bind m f s) = Ok x"
  then obtain y s' where "m s = (Ok y, s')" "fst (f y s') = Ok x"
    by (auto simp: act_bind_def split: prod.splits outcome.splits)
  with assms show "Q x" by (meson yieldsD yields_def)
qed

lemma yields_match:
  assumes "yields R m" "\<And>x. R x \<Longrightarrow> yields Q (f x)" "\<And>e. yields Q (g e)" shows "yields Q (act_match m f g)"
  unfolding yields_def
proof (intro allI impI)
  fix s x assume h: "fst (act_match m f g s) = Ok x"
  obtain r s' where m: "m s = (r, s')" by (cases "m s")
  show "Q x"
  proof (cases r)
    case (Ok y)
    then have "R y" using m yieldsD [OF assms(1)] by simp
    with m h Ok assms(2) [of y] show ?thesis by (simp add: act_match_def yields_def)
  next
    case (Err e)
    with m h assms(3) [of e] show ?thesis by (simp add: act_match_def yields_def)
  qed (use m h in \<open>simp add: act_match_def\<close>)
qed

lemma yields_True: "yields (\<lambda>_. True) m"
  by (simp add: yields_def)

lemma yields_bind_any: "(\<And>x. yields Q (f x)) \<Longrightarrow> yields Q (act_bind m f)"
  by (rule yields_bind [OF yields_True])

lemma yields_match_any: "(\<And>x. yields Q (f x)) \<Longrightarrow> (\<And>e. yields Q (g e)) \<Longrightarrow> yields Q (act_match m f g)"
  by (rule yields_match [OF yields_True])

lemma emits_bind:
  assumes "preserves view m" "yields R m" "\<And>x. R x \<Longrightarrow> emits view P (f x)" shows "emits view P (act_bind m f)"
  unfolding emits_def
proof
  fix s
  obtain r s' where m: "m s = (r, s')" by (cases "m s")
  then have q: "view s' = view s" using assms(1) by (metis preserves_def snd_conv)
  show "\<exists>ds. view (snd (act_bind m f s)) = view s @ ds \<and> length ds \<le> 1 \<and> (\<forall>d\<in>set ds. P d) \<and>
      (is_ok (fst (act_bind m f s)) \<longrightarrow> length ds = 1)"
  proof (cases r)
    case (Ok x)
    then have "R x" using m yieldsD [OF assms(2)] by simp
    with m q Ok assms(3) [of x, unfolded emits_def, rule_format, of s'] show ?thesis by (simp add: act_bind_def)
  qed (use m q in \<open>simp_all add: act_bind_def\<close>)
qed

lemma emits_state:
  assumes "emits view P m" "\<And>s. view (h s) = view s" shows "emits view P (\<lambda>s. m (h s))"
  unfolding emits_def using assms(1) [unfolded emits_def] assms(2) by metis

lemma emits_if: "(\<And>s. b s \<Longrightarrow> emits view P m) \<Longrightarrow> (\<And>s. \<not> b s \<Longrightarrow> emits view P m') \<Longrightarrow> emits view P (\<lambda>s. (if b s then m else m') s)"
  by (auto simp: emits_def)

lemma emits_unwrap:
  "emits view P m \<Longrightarrow> emits view P (\<lambda>s. case m s of (Ok _, s') \<Rightarrow> (Ok (), s') | (_, s') \<Rightarrow> (Panic, s'))"
  unfolding emits_def by (rule allI, drule_tac x = s in spec) (auto split: prod.splits outcome.splits)

lemma emits_cond: "(b \<Longrightarrow> emits view P m) \<Longrightarrow> (\<not> b \<Longrightarrow> emits view P m') \<Longrightarrow> emits view P (if b then m else m')"
  by simp

section \<open>Actions without errors\<close>

definition infallible :: "('s, 'a) action \<Rightarrow> bool" where
  "infallible m = (\<forall>s. is_ok (fst (m s)) \<or> fst (m s) = Panic)"

lemma infallible_bind: "infallible m \<Longrightarrow> (\<And>x. infallible (f x)) \<Longrightarrow> infallible (act_bind m f)"
  unfolding infallible_def
proof
  fix s assume a: "\<forall>s. is_ok (fst (m s)) \<or> fst (m s) = Panic" and f: "\<And>x. \<forall>s. is_ok (fst (f x s)) \<or> fst (f x s) = Panic"
  obtain r s' where m: "m s = (r, s')" by (cases "m s")
  with a [rule_format, of s] f show "is_ok (fst (act_bind m f s)) \<or> fst (act_bind m f s) = Panic"
    by (cases r) (simp_all add: act_bind_def)
qed

lemma infallible_match:
  assumes "\<And>x. infallible (f x)" "\<And>e. infallible (g e)" shows "infallible (act_match m f g)"
  unfolding infallible_def
proof
  fix s
  obtain r s' where m: "m s = (r, s')" by (cases "m s")
  with assms show "is_ok (fst (act_match m f g s)) \<or> fst (act_match m f g s) = Panic"
    by (cases r) (simp_all add: act_match_def infallible_def)
qed

end
