(* ===== verification/Access.thy ===== *)
theory Access
  imports Json Rust_Text
begin

text \<open>
  Who may use the server: the IP whitelists (\<^verbatim>\<open>ip_whitelist.rs\<close>), the decision taken for an
  accepted socket (\<^verbatim>\<open>accept_loop\<close> of \<^verbatim>\<open>smsc_server.rs\<close>) and user authentication
  (\<^verbatim>\<open>user_authentication.rs\<close>).  Databases, files and HTTP services are parameters: functions
  from the request to its outcome.
\<close>

section \<open>Services\<close>

text \<open>An HTTP exchange fails, or returns a status and a body that may not parse as JSON.\<close>

datatype http_result = HttpFailed string | HttpResponse nat "json option"

definition is_success :: "nat \<Rightarrow> bool" where
  "is_success status = (200 \<le> status \<and> status < 300)"

record ip_database =
  count_ips :: "int io"
  select_ip :: "string \<Rightarrow> bool io"

record whitelist_env =
  read_to_string :: "string \<Rightarrow> string io"
  json_strings :: "string \<Rightarrow> string list io"
  yaml_strings :: "string \<Rightarrow> string list io"
  connect_ips :: "string \<Rightarrow> ip_database io"
  urlencode :: "string \<Rightarrow> string"
  http_get :: "string \<Rightarrow> http_result"

section \<open>IP whitelists\<close>

datatype IpWhitelistConfig =
    WL_None
  | WL_Memory "string option" "string list"
  | WL_Database string
  | WL_Http string

datatype IpWhitelist =
    EmptyIpWhitelist
  | MemoryIpWhitelist "string list"
  | DatabaseIpWhitelist ip_database
  | HttpIpWhitelist string

text \<open>\<^verbatim>\<open>str::lines\<close>: a final line feed ends the last line, a carriage return before a line feed goes.\<close>

definition text_lines :: "string \<Rightarrow> string list" where
  "text_lines s =
     (let ls = split_text [CHR 0x0A] s;
          strip = (\<lambda>l. if l \<noteq> [] \<and> last l = CHR 0x0D then butlast l else l)
      in map strip (butlast ls) @ (if last ls = [] then [] else [last ls]))"

definition whitelist_lines :: "string \<Rightarrow> string list" where
  "whitelist_lines data =
     filter (\<lambda>l. l \<noteq> [] \<and> \<not> starts_with ''#'' l) (map trim (text_lines data))"

definition load_from_file :: "whitelist_env \<Rightarrow> string \<Rightarrow> string list \<Rightarrow> string list io" where
  "load_from_file W path ips =
     try_ok (read_to_string W path) (\<lambda>data.
     try_ok (if ends_with ''.json'' path
             then map_err (\<lambda>e. case e of IoError _ msg \<Rightarrow> IoError InvalidData msg) (json_strings W data)
             else if ends_with ''.yaml'' path \<or> ends_with ''.yml'' path
             then map_err (\<lambda>e. case e of IoError _ msg \<Rightarrow> IoError InvalidData msg) (yaml_strings W data)
             else Ok (whitelist_lines data)) (\<lambda>loaded.
     Ok (ips @ loaded)))"

definition create_ip_whitelist :: "whitelist_env \<Rightarrow> IpWhitelistConfig \<Rightarrow> IpWhitelist io" where
  "create_ip_whitelist W config =
     (case config of
        WL_None \<Rightarrow> Ok EmptyIpWhitelist
      | WL_Memory None ips \<Rightarrow> Ok (MemoryIpWhitelist ips)
      | WL_Memory (Some path) ips \<Rightarrow> map_ok MemoryIpWhitelist (load_from_file W path ips)
      | WL_Database url \<Rightarrow> map_ok DatabaseIpWhitelist (connect_ips W url)
      | WL_Http url \<Rightarrow> Ok (HttpIpWhitelist (trim_end_matches ''/'' url)))"

definition whitelist_is_empty :: "IpWhitelist \<Rightarrow> bool io" where
  "whitelist_is_empty w =
     (case w of
        EmptyIpWhitelist \<Rightarrow> Ok True
      | MemoryIpWhitelist ips \<Rightarrow> Ok (ips = [])
      | DatabaseIpWhitelist db \<Rightarrow> map_ok (\<lambda>n. n = 0) (count_ips db)
      | HttpIpWhitelist _ \<Rightarrow> Ok False)"

definition http_is_allowed :: "whitelist_env \<Rightarrow> string \<Rightarrow> string \<Rightarrow> bool io" where
  "http_is_allowed W base_url ip =
     (case http_get W (base_url @ ''/verify?ip='' @ urlencode W ip) of
        HttpResponse status body \<Rightarrow>
          if is_success status
          then (case body of
                  Some val \<Rightarrow> Ok (Option.bind (jget ''allowed'' val) as_bool = Some True)
                | None \<Rightarrow> Ok False)
          else Ok False
      | HttpFailed msg \<Rightarrow> Err (IoError ConnectionRefused msg))"

definition whitelist_is_allowed :: "whitelist_env \<Rightarrow> IpWhitelist \<Rightarrow> string \<Rightarrow> bool io" where
  "whitelist_is_allowed W w ip =
     (case w of
        EmptyIpWhitelist \<Rightarrow> Ok True
      | MemoryIpWhitelist ips \<Rightarrow> if ips = [] then Ok True else Ok (ip \<in> set ips)
      | DatabaseIpWhitelist db \<Rightarrow>
          try_ok (count_ips db) (\<lambda>n. if n = 0 then Ok True else select_ip db ip)
      | HttpIpWhitelist base_url \<Rightarrow> http_is_allowed W base_url ip)"

text \<open>The check that \<^verbatim>\<open>accept_loop\<close> makes before it serves a socket.\<close>

definition accept_connection :: "whitelist_env \<Rightarrow> IpWhitelist \<Rightarrow> string \<Rightarrow> bool" where
  "accept_connection W w peer_ip =
     (if \<not> (case whitelist_is_empty w of Ok b \<Rightarrow> b | _ \<Rightarrow> True)
      then (case whitelist_is_allowed W w peer_ip of Ok b \<Rightarrow> b | _ \<Rightarrow> False)
      else True)"

section \<open>The contract of a whitelist\<close>

text \<open>An empty whitelist allows everybody; the check of an accepted socket then agrees with \<open>allowed\<close>.\<close>

locale ip_whitelist =
  fixes is_empty :: "bool io" and is_allowed :: "string \<Rightarrow> bool io" and accept :: "string \<Rightarrow> bool"
  assumes empty_allows: "is_empty = Ok True \<Longrightarrow> is_allowed ip = Ok True"
    and accept_spec: "accept ip \<longleftrightarrow>
      (case is_empty of Ok False \<Rightarrow> is_allowed ip = Ok True | _ \<Rightarrow> True)"
begin

lemma accept_iff_allowed: "is_empty = Ok b \<Longrightarrow> accept ip \<longleftrightarrow> is_allowed ip = Ok True"
  by (cases b) (auto simp: accept_spec empty_allows)

lemma accept_when_unknown: "\<not> is_ok is_empty \<Longrightarrow> accept ip"
  by (cases is_empty) (auto simp: accept_spec)

end

interpretation whitelist: ip_whitelist "whitelist_is_empty w" "whitelist_is_allowed W w" "accept_connection W w"
  for W w
proof unfold_locales
  show "whitelist_is_empty w = Ok True \<Longrightarrow> whitelist_is_allowed W w ip = Ok True" for ip
    by (auto simp: whitelist_is_empty_def whitelist_is_allowed_def outcome_elims split: IpWhitelist.splits)
  show "accept_connection W w ip \<longleftrightarrow>
      (case whitelist_is_empty w of Ok False \<Rightarrow> whitelist_is_allowed W w ip = Ok True | _ \<Rightarrow> True)" for ip
    by (auto simp: accept_connection_def split: outcome.split bool.split)
qed

section \<open>User authentication\<close>

datatype UserAuthentication =
    SimpleUserAuthentication "(string \<times> string) list"
  | HttpUserAuthentication string

text \<open>The pairs are collected into a hash map: the last password of a user counts.\<close>

definition auth_payload :: "string \<Rightarrow> string \<Rightarrow> json" where
  "auth_payload system_id password =
     jobject [(''system_id'', JString system_id), (''password'', JString password)]"

definition authenticate ::
    "(string \<Rightarrow> json \<Rightarrow> http_result) \<Rightarrow> UserAuthentication \<Rightarrow> string \<Rightarrow> string \<Rightarrow> bool" where
  "authenticate post auth system_id password =
     (case auth of
        SimpleUserAuthentication users \<Rightarrow>
          (case map_of (rev users) system_id of Some pw \<Rightarrow> pw = password | None \<Rightarrow> False)
      | HttpUserAuthentication url \<Rightarrow>
          (case post url (auth_payload system_id password) of
             HttpResponse status body \<Rightarrow>
               if \<not> is_success status then False
               else (case body of
                       Some b \<Rightarrow> Option.bind (jget ''authenticated'' b) as_bool = Some True
                     | None \<Rightarrow> False)
           | HttpFailed _ \<Rightarrow> False))"

lemma map_of_rev_last:
  "map_of (rev users) u = Some p \<longleftrightarrow> (\<exists>us vs. users = us @ (u, p) # vs \<and> u \<notin> fst ` set vs)"
proof (induction users rule: rev_induct)
  case (snoc x users)
  obtain u' p' where x: "x = (u', p')" by (cases x)
  show ?case
  proof (cases "u' = u")
    case True
    have "(\<exists>us vs. users @ [x] = us @ (u, p) # vs \<and> u \<notin> fst ` set vs) \<longleftrightarrow> p' = p"
    proof
      assume "\<exists>us vs. users @ [x] = us @ (u, p) # vs \<and> u \<notin> fst ` set vs"
      then obtain us vs where "users @ [x] = us @ (u, p) # vs" "u \<notin> fst ` set vs" by blast
      with True x show "p' = p" by (cases vs rule: rev_cases) auto
    qed (use True x in force)
    with True x show ?thesis by simp
  next
    case False
    have "(\<exists>us vs. users @ [x] = us @ (u, p) # vs \<and> u \<notin> fst ` set vs) \<longleftrightarrow>
      (\<exists>us vs. users = us @ (u, p) # vs \<and> u \<notin> fst ` set vs)"
    proof
      assume "\<exists>us vs. users @ [x] = us @ (u, p) # vs \<and> u \<notin> fst ` set vs"
      then obtain us vs where "users @ [x] = us @ (u, p) # vs" "u \<notin> fst ` set vs" by blast
      with False x show "\<exists>us vs. users = us @ (u, p) # vs \<and> u \<notin> fst ` set vs"
        by (cases vs rule: rev_cases) auto
    next
      assume "\<exists>us vs. users = us @ (u, p) # vs \<and> u \<notin> fst ` set vs"
      then obtain us vs where "users = us @ (u, p) # vs" "u \<notin> fst ` set vs" by blast
      with False x have "users @ [x] = us @ (u, p) # (vs @ [x])" "u \<notin> fst ` set (vs @ [x])" by auto
      then show "\<exists>us vs. users @ [x] = us @ (u, p) # vs \<and> u \<notin> fst ` set vs" by blast
    qed
    with False x snoc show ?thesis by simp
  qed
qed simp

section \<open>Properties\<close>

text \<open>
  A socket is accepted exactly when the whitelist allows its address, provided the
  whitelist can tell whether it is empty; when it cannot (the database does not answer), every
  socket is accepted.
\<close>

theorem accept_decision:
  "accept_connection W w ip \<longleftrightarrow>
     (case whitelist_is_empty w of Ok _ \<Rightarrow> whitelist_is_allowed W w ip = Ok True | _ \<Rightarrow> True)"
  by (cases "whitelist_is_empty w") (auto simp: whitelist.accept_iff_allowed whitelist.accept_when_unknown)

text \<open>
  Authentication is granted only on positive evidence: with configured users, exactly for
  the last password configured for the user; with an HTTP service, exactly when it answers with
  a success status and a body whose \<^verbatim>\<open>authenticated\<close> member is true.
\<close>

theorem authenticate_iff:
  "authenticate post auth u p \<longleftrightarrow>
     (case auth of
        SimpleUserAuthentication users \<Rightarrow>
          \<exists>us vs. users = us @ (u, p) # vs \<and> u \<notin> fst ` set vs
      | HttpUserAuthentication url \<Rightarrow>
          \<exists>status b. post url (auth_payload u p) = HttpResponse status (Some b) \<and> is_success status
            \<and> jget ''authenticated'' b = Some (JBool True))"
proof (cases auth)
  case (SimpleUserAuthentication users)
  then show ?thesis using map_of_rev_last [of users u p]
    by (auto simp: SimpleUserAuthentication authenticate_def split: option.split)
next
  case (HttpUserAuthentication url)
  have "as_bool b = Some True \<longleftrightarrow> b = JBool True" for b by (cases b) auto
  then show ?thesis
    by (auto simp: HttpUserAuthentication authenticate_def bind_eq_Some_conv
        split: http_result.split option.split)
qed

end
