(* ===== verification/Ids.thy ===== *)
theory Ids
  imports Rust_Std
begin

text \<open>
  Generators of message identifiers (\<^verbatim>\<open>id_generator.rs\<close>).  The promise that the users of a
  generator rely on, that one generator never gives the same identifier twice for one prefix
  before its counter wraps, is the locale \<open>id_source\<close>.  UUIDs and the Redis counter come from
  outside and are parameters.
\<close>

datatype IdGeneratorConfig = IG_Atomic | IG_Uuid | IG_Redis string "string option"

definition IdGeneratorConfig_default :: IdGeneratorConfig where
  "IdGeneratorConfig_default = IG_Uuid"

record AtomicIdGenerator =
  counter :: u64

text \<open>The Redis counter is named by its key; a failing connection or increment panics.\<close>

datatype MessageIdGenerator =
    AtomicGenerator AtomicIdGenerator
  | UuidGenerator
  | RedisGenerator string

record id_env =
  new_uuid :: string
  redis_open :: "string \<Rightarrow> bool"
  redis_incr :: "string \<Rightarrow> (unit, u64) outcome"

definition create_id_generator ::
    "id_env \<Rightarrow> IdGeneratorConfig option \<Rightarrow> (unit, MessageIdGenerator) outcome" where
  "create_id_generator R config =
     (case (case config of Some c \<Rightarrow> c | None \<Rightarrow> IdGeneratorConfig_default) of
        IG_Atomic \<Rightarrow> Ok (AtomicGenerator \<lparr>counter = 1\<rparr>)
      | IG_Uuid \<Rightarrow> Ok UuidGenerator
      | IG_Redis url key \<Rightarrow>
          if redis_open R url
          then Ok (RedisGenerator (case key of Some k \<Rightarrow> k | None \<Rightarrow> ''smpp:id_counter''))
          else Panic)"

definition atomic_generate :: "string \<Rightarrow> AtomicIdGenerator \<Rightarrow> string \<times> AtomicIdGenerator" where
  "atomic_generate pre g =
     (pre @ fmt_0x 12 (unat (counter g)), g\<lparr>counter := counter g + 1\<rparr>)"

definition generate ::
    "id_env \<Rightarrow> string \<Rightarrow> MessageIdGenerator \<Rightarrow> (unit, string \<times> MessageIdGenerator) outcome" where
  "generate R pre g =
     (case g of
        AtomicGenerator a \<Rightarrow> (case atomic_generate pre a of (i, a') \<Rightarrow> Ok (i, AtomicGenerator a'))
      | UuidGenerator \<Rightarrow> Ok (pre @ new_uuid R, UuidGenerator)
      | RedisGenerator key \<Rightarrow>
          try_ok (redis_incr R key) (\<lambda>n. Ok (pre @ fmt_0x 12 (unat n), RedisGenerator key)))"

section \<open>Distinct identifiers\<close>

locale id_source =
  fixes gen :: "string \<Rightarrow> 'g \<Rightarrow> string \<times> 'g"
    and position_of :: "'g \<Rightarrow> nat"
    and period :: nat
  assumes period_pos: "0 < period"
    and position_bound: "position_of g < period"
    and next_position: "position_of (snd (gen p g)) = (position_of g + 1) mod period"
    and same_id: "fst (gen p g) = fst (gen p g') \<Longrightarrow> position_of g = position_of g'"
begin

fun ids :: "string \<Rightarrow> nat \<Rightarrow> 'g \<Rightarrow> string list" where
  "ids p 0 g = []"
| "ids p (Suc n) g = fst (gen p g) # ids p n (snd (gen p g))"

lemma ids_positions:
  "i \<in> set (ids p n g) \<Longrightarrow> \<exists>g' k. k < n \<and> i = fst (gen p g') \<and> position_of g' = (position_of g + k) mod period"
proof (induction n arbitrary: g)
  case (Suc n)
  consider "i = fst (gen p g)" | "i \<in> set (ids p n (snd (gen p g)))" using Suc.prems by auto
  then show ?case
  proof cases
    case 1
    then show ?thesis using position_bound [of g] by (intro exI [of _ g] exI [of _ 0]) simp
  next
    case 2
    from Suc.IH [OF this] obtain g' k where "k < n" "i = fst (gen p g')"
      "position_of g' = (position_of (snd (gen p g)) + k) mod period" by blast
    then show ?thesis
      by (intro exI [of _ g'] exI [of _ "Suc k"]) (simp add: next_position mod_add_left_eq)
  qed
qed simp

lemma ids_distinct: "n \<le> period \<Longrightarrow> distinct (ids p n g)"
proof (induction n arbitrary: g)
  case (Suc n)
  have "fst (gen p g) \<notin> set (ids p n (snd (gen p g)))"
  proof
    assume "fst (gen p g) \<in> set (ids p n (snd (gen p g)))"
    then obtain g' k where k: "k < n" "fst (gen p g) = fst (gen p g')"
      "position_of g' = (position_of (snd (gen p g)) + k) mod period" using ids_positions by blast
    then have "position_of g = (position_of g + Suc k) mod period"
      using same_id [OF k(2)] by (simp add: next_position mod_add_left_eq)
    moreover have "Suc k < period" using k(1) Suc.prems by simp
    ultimately show False using position_bound [of g]
      by (cases "position_of g + Suc k < period") (simp_all add: le_mod_geq)
  qed
  then show ?case using Suc by simp
qed simp

end

lemma fmt_0x_inject:
  assumes "fmt_0x 12 (unat (a :: u64)) = fmt_0x 12 (unat b)" shows "a = b"
proof -
  have "unat a < 2 ^ 64" "unat b < 2 ^ 64"
    using unsigned_less [of a, where 'a = nat] unsigned_less [of b, where 'a = nat] by simp_all
  then have "parse_unsigned (2 ^ 64) 16 (fmt_0x 12 (unat a)) = Some (unat a)"
    "parse_unsigned (2 ^ 64) 16 (fmt_0x 12 (unat b)) = Some (unat b)"
    by (simp_all add: parse_fmt_hex)
  then show ?thesis using assms by (simp add: word_unat_eq_iff)
qed

interpretation atomic_ids: id_source atomic_generate "\<lambda>g. unat (counter g)" "2 ^ 64"
proof unfold_locales
  show "unat (counter g) < 2 ^ 64" for g :: AtomicIdGenerator
    using unsigned_less [of "counter g", where 'a = nat] by simp
  show "unat (counter (snd (atomic_generate p g))) = (unat (counter g) + 1) mod 2 ^ 64" for p g
    by (simp add: atomic_generate_def unat_word_ariths)
  show "fst (atomic_generate p g) = fst (atomic_generate p g') \<Longrightarrow> unat (counter g) = unat (counter g')" for p g g'
    by (auto simp: atomic_generate_def dest: fmt_0x_inject)
qed simp

text \<open>The identifiers that successive calls of the atomic generator return.\<close>

fun generated :: "string \<Rightarrow> nat \<Rightarrow> AtomicIdGenerator \<Rightarrow> string list" where
  "generated p 0 g = []"
| "generated p (Suc n) g = (case atomic_generate p g of (i, g') \<Rightarrow> i # generated p n g')"

lemma generated_ids: "generated p n g = atomic_ids.ids p n g"
  by (induction n arbitrary: g) (simp_all add: case_prod_unfold)

text \<open>
  The atomic generator never repeats an identifier within \<open>2 ^ 64\<close> calls with the same
  prefix, wherever its counter starts.
\<close>

theorem atomic_ids_distinct:
  assumes "n \<le> 2 ^ 64" shows "distinct (generated p n g)"
  using assms unfolding generated_ids by (rule atomic_ids.ids_distinct)

theorem atomic_ids_distinct_witness: "distinct (generated ''m'' 3 \<lparr>counter = 0xFFFFFFFFFFFFFFFF\<rparr>)"
  by (rule atomic_ids_distinct) simp

end
