(* ===== verification/Load_Balancing.thy ===== *)
theory Load_Balancing
  imports Config
begin

text \<open>
  Fail-over over a list of targets, starting at a rotating position: the scheme that the HTTP
  message handler (\<^verbatim>\<open>message_handler.rs\<close>) and the pool of SMSC connections
  (\<^verbatim>\<open>smsc_connection_manager.rs\<close>) share.  The locale \<open>failover\<close> states what a dispatcher does and
  derives what its callers may rely on.
\<close>

text \<open>The first attempt that succeeds, with the number of the attempt that made it.\<close>

fun first_success :: "(nat \<Rightarrow> 'c \<Rightarrow> 'r option) \<Rightarrow> nat \<Rightarrow> 'c list \<Rightarrow> 'r option" where
  "first_success attempt i [] = None"
| "first_success attempt i (c # cs) =
     (case attempt i c of Some r \<Rightarrow> Some r | None \<Rightarrow> first_success attempt (Suc i) cs)"

lemma first_success_None:
  "first_success attempt i cs = None \<longleftrightarrow> (\<forall>j<length cs. attempt (i + j) (cs ! j) = None)"
proof (induction cs arbitrary: i)
  case (Cons c cs)
  show ?case
  proof (cases "attempt i c")
    case None
    have "(\<forall>j<length (c # cs). attempt (i + j) ((c # cs) ! j) = None) \<longleftrightarrow>
      (\<forall>j<length cs. attempt (Suc i + j) (cs ! j) = None)"
      using None by (auto simp: less_Suc_eq_0_disj)
    with None Cons show ?thesis by simp
  qed auto
qed simp

lemma first_success_Some:
  "first_success attempt i cs = Some r \<longleftrightarrow>
     (\<exists>j<length cs. attempt (i + j) (cs ! j) = Some r \<and> (\<forall>k<j. attempt (i + k) (cs ! k) = None))"
proof (induction cs arbitrary: i)
  case (Cons c cs)
  then show ?case
    by (cases "attempt i c") (simp_all add: Ex_less_Suc2 All_less_Suc2)
qed simp

text \<open>
  A dispatcher over the targets of a state: it walks the targets from a start position, makes
  one attempt at each until one succeeds, and otherwise reports that all failed.
\<close>

locale failover =
  fixes targets :: "'s \<Rightarrow> 'c list"
    and start :: "'s \<Rightarrow> nat"
    and attempt :: "nat \<Rightarrow> 'c \<Rightarrow> 'r option"
    and dispatch :: "'s \<Rightarrow> 'r io"
    and failed :: io_error
  assumes dispatch_spec: "targets s \<noteq> [] \<Longrightarrow>
    dispatch s = (case first_success attempt 0 (rotation (start s) (targets s)) of Some r \<Rightarrow> Ok r | None \<Rightarrow> Err failed)"
begin

lemma dispatch_err:
  assumes "targets s \<noteq> []"
  shows "dispatch s = Err failed \<longleftrightarrow>
    (\<forall>i<length (targets s). attempt i (rotation (start s) (targets s) ! i) = None)"
  using assms first_success_None [of attempt 0 "rotation (start s) (targets s)"]
  by (cases "first_success attempt 0 (rotation (start s) (targets s))") (auto simp: dispatch_spec)

lemma dispatch_ok:
  assumes "targets s \<noteq> []"
  shows "dispatch s = Ok r \<longleftrightarrow>
    (\<exists>i<length (targets s). attempt i (rotation (start s) (targets s) ! i) = Some r \<and>
       (\<forall>j<i. attempt j (rotation (start s) (targets s) ! j) = None))"
  using assms first_success_Some [of attempt 0 "rotation (start s) (targets s)" r]
  by (auto simp: dispatch_spec split: option.split)

lemma dispatch_survives:
  assumes "c \<in> set (targets s)" "\<forall>i. attempt i c \<noteq> None"
  shows "\<exists>r. dispatch s = Ok r"
proof -
  have ne: "targets s \<noteq> []" using assms(1) by auto
  obtain i where "i < length (targets s)" "rotation (start s) (targets s) ! i = c"
    using assms(1) by (metis in_set_conv_nth length_rotation set_rotation)
  then have "first_success attempt 0 (rotation (start s) (targets s)) \<noteq> None"
    using assms(2) by (auto simp: first_success_None)
  then show ?thesis using ne by (auto simp: dispatch_spec)
qed

end

text \<open>\<open>n\<close> successive positions of a counter reach \<open>n\<close> different targets.\<close>

lemma rotation_nth0: "xs \<noteq> [] \<Longrightarrow> rotation k xs ! 0 = xs ! (k mod length xs)"
  by (simp add: rotation_def)

lemma round_robin_covers:
  assumes "xs \<noteq> []"
  shows "map (\<lambda>i. rotation (k + i) xs ! 0) [0..<length xs] = rotate k xs"
  using assms by (simp add: rotation_nth0 rotation_eq_rotate [symmetric] rotation_def)

end
