(* ===== verification/Message_Handler.thy ===== *)
theory Message_Handler
  imports Load_Balancing Access
begin

text \<open>
  Delivery of messages to HTTP applications (\<^verbatim>\<open>message_handler.rs\<close>).  The regular expressions
  and the HTTP client are third-party code: \<open>compile\<close> gives the matcher of a pattern, if the
  pattern is valid, and \<open>post i url v\<close> the outcome of the \<open>i\<close>-th request of a call.
\<close>

type_synonym regex_compiler = "string \<Rightarrow> (string \<Rightarrow> bool) option"
type_synonym http_poster = "nat \<Rightarrow> string \<Rightarrow> json \<Rightarrow> http_result"

section \<open>The HTTP handler\<close>

record HttpMessageHandler =
  dest_addresses :: "string list"
  dest_address_patterns :: "(string \<Rightarrow> bool) list"
  urls :: "string list"
  next_index :: u64
  algorithm :: LoadBalancingAlgorithm

definition HttpMessageHandler_new ::
    "regex_compiler \<Rightarrow> string list \<Rightarrow> string list \<Rightarrow> string list \<Rightarrow> LoadBalancingAlgorithm \<Rightarrow> HttpMessageHandler" where
  "HttpMessageHandler_new compile addresses patterns us alg =
     \<lparr>dest_addresses = addresses, dest_address_patterns = List.map_filter compile patterns,
      urls = us, next_index = 0, algorithm = alg\<rparr>"

definition HttpMessageHandler_create_from ::
    "regex_compiler \<Rightarrow> RequestHandlerConfig \<Rightarrow> HttpMessageHandler" where
  "HttpMessageHandler_create_from compile config =
     HttpMessageHandler_new compile
       (case rh_dest_addresses config of Some as \<Rightarrow> as | None \<Rightarrow> [])
       (case rh_dest_address_patterns config of Some ps \<Rightarrow> ps | None \<Rightarrow> [])
       (rh_urls config)
       (case rh_algorithm config of Some a \<Rightarrow> LoadBalancingAlgorithm_from a | None \<Rightarrow> RoundRobin)"

definition match_any_pattern :: "HttpMessageHandler \<Rightarrow> string \<Rightarrow> bool" where
  "match_any_pattern h dest_address = list_ex (\<lambda>matches. matches dest_address) (dest_address_patterns h)"

definition match_any_address :: "HttpMessageHandler \<Rightarrow> string \<Rightarrow> bool" where
  "match_any_address h dest_address = (dest_address \<in> set (dest_addresses h))"

definition http_is_my_request_address :: "HttpMessageHandler \<Rightarrow> string \<Rightarrow> bool" where
  "http_is_my_request_address h a =
     (if dest_addresses h = [] \<and> dest_address_patterns h = [] then True
      else match_any_address h a \<or> match_any_pattern h a)"

text \<open>\<^verbatim>\<open>for i in 0..len\<close>: one request per URL until one is answered with JSON and success.\<close>

fun http_try_urls :: "http_poster \<Rightarrow> json \<Rightarrow> string list \<Rightarrow> nat \<Rightarrow> nat list \<Rightarrow> json io" where
  "http_try_urls post v us start [] = Err (IoError Other ''All handler URLs failed'')"
| "http_try_urls post v us start (i # is) =
     (case post i (us ! ((start + i) mod length us)) v of
        HttpResponse status body \<Rightarrow>
          if is_success status
          then (case body of Some json_resp \<Rightarrow> Ok json_resp | None \<Rightarrow> http_try_urls post v us start is)
          else http_try_urls post v us start is
      | HttpFailed _ \<Rightarrow> http_try_urls post v us start is)"

definition http_start :: "HttpMessageHandler \<Rightarrow> nat" where
  "http_start h =
     (case algorithm h of RoundRobin \<Rightarrow> unat (next_index h) mod length (urls h) | FailOver \<Rightarrow> 0)"

definition http_handle_message ::
    "http_poster \<Rightarrow> json \<Rightarrow> HttpMessageHandler \<Rightarrow> json io \<times> HttpMessageHandler" where
  "http_handle_message post v h =
     (if urls h = [] then (Err (IoError Other ''No handler URLs configured''), h)
      else
        (http_try_urls post v (urls h) (http_start h) [0..<length (urls h)],
         case algorithm h of RoundRobin \<Rightarrow> h\<lparr>next_index := next_index h + 1\<rparr> | FailOver \<Rightarrow> h))"

section \<open>Handlers\<close>

datatype message_handler =
    HttpHandler HttpMessageHandler
  | CompositeHandler "message_handler list"
  | NoOpHandler

definition create_request_handler :: "regex_compiler \<Rightarrow> RequestHandlerConfig list \<Rightarrow> message_handler" where
  "create_request_handler compile configs =
     CompositeHandler (map (\<lambda>c. HttpHandler (HttpMessageHandler_create_from compile c)) configs)"

fun is_my_request_address :: "message_handler \<Rightarrow> string \<Rightarrow> bool" where
  "is_my_request_address (HttpHandler h) a = http_is_my_request_address h a"
| "is_my_request_address (CompositeHandler hs) a = list_ex (\<lambda>h. is_my_request_address h a) hs"
| "is_my_request_address NoOpHandler a = False"

lemma size_nth_handler: "i < length hs \<Longrightarrow> size (hs ! i) < Suc (size_list size hs)"
  using size_list_estimation' [OF nth_mem, of i hs "size (hs ! i)" size] by simp

function handle_message :: "http_poster \<Rightarrow> json \<Rightarrow> message_handler \<Rightarrow> json io \<times> message_handler" where
  "handle_message post v (HttpHandler h) =
     (case http_handle_message post v h of (r, h') \<Rightarrow> (r, HttpHandler h'))"
| "handle_message post v (CompositeHandler hs) =
     (case position (\<lambda>h. is_my_request_address h (str_or_empty ''destination_addr'' v)) hs of
        Some i \<Rightarrow>
          (case handle_message post v (hs ! i) of (r, h') \<Rightarrow> (r, CompositeHandler (hs[i := h'])))
      | None \<Rightarrow> (Err (IoError Other ''No suitable handler found''), CompositeHandler hs))"
| "handle_message post v NoOpHandler =
     (Err (IoError Other ''NoOpMessageHandler cannot handle messages''), NoOpHandler)"
  by pat_completeness auto
termination
  by (relation "measure (\<lambda>(p, v, h). size h)") (auto dest!: position_Some intro: size_nth_handler)

section \<open>The HTTP handler is a fail-over dispatcher\<close>

definition http_attempt :: "http_poster \<Rightarrow> json \<Rightarrow> nat \<Rightarrow> string \<Rightarrow> json option" where
  "http_attempt post v i url =
     (case post i url v of HttpResponse status body \<Rightarrow> if is_success status then body else None | HttpFailed _ \<Rightarrow> None)"

lemma http_try_urls_Cons:
  "http_try_urls post v us start (i # is) =
     (case http_attempt post v i (us ! ((start + i) mod length us)) of
        Some r \<Rightarrow> Ok r | None \<Rightarrow> http_try_urls post v us start is)"
  by (simp add: http_attempt_def split: http_result.split option.split)

lemma http_try_urls_first_success:
  "http_try_urls post v us start [k..<k + n] =
     (case first_success (http_attempt post v) k (map (\<lambda>i. us ! ((start + i) mod length us)) [k..<k + n]) of
        Some r \<Rightarrow> Ok r | None \<Rightarrow> Err (IoError Other ''All handler URLs failed''))"
proof (induction n arbitrary: k)
  case (Suc n)
  have "[k..<k + Suc n] = k # [Suc k..<Suc k + n]" by (simp add: upt_conv_Cons del: upt_Suc)
  then show ?case using Suc.IH [of "Suc k"]
    by (simp only: http_try_urls_Cons list.map first_success.simps) (simp split: option.split)
qed simp

interpretation http:
  failover "urls :: HttpMessageHandler \<Rightarrow> string list" http_start "http_attempt post v" "\<lambda>h. fst (http_handle_message post v h)"
    "IoError Other ''All handler URLs failed''" for post v
proof unfold_locales
  fix h :: HttpMessageHandler assume "urls h \<noteq> []"
  then show "fst (http_handle_message post v h) =
     (case first_success (http_attempt post v) 0 (rotation (http_start h) (urls h)) of
        Some r \<Rightarrow> Ok r | None \<Rightarrow> Err (IoError Other ''All handler URLs failed''))"
    using http_try_urls_first_success [of post v "urls h" "http_start h" 0 "length (urls h)"]
    by (simp add: http_handle_message_def rotation_def)
qed

section \<open>Properties\<close>

text \<open>
  The HTTP handler returns a JSON answer exactly when one of its URLs gives one with a
  success status, namely the answer of the first such URL in the order that starts at the
  rotating position; with URLs configured it fails only when every URL has failed.
\<close>

theorem http_handler_failover:
  assumes "urls h \<noteq> []"
  shows "(fst (http_handle_message post v h) = Ok r \<longleftrightarrow>
       (\<exists>i<length (urls h). http_attempt post v i (rotation (http_start h) (urls h) ! i) = Some r \<and>
         (\<forall>j<i. http_attempt post v j (rotation (http_start h) (urls h) ! j) = None)))
    \<and> (fst (http_handle_message post v h) = Err (IoError Other ''All handler URLs failed'') \<longleftrightarrow>
       (\<forall>i<length (urls h). http_attempt post v i (rotation (http_start h) (urls h) ! i) = None))"
  using http.dispatch_ok [OF assms] http.dispatch_err [OF assms] by blast

definition two_urls :: HttpMessageHandler where
  "two_urls = HttpMessageHandler_new (\<lambda>_. None) [] [] [''http://a'', ''http://b''] RoundRobin"

definition only_b :: http_poster where
  "only_b i url v = (if url = ''http://b'' then HttpResponse 200 (Some JNull) else HttpFailed ''refused'')"

theorem http_handler_failover_witness:
  "fst (http_handle_message only_b JNull two_urls) = Ok JNull"
proof -
  have "urls two_urls \<noteq> []" by (simp add: two_urls_def HttpMessageHandler_new_def)
  moreover have "http_attempt only_b JNull 1 (rotation (http_start two_urls) (urls two_urls) ! 1) = Some JNull"
    "\<forall>j<1. http_attempt only_b JNull j (rotation (http_start two_urls) (urls two_urls) ! j) = None"
    "1 < length (urls two_urls)"
    by (simp_all add: http_attempt_def only_b_def two_urls_def HttpMessageHandler_new_def http_start_def
        rotation_def is_success_def)
  ultimately show ?thesis using http_handler_failover by blast
qed

text \<open>
  The composite handler gives a message to the first configured handler that claims the
  destination address, leaves the other handlers untouched, and answers with an error without
  calling any when none claims it.
\<close>

theorem composite_routes_to_first:
  "handle_message post v (CompositeHandler hs) =
     (let claims = (\<lambda>h. is_my_request_address h (str_or_empty ''destination_addr'' v)) in
      if \<exists>h\<in>set hs. claims h
      then let before = takeWhile (\<lambda>h. \<not> claims h) hs; rest = dropWhile (\<lambda>h. \<not> claims h) hs in
        (fst (handle_message post v (hd rest)),
         CompositeHandler (before @ snd (handle_message post v (hd rest)) # tl rest))
      else (Err (IoError Other ''No suitable handler found''), CompositeHandler hs))"
proof -
  let ?P = "\<lambda>h. is_my_request_address h (str_or_empty ''destination_addr'' v)"
  show ?thesis
  proof (cases "\<exists>h\<in>set hs. ?P h")
    case True
    define xs where "xs = takeWhile (\<lambda>h. \<not> ?P h) hs"
    have "dropWhile (\<lambda>h. \<not> ?P h) hs \<noteq> []" using True by (simp add: dropWhile_eq_Nil_conv)
    then obtain y ys where d: "dropWhile (\<lambda>h. \<not> ?P h) hs = y # ys" by (meson list.exhaust)
    then have hs: "hs = xs @ y # ys" and y: "?P y" by (simp_all add: dropWhile_eq_Cons_conv xs_def)
    have "position ?P hs = Some (length xs)"
      unfolding hs using y by (intro position_append_hit) (auto simp: xs_def dest: set_takeWhileD)
    moreover have "hs ! length xs = y" "hs[length xs := z] = xs @ z # ys" for z by (simp_all add: hs)
    ultimately have "handle_message post v (CompositeHandler hs) =
      (fst (handle_message post v y), CompositeHandler (xs @ snd (handle_message post v y) # ys))"
      by (simp add: case_prod_unfold)
    then show ?thesis using True d by (simp add: xs_def Let_def)
  next
    case False
    then have "position ?P hs = None" by (simp add: position_None)
    with False show ?thesis by simp
  qed
qed

fun http_starts :: "nat \<Rightarrow> http_poster \<Rightarrow> json \<Rightarrow> HttpMessageHandler \<Rightarrow> string list" where
  "http_starts 0 post v h = []"
| "http_starts (Suc n) post v h =
     rotation (http_start h) (urls h) ! 0 # http_starts n post v (snd (http_handle_message post v h))"

lemma http_starts_eq:
  assumes "algorithm h = RoundRobin" "urls h \<noteq> []" "unat (next_index h) + n \<le> 2 ^ 64"
  shows "http_starts n post v h = map (\<lambda>i. rotation (unat (next_index h) + i) (urls h) ! 0) [0..<n]"
  using assms
proof (induction n arbitrary: h)
  case (Suc n)
  let ?h = "snd (http_handle_message post v h)"
  have h': "?h = h\<lparr>next_index := next_index h + 1\<rparr>" using Suc.prems by (simp add: http_handle_message_def)
  have "http_starts n post v ?h = map (\<lambda>i. rotation (unat (next_index h) + Suc i) (urls h) ! 0) [0..<n]"
  proof (cases n)
    case (Suc m)
    then have "unat (next_index h + 1) = Suc (unat (next_index h))"
      using Suc.prems(3) Suc by (simp add: unat_word_ariths)
    then show ?thesis using Suc.IH [of ?h] Suc.prems by (simp add: h')
  qed simp
  moreover have "rotation (http_start h) (urls h) ! 0 = rotation (unat (next_index h)) (urls h) ! 0"
    using Suc.prems by (simp add: http_start_def rotation_nth0)
  ultimately show ?case
    by (simp add: upt_conv_Cons map_Suc_upt [symmetric] comp_def del: upt_Suc)
qed simp

text \<open>
  Round-robin: as many successive messages as there are URLs start at each URL once, in
  the configured order from the current position, unless the 64-bit counter wraps in between.
\<close>

theorem http_round_robin:
  assumes "algorithm h = RoundRobin" "urls h \<noteq> []" "unat (next_index h) + length (urls h) \<le> 2 ^ 64"
  shows "http_starts (length (urls h)) post v h = rotate (unat (next_index h)) (urls h)"
  using http_starts_eq [OF assms] round_robin_covers [OF assms(2)] by simp

theorem http_round_robin_witness:
  "http_starts 2 only_b JNull two_urls = [''http://a'', ''http://b'']"
proof -
  have h: "algorithm two_urls = RoundRobin" "urls two_urls = [''http://a'', ''http://b'']" "next_index two_urls = 0"
    by (simp_all add: two_urls_def HttpMessageHandler_new_def)
  have "http_starts (length (urls two_urls)) only_b JNull two_urls = rotate (unat (next_index two_urls)) (urls two_urls)"
    by (rule http_round_robin) (simp_all add: h)
  then show ?thesis by (simp add: h numeral_2_eq_2)
qed

end
