(* ===== verification/Connections.thy ===== *)
theory Connections
  imports Load_Balancing
begin

text \<open>
  The pool of connections to SMSCs (\<^verbatim>\<open>smsc_client/smsc_connection_manager.rs\<close>) and the registry
  of bound clients of the server (\<^verbatim>\<open>smsc_server/client_manager.rs\<close>).
\<close>

section \<open>The pool of SMSC connections\<close>

text \<open>A connection is known to the pool by its address and an identity.\<close>

record smsc_link =
  link_id :: nat
  link_address :: string

record SmscConnectionManager =
  links :: "smsc_link list"
  lb_algorithm :: LoadBalancingAlgorithm
  lb_index :: u32

definition SmscConnectionManager_new :: "LoadBalancingAlgorithm \<Rightarrow> SmscConnectionManager" where
  "SmscConnectionManager_new alg = \<lparr>links = [], lb_algorithm = alg, lb_index = 0\<rparr>"

definition get_connection_addresses :: "SmscConnectionManager \<Rightarrow> string list" where
  "get_connection_addresses m = map link_address (links m)"

definition add_connection :: "smsc_link \<Rightarrow> SmscConnectionManager \<Rightarrow> SmscConnectionManager" where
  "add_connection c m = m\<lparr>links := links m @ [c]\<rparr>"

definition remove_connection :: "string \<Rightarrow> SmscConnectionManager \<Rightarrow> SmscConnectionManager" where
  "remove_connection a m = m\<lparr>links := filter (\<lambda>c. link_address c \<noteq> a) (links m)\<rparr>"

text \<open>
  The remainder of the rotating index by the number of connections panics when there are none;
  the index has been advanced by then.
\<close>

definition get_connections ::
    "SmscConnectionManager \<Rightarrow> (unit, smsc_link list) outcome \<times> SmscConnectionManager" where
  "get_connections m =
     (let n = length (links m) in
      case lb_algorithm m of
        RoundRobin \<Rightarrow>
          (if n = 0 then Panic
           else Ok (map (\<lambda>i. links m ! ((unat (lb_index m) mod n + i) mod n)) [0..<n]),
           m\<lparr>lb_index := lb_index m + 1\<rparr>)
      | FailOver \<Rightarrow> (Ok (map (\<lambda>i. links m ! ((0 + i) mod n)) [0..<n]), m))"

text \<open>
  \<open>send i c\<close> is the outcome of the \<open>i\<close>-th attempt of a call, \<^verbatim>\<open>SmscConnection::send_message\<close> on
  connection \<open>c\<close>: an error, no response, or a response.
\<close>

fun try_connections :: "(nat \<Rightarrow> smsc_link \<Rightarrow> io_error + json option) \<Rightarrow> nat \<Rightarrow> smsc_link list \<Rightarrow> json io" where
  "try_connections send i [] = Err (IoError Other ''Failed to send message to any SMSC connection'')"
| "try_connections send i (c # cs) =
     (case send i c of
        Inr (Some inner_response) \<Rightarrow> Ok inner_response
      | Inr None \<Rightarrow> try_connections send (Suc i) cs
      | Inl _ \<Rightarrow> try_connections send (Suc i) cs)"

definition pool_send_message ::
    "(nat \<Rightarrow> smsc_link \<Rightarrow> io_error + json option) \<Rightarrow> SmscConnectionManager \<Rightarrow> json io \<times> SmscConnectionManager" where
  "pool_send_message send m =
     (case get_connections m of
        (Ok cs, m1) \<Rightarrow>
          (if cs = [] then Err (IoError Other ''No active SMSC connections available'')
           else try_connections send 0 cs, m1)
      | (_, m1) \<Rightarrow> (Panic, m1))"

definition pool_start :: "SmscConnectionManager \<Rightarrow> nat" where
  "pool_start m = (case lb_algorithm m of RoundRobin \<Rightarrow> unat (lb_index m) mod length (links m) | FailOver \<Rightarrow> 0)"

definition pool_attempt :: "(nat \<Rightarrow> smsc_link \<Rightarrow> io_error + json option) \<Rightarrow> nat \<Rightarrow> smsc_link \<Rightarrow> json option" where
  "pool_attempt send i c = (case send i c of Inr r \<Rightarrow> r | Inl _ \<Rightarrow> None)"

lemma get_connections_rotation:
  "links m \<noteq> [] \<Longrightarrow> fst (get_connections m) = Ok (rotation (pool_start m) (links m))"
  by (simp add: get_connections_def pool_start_def rotation_def Let_def split: LoadBalancingAlgorithm.split)

lemma try_connections_first_success:
  "try_connections send i cs =
     (case first_success (pool_attempt send) i cs of
        Some r \<Rightarrow> Ok r | None \<Rightarrow> Err (IoError Other ''Failed to send message to any SMSC connection''))"
  by (induction cs arbitrary: i) (simp_all add: pool_attempt_def split: sum.split option.split)

interpretation pool:
  failover "links :: SmscConnectionManager \<Rightarrow> smsc_link list" pool_start "pool_attempt send"
    "\<lambda>m. fst (pool_send_message send m)" "IoError Other ''Failed to send message to any SMSC connection''" for send
proof unfold_locales
  fix m :: SmscConnectionManager assume ne: "links m \<noteq> []"
  obtain m1 where "get_connections m = (Ok (rotation (pool_start m) (links m)), m1)"
    using get_connections_rotation [OF ne] by (metis prod.collapse)
  moreover have "rotation (pool_start m) (links m) \<noteq> []" using ne by (metis length_0_conv length_rotation)
  ultimately show "fst (pool_send_message send m) =
     (case first_success (pool_attempt send) 0 (rotation (pool_start m) (links m)) of
        Some r \<Rightarrow> Ok r | None \<Rightarrow> Err (IoError Other ''Failed to send message to any SMSC connection''))"
    by (simp add: pool_send_message_def try_connections_first_success)
qed

section \<open>Bound clients\<close>

text \<open>
  The compiled address range of a client and its writer, by peer address.  The regular
  expression engine is the parameter \<open>compile\<close>; the iteration order of the hash map is the
  argument \<open>order\<close> of the operations that walk it.
\<close>

record ClientManager =
  clients :: "string \<rightharpoonup> (string \<Rightarrow> bool) \<times> nat"

definition ClientManager_new :: ClientManager where
  "ClientManager_new = \<lparr>clients = Map.empty\<rparr>"

definition anchored_range :: "string \<Rightarrow> string" where
  "anchored_range address_range =
     (let r = (if \<not> starts_with ''^'' address_range \<and> ends_with ''$'' address_range
               then ''.*'' @ address_range else address_range)
      in if starts_with ''^'' r \<and> \<not> ends_with ''$'' r then r @ ''.*'' else r)"

definition add_client ::
    "(string \<Rightarrow> (string \<Rightarrow> bool) option) \<Rightarrow> string \<Rightarrow> string \<Rightarrow> nat \<Rightarrow> ClientManager \<Rightarrow> ClientManager" where
  "add_client compile peer_address address_range writer m =
     (if address_range = [] then m
      else case compile (anchored_range address_range) of
             Some regex \<Rightarrow>
               (case clients m peer_address of
                  Some _ \<Rightarrow> m
                | None \<Rightarrow> m\<lparr>clients := (clients m)(peer_address \<mapsto> (regex, writer))\<rparr>)
           | None \<Rightarrow> m)"

definition remove_client :: "string \<Rightarrow> ClientManager \<Rightarrow> ClientManager" where
  "remove_client peer_address m = m\<lparr>clients := (clients m)(peer_address := None)\<rparr>"

definition get_writer :: "string list \<Rightarrow> string \<Rightarrow> ClientManager \<Rightarrow> nat list" where
  "get_writer order a m =
     List.map_filter (\<lambda>p. case clients m p of
        Some (regex, writer) \<Rightarrow> if regex a then Some writer else None | None \<Rightarrow> None) order"

text \<open>\<open>write w data\<close> tells whether \<^verbatim>\<open>write_all\<close> and \<^verbatim>\<open>flush\<close> both succeed on writer \<open>w\<close>.\<close>

fun write_first :: "(nat \<Rightarrow> bytes \<Rightarrow> bool) \<Rightarrow> bytes \<Rightarrow> nat list \<Rightarrow> nat option" where
  "write_first write data [] = None"
| "write_first write data (w # ws) = (if write w data then Some w else write_first write data ws)"

definition client_send_message ::
    "(nat \<Rightarrow> bytes \<Rightarrow> bool) \<Rightarrow> string list \<Rightarrow> string \<Rightarrow> bytes \<Rightarrow> ClientManager \<Rightarrow> nat io" where
  "client_send_message write order a data m =
     (let writers = get_writer order a m in
      if writers = [] then Err (IoError NotFound ''Client not found'')
      else case write_first write data writers of
             Some w \<Rightarrow> Ok w
           | None \<Rightarrow> Err (IoError Other ''Failed to send message to client''))"

definition client_order :: "ClientManager \<Rightarrow> string list \<Rightarrow> bool" where
  "client_order m order = (distinct order \<and> set order = dom (clients m))"

lemma get_writer_iff:
  assumes "client_order m order"
  shows "w \<in> set (get_writer order a m) \<longleftrightarrow> (\<exists>p regex. clients m p = Some (regex, w) \<and> regex a)"
  using assms
  by (auto simp: get_writer_def client_order_def map_filter_def split: option.splits if_splits) force+

lemma write_first_Some: "write_first write data ws = Some w \<Longrightarrow> w \<in> set ws \<and> write w data"
  by (induction ws) (auto split: if_splits)

lemma write_first_None: "write_first write data ws = None \<longleftrightarrow> (\<forall>w\<in>set ws. \<not> write w data)"
  by (induction ws) auto

section \<open>Properties\<close>

text \<open>
  Sending over the pool: with connections, the answer is the response of the first
  connection, in rotation order, that gives one; the call fails only when every connection
  has been tried once and none has answered.
\<close>

theorem pool_failover:
  assumes "links m \<noteq> []"
  shows "(fst (pool_send_message send m) = Ok r \<longleftrightarrow>
       (\<exists>i<length (links m). pool_attempt send i (rotation (pool_start m) (links m) ! i) = Some r \<and>
         (\<forall>j<i. pool_attempt send j (rotation (pool_start m) (links m) ! j) = None)))
    \<and> (fst (pool_send_message send m) = Err (IoError Other ''Failed to send message to any SMSC connection'') \<longleftrightarrow>
       (\<forall>i<length (links m). pool_attempt send i (rotation (pool_start m) (links m) ! i) = None))"
  using pool.dispatch_ok [OF assms] pool.dispatch_err [OF assms] by blast

definition sample_pool :: SmscConnectionManager where
  "sample_pool = add_connection \<lparr>link_id = 1, link_address = ''b:2775''\<rparr>
     (add_connection \<lparr>link_id = 0, link_address = ''a:2775''\<rparr> (SmscConnectionManager_new FailOver))"

theorem pool_failover_witness:
  "fst (pool_send_message (\<lambda>i c. if link_id c = 1 then Inr (Some JNull) else Inl (IoError TimedOut ''t'')) sample_pool)
   = Ok JNull"
proof -
  let ?send = "\<lambda>(i :: nat) c. if link_id c = 1 then Inr (Some JNull) else Inl (IoError TimedOut ''t'')"
  have "links sample_pool \<noteq> []" "1 < length (links sample_pool)"
    "pool_attempt ?send 1 (rotation (pool_start sample_pool) (links sample_pool) ! 1) = Some JNull"
    "\<forall>j<1. pool_attempt ?send j (rotation (pool_start sample_pool) (links sample_pool) ! j) = None"
    by (simp_all add: sample_pool_def add_connection_def SmscConnectionManager_new_def pool_attempt_def
        pool_start_def rotation_def)
  then show ?thesis using pool_failover [of sample_pool ?send JNull] by blast
qed

text \<open>
  An empty pool: with fail-over the call reports that there is no active connection; with
  round-robin it panics instead.
\<close>

theorem pool_empty:
  "links m = [] \<Longrightarrow> fst (pool_send_message send m) =
     (case lb_algorithm m of RoundRobin \<Rightarrow> Panic
      | FailOver \<Rightarrow> Err (IoError Other ''No active SMSC connections available''))"
  by (simp add: pool_send_message_def get_connections_def split: LoadBalancingAlgorithm.split)

theorem pool_empty_witness:
  "fst (pool_send_message (\<lambda>i c. Inr None) (SmscConnectionManager_new RoundRobin)) = Panic"
proof -
  have "links (SmscConnectionManager_new RoundRobin) = []" by (simp add: SmscConnectionManager_new_def)
  from pool_empty [OF this] show ?thesis by (simp add: SmscConnectionManager_new_def)
qed

text \<open>
  C40.  A message for an address is written to one client whose address range matches it, if
  any write succeeds, whatever order the hash map is walked in; no client with another range is
  ever written to, and the call reports \<open>NotFound\<close> exactly when no range matches.
\<close>

theorem client_routing:
  assumes "client_order m order"
  shows "(case client_send_message write order a data m of
      Ok w \<Rightarrow> write w data \<and> (\<exists>p regex. clients m p = Some (regex, w) \<and> regex a)
    | Err e \<Rightarrow> (\<forall>p regex w. clients m p = Some (regex, w) \<and> regex a \<longrightarrow> \<not> write w data) \<and>
        (e = IoError NotFound ''Client not found'' \<longleftrightarrow> \<not> (\<exists>p regex w. clients m p = Some (regex, w) \<and> regex a))
    | Panic \<Rightarrow> False)"
proof -
  let ?ws = "get_writer order a m"
  have ws: "w \<in> set ?ws \<longleftrightarrow> (\<exists>p regex. clients m p = Some (regex, w) \<and> regex a)" for w
    by (rule get_writer_iff [OF assms])
  show ?thesis
  proof (cases "?ws = []")
    case True
    then have "client_send_message write order a data m = Err (IoError NotFound ''Client not found'')"
      by (simp add: client_send_message_def)
    moreover have "\<not> (\<exists>p regex w. clients m p = Some (regex, w) \<and> regex a)" using True ws by auto
    ultimately show ?thesis by (simp, blast)
  next
    case False
    then obtain w where "w \<in> set ?ws" by (meson last_in_set)
    then have hit: "\<exists>p regex w. clients m p = Some (regex, w) \<and> regex a" using ws by blast
    show ?thesis
    proof (cases "write_first write data ?ws")
      case None
      then have "client_send_message write order a data m = Err (IoError Other ''Failed to send message to client'')"
        using False by (simp add: client_send_message_def)
      moreover have "\<forall>p regex w. clients m p = Some (regex, w) \<and> regex a \<longrightarrow> \<not> write w data"
        using None ws by (auto simp: write_first_None)
      ultimately show ?thesis using hit by simp
    next
      case (Some w)
      then have "client_send_message write order a data m = Ok w" using False by (simp add: client_send_message_def)
      then show ?thesis using write_first_Some [OF Some] ws by simp
    qed
  qed
qed

definition any_text :: "string \<Rightarrow> (string \<Rightarrow> bool) option" where
  "any_text pattern = Some (\<lambda>a. starts_with ''44'' a)"

theorem client_routing_witness:
  "(case client_send_message (\<lambda>w d. True) [''10.0.0.1:99''] ''4477'' [1]
        (add_client any_text ''10.0.0.1:99'' ''^44'' 5 ClientManager_new) of
      Ok w \<Rightarrow> \<exists>p regex. clients (add_client any_text ''10.0.0.1:99'' ''^44'' 5 ClientManager_new) p = Some (regex, w)
    | _ \<Rightarrow> False)"
proof -
  let ?m = "add_client any_text ''10.0.0.1:99'' ''^44'' 5 ClientManager_new"
  have "client_order ?m [''10.0.0.1:99'']"
    by (simp add: client_order_def add_client_def any_text_def ClientManager_new_def)
  from client_routing [OF this, of "\<lambda>w d. True" "[1]" "''4477''"]
  have "case client_send_message (\<lambda>w d. True) [''10.0.0.1:99''] ''4477'' [1] ?m of
      Ok w \<Rightarrow> \<exists>p regex. clients ?m p = Some (regex, w) \<and> regex ''4477''
    | Err e \<Rightarrow> \<not> (\<exists>p regex w. clients ?m p = Some (regex, w) \<and> regex ''4477'') | Panic \<Rightarrow> False"
    by (auto split: outcome.splits)
  moreover have "clients ?m ''10.0.0.1:99'' = Some (\<lambda>a. starts_with ''44'' a, 5)" "starts_with ''44'' ''4477''"
    by (simp_all add: add_client_def any_text_def ClientManager_new_def starts_with_def)
  ultimately show ?thesis by (auto split: outcome.splits)
qed

end
