(* ===== verification/Transactions.thy ===== *)
theory Transactions
  imports Json
begin

text \<open>
  Correlation of responses with requests by sequence number: the server's
  \<^verbatim>\<open>TransactionResponseManager\<close> (\<^verbatim>\<open>smsc_server/transaction_response_manager.rs\<close>), the client's
  \<^verbatim>\<open>ResponseManager\<close> (\<^verbatim>\<open>smsc_client/response_manager.rs\<close>) and the allocator of sequence numbers
  (\<^verbatim>\<open>sequence_number_allocator.rs\<close>).  Both managers keep the sending half of a one-shot channel
  per sequence number.  Their common contract is the locale \<open>correlation\<close>.
\<close>

section \<open>One-shot channels\<close>

text \<open>
  A channel is waiting, holds the value sent, has lost its sender (an entry that is replaced or
  removed drops it), or has lost its receiver (the waiting task has gone).
\<close>

datatype 'v channel = Pending | Delivered 'v | SenderDropped | ReceiverGone

record 'v oneshot_table =
  senders :: "u32 \<rightharpoonup> nat"
  channels :: "nat \<Rightarrow> 'v channel"
  fresh_channel :: nat

definition empty_table :: "'v oneshot_table" where
  "empty_table = \<lparr>senders = Map.empty, channels = (\<lambda>_. ReceiverGone), fresh_channel = 0\<rparr>"

definition drop_sender :: "nat option \<Rightarrow> 'v oneshot_table \<Rightarrow> 'v oneshot_table" where
  "drop_sender c t =
     (case c of
        Some ch \<Rightarrow> if channels t ch = Pending then t\<lparr>channels := (channels t)(ch := SenderDropped)\<rparr> else t
      | None \<Rightarrow> t)"

definition insert_sender :: "u32 \<Rightarrow> 'v oneshot_table \<Rightarrow> nat \<times> 'v oneshot_table" where
  "insert_sender seq t =
     (let ch = fresh_channel t; t1 = drop_sender (senders t seq) t in
      (ch, t1\<lparr>senders := (senders t1)(seq \<mapsto> ch), channels := (channels t1)(ch := Pending),
              fresh_channel := Suc ch\<rparr>))"

definition send_oneshot :: "nat \<Rightarrow> 'v \<Rightarrow> 'v oneshot_table \<Rightarrow> 'v oneshot_table" where
  "send_oneshot ch v t =
     (if channels t ch = Pending then t\<lparr>channels := (channels t)(ch := Delivered v)\<rparr> else t)"

definition remove_sender :: "u32 \<Rightarrow> 'v oneshot_table \<Rightarrow> 'v oneshot_table" where
  "remove_sender seq t = t\<lparr>senders := (senders t)(seq := None)\<rparr>"

section \<open>The server's transactions\<close>

type_synonym TransactionResponseManager = "json oneshot_table"

definition TransactionResponseManager_new :: TransactionResponseManager where
  "TransactionResponseManager_new = empty_table"

definition transaction_response_received ::
    "u32 \<Rightarrow> json \<Rightarrow> TransactionResponseManager \<Rightarrow> TransactionResponseManager" where
  "transaction_response_received seq response t =
     (case senders t seq of
        Some ch \<Rightarrow> send_oneshot ch response (remove_sender seq t)
      | None \<Rightarrow> t)"

text \<open>
  \<^verbatim>\<open>wait_response\<close> registers a channel and then selects between the channel and a timer of
  30 seconds.  The result of the selection is \<open>None\<close> while the task still waits.
\<close>

definition transaction_wait_begin ::
    "u32 \<Rightarrow> TransactionResponseManager \<Rightarrow> nat \<times> TransactionResponseManager" where
  "transaction_wait_begin seq t = insert_sender seq t"

definition transaction_wait_select ::
    "bool \<Rightarrow> u32 \<Rightarrow> nat \<Rightarrow> TransactionResponseManager \<Rightarrow> json option option \<times> TransactionResponseManager" where
  "transaction_wait_select timeout seq ch t =
     (case channels t ch of
        Delivered v \<Rightarrow> (Some (Some v), t)
      | SenderDropped \<Rightarrow> (Some None, t)
      | _ \<Rightarrow>
          if timeout then
            (Some None, let t1 = t\<lparr>channels := (channels t)(ch := ReceiverGone)\<rparr> in
               remove_sender seq (drop_sender (senders t1 seq) t1))
          else (None, t))"

section \<open>The client's callbacks\<close>

type_synonym ResponseManager = "json io oneshot_table"

definition ResponseManager_new :: ResponseManager where
  "ResponseManager_new = empty_table"

definition register_callback :: "u32 \<Rightarrow> ResponseManager \<Rightarrow> nat \<times> ResponseManager" where
  "register_callback seq t = insert_sender seq t"

definition callback_response_received :: "u32 \<Rightarrow> json \<Rightarrow> ResponseManager \<Rightarrow> ResponseManager" where
  "callback_response_received seq response t =
     (case senders t seq of
        Some ch \<Rightarrow> send_oneshot ch (Ok response) (remove_sender seq t)
      | None \<Rightarrow> t)"

text \<open>\<^verbatim>\<open>ResponseManager::wait_response\<close> after the registration; a timeout leaves the entry in the table.\<close>

definition callback_wait_select ::
    "bool \<Rightarrow> nat \<Rightarrow> ResponseManager \<Rightarrow> json io option \<times> ResponseManager" where
  "callback_wait_select timeout ch t =
     (case channels t ch of
        Delivered r \<Rightarrow> (Some r, t)
      | SenderDropped \<Rightarrow> (Some (Err (IoError Other ''Response channel closed'')), t)
      | _ \<Rightarrow>
          if timeout then
            (Some (Err (IoError TimedOut ''Response timed out'')),
             t\<lparr>channels := (channels t)(ch := ReceiverGone)\<rparr>)
          else (None, t))"

section \<open>The contract\<close>

locale correlation =
  fixes register :: "u32 \<Rightarrow> 'v oneshot_table \<Rightarrow> nat \<times> 'v oneshot_table"
    and respond :: "u32 \<Rightarrow> json \<Rightarrow> 'v oneshot_table \<Rightarrow> 'v oneshot_table"
    and wrap :: "json \<Rightarrow> 'v"
    and ok :: "'v oneshot_table \<Rightarrow> bool"
  assumes ok_empty: "ok empty_table"
    and ok_register: "ok t \<Longrightarrow> ok (snd (register s t))"
    and ok_respond: "ok t \<Longrightarrow> ok (respond s r t)"
    and register_senders: "senders (snd (register s t)) = (senders t)(s \<mapsto> fst (register s t))"
    and register_pending: "channels (snd (register s t)) (fst (register s t)) = Pending"
    and register_fresh: "ok t \<Longrightarrow> fst (register s t) \<notin> ran (senders t)"
    and register_other: "ok t \<Longrightarrow> senders t s' = Some c \<Longrightarrow> s' \<noteq> s \<Longrightarrow> channels (snd (register s t)) c = channels t c"
    and respond_senders: "senders (respond s r t) = (senders t)(s := None)"
    and respond_hit: "senders t s = Some c \<Longrightarrow> channels t c = Pending \<Longrightarrow> channels (respond s r t) c = Delivered (wrap r)"
    and respond_other: "senders t s \<noteq> Some c \<Longrightarrow> channels (respond s r t) c = channels t c"
    and senders_inj: "ok t \<Longrightarrow> senders t s = Some c \<Longrightarrow> senders t s' = Some c \<Longrightarrow> s = s'"
begin

text \<open>The other traffic of a manager: registrations and responses.\<close>

definition traffic :: "(u32 \<times> json option) list \<Rightarrow> 'v oneshot_table \<Rightarrow> 'v oneshot_table" where
  "traffic evs t = fold (\<lambda>(s, r) t. case r of None \<Rightarrow> snd (register s t) | Some v \<Rightarrow> respond s v t) evs t"

lemma traffic_keeps:
  assumes "ok t" "senders t s = Some c" "channels t c = Pending" "s \<notin> fst ` set evs"
  shows "ok (traffic evs t) \<and> senders (traffic evs t) s = Some c \<and> channels (traffic evs t) c = Pending"
  using assms
proof (induction evs arbitrary: t)
  case (Cons e evs)
  obtain s' r where e: "e = (s', r)" by (cases e)
  then have ne: "s' \<noteq> s" using Cons.prems(4) by auto
  let ?t = "case r of None \<Rightarrow> snd (register s' t) | Some v \<Rightarrow> respond s' v t"
  have "senders t s' \<noteq> Some c" using senders_inj Cons.prems(1,2) ne by blast
  then have "ok ?t" "senders ?t s = Some c" "channels ?t c = Pending"
    using Cons.prems ne
    by (cases r; simp add: ok_register ok_respond register_senders respond_senders register_other respond_other)+
  then have "ok (traffic evs ?t) \<and> senders (traffic evs ?t) s = Some c \<and> channels (traffic evs ?t) c = Pending"
    using Cons.prems(4) by (intro Cons.IH) simp_all
  then show ?case by (simp add: traffic_def e)
qed (simp add: traffic_def)

lemma response_reaches_waiter:
  assumes "ok t" "register s t = (c, t1)" "s \<notin> fst ` set evs"
  shows "channels (respond s r (traffic evs t1)) c = Delivered (wrap r)"
proof -
  have "ok t1" "senders t1 s = Some c" "channels t1 c = Pending"
    using assms(1,2) ok_register [of t s] register_senders [of s t] register_pending [of s t] by auto
  then show ?thesis using traffic_keeps assms(3) respond_hit by blast
qed

lemma response_wakes_only_its_waiter:
  assumes "ok t" "senders t s' = Some c" "s' \<noteq> s"
  shows "channels (respond s r t) c = channels t c"
  using assms senders_inj respond_other by metis

lemma duplicate_response_ignored:
  "channels (respond s r' (respond s r t)) c = channels (respond s r t) c"
  by (rule respond_other) (simp add: respond_senders)

end

section \<open>Both managers keep it\<close>

definition table_ok :: "'v oneshot_table \<Rightarrow> bool" where
  "table_ok t =
     ((\<forall>s c. senders t s = Some c \<longrightarrow> c < fresh_channel t) \<and>
      (\<forall>s s' c. senders t s = Some c \<longrightarrow> senders t s' = Some c \<longrightarrow> s = s'))"

lemma table_ok_empty [simp]: "table_ok empty_table"
  by (simp add: table_ok_def empty_table_def)

lemma drop_sender_fields [simp]:
  "senders (drop_sender c t) = senders t" "fresh_channel (drop_sender c t) = fresh_channel t"
  by (simp_all add: drop_sender_def split: option.split)

lemma drop_sender_other: "c \<noteq> Some ch \<Longrightarrow> channels (drop_sender c t) ch = channels t ch"
  by (auto simp: drop_sender_def split: option.split)

lemma send_oneshot_fields [simp]:
  "senders (send_oneshot ch v t) = senders t" "fresh_channel (send_oneshot ch v t) = fresh_channel t"
  by (simp_all add: send_oneshot_def)

lemma send_oneshot_channels:
  "channels (send_oneshot ch v t) =
     (if channels t ch = Pending then (channels t)(ch := Delivered v) else channels t)"
  by (simp add: send_oneshot_def)

lemma remove_sender_fields [simp]:
  "senders (remove_sender s t) = (senders t)(s := None)" "channels (remove_sender s t) = channels t"
  "fresh_channel (remove_sender s t) = fresh_channel t"
  by (simp_all add: remove_sender_def)

lemma table_ok_remove:
  "table_ok t \<Longrightarrow> senders t' = (senders t)(s := None) \<Longrightarrow> fresh_channel t' = fresh_channel t \<Longrightarrow> table_ok t'"
  by (auto simp: table_ok_def split: if_splits)

lemma table_ok_insert: "table_ok t \<Longrightarrow> table_ok (snd (insert_sender s t))"
  by (auto simp: table_ok_def insert_sender_def Let_def less_Suc_eq)

lemma table_okD:
  assumes "table_ok t"
  shows "senders t s = Some c \<Longrightarrow> c < fresh_channel t"
    and "senders t s = Some c \<Longrightarrow> senders t s' = Some c \<Longrightarrow> s = s'"
  using assms unfolding table_ok_def by blast+

lemma insert_sender_fields:
  "fst (insert_sender s t) = fresh_channel t"
  "senders (snd (insert_sender s t)) = (senders t)(s \<mapsto> fresh_channel t)"
  "channels (snd (insert_sender s t)) = (channels (drop_sender (senders t s) t))(fresh_channel t := Pending)"
  by (simp_all add: insert_sender_def Let_def)

lemma table_correlation:
  assumes respond: "\<And>s r t. respond s r t =
      (case senders t s of Some ch \<Rightarrow> send_oneshot ch (w r) (remove_sender s t) | None \<Rightarrow> t)"
  shows "correlation insert_sender respond w table_ok"
proof unfold_locales
  fix t :: "'a oneshot_table" and s s' c r
  show "table_ok (empty_table :: 'a oneshot_table)" by simp
  show senders: "senders (respond s r t) = (senders t)(s := None)"
    by (auto simp: respond split: option.split)
  show "senders t s = Some c \<Longrightarrow> channels t c = Pending \<Longrightarrow> channels (respond s r t) c = Delivered (w r)"
    by (simp add: respond send_oneshot_channels)
  show "senders t s \<noteq> Some c \<Longrightarrow> channels (respond s r t) c = channels t c"
    by (auto simp: respond send_oneshot_channels split: option.split)
  show "senders (snd (insert_sender s t)) = (senders t)(s \<mapsto> fst (insert_sender s t))"
    "channels (snd (insert_sender s t)) (fst (insert_sender s t)) = Pending"
    by (simp_all add: insert_sender_fields)
  assume ok: "table_ok t"
  show "table_ok (snd (insert_sender s t))" using ok by (rule table_ok_insert)
  show "table_ok (respond s r t)"
    using ok senders by (rule table_ok_remove) (auto simp: respond split: option.split)
  show "fst (insert_sender s t) \<notin> ran (senders t)"
    using table_okD(1) [OF ok] by (auto simp: insert_sender_fields ran_def)
  show "senders t s' = Some c \<Longrightarrow> s' \<noteq> s \<Longrightarrow> channels (snd (insert_sender s t)) c = channels t c"
    using table_okD [OF ok] by (auto simp: insert_sender_fields intro!: drop_sender_other)
  show "senders t s = Some c \<Longrightarrow> senders t s' = Some c \<Longrightarrow> s = s'"
    by (rule table_okD(2) [OF ok])
qed

interpretation transaction:
  correlation transaction_wait_begin transaction_response_received "\<lambda>v. v" table_ok
  unfolding transaction_wait_begin_def [abs_def]
  by (rule table_correlation) (simp add: transaction_response_received_def)

interpretation callback:
  correlation register_callback callback_response_received Ok table_ok
  unfolding register_callback_def [abs_def]
  by (rule table_correlation) (simp add: callback_response_received_def)

section \<open>Sequence numbers\<close>

record SequenceNumberAllocator =
  current :: u32

definition SequenceNumberAllocator_new :: SequenceNumberAllocator where
  "SequenceNumberAllocator_new = \<lparr>current = 0\<rparr>"

definition allocator_next :: "SequenceNumberAllocator \<Rightarrow> u32 \<times> SequenceNumberAllocator" where
  "allocator_next a = (current a, a\<lparr>current := current a + 1\<rparr>)"

fun allocate :: "nat \<Rightarrow> SequenceNumberAllocator \<Rightarrow> u32 list \<times> SequenceNumberAllocator" where
  "allocate 0 a = ([], a)"
| "allocate (Suc n) a =
     (let (s, a1) = allocator_next a; (ss, a2) = allocate n a1 in (s # ss, a2))"

lemma allocate_numbers: "fst (allocate n a) = map (\<lambda>i. current a + word_of_nat i) [0..<n]"
proof (induction n arbitrary: a)
  case (Suc n)
  have "map (\<lambda>i. current a + 1 + word_of_nat i) [0..<n] = map (\<lambda>i. current a + word_of_nat (Suc i)) [0..<n]"
    by (simp add: ac_simps)
  also have "\<dots> = map (\<lambda>i. current a + word_of_nat i) (map Suc [0..<n])" by (simp only: map_map comp_def)
  finally show ?case using Suc.IH [of "a\<lparr>current := current a + 1\<rparr>"]
    by (simp add: allocator_next_def case_prod_unfold map_Suc_upt upt_conv_Cons del: upt_Suc)
qed simp

section \<open>Properties\<close>

text \<open>
  C26.  A response is handed to the request that waits for its sequence number: after a
  registration, whatever registrations and responses happen for other sequence numbers, the
  response with this number is delivered to this waiter, in the server's manager and in the
  client's.
\<close>

theorem response_correlated:
  assumes "table_ok t" "table_ok u" "s \<notin> fst ` set evs"
  shows "channels (transaction_response_received s r
      (transaction.traffic evs (snd (transaction_wait_begin s t)))) (fst (transaction_wait_begin s t)) = Delivered r
    \<and> channels (callback_response_received s r
      (callback.traffic evs (snd (register_callback s u)))) (fst (register_callback s u)) = Delivered (Ok r)"
  using transaction.response_reaches_waiter [OF assms(1) prod.collapse [symmetric] assms(3)]
    callback.response_reaches_waiter [OF assms(2) prod.collapse [symmetric] assms(3)] by blast

theorem response_correlated_witness:
  "channels (transaction_response_received 7 JNull
      (transaction.traffic [(8, None), (9, Some (JBool True))] (snd (transaction_wait_begin 7 empty_table))))
      (fst (transaction_wait_begin 7 empty_table)) = Delivered JNull"
proof -
  have "table_ok (empty_table :: TransactionResponseManager)" "table_ok (empty_table :: ResponseManager)"
    by simp_all
  moreover have "(7 :: u32) \<notin> fst ` set [(8, None), (9, Some (JBool True))]" by simp
  ultimately show ?thesis using response_correlated by blast
qed

text \<open>
  A response never reaches a request with another sequence number, and a second response
  with the same number changes nothing.
\<close>

theorem response_not_misdelivered:
  assumes "table_ok t" "senders t s' = Some c" "s' \<noteq> s"
  shows "channels (transaction_response_received s r t) c = channels t c
    \<and> channels (transaction_response_received s r2 (transaction_response_received s r t)) d
      = channels (transaction_response_received s r t) d"
  using transaction.response_wakes_only_its_waiter [OF assms] transaction.duplicate_response_ignored by blast

theorem response_not_misdelivered_witness:
  "channels (transaction_response_received 4 JNull (snd (transaction_wait_begin 3 empty_table))) 0 = Pending"
proof -
  have "table_ok (snd (transaction_wait_begin 3 empty_table))"
    by (simp add: transaction_wait_begin_def table_ok_insert)
  moreover have "senders (snd (transaction_wait_begin 3 empty_table)) 3 = Some 0"
    by (simp add: transaction_wait_begin_def insert_sender_fields empty_table_def)
  moreover have "(3 :: u32) \<noteq> 4" by simp
  ultimately have "channels (transaction_response_received 4 JNull (snd (transaction_wait_begin 3 empty_table))) 0
      = channels (snd (transaction_wait_begin 3 empty_table)) 0"
    using response_not_misdelivered by blast
  then show ?thesis by (simp add: transaction_wait_begin_def insert_sender_fields empty_table_def)
qed

text \<open>
  A timed-out wait leaves no entry for its sequence number in the server's manager, while
  in the client's manager the entry of the request stays until a response with that number
  arrives or the number is used again.
\<close>

theorem timeout_entries:
  assumes "channels t c = Pending" "channels u d = Pending" "senders u s = Some d"
  shows "senders (snd (transaction_wait_select True s c t)) s = None
    \<and> senders (snd (callback_wait_select True d u)) s = Some d"
  using assms by (simp add: transaction_wait_select_def callback_wait_select_def Let_def)

theorem timeout_entries_witness:
  "senders (snd (callback_wait_select True 0 (snd (register_callback 5 ResponseManager_new)))) 5 = Some 0"
proof -
  have "channels (snd (transaction_wait_begin 5 empty_table)) 0 = Pending"
    "channels (snd (register_callback 5 ResponseManager_new)) 0 = Pending"
    "senders (snd (register_callback 5 ResponseManager_new)) 5 = Some 0"
    by (simp_all add: transaction_wait_begin_def register_callback_def ResponseManager_new_def
        insert_sender_fields empty_table_def)
  then show ?thesis using timeout_entries by blast
qed

text \<open>
  C39.  Sequence numbers are not repeated before the 32-bit counter wraps around: any \<open>n\<close>
  consecutive allocations with \<open>n \<le> 2 ^ 32\<close> give different numbers, whatever the counter was.
\<close>

theorem sequence_numbers_distinct:
  assumes "n \<le> 2 ^ 32" shows "distinct (fst (allocate n a))"
proof -
  have "inj_on (\<lambda>i. current a + word_of_nat i) {0..<n}"
  proof (rule inj_onI)
    fix i j assume ij: "i \<in> {0..<n}" "j \<in> {0..<n}" "current a + word_of_nat i = current a + word_of_nat j"
    then have "unat (word_of_nat i :: u32) = unat (word_of_nat j :: u32)" by simp
    then show "i = j" using ij assms by (simp add: unat_of_nat)
  qed
  then show ?thesis by (simp add: allocate_numbers distinct_map)
qed

theorem sequence_numbers_distinct_witness: "distinct (fst (allocate 4 \<lparr>current = 0xFFFFFFFE\<rparr>))"
  by (rule sequence_numbers_distinct) simp

end
