(* ===== verification/Message_Storage.thy ===== *)
theory Message_Storage
  imports Times
begin

text \<open>
  The store of messages that wait for delivery: the contract of \<^verbatim>\<open>trait MessageStorage\<close> for
  saving and cancelling (locale \<open>message_store\<close>) and \<^verbatim>\<open>InMemoryMessageStorage\<close> of
  \<^verbatim>\<open>message_storage.rs\<close>.  The clock is read once per operation (\<open>now\<close>).  The order in which a
  hash map is walked is an argument \<open>order\<close> that lists its keys.
\<close>

section \<open>Criteria of the commands\<close>

text \<open>\<^verbatim>\<open>get(k).and_then(as_u64).unwrap_or(0) as u8\<close>.\<close>

definition u8_field :: "string \<Rightarrow> json \<Rightarrow> u8" where
  "u8_field k v = ucast (u64_or 0 k v)"

record cancel_criteria =
  cc_service_type :: string
  cc_message_id :: string
  cc_source_addr_ton :: u8
  cc_source_addr_npi :: u8
  cc_source_addr :: string
  cc_dest_addr_ton :: u8
  cc_dest_addr_npi :: u8
  cc_destination_addr :: string

definition cancel_criteria_of :: "json \<Rightarrow> cancel_criteria" where
  "cancel_criteria_of v =
     \<lparr>cc_service_type = str_or_empty ''service_type'' v,
      cc_message_id = str_or_empty ''message_id'' v,
      cc_source_addr_ton = u8_field ''source_addr_ton'' v,
      cc_source_addr_npi = u8_field ''source_addr_npi'' v,
      cc_source_addr = str_or_empty ''source_addr'' v,
      cc_dest_addr_ton = u8_field ''dest_addr_ton'' v,
      cc_dest_addr_npi = u8_field ''dest_addr_npi'' v,
      cc_destination_addr = str_or_empty ''destination_addr'' v\<rparr>"

definition text_matches :: "string \<Rightarrow> string \<Rightarrow> json \<Rightarrow> bool" where
  "text_matches wanted k m = (wanted = [] \<or> wanted = str_or_empty k m)"

definition u8_matches :: "u8 \<Rightarrow> string \<Rightarrow> json \<Rightarrow> bool" where
  "u8_matches wanted k m = (wanted = 0 \<or> wanted = u8_field k m)"

definition cancel_matches :: "cancel_criteria \<Rightarrow> json \<Rightarrow> bool" where
  "cancel_matches c m =
     (text_matches (cc_service_type c) ''service_type'' m
      \<and> text_matches (cc_source_addr c) ''source_addr'' m
      \<and> text_matches (cc_destination_addr c) ''destination_addr'' m
      \<and> u8_matches (cc_source_addr_ton c) ''source_addr_ton'' m
      \<and> u8_matches (cc_source_addr_npi c) ''source_addr_npi'' m
      \<and> u8_matches (cc_dest_addr_ton c) ''dest_addr_ton'' m
      \<and> u8_matches (cc_dest_addr_npi c) ''dest_addr_npi'' m)"

section \<open>State\<close>

record stored_message =
  sm_user :: string
  sm_json :: json
  sm_schedule :: "instant option"
  sm_validity :: "instant option"

record InMemoryMessageStorage =
  messages :: "string \<rightharpoonup> stored_message list"
  user_message_ids :: "string \<rightharpoonup> string list"
  im_default_validity_period :: u32

definition InMemoryMessageStorage_new :: "u32 \<Rightarrow> InMemoryMessageStorage" where
  "InMemoryMessageStorage_new p =
     \<lparr>messages = Map.empty, user_message_ids = Map.empty, im_default_validity_period = p\<rparr>"

text \<open>\<^verbatim>\<open>entry(k).or_insert_with(Vec::new).push(x)\<close>.\<close>

definition push_at :: "'k \<Rightarrow> 'v \<Rightarrow> ('k \<rightharpoonup> 'v list) \<Rightarrow> ('k \<rightharpoonup> 'v list)" where
  "push_at k x m = m(k \<mapsto> (case m k of Some xs \<Rightarrow> xs | None \<Rightarrow> []) @ [x])"

definition remove_user_message_id ::
    "string \<Rightarrow> string \<Rightarrow> InMemoryMessageStorage \<Rightarrow> InMemoryMessageStorage" where
  "remove_user_message_id user i s =
     (case user_message_ids s user of
        Some ids \<Rightarrow>
          let kept = filter (\<lambda>j. j \<noteq> i) ids in
          s\<lparr>user_message_ids := (user_message_ids s)(user := if kept = [] then None else Some kept)\<rparr>
      | None \<Rightarrow> s)"

text \<open>\<^verbatim>\<open>Vec::remove\<close> panics for an index out of range.\<close>

definition remove_message_by_id ::
    "string \<Rightarrow> nat \<Rightarrow> InMemoryMessageStorage \<Rightarrow> (unit, unit) outcome \<times> InMemoryMessageStorage" where
  "remove_message_by_id i index s =
     (case messages s i of
        Some l \<Rightarrow>
          if index < length l
          then (Ok (), let l' = remove_nth index l in
                  s\<lparr>messages := (messages s)(i := if l' = [] then None else Some l')\<rparr>)
          else (Panic, s)
      | None \<Rightarrow> (Ok (), s))"

section \<open>Saving\<close>

definition im_check_save ::
    "chrono \<Rightarrow> instant \<Rightarrow> u32 \<Rightarrow> json \<Rightarrow> stored_message io" where
  "im_check_save C now p v =
     (let dest = str_or_empty ''destination_addr'' v in
      if dest = [] then Err (IoError InvalidInput ''Missing destination_addr in the message'')
      else
        try_ok (time_or_none (get_schedule_delivery_time C now v)) (\<lambda>schedule.
        try_ok (time_or_none (get_validity_period C now v p)) (\<lambda>validity.
        if schedule = None \<and> validity = None
        then Err (IoError InvalidInput ''Message has neither schedule_delivery_time nor validity_period'')
        else if schedule \<noteq> None \<and> validity \<noteq> None \<and> the schedule > the validity
        then Err (IoError InvalidInput ''schedule_delivery_time is later than validity_period'')
        else if validity \<noteq> None \<and> the validity < now
        then Err (IoError InvalidInput ''Message has already expired'')
        else Ok \<lparr>sm_user = dest, sm_json = v, sm_schedule = schedule, sm_validity = validity\<rparr>)))"

definition im_save ::
    "chrono \<times> instant \<Rightarrow> string \<Rightarrow> json \<Rightarrow> InMemoryMessageStorage \<Rightarrow> unit io \<times> InMemoryMessageStorage" where
  "im_save E i v s =
     (case im_check_save (fst E) (snd E) (im_default_validity_period s) v of
        Ok e \<Rightarrow>
          (Ok (), s\<lparr>messages := push_at i e (messages s),
                    user_message_ids := push_at (sm_user e) i (user_message_ids s)\<rparr>)
      | Err e \<Rightarrow> (Err e, s)
      | Panic \<Rightarrow> (Panic, s))"

section \<open>Cancelling\<close>

text \<open>
  The loop over the messages of an identifier runs from the last to the first and collects the
  pairs of user and identifier whose index entries are removed afterwards.
\<close>

fun cancel_scan ::
    "cancel_criteria \<Rightarrow> string \<Rightarrow> nat \<Rightarrow> stored_message list \<Rightarrow> stored_message list \<times> (string \<times> string) list" where
  "cancel_scan c i 0 l = (l, [])"
| "cancel_scan c i (Suc n) l =
     (if cancel_matches c (sm_json (l ! n))
      then case cancel_scan c i n (remove_nth n l) of (l', rem) \<Rightarrow> (l', (sm_user (l ! n), i) # rem)
      else cancel_scan c i n l)"

definition cancel_one ::
    "cancel_criteria \<Rightarrow> string \<Rightarrow> (string \<rightharpoonup> stored_message list) \<times> (string \<times> string) list \<times> string list \<Rightarrow>
     (string \<rightharpoonup> stored_message list) \<times> (string \<times> string) list \<times> string list" where
  "cancel_one c i st =
     (case st of (ms, removed, empties) \<Rightarrow>
        if cc_message_id c \<noteq> [] \<and> i \<noteq> cc_message_id c then st
        else case ms i of
               Some l \<Rightarrow>
                 (case cancel_scan c i (length l) l of
                    (l', rem) \<Rightarrow>
                      (ms(i \<mapsto> l'), removed @ rem, if l' = [] then empties @ [i] else empties))
             | None \<Rightarrow> st)"

definition remove_ids :: "'k list \<Rightarrow> ('k \<rightharpoonup> 'v) \<Rightarrow> ('k \<rightharpoonup> 'v)" where
  "remove_ids ks m = fold (\<lambda>k m. m(k := None)) ks m"

definition im_cancel_message ::
    "string list \<Rightarrow> json \<Rightarrow> InMemoryMessageStorage \<Rightarrow> bool io \<times> InMemoryMessageStorage" where
  "im_cancel_message order v s =
     (case fold (cancel_one (cancel_criteria_of v)) order (messages s, [], []) of
        (ms, removed, empties) \<Rightarrow>
          (Ok (removed \<noteq> []),
           fold (\<lambda>(user, i). remove_user_message_id user i) removed
             (s\<lparr>messages := remove_ids empties ms\<rparr>)))"

section \<open>Replacing\<close>

record replace_request =
  rr_sm_default_msg_id :: u8
  rr_short_message :: string
  rr_message_payload :: string
  rr_source_addr_ton :: u8
  rr_source_addr_npi :: u8
  rr_source_addr :: string
  rr_schedule :: "(string \<times> instant) option"
  rr_validity :: "(string \<times> instant) option"
  rr_registered_delivery :: u8

definition optional_time ::
    "chrono \<Rightarrow> instant \<Rightarrow> string \<Rightarrow> string \<Rightarrow> (string \<times> instant) option io" where
  "optional_time C now name text =
     (if text = [] then Ok None
      else map_ok (\<lambda>t. Some (text, t))
             (map_err (\<lambda>e. IoError InvalidInput (''Invalid '' @ name @ '': '' @ e))
               (parse_absolute_relative_time C now text)))"

definition replace_matches :: "replace_request \<Rightarrow> json \<Rightarrow> bool" where
  "replace_matches r m =
     (u8_matches (rr_source_addr_ton r) ''source_addr_ton'' m
      \<and> u8_matches (rr_source_addr_npi r) ''source_addr_npi'' m
      \<and> text_matches (rr_source_addr r) ''source_addr'' m)"

definition replace_text :: "replace_request \<Rightarrow> json \<Rightarrow> json io" where
  "replace_text r m =
     (if rr_short_message r \<noteq> [] then index_set ''short_message'' (JString (rr_short_message r)) m
      else if rr_message_payload r \<noteq> [] then index_set ''short_message'' (JString (rr_message_payload r)) m
      else Ok m)"

definition replace_entry :: "replace_request \<Rightarrow> stored_message \<Rightarrow> stored_message io" where
  "replace_entry r e =
     try_ok (if rr_sm_default_msg_id r \<noteq> 0
             then index_set ''sm_default_msg_id'' (jnum (rr_sm_default_msg_id r)) (sm_json e)
             else Ok (sm_json e)) (\<lambda>m.
     try_ok (replace_text r m) (\<lambda>m.
     try_ok (case rr_schedule r of
               Some (tx, t) \<Rightarrow> map_ok (\<lambda>m. (m, Some t)) (index_set ''schedule_delivery_time'' (JString tx) m)
             | None \<Rightarrow> Ok (m, sm_schedule e)) (\<lambda>(m, schedule).
     try_ok (case rr_validity r of
               Some (tx, t) \<Rightarrow> map_ok (\<lambda>m. (m, Some t)) (index_set ''validity_period'' (JString tx) m)
             | None \<Rightarrow> Ok (m, sm_validity e)) (\<lambda>(m, validity).
     try_ok (index_set ''registered_delivery'' (jnum (rr_registered_delivery r)) m) (\<lambda>m.
     Ok (e\<lparr>sm_json := m, sm_schedule := schedule, sm_validity := validity\<rparr>))))))"

fun replace_scan :: "replace_request \<Rightarrow> nat \<Rightarrow> stored_message list \<Rightarrow> stored_message list io" where
  "replace_scan r 0 l = Ok l"
| "replace_scan r (Suc n) l =
     (if replace_matches r (sm_json (l ! n))
      then try_ok (replace_entry r (l ! n)) (\<lambda>e. replace_scan r n (l[n := e]))
      else replace_scan r n l)"

text \<open>The request: its two times are parsed, and a time that cannot be parsed is an error.\<close>

definition replace_request_of :: "chrono \<times> instant \<Rightarrow> json \<Rightarrow> replace_request io" where
  "replace_request_of E v =
     try_ok (optional_time (fst E) (snd E) ''schedule_delivery_time'' (str_or_empty ''schedule_delivery_time'' v)) (\<lambda>schedule.
     try_ok (optional_time (fst E) (snd E) ''validity_period'' (str_or_empty ''validity_period'' v)) (\<lambda>validity.
     Ok \<lparr>rr_sm_default_msg_id = u8_field ''sm_default_msg_id'' v,
         rr_short_message = str_or_empty ''short_message'' v,
         rr_message_payload = str_or_empty ''message_payload'' v,
         rr_source_addr_ton = u8_field ''source_addr_ton'' v,
         rr_source_addr_npi = u8_field ''source_addr_npi'' v,
         rr_source_addr = str_or_empty ''source_addr'' v,
         rr_schedule = schedule, rr_validity = validity,
         rr_registered_delivery = u8_field ''registered_delivery'' v\<rparr>))"

definition replaces_nothing :: "json \<Rightarrow> bool" where
  "replaces_nothing v =
     (u8_field ''sm_default_msg_id'' v = 0 \<and> str_or_empty ''short_message'' v = [] \<and>
      str_or_empty ''message_payload'' v = [])"

definition im_replace_message ::
    "chrono \<times> instant \<Rightarrow> json \<Rightarrow> InMemoryMessageStorage \<Rightarrow> bool io \<times> InMemoryMessageStorage" where
  "im_replace_message E v s =
     (let i = str_or_empty ''message_id'' v in
      if i = [] then (Err (IoError InvalidInput ''Missing message_id in the replace_sm command''), s)
      else if replaces_nothing v
      then (Err (IoError InvalidInput
        ''Missing sm_default_msg_id, short_message, and message_payload in the replace_sm command''), s)
      else case messages s i of
             None \<Rightarrow> (Err (IoError NotFound (''Message with id '' @ i @ '' not found'')), s)
           | Some l \<Rightarrow>
               (case try_ok (replace_request_of E v) (\<lambda>r. replace_scan r (length l) l) of
                  Ok l' \<Rightarrow> if l' = [] then (Panic, s) else (Ok True, s\<lparr>messages := (messages s)(i \<mapsto> l')\<rparr>)
                | Err e \<Rightarrow> (Err e, s)
                | Panic \<Rightarrow> (Panic, s)))"

section \<open>Expiry and delivery\<close>

definition expired :: "instant \<Rightarrow> stored_message \<Rightarrow> bool" where
  "expired now e = (case sm_validity e of Some t \<Rightarrow> t < now | None \<Rightarrow> False)"

definition in_future :: "instant \<Rightarrow> stored_message \<Rightarrow> bool" where
  "in_future now e = (case sm_schedule e of Some t \<Rightarrow> t > now | None \<Rightarrow> False)"

fun expire_scan ::
    "instant \<Rightarrow> string \<Rightarrow> nat \<Rightarrow> stored_message list \<Rightarrow> InMemoryMessageStorage \<Rightarrow>
     stored_message list \<times> InMemoryMessageStorage" where
  "expire_scan now i 0 l s = (l, s)"
| "expire_scan now i (Suc n) l s =
     (if expired now (l ! n)
      then expire_scan now i n (remove_nth n l) (remove_user_message_id (sm_user (l ! n)) i s)
      else expire_scan now i n l s)"

definition clean_one ::
    "instant \<Rightarrow> string \<Rightarrow> InMemoryMessageStorage \<times> string list \<Rightarrow> InMemoryMessageStorage \<times> string list" where
  "clean_one now i st =
     (case st of (s, empties) \<Rightarrow>
        (case messages s i of
           Some l \<Rightarrow>
             (case expire_scan now i (length l) l s of
                (l', s') \<Rightarrow>
                  (s'\<lparr>messages := (messages s')(i \<mapsto> l')\<rparr>, if l' = [] then empties @ [i] else empties))
         | None \<Rightarrow> st))"

definition im_clean_expired_messages ::
    "instant \<Rightarrow> string list \<Rightarrow> InMemoryMessageStorage \<Rightarrow> InMemoryMessageStorage" where
  "im_clean_expired_messages now order s =
     (case fold (clean_one now) order (s, []) of
        (s', empties) \<Rightarrow> s'\<lparr>messages := remove_ids empties (messages s')\<rparr>)"

text \<open>At most one message per identifier is handed out, with its index in the list.\<close>

fun delivery_scan ::
    "instant \<Rightarrow> string \<Rightarrow> nat \<Rightarrow> stored_message list \<Rightarrow> InMemoryMessageStorage \<Rightarrow>
     (nat \<times> json) option \<times> stored_message list \<times> InMemoryMessageStorage" where
  "delivery_scan now i 0 l s = (None, l, s)"
| "delivery_scan now i (Suc n) l s =
     (if in_future now (l ! n) then delivery_scan now i n l s
      else if expired now (l ! n)
      then delivery_scan now i n (remove_nth n l) (remove_user_message_id (sm_user (l ! n)) i s)
      else (Some (n, sm_json (l ! n)), l, s))"

definition deliver_one ::
    "instant \<Rightarrow> string \<Rightarrow> InMemoryMessageStorage \<times> (string \<times> nat \<times> json) list \<times> string list \<Rightarrow>
     InMemoryMessageStorage \<times> (string \<times> nat \<times> json) list \<times> string list" where
  "deliver_one now i st =
     (case st of (s, found, empties) \<Rightarrow>
        (case messages s i of
           Some l \<Rightarrow>
             (case delivery_scan now i (length l) l s of
                (d, l', s') \<Rightarrow>
                  (s'\<lparr>messages := (messages s')(i \<mapsto> l')\<rparr>,
                   (case d of Some (index, m) \<Rightarrow> found @ [(i, index, m)] | None \<Rightarrow> found),
                   if l' = [] then empties @ [i] else empties))
         | None \<Rightarrow> st))"

definition im_get_delivery_messages ::
    "instant \<Rightarrow> string list \<Rightarrow> InMemoryMessageStorage \<Rightarrow> (string \<times> nat \<times> json) list \<times> InMemoryMessageStorage" where
  "im_get_delivery_messages now order s =
     (case fold (deliver_one now) order (s, [], []) of
        (s', found, empties) \<Rightarrow> (found, s'\<lparr>messages := remove_ids empties (messages s')\<rparr>))"

text \<open>
  The body of the delivery timer: \<open>handler k m\<close> tells whether the \<open>k\<close>-th call of the delivery
  handler succeeds.
\<close>

fun deliver_each ::
    "(nat \<Rightarrow> json \<Rightarrow> bool) \<Rightarrow> nat \<Rightarrow> (string \<times> nat \<times> json) list \<Rightarrow> InMemoryMessageStorage \<Rightarrow>
     (unit, unit) outcome \<times> InMemoryMessageStorage" where
  "deliver_each handler k [] s = (Ok (), s)"
| "deliver_each handler k ((i, index, m) # ds) s =
     (if handler k m then deliver_each handler (Suc k) ds s
      else case remove_message_by_id i index s of
             (Ok _, s') \<Rightarrow> deliver_each handler (Suc k) ds s'
           | (_, s') \<Rightarrow> (Panic, s'))"

definition im_delivery_tick ::
    "instant \<Rightarrow> string list \<Rightarrow> (nat \<Rightarrow> json \<Rightarrow> bool) \<Rightarrow> InMemoryMessageStorage \<Rightarrow>
     (unit, unit) outcome \<times> InMemoryMessageStorage" where
  "im_delivery_tick now order handler s =
     (case im_get_delivery_messages now order s of (found, s') \<Rightarrow> deliver_each handler 0 found s')"

section \<open>The contract of a message store\<close>

text \<open>
  What a store holds is, for every identifier, the list of its messages.  \<open>supersedes m x\<close>
  tells that saving \<open>m\<close> removes \<open>x\<close>, \<open>cancels c i x\<close> that the command \<open>c\<close> removes the message
  \<open>x\<close> with identifier \<open>i\<close>.  Operations take their environment as an argument; \<open>walks\<close> relates
  the one of a cancellation to the state.  A save that is refused may have removed superseded messages.
\<close>

datatype ('e, 'w) store_request = SaveReq 'e string json | CancelReq 'w json

fun serve ::
    "('e \<Rightarrow> string \<Rightarrow> json \<Rightarrow> 's \<Rightarrow> unit io \<times> 's) \<Rightarrow> ('w \<Rightarrow> json \<Rightarrow> 's \<Rightarrow> bool io \<times> 's) \<Rightarrow>
     ('e, 'w) store_request \<Rightarrow> 's \<Rightarrow> 's" where
  "serve save cancel (SaveReq E i m) s = snd (save E i m s)"
| "serve save cancel (CancelReq order c) s = snd (cancel order c s)"

fun admissible ::
    "('e \<Rightarrow> string \<Rightarrow> json \<Rightarrow> 's \<Rightarrow> unit io \<times> 's) \<Rightarrow> ('w \<Rightarrow> json \<Rightarrow> 's \<Rightarrow> bool io \<times> 's) \<Rightarrow>
     ('w \<Rightarrow> 's \<Rightarrow> bool) \<Rightarrow> ('e, 'w) store_request list \<Rightarrow> 's \<Rightarrow> bool" where
  "admissible save cancel walks [] s = True"
| "admissible save cancel walks (r # rs) s =
     ((case r of CancelReq order c \<Rightarrow> walks order s | SaveReq _ _ _ \<Rightarrow> True) \<and>
      admissible save cancel walks rs (serve save cancel r s))"

definition spares ::
    "(json \<Rightarrow> json \<Rightarrow> bool) \<Rightarrow> (json \<Rightarrow> string \<Rightarrow> json \<Rightarrow> bool) \<Rightarrow> string \<Rightarrow> json \<Rightarrow> ('e, 'w) store_request \<Rightarrow> bool" where
  "spares supersedes cancels i m r =
     (case r of SaveReq _ _ x \<Rightarrow> \<not> supersedes x m | CancelReq _ c \<Rightarrow> \<not> cancels c i m)"

locale message_store =
  fixes stored :: "'s \<Rightarrow> string \<Rightarrow> json list"
    and save :: "'e \<Rightarrow> string \<Rightarrow> json \<Rightarrow> 's \<Rightarrow> unit io \<times> 's"
    and cancel :: "'w \<Rightarrow> json \<Rightarrow> 's \<Rightarrow> bool io \<times> 's"
    and wf :: "'s \<Rightarrow> bool"
    and supersedes :: "json \<Rightarrow> json \<Rightarrow> bool"
    and cancels :: "json \<Rightarrow> string \<Rightarrow> json \<Rightarrow> bool"
    and walks :: "'w \<Rightarrow> 's \<Rightarrow> bool"
  assumes wf_save: "wf s \<Longrightarrow> wf (snd (save E i m s))"
    and wf_cancel: "wf s \<Longrightarrow> walks order s \<Longrightarrow> wf (snd (cancel order c s))"
    and save_ok: "wf s \<Longrightarrow> save E i m s = (Ok (), s') \<Longrightarrow>
      stored s' j = filter (\<lambda>x. \<not> supersedes m x) (stored s j) @ (if j = i then [m] else [])"
    and save_refused: "wf s \<Longrightarrow> fst (save E i m s) \<noteq> Ok () \<Longrightarrow>
      filter (\<lambda>x. \<not> supersedes m x) (stored (snd (save E i m s)) j) = filter (\<lambda>x. \<not> supersedes m x) (stored s j)"
    and cancel_ok: "wf s \<Longrightarrow> walks order s \<Longrightarrow> cancel order c s = (Ok b, s') \<Longrightarrow>
      stored s' j = filter (\<lambda>x. \<not> cancels c j x) (stored s j)"
    and cancel_answer: "wf s \<Longrightarrow> walks order s \<Longrightarrow> cancel order c s = (Ok b, s') \<Longrightarrow>
      b = (\<exists>j x. x \<in> set (stored s j) \<and> cancels c j x)"
    and cancel_refused: "wf s \<Longrightarrow> walks order s \<Longrightarrow> fst (cancel order c s) = Err e \<Longrightarrow>
      stored (snd (cancel order c s)) j = stored s j"
    and cancel_total: "fst (cancel order c s) \<noteq> Panic"
begin

lemma serve_wf: "wf s \<Longrightarrow> admissible save cancel walks [r] s \<Longrightarrow> wf (serve save cancel r s)"
  by (cases r) (auto simp: wf_save wf_cancel)

lemma count_filter: "P m \<Longrightarrow> count_list (filter P xs) m = count_list xs m"
  by (induction xs) auto

text \<open>A request that spares a message does not lower the number of its copies.\<close>

lemma serve_spares:
  assumes "wf s" "admissible save cancel walks [r] s" "spares supersedes cancels i m r"
  shows "count_list (stored (serve save cancel r s) i) m \<ge> count_list (stored s i) m"
proof (cases r)
  case (SaveReq E j x)
  with assms have x: "\<not> supersedes x m" by (simp add: spares_def)
  show ?thesis
  proof (cases "fst (save E j x s) = Ok ()")
    case True
    then have "save E j x s = (Ok (), snd (save E j x s))" by (cases "save E j x s") simp
    from save_ok [OF assms(1) this, of i] show ?thesis
      using x by (simp add: SaveReq count_filter)
  next
    case False
    from arg_cong [OF save_refused [OF assms(1) this, of i], of "\<lambda>xs. count_list xs m"] show ?thesis
      using x by (simp add: SaveReq count_filter)
  qed
next
  case (CancelReq order c)
  with assms have c: "\<not> cancels c i m" and w: "walks order s" by (simp_all add: spares_def)
  show ?thesis
  proof (cases "fst (cancel order c s)")
    case (Ok b)
    then have "cancel order c s = (Ok b, snd (cancel order c s))" by (cases "cancel order c s") simp
    from cancel_ok [OF assms(1) w this, of i] show ?thesis using c by (simp add: CancelReq count_filter)
  next
    case (Err e)
    from cancel_refused [OF assms(1) w this, of i] show ?thesis by (simp add: CancelReq)
  next
    case Panic
    then show ?thesis using cancel_total [of order c s] by simp
  qed
qed

lemma requests_spare:
  assumes "wf s" "admissible save cancel walks rs s" "\<forall>r\<in>set rs. spares supersedes cancels i m r"
  shows "wf (fold (serve save cancel) rs s) \<and> count_list (stored (fold (serve save cancel) rs s) i) m \<ge> count_list (stored s i) m"
  using assms
proof (induction rs arbitrary: s)
  case (Cons r rs)
  have "wf (serve save cancel r s)" using Cons.prems by (intro serve_wf) auto
  moreover have "count_list (stored (serve save cancel r s) i) m \<ge> count_list (stored s i) m"
    using Cons.prems by (intro serve_spares) auto
  ultimately show ?case using Cons.IH [of "serve save cancel r s"] Cons.prems by auto
qed simp

text \<open>A message once accepted stays until a request removes it, and then it is gone.\<close>

lemma accepted_kept:
  assumes "wf s" "save E i m s = (Ok (), s1)" "admissible save cancel walks rs s1" "\<forall>r\<in>set rs. spares supersedes cancels i m r"
  shows "m \<in> set (stored (fold (serve save cancel) rs s1) i)"
proof -
  have "wf s1" using wf_save [OF assms(1), of E i m] assms(2) by simp
  moreover have "count_list (stored s1 i) m \<ge> 1" using save_ok [OF assms(1,2), of i] by simp
  ultimately have "count_list (stored (fold (serve save cancel) rs s1) i) m \<ge> 1"
    using requests_spare [OF _ assms(3,4)] by fastforce
  then show ?thesis by (metis count_list_0_iff not_one_le_zero)
qed

lemma cancelled_gone:
  assumes "wf s" "walks order s" "cancel order c s = (Ok b, s')"
  shows "x \<in> set (stored s' j) \<longleftrightarrow> x \<in> set (stored s j) \<and> \<not> cancels c j x"
    "b \<longleftrightarrow> (\<exists>j x. x \<in> set (stored s j) \<and> cancels c j x)"
  using cancel_ok [OF assms, of j] cancel_answer [OF assms] by auto

end

section \<open>Invariant of the in-memory store\<close>

text \<open>
  No list of messages is empty; every message is a JSON object stored under its destination
  address with at least one of the two times; and no user has an empty list of identifiers.
\<close>

definition is_object :: "json \<Rightarrow> bool" where
  "is_object v = (case v of JObject _ \<Rightarrow> True | _ \<Rightarrow> False)"

definition entry_ok :: "stored_message \<Rightarrow> bool" where
  "entry_ok e =
     (is_object (sm_json e) \<and> sm_user e \<noteq> [] \<and> str_or_empty ''destination_addr'' (sm_json e) = sm_user e
      \<and> (sm_schedule e \<noteq> None \<or> sm_validity e \<noteq> None))"

definition lists_ok :: "(string \<rightharpoonup> stored_message list) \<Rightarrow> bool" where
  "lists_ok ms = (\<forall>i l. ms i = Some l \<longrightarrow> l \<noteq> [] \<and> list_all entry_ok l)"

definition users_ok :: "(string \<rightharpoonup> string list) \<Rightarrow> bool" where
  "users_ok us = (\<forall>u ids. us u = Some ids \<longrightarrow> ids \<noteq> [])"

definition im_wf :: "InMemoryMessageStorage \<Rightarrow> bool" where
  "im_wf s = (lists_ok (messages s) \<and> users_ok (user_message_ids s))"

definition im_walks :: "string list \<Rightarrow> InMemoryMessageStorage \<Rightarrow> bool" where
  "im_walks order s = (distinct order \<and> set order = dom (messages s))"

definition im_stored :: "InMemoryMessageStorage \<Rightarrow> string \<Rightarrow> json list" where
  "im_stored s i = (case messages s i of Some l \<Rightarrow> map sm_json l | None \<Rightarrow> [])"

definition selected :: "cancel_criteria \<Rightarrow> string \<Rightarrow> bool" where
  "selected c i = (cc_message_id c = [] \<or> i = cc_message_id c)"

definition im_cancels :: "json \<Rightarrow> string \<Rightarrow> json \<Rightarrow> bool" where
  "im_cancels v i m = (selected (cancel_criteria_of v) i \<and> cancel_matches (cancel_criteria_of v) m)"

lemma remove_ids_apply: "remove_ids ks m k = (if k \<in> set ks then None else m k)"
  unfolding remove_ids_def by (induction ks arbitrary: m) auto

lemma take_remove_nth: "n < length l \<Longrightarrow> take n (remove_nth n l) = take n l"
  by (simp add: remove_nth_def)

lemma drop_remove_nth: "n < length l \<Longrightarrow> drop n (remove_nth n l) = drop (Suc n) l"
  by (simp add: remove_nth_def)

lemmas remove_nth_simps = take_remove_nth drop_remove_nth length_remove_nth

lemma messages_remove_user [simp]: "messages (remove_user_message_id u i s) = messages s"
  by (simp add: remove_user_message_id_def Let_def split: option.split)

lemma users_remove_user: "users_ok (user_message_ids s) \<Longrightarrow> users_ok (user_message_ids (remove_user_message_id u i s))"
  by (auto simp: remove_user_message_id_def users_ok_def Let_def split: option.split)

lemma fold_remove_user:
  "messages (fold (\<lambda>(u, i). remove_user_message_id u i) ps s) = messages s"
  "users_ok (user_message_ids s) \<Longrightarrow> users_ok (user_message_ids (fold (\<lambda>(u, i). remove_user_message_id u i) ps s))"
  by (induction ps arbitrary: s) (auto simp: users_remove_user)

lemma lists_ok_filter:
  "lists_ok ms \<Longrightarrow> ms i = Some l \<Longrightarrow> list_all entry_ok (filter P l)"
  by (auto simp: lists_ok_def list_all_iff)

subsection \<open>Saving\<close>

lemma str_or_empty_object: "str_or_empty k v \<noteq> [] \<Longrightarrow> is_object v"
  by (cases v) (auto simp: str_or_empty_def get_str_def is_object_def)

lemma im_check_save_ok: "im_check_save C now p v = Ok e \<Longrightarrow> entry_ok e \<and> sm_json e = v"
  by (auto simp: im_check_save_def Let_def entry_ok_def outcome_elims str_or_empty_object split: if_splits)

lemma im_save_cases:
  obtains (saved) e where "im_check_save (fst E) (snd E) (im_default_validity_period s) v = Ok e" "entry_ok e" "sm_json e = v"
      "im_save E i v s = (Ok (), s\<lparr>messages := push_at i e (messages s), user_message_ids := push_at (sm_user e) i (user_message_ids s)\<rparr>)"
    | (refused) "fst (im_save E i v s) \<noteq> Ok ()" "snd (im_save E i v s) = s"
proof (cases "im_check_save (fst E) (snd E) (im_default_validity_period s) v")
  case (Ok e)
  then show ?thesis using saved im_check_save_ok [OF Ok] by (simp add: im_save_def)
qed (use refused in \<open>simp_all add: im_save_def\<close>)

lemma push_at_lists_ok: "lists_ok ms \<Longrightarrow> entry_ok e \<Longrightarrow> lists_ok (push_at i e ms)"
  by (force simp: lists_ok_def push_at_def list_all_iff split: option.splits)

lemma push_at_users_ok: "users_ok us \<Longrightarrow> users_ok (push_at u i us)"
  by (simp add: users_ok_def push_at_def)

lemma im_save_wf: "im_wf s \<Longrightarrow> im_wf (snd (im_save E i v s))"
  by (rule im_save_cases [of E s v i]) (auto simp: im_wf_def push_at_lists_ok push_at_users_ok)

lemma im_save_stored:
  assumes "im_save E i v s = (Ok (), s')"
  shows "im_stored s' j = im_stored s j @ (if j = i then [v] else [])"
  using assms
  by (cases rule: im_save_cases [of E s v i]) (auto simp: im_stored_def push_at_def split: option.split)

subsection \<open>Cancelling\<close>

lemma cancel_scan_spec:
  "n \<le> length l \<Longrightarrow>
     fst (cancel_scan c i n l) = filter (\<lambda>e. \<not> cancel_matches c (sm_json e)) (take n l) @ drop n l
     \<and> (snd (cancel_scan c i n l) \<noteq> [] \<longleftrightarrow> (\<exists>e\<in>set (take n l). cancel_matches c (sm_json e)))"
proof (induction n arbitrary: l)
  case (Suc n)
  then have n: "n < length l" by simp
  then have t: "take (Suc n) l = take n l @ [l ! n]" and d: "drop n l = l ! n # drop (Suc n) l"
    by (simp_all add: take_Suc_conv_app_nth Cons_nth_drop_Suc)
  from n have IH1: "fst (cancel_scan c i n (remove_nth n l)) = filter (\<lambda>e. \<not> cancel_matches c (sm_json e)) (take n l) @ drop (Suc n) l"
    using Suc.IH [of "remove_nth n l"] by (simp add: remove_nth_simps)
  from Suc.IH [of l] n have IH2: "fst (cancel_scan c i n l) = filter (\<lambda>e. \<not> cancel_matches c (sm_json e)) (take n l) @ drop n l"
    "snd (cancel_scan c i n l) \<noteq> [] \<longleftrightarrow> (\<exists>e\<in>set (take n l). cancel_matches c (sm_json e))" by simp_all
  show ?case
    unfolding t using IH1 IH2 d by (auto split: prod.splits)
qed simp

lemma cancel_all_spec:
  "fst (cancel_scan c i (length l) l) = filter (\<lambda>e. \<not> cancel_matches c (sm_json e)) l"
  "snd (cancel_scan c i (length l) l) \<noteq> [] \<longleftrightarrow> (\<exists>e\<in>set l. cancel_matches c (sm_json e))"
  using cancel_scan_spec [of "length l" l c i] by simp_all

definition cancelled_lists :: "cancel_criteria \<Rightarrow> string list \<Rightarrow> (string \<rightharpoonup> stored_message list) \<Rightarrow> string \<rightharpoonup> stored_message list" where
  "cancelled_lists c order ms j =
     (if j \<in> set order \<and> selected c j then map_option (filter (\<lambda>e. \<not> cancel_matches c (sm_json e))) (ms j) else ms j)"

lemma cancel_one_spec:
  assumes "cancel_one c i (ms, rem, em) = (ms', rem', em')"
  shows "ms' = cancelled_lists c [i] ms"
    "rem' \<noteq> [] \<longleftrightarrow> rem \<noteq> [] \<or> (selected c i \<and> (\<exists>l e. ms i = Some l \<and> e \<in> set l \<and> cancel_matches c (sm_json e)))"
    "set em' = set em \<union> {j. j = i \<and> selected c i \<and> ms' i = Some []}"
proof -
  have "(ms', rem', em') = (if selected c i then case ms i of
      Some l \<Rightarrow> (ms(i \<mapsto> filter (\<lambda>e. \<not> cancel_matches c (sm_json e)) l), rem @ snd (cancel_scan c i (length l) l),
        if filter (\<lambda>e. \<not> cancel_matches c (sm_json e)) l = [] then em @ [i] else em)
    | None \<Rightarrow> (ms, rem, em) else (ms, rem, em))"
    using assms by (auto simp: cancel_one_def selected_def cancel_all_spec(1) [symmetric, of _ _ i] split: option.splits prod.splits)
  then show "ms' = cancelled_lists c [i] ms"
    "rem' \<noteq> [] \<longleftrightarrow> rem \<noteq> [] \<or> (selected c i \<and> (\<exists>l e. ms i = Some l \<and> e \<in> set l \<and> cancel_matches c (sm_json e)))"
    "set em' = set em \<union> {j. j = i \<and> selected c i \<and> ms' i = Some []}"
    using cancel_all_spec(2) [of c i]
    by (auto simp: cancelled_lists_def fun_eq_iff split: if_splits option.splits)
qed

lemma fold_cancel_spec:
  assumes "distinct order" "fold (cancel_one c) order (ms, rem, em) = (ms', rem', em')"
  shows "ms' = cancelled_lists c order ms
    \<and> (rem' \<noteq> [] \<longleftrightarrow> rem \<noteq> [] \<or> (\<exists>i\<in>set order. selected c i \<and> (\<exists>l e. ms i = Some l \<and> e \<in> set l \<and> cancel_matches c (sm_json e))))
    \<and> set em' = set em \<union> {i \<in> set order. selected c i \<and> ms' i = Some []}"
  using assms
proof (induction order arbitrary: ms rem em)
  case Nil
  then show ?case by (simp add: cancelled_lists_def fun_eq_iff)
next
  case (Cons i order)
  obtain ms1 rem1 em1 where one: "cancel_one c i (ms, rem, em) = (ms1, rem1, em1)" by (metis prod_cases3)
  note o = cancel_one_spec [OF one]
  have IH: "ms' = cancelled_lists c order ms1"
    "rem' \<noteq> [] \<longleftrightarrow> rem1 \<noteq> [] \<or> (\<exists>j\<in>set order. selected c j \<and> (\<exists>l e. ms1 j = Some l \<and> e \<in> set l \<and> cancel_matches c (sm_json e)))"
    "set em' = set em1 \<union> {j \<in> set order. selected c j \<and> ms' j = Some []}"
    using Cons.IH [of ms1 rem1 em1] Cons.prems one by simp_all
  have other: "ms1 j = ms j" if "j \<in> set order" for j
    using that Cons.prems(1) by (auto simp: o(1) cancelled_lists_def)
  have "ms' = cancelled_lists c (i # order) ms"
    unfolding IH(1) o(1) using Cons.prems(1) by (auto simp: cancelled_lists_def fun_eq_iff)
  moreover have "ms' i = ms1 i" using Cons.prems(1) by (simp add: IH(1) cancelled_lists_def)
  ultimately show ?case
    using IH(2,3) o(2,3) other by (auto simp: o(1) [symmetric])
qed

lemma im_cancel_lists:
  assumes "im_walks order s" "lists_ok (messages s)" "im_cancel_message order v s = (r, s')"
  shows "messages s' i = (case messages s i of
      Some l \<Rightarrow> let k = filter (\<lambda>e. \<not> im_cancels v i (sm_json e)) l in if k = [] then None else Some k
    | None \<Rightarrow> None)"
    "users_ok (user_message_ids s) \<Longrightarrow> users_ok (user_message_ids s')"
    "r = Ok (\<exists>i l e. messages s i = Some l \<and> e \<in> set l \<and> im_cancels v i (sm_json e))"
proof -
  let ?c = "cancel_criteria_of v"
  have d: "distinct order" "set order = dom (messages s)" using assms(1) by (simp_all add: im_walks_def)
  obtain ms rem em where f: "fold (cancel_one ?c) order (messages s, [], []) = (ms, rem, em)" by (metis prod_cases3)
  note F = fold_cancel_spec [OF d(1) f]
  have s': "r = Ok (rem \<noteq> [])"
    "s' = fold (\<lambda>(u, i). remove_user_message_id u i) rem (s\<lparr>messages := remove_ids em ms\<rparr>)"
    using assms(3) f by (simp_all add: im_cancel_message_def)
  have em: "j \<in> set em \<longleftrightarrow> j \<in> set order \<and> selected ?c j \<and> ms j = Some []" for j using F by simp
  have ms: "ms j = cancelled_lists ?c order (messages s) j" for j using F by simp
  have ne: "messages s j = Some l \<Longrightarrow> l \<noteq> []" for j l using assms(2) by (simp add: lists_ok_def)
  have "messages s' i = remove_ids em ms i" by (simp add: s'(2) fold_remove_user)
  also have "\<dots> = (case messages s i of
      Some l \<Rightarrow> let k = filter (\<lambda>e. \<not> im_cancels v i (sm_json e)) l in if k = [] then None else Some k
    | None \<Rightarrow> None)"
  proof (cases "messages s i")
    case None
    then show ?thesis by (simp add: remove_ids_apply ms cancelled_lists_def)
  next
    case (Some l)
    then have i: "i \<in> set order" using d(2) by auto
    show ?thesis
      using Some i ne [OF Some]
      by (cases "selected ?c i") (simp_all add: remove_ids_apply em ms cancelled_lists_def im_cancels_def Let_def)
  qed
  finally show "messages s' i = (case messages s i of
      Some l \<Rightarrow> let k = filter (\<lambda>e. \<not> im_cancels v i (sm_json e)) l in if k = [] then None else Some k
    | None \<Rightarrow> None)" .
  show "users_ok (user_message_ids s) \<Longrightarrow> users_ok (user_message_ids s')"
    unfolding s'(2) by (rule fold_remove_user(2)) simp
  have "rem \<noteq> [] \<longleftrightarrow> (\<exists>i\<in>set order. selected ?c i \<and> (\<exists>l e. messages s i = Some l \<and> e \<in> set l \<and> cancel_matches ?c (sm_json e)))"
    using F by simp
  also have "\<dots> \<longleftrightarrow> (\<exists>i l e. messages s i = Some l \<and> e \<in> set l \<and> im_cancels v i (sm_json e))"
    unfolding d(2) im_cancels_def by blast
  finally show "r = Ok (\<exists>i l e. messages s i = Some l \<and> e \<in> set l \<and> im_cancels v i (sm_json e))"
    by (simp add: s'(1))
qed

lemma filtered_lists_ok:
  assumes "lists_ok ms" "\<And>i. ms' i = (case ms i of
      Some l \<Rightarrow> let k = filter (P i) l in if k = [] then None else Some k | None \<Rightarrow> None)"
  shows "lists_ok ms'"
  unfolding lists_ok_def
proof (intro allI impI)
  fix i l assume "ms' i = Some l"
  then obtain l0 where "ms i = Some l0" "l = filter (P i) l0" "l \<noteq> []"
    by (auto simp: assms(2) Let_def split: option.splits if_splits)
  with assms(1) show "l \<noteq> [] \<and> list_all entry_ok l" by (simp add: lists_ok_filter)
qed

lemma im_cancel_wf:
  assumes "im_wf s" "im_walks order s" shows "im_wf (snd (im_cancel_message order v s))"
proof -
  obtain r s' where c: "im_cancel_message order v s = (r, s')" by (cases "im_cancel_message order v s")
  note l = im_cancel_lists [OF assms(2) _ c]
  have "lists_ok (messages s')"
    by (rule filtered_lists_ok [OF _ l(1)]) (use assms(1) in \<open>simp_all add: im_wf_def\<close>)
  with l(2) assms(1) show ?thesis by (simp add: c im_wf_def)
qed

lemma im_cancel_stored:
  assumes "im_wf s" "im_walks order s" "im_cancel_message order v s = (r, s')"
  shows "im_stored s' i = filter (\<lambda>x. \<not> im_cancels v i x) (im_stored s i)"
  using im_cancel_lists(1) [OF assms(2) _ assms(3), of i] assms(1)
  by (auto simp: im_stored_def im_wf_def filter_map comp_def Let_def split: option.split)

lemma im_cancel_total: "\<exists>b. fst (im_cancel_message order v s) = Ok b"
  by (simp add: im_cancel_message_def split: prod.split)

lemma im_stored_iff: "x \<in> set (im_stored s j) \<longleftrightarrow> (\<exists>l e. messages s j = Some l \<and> e \<in> set l \<and> x = sm_json e)"
  by (cases "messages s j") (auto simp: im_stored_def)

lemma im_cancel_answer:
  assumes "im_wf s" "im_walks order s" "im_cancel_message order v s = (Ok b, s')"
  shows "b = (\<exists>j x. x \<in> set (im_stored s j) \<and> im_cancels v j x)"
proof -
  have "b = (\<exists>i l e. messages s i = Some l \<and> e \<in> set l \<and> im_cancels v i (sm_json e))"
    using im_cancel_lists(3) [OF assms(2) _ assms(3)] assms(1) by (simp add: im_wf_def)
  also have "\<dots> = (\<exists>j x. x \<in> set (im_stored s j) \<and> im_cancels v j x)"
    unfolding im_stored_iff by blast
  finally show ?thesis .
qed

interpretation memory: message_store im_stored im_save im_cancel_message im_wf "\<lambda>_ _. False" im_cancels im_walks
proof unfold_locales
  fix s s' :: InMemoryMessageStorage and E i j m order c b e
  show "im_wf s \<Longrightarrow> im_wf (snd (im_save E i m s))" by (rule im_save_wf)
  show "im_wf s \<Longrightarrow> im_walks order s \<Longrightarrow> im_wf (snd (im_cancel_message order c s))" by (rule im_cancel_wf)
  show "im_save E i m s = (Ok (), s') \<Longrightarrow> im_stored s' j = filter (\<lambda>x. \<not> False) (im_stored s j) @ (if j = i then [m] else [])"
    by (simp add: im_save_stored)
  show "fst (im_save E i m s) \<noteq> Ok () \<Longrightarrow> filter (\<lambda>x. \<not> False) (im_stored (snd (im_save E i m s)) j) = filter (\<lambda>x. \<not> False) (im_stored s j)"
    by (cases rule: im_save_cases [of E s m i]) simp_all
  show "im_wf s \<Longrightarrow> im_walks order s \<Longrightarrow> im_cancel_message order c s = (Ok b, s') \<Longrightarrow>
      im_stored s' j = filter (\<lambda>x. \<not> im_cancels c j x) (im_stored s j)" by (rule im_cancel_stored)
  show "im_wf s \<Longrightarrow> im_walks order s \<Longrightarrow> im_cancel_message order c s = (Ok b, s') \<Longrightarrow>
      b = (\<exists>j x. x \<in> set (im_stored s j) \<and> im_cancels c j x)"
    by (rule im_cancel_answer)
  show "fst (im_cancel_message order c s) \<noteq> Panic" using im_cancel_total [of order c s] by auto
  show "fst (im_cancel_message order c s) = Err e \<Longrightarrow> im_stored (snd (im_cancel_message order c s)) j = im_stored s j"
    using im_cancel_total [of order c s] by auto
qed

subsection \<open>Replacing\<close>

text \<open>The value that a replacement gives to a member of a message, and the message it makes.\<close>

definition replaced_field :: "replace_request \<Rightarrow> string \<Rightarrow> json option" where
  "replaced_field r k =
     (if k = ''registered_delivery'' then Some (jnum (rr_registered_delivery r))
      else if k = ''validity_period'' then map_option (\<lambda>p. JString (fst p)) (rr_validity r)
      else if k = ''schedule_delivery_time'' then map_option (\<lambda>p. JString (fst p)) (rr_schedule r)
      else if k = ''short_message'' then
        (if rr_short_message r \<noteq> [] then Some (JString (rr_short_message r))
         else if rr_message_payload r \<noteq> [] then Some (JString (rr_message_payload r)) else None)
      else if k = ''sm_default_msg_id'' \<and> rr_sm_default_msg_id r \<noteq> 0 then Some (jnum (rr_sm_default_msg_id r))
      else None)"

definition replaced_by :: "replace_request \<Rightarrow> stored_message \<Rightarrow> stored_message \<Rightarrow> bool" where
  "replaced_by r e e' =
     (sm_user e' = sm_user e
      \<and> sm_schedule e' = (case rr_schedule r of Some (_, t) \<Rightarrow> Some t | None \<Rightarrow> sm_schedule e)
      \<and> sm_validity e' = (case rr_validity r of Some (_, t) \<Rightarrow> Some t | None \<Rightarrow> sm_validity e)
      \<and> (\<forall>k. jget k (sm_json e') = (case replaced_field r k of Some x \<Rightarrow> Some x | None \<Rightarrow> jget k (sm_json e))))"

lemma index_set_object:
  assumes "is_object m"
  shows "\<exists>m'. index_set k x m = Ok m' \<and> is_object m' \<and> (\<forall>j. jget j m' = (if j = k then Some x else jget j m))"
  using assms by (cases m) (simp_all add: is_object_def)

lemma optional_index_set:
  assumes "is_object m"
  shows "\<exists>m'. (if b then index_set k x m else Ok m) = Ok m' \<and> is_object m' \<and>
    (\<forall>j. jget j m' = (if j = k \<and> b then Some x else jget j m))"
  using assms index_set_object [OF assms, of k x] by (cases b) auto

lemma replace_text_object:
  assumes "is_object m"
  shows "\<exists>m'. replace_text r m = Ok m' \<and> is_object m' \<and>
    (\<forall>k. jget k m' = (if k = ''short_message'' \<and> replaced_field r k \<noteq> None then replaced_field r k else jget k m))"
proof -
  consider "rr_short_message r \<noteq> []" | "rr_short_message r = []" "rr_message_payload r \<noteq> []"
    | "rr_short_message r = []" "rr_message_payload r = []" by blast
  then show ?thesis
  proof cases
    case 1
    obtain m' where "replace_text r m = Ok m'" "is_object m'"
      "\<forall>j. jget j m' = (if j = ''short_message'' then Some (JString (rr_short_message r)) else jget j m)"
      using index_set_object [OF assms, of "''short_message''" "JString (rr_short_message r)"] 1 by (auto simp: replace_text_def)
    with 1 show ?thesis by (intro exI [of _ m']) (simp add: replaced_field_def)
  next
    case 2
    obtain m' where "replace_text r m = Ok m'" "is_object m'"
      "\<forall>j. jget j m' = (if j = ''short_message'' then Some (JString (rr_message_payload r)) else jget j m)"
      using index_set_object [OF assms, of "''short_message''" "JString (rr_message_payload r)"] 2 by (auto simp: replace_text_def)
    with 2 show ?thesis by (intro exI [of _ m']) (simp add: replaced_field_def)
  next
    case 3
    then show ?thesis using assms by (simp add: replace_text_def replaced_field_def)
  qed
qed

lemma optional_time_set:
  assumes "is_object m"
  shows "\<exists>m'.
    (case w of Some (tx, t) \<Rightarrow> map_ok (\<lambda>m. (m, Some t)) (index_set k (JString tx) m) | None \<Rightarrow> Ok (m, old))
      = (Ok (m', case w of Some (_, t) \<Rightarrow> Some t | None \<Rightarrow> old) :: (json \<times> instant option) io) \<and> is_object m' \<and>
    (\<forall>j. jget j m' = (if j = k \<and> w \<noteq> None then map_option (\<lambda>p. JString (fst p)) w else jget j m))"
proof (cases w)
  case (Some p)
  obtain m' where "index_set k (JString (fst p)) m = (Ok m' :: json io)" "is_object m'"
    "\<forall>j. jget j m' = (if j = k then Some (JString (fst p)) else jget j m)"
    using index_set_object [OF assms, of k "JString (fst p)"] by blast
  with Some show ?thesis by (cases p) (intro exI [of _ m'], simp)
qed (use assms in simp)

lemma replace_entry_spec:
  assumes "is_object (sm_json e)"
  obtains e' where "replace_entry r e = Ok e'" "replaced_by r e e'" "is_object (sm_json e')"
proof -
  obtain m1 where m1: "(if rr_sm_default_msg_id r \<noteq> 0
      then index_set ''sm_default_msg_id'' (jnum (rr_sm_default_msg_id r)) (sm_json e) else Ok (sm_json e)) = (Ok m1 :: json io)"
    "is_object m1" "\<forall>j. jget j m1 = (if j = ''sm_default_msg_id'' \<and> rr_sm_default_msg_id r \<noteq> 0
      then Some (jnum (rr_sm_default_msg_id r)) else jget j (sm_json e))"
    using optional_index_set [OF assms] by blast
  obtain m2 where m2: "replace_text r m1 = Ok m2" "is_object m2"
    "\<forall>k. jget k m2 = (if k = ''short_message'' \<and> replaced_field r k \<noteq> None then replaced_field r k else jget k m1)"
    using replace_text_object [OF m1(2)] by blast
  obtain m3 where m3: "(case rr_schedule r of Some (tx, t) \<Rightarrow>
      map_ok (\<lambda>m. (m, Some t)) (index_set ''schedule_delivery_time'' (JString tx) m2) | None \<Rightarrow> Ok (m2, sm_schedule e))
      = (Ok (m3, case rr_schedule r of Some (_, t) \<Rightarrow> Some t | None \<Rightarrow> sm_schedule e) :: (json \<times> instant option) io)" "is_object m3"
    "\<forall>j. jget j m3 = (if j = ''schedule_delivery_time'' \<and> rr_schedule r \<noteq> None
      then map_option (\<lambda>p. JString (fst p)) (rr_schedule r) else jget j m2)"
    using optional_time_set [OF m2(2)] by blast
  obtain m4 where m4: "(case rr_validity r of Some (tx, t) \<Rightarrow>
      map_ok (\<lambda>m. (m, Some t)) (index_set ''validity_period'' (JString tx) m3) | None \<Rightarrow> Ok (m3, sm_validity e))
      = (Ok (m4, case rr_validity r of Some (_, t) \<Rightarrow> Some t | None \<Rightarrow> sm_validity e) :: (json \<times> instant option) io)" "is_object m4"
    "\<forall>j. jget j m4 = (if j = ''validity_period'' \<and> rr_validity r \<noteq> None
      then map_option (\<lambda>p. JString (fst p)) (rr_validity r) else jget j m3)"
    using optional_time_set [OF m3(2)] by blast
  obtain m5 where m5: "index_set ''registered_delivery'' (jnum (rr_registered_delivery r)) m4 = (Ok m5 :: json io)" "is_object m5"
    "\<forall>j. jget j m5 = (if j = ''registered_delivery'' then Some (jnum (rr_registered_delivery r)) else jget j m4)"
    using index_set_object [OF m4(2)] by blast
  let ?e = "e\<lparr>sm_json := m5, sm_schedule := case rr_schedule r of Some (_, t) \<Rightarrow> Some t | None \<Rightarrow> sm_schedule e,
     sm_validity := case rr_validity r of Some (_, t) \<Rightarrow> Some t | None \<Rightarrow> sm_validity e\<rparr>"
  have "replace_entry r e = Ok ?e"
    unfolding replace_entry_def m1(1) try_ok.simps m2(1) m3(1) m4(1) m5(1) prod.case ..
  moreover have "replaced_by r e ?e"
    by (simp add: replaced_by_def replaced_field_def m1(3) m2(3) m3(3) m4(3) m5(3) split: option.split)
  ultimately show ?thesis using that m5(2) by simp
qed

lemma replaced_by_ok:
  assumes "entry_ok e" "replaced_by r e e'" "is_object (sm_json e')" shows "entry_ok e'"
proof -
  have "get_str ''destination_addr'' (sm_json e') = get_str ''destination_addr'' (sm_json e)"
    using assms(2) by (simp add: get_str_def replaced_by_def replaced_field_def)
  with assms show ?thesis
    by (auto simp: entry_ok_def replaced_by_def str_or_empty_def split: option.split)
qed

definition replace_or_keep :: "replace_request \<Rightarrow> stored_message \<Rightarrow> stored_message" where
  "replace_or_keep r e =
     (if replace_matches r (sm_json e) then case replace_entry r e of Ok e' \<Rightarrow> e' | _ \<Rightarrow> e else e)"

lemma replace_or_keep_ok:
  assumes "entry_ok e"
  shows "entry_ok (replace_or_keep r e)"
    "replace_matches r (sm_json e) \<Longrightarrow> replaced_by r e (replace_or_keep r e)"
    "\<not> replace_matches r (sm_json e) \<Longrightarrow> replace_or_keep r e = e"
proof -
  obtain e' where "replace_entry r e = Ok e'" "replaced_by r e e'" "is_object (sm_json e')"
    using replace_entry_spec [of e r] assms by (auto simp: entry_ok_def)
  then show "entry_ok (replace_or_keep r e)" "replace_matches r (sm_json e) \<Longrightarrow> replaced_by r e (replace_or_keep r e)"
    "\<not> replace_matches r (sm_json e) \<Longrightarrow> replace_or_keep r e = e"
    using assms replaced_by_ok [OF assms, of r e'] by (simp_all add: replace_or_keep_def)
qed

lemma replace_scan_spec:
  "list_all entry_ok l \<Longrightarrow> n \<le> length l \<Longrightarrow>
     replace_scan r n l = Ok (map (replace_or_keep r) (take n l) @ drop n l)"
proof (induction n arbitrary: l)
  case (Suc n)
  then have n: "n < length l" and e: "entry_ok (l ! n)" by (simp_all add: list_all_length)
  have t: "take (Suc n) l = take n l @ [l ! n]" and d: "drop n l = l ! n # drop (Suc n) l"
    using n by (simp_all add: take_Suc_conv_app_nth Cons_nth_drop_Suc)
  show ?case
  proof (cases "replace_matches r (sm_json (l ! n))")
    case True
    obtain e' where e': "replace_entry r (l ! n) = Ok e'"
      using replace_entry_spec [of "l ! n" r] e by (auto simp: entry_ok_def)
    then have k: "replace_or_keep r (l ! n) = e'" using True by (simp add: replace_or_keep_def)
    have "list_all entry_ok (l[n := e'])"
      using Suc.prems(1) replace_or_keep_ok(1) [OF e, of r] k n
      by (simp add: list_all_length nth_list_update)
    then have "replace_scan r n (l[n := e']) = Ok (map (replace_or_keep r) (take n l) @ drop n (l[n := e']))"
      using Suc.IH [of "l[n := e']"] n by simp
    then show ?thesis using True e' n k by (simp add: t drop_update_swap Cons_nth_drop_Suc [symmetric])
  next
    case False
    then show ?thesis using Suc.IH [of l] Suc.prems n replace_or_keep_ok(3) [OF e False] by (simp add: t d)
  qed
qed simp

end
