(* ===== verification/Sql_Storage.thy ===== *)
theory Sql_Storage
  imports Message_Storage
begin

text \<open>
  \<^verbatim>\<open>SqlMessageStorage\<close> of \<^verbatim>\<open>message_storage.rs\<close>: the table \<^verbatim>\<open>message_queue\<close> as a list of rows and
  each query as the filter or update that its text states.  The text formats of \<^verbatim>\<open>serde_json\<close> and
  \<^verbatim>\<open>chrono\<close> and the order that the database gives to equal sort keys are parameters; a statement
  that the database rejects is an error of kind \<^verbatim>\<open>Other\<close>.
\<close>

section \<open>The table\<close>

record sql_row =
  row_id :: nat
  row_service_type :: string
  row_source_addr_ton :: int
  row_source_addr_npi :: int
  row_source_addr :: string
  row_dest_addr_ton :: int
  row_dest_addr_npi :: int
  row_destination_addr :: string
  row_message_id :: string
  row_message :: string
  row_schedule :: "string option"
  row_validity :: "string option"

record SqlMessageStorage =
  rows :: "sql_row list"
  next_row_id :: nat
  sql_default_validity_period :: u32

text \<open>
  The text formats, and \<^verbatim>\<open>ORDER BY schedule_delivery_time ASC\<close>, whose treatment of null values and
  of ties differs between the supported databases.
\<close>

record sql_formats =
  render :: "json \<Rightarrow> string"
  parse_json :: "string \<Rightarrow> json option"
  rfc3339 :: "instant \<Rightarrow> string"
  by_schedule :: "sql_row list \<Rightarrow> sql_row list"

text \<open>The environment of a call: calendar, clock, and the error of the \<open>n\<close>-th statement, if any.\<close>

record sql_env =
  env_chrono :: chrono
  env_now :: instant
  env_error :: "nat \<Rightarrow> string option"

definition statement :: "sql_env \<Rightarrow> nat \<Rightarrow> 'a \<Rightarrow> 'a io" where
  "statement E n x = (case env_error E n of Some e \<Rightarrow> Err (IoError Other e) | None \<Rightarrow> Ok x)"

text \<open>\<^verbatim>\<open>unwrap_or(0) as i32\<close> and \<^verbatim>\<open>as i16\<close>.\<close>

definition i32_field :: "string \<Rightarrow> json \<Rightarrow> int" where
  "i32_field k v = sint (ucast (u64_or 0 k v) :: 32 word)"

definition i16_field :: "string \<Rightarrow> json \<Rightarrow> int" where
  "i16_field k v = sint (ucast (u64_or 0 k v) :: 16 word)"

section \<open>Saving\<close>

definition superseded_row :: "json \<Rightarrow> sql_row \<Rightarrow> bool" where
  "superseded_row v r =
     (row_service_type r = str_or_empty ''service_type'' v
      \<and> row_source_addr_ton r = i32_field ''source_addr_ton'' v
      \<and> row_source_addr_npi r = i32_field ''source_addr_npi'' v
      \<and> row_source_addr r = str_or_empty ''source_addr'' v
      \<and> row_dest_addr_ton r = i32_field ''dest_addr_ton'' v
      \<and> row_dest_addr_npi r = i32_field ''dest_addr_npi'' v
      \<and> row_destination_addr r = str_or_empty ''destination_addr'' v)"

definition delete_row :: "nat \<Rightarrow> SqlMessageStorage \<Rightarrow> SqlMessageStorage" where
  "delete_row k s = s\<lparr>rows := filter (\<lambda>r. row_id r \<noteq> k) (rows s)\<rparr>"

text \<open>One \<^verbatim>\<open>DELETE\<close> per selected row; the first error ends the loop.\<close>

fun delete_rows :: "sql_env \<Rightarrow> nat \<Rightarrow> nat list \<Rightarrow> SqlMessageStorage \<Rightarrow> nat io \<times> SqlMessageStorage" where
  "delete_rows E n [] s = (Ok n, s)"
| "delete_rows E n (k # ks) s =
     (case statement E n () of
        Ok _ \<Rightarrow> delete_rows E (Suc n) ks (delete_row k s)
      | Err e \<Rightarrow> (Err e, s)
      | Panic \<Rightarrow> (Panic, s))"

definition delete_messages_for_replace_if_present_flag ::
    "sql_env \<Rightarrow> json \<Rightarrow> SqlMessageStorage \<Rightarrow> nat io \<times> SqlMessageStorage" where
  "delete_messages_for_replace_if_present_flag E v s =
     (case statement E 0 (map row_id (filter (superseded_row v) (rows s))) of
        Ok ks \<Rightarrow> delete_rows E 1 ks s
      | Err e \<Rightarrow> (Err e, s)
      | Panic \<Rightarrow> (Panic, s))"

text \<open>The checks of a message and the two times of its row.\<close>

definition sql_check_save :: "sql_env \<Rightarrow> u32 \<Rightarrow> json \<Rightarrow> (instant option \<times> instant option) io" where
  "sql_check_save E p v =
     (if str_or_empty ''destination_addr'' v = []
      then Err (IoError InvalidInput ''Missing destination_addr in the message'')
      else
        try_ok (time_or_none (get_schedule_delivery_time (env_chrono E) (env_now E) v)) (\<lambda>schedule.
        if schedule \<noteq> None \<and> the schedule < env_now E
        then Err (IoError InvalidInput ''schedule_delivery_time is in the past'')
        else
          try_ok (time_or_none (get_validity_period (env_chrono E) (env_now E) v p)) (\<lambda>validity.
          if schedule = None \<and> validity = None
          then map_ok (\<lambda>t. (None, Some t)) (or_panic (plus_duration (env_chrono E) (seconds (uint p)) (env_now E)))
          else Ok (schedule, validity))))"

definition new_row :: "sql_formats \<Rightarrow> nat \<Rightarrow> string \<Rightarrow> json \<Rightarrow> instant option \<Rightarrow> instant option \<Rightarrow> sql_row" where
  "new_row S k i v schedule validity =
     \<lparr>row_id = k, row_service_type = str_or_empty ''service_type'' v,
      row_source_addr_ton = i16_field ''source_addr_ton'' v, row_source_addr_npi = i16_field ''source_addr_npi'' v,
      row_source_addr = str_or_empty ''source_addr'' v,
      row_dest_addr_ton = i16_field ''dest_addr_ton'' v, row_dest_addr_npi = i16_field ''dest_addr_npi'' v,
      row_destination_addr = str_or_empty ''destination_addr'' v, row_message_id = i, row_message = render S v,
      row_schedule = map_option (rfc3339 S) schedule, row_validity = map_option (rfc3339 S) validity\<rparr>"

definition sql_insert ::
    "sql_formats \<Rightarrow> sql_env \<Rightarrow> nat \<Rightarrow> string \<Rightarrow> json \<Rightarrow> SqlMessageStorage \<Rightarrow> unit io \<times> SqlMessageStorage" where
  "sql_insert S E n i v s =
     (case sql_check_save E (sql_default_validity_period s) v of
        Ok (schedule, validity) \<Rightarrow>
          (case statement E n () of
             Ok _ \<Rightarrow>
               (Ok (), s\<lparr>rows := rows s @ [new_row S (next_row_id s) i v schedule validity],
                         next_row_id := Suc (next_row_id s)\<rparr>)
           | Err e \<Rightarrow> (Err e, s)
           | Panic \<Rightarrow> (Panic, s))
      | Err e \<Rightarrow> (Err e, s)
      | Panic \<Rightarrow> (Panic, s))"

definition sql_save ::
    "sql_formats \<Rightarrow> sql_env \<Rightarrow> string \<Rightarrow> json \<Rightarrow> SqlMessageStorage \<Rightarrow> unit io \<times> SqlMessageStorage" where
  "sql_save S E i v s =
     (if u8_field ''replace_if_present_flag'' v = 1
      then case delete_messages_for_replace_if_present_flag E v s of
             (Ok n, s') \<Rightarrow> sql_insert S E n i v s'
           | (Err e, s') \<Rightarrow> (Err e, s')
           | (Panic, s') \<Rightarrow> (Panic, s')
      else sql_insert S E 0 i v s)"

section \<open>Cancelling\<close>

text \<open>A condition \<^verbatim>\<open>field = $n\<close> is part of the query only where the command gives a value.\<close>

definition text_condition :: "string \<Rightarrow> string \<Rightarrow> bool" where
  "text_condition wanted column = (wanted = [] \<or> column = wanted)"

definition int_condition :: "int \<Rightarrow> int \<Rightarrow> bool" where
  "int_condition wanted column = (wanted = 0 \<or> column = wanted)"

definition no_query_fields :: "json \<Rightarrow> bool" where
  "no_query_fields v =
     (str_or_empty ''service_type'' v = [] \<and> str_or_empty ''message_id'' v = []
      \<and> i32_field ''source_addr_ton'' v = 0 \<and> i32_field ''source_addr_npi'' v = 0
      \<and> str_or_empty ''source_addr'' v = [] \<and> i32_field ''dest_addr_ton'' v = 0
      \<and> i32_field ''dest_addr_npi'' v = 0 \<and> str_or_empty ''destination_addr'' v = [])"

definition cancelled_row :: "json \<Rightarrow> sql_row \<Rightarrow> bool" where
  "cancelled_row v r =
     (text_condition (str_or_empty ''service_type'' v) (row_service_type r)
      \<and> text_condition (str_or_empty ''message_id'' v) (row_message_id r)
      \<and> int_condition (i32_field ''source_addr_ton'' v) (row_source_addr_ton r)
      \<and> int_condition (i32_field ''source_addr_npi'' v) (row_source_addr_npi r)
      \<and> text_condition (str_or_empty ''source_addr'' v) (row_source_addr r)
      \<and> int_condition (i32_field ''dest_addr_ton'' v) (row_dest_addr_ton r)
      \<and> int_condition (i32_field ''dest_addr_npi'' v) (row_dest_addr_npi r)
      \<and> text_condition (str_or_empty ''destination_addr'' v) (row_destination_addr r))"

definition sql_cancel_message :: "sql_env \<Rightarrow> json \<Rightarrow> SqlMessageStorage \<Rightarrow> bool io \<times> SqlMessageStorage" where
  "sql_cancel_message E v s =
     (if no_query_fields v then (Err (IoError InvalidInput ''At least one query field must be provided''), s)
      else case statement E 0 () of
             Ok _ \<Rightarrow>
               (Ok (filter (cancelled_row v) (rows s) \<noteq> []),
                s\<lparr>rows := filter (\<lambda>r. \<not> cancelled_row v r) (rows s)\<rparr>)
           | Err e \<Rightarrow> (Err e, s)
           | Panic \<Rightarrow> (Panic, s))"

section \<open>Replacing\<close>

definition sql_replace_matches :: "json \<Rightarrow> sql_row \<Rightarrow> bool" where
  "sql_replace_matches v r =
     (row_message_id r = str_or_empty ''message_id'' v
      \<and> int_condition (i32_field ''source_addr_ton'' v) (row_source_addr_ton r)
      \<and> int_condition (i32_field ''source_addr_npi'' v) (row_source_addr_npi r)
      \<and> text_condition (str_or_empty ''source_addr'' v) (row_source_addr r))"

definition sql_optional_time :: "sql_env \<Rightarrow> string \<Rightarrow> (string \<times> instant) option io" where
  "sql_optional_time E text =
     (if text = [] then Ok None
      else map_ok (\<lambda>t. Some (text, t))
             (map_err (IoError InvalidInput) (parse_absolute_relative_time (env_chrono E) (env_now E) text)))"

definition sql_replace_request :: "sql_env \<Rightarrow> json \<Rightarrow> replace_request io" where
  "sql_replace_request E v =
     try_ok (sql_optional_time E (str_or_empty ''schedule_delivery_time'' v)) (\<lambda>schedule.
     try_ok (sql_optional_time E (str_or_empty ''validity_period'' v)) (\<lambda>validity.
     Ok \<lparr>rr_sm_default_msg_id = u8_field ''sm_default_msg_id'' v,
         rr_short_message = str_or_empty ''short_message'' v,
         rr_message_payload = str_or_empty ''message_payload'' v,
         rr_source_addr_ton = 0, rr_source_addr_npi = 0, rr_source_addr = [],
         rr_schedule = schedule, rr_validity = validity,
         rr_registered_delivery = u8_field ''registered_delivery'' v\<rparr>))"

definition updated_message :: "replace_request \<Rightarrow> json \<Rightarrow> json io" where
  "updated_message r m =
     try_ok (case rr_schedule r of Some (text, _) \<Rightarrow> index_set ''schedule_delivery_time'' (JString text) m | None \<Rightarrow> Ok m) (\<lambda>m.
     try_ok (case rr_validity r of Some (text, _) \<Rightarrow> index_set ''validity_period'' (JString text) m | None \<Rightarrow> Ok m) (\<lambda>m.
     try_ok (if rr_sm_default_msg_id r \<noteq> 0
             then index_set ''sm_default_msg_id'' (jnum (rr_sm_default_msg_id r)) m else Ok m) (\<lambda>m.
     try_ok (replace_text r m) (\<lambda>m.
     index_set ''registered_delivery'' (jnum (rr_registered_delivery r)) m))))"

definition update_row :: "sql_formats \<Rightarrow> replace_request \<Rightarrow> json \<Rightarrow> sql_row \<Rightarrow> sql_row" where
  "update_row S r m w =
     w\<lparr>row_message := render S m,
       row_schedule := (case rr_schedule r of Some (_, t) \<Rightarrow> Some (rfc3339 S t) | None \<Rightarrow> row_schedule w),
       row_validity := (case rr_validity r of Some (_, t) \<Rightarrow> Some (rfc3339 S t) | None \<Rightarrow> row_validity w)\<rparr>"

text \<open>One \<^verbatim>\<open>UPDATE\<close> per selected row; the first error ends the loop.\<close>

fun update_rows ::
    "sql_formats \<Rightarrow> sql_env \<Rightarrow> replace_request \<Rightarrow> nat \<Rightarrow> sql_row list \<Rightarrow> SqlMessageStorage \<Rightarrow>
     unit io \<times> SqlMessageStorage" where
  "update_rows S E r n [] s = (Ok (), s)"
| "update_rows S E r n (w # ws) s =
     (case parse_json S (row_message w) of
        None \<Rightarrow> (Err (IoError InvalidData ''Invalid JSON''), s)
      | Some m \<Rightarrow>
          (case try_ok (updated_message r m) (\<lambda>m. statement E n m) of
             Ok m' \<Rightarrow>
               update_rows S E r (Suc n) ws
                 (s\<lparr>rows := map (\<lambda>x. if row_id x = row_id w then update_row S r m' x else x) (rows s)\<rparr>)
           | Err e \<Rightarrow> (Err e, s)
           | Panic \<Rightarrow> (Panic, s)))"

definition sql_replace_message ::
    "sql_formats \<Rightarrow> sql_env \<Rightarrow> json \<Rightarrow> SqlMessageStorage \<Rightarrow> bool io \<times> SqlMessageStorage" where
  "sql_replace_message S E v s =
     (if str_or_empty ''message_id'' v = []
      then (Err (IoError InvalidInput ''Missing message_id in the replace_sm command''), s)
      else if replaces_nothing v
      then (Err (IoError InvalidInput ''Missing short_message or message_payload in the replace_sm command''), s)
      else case try_ok (sql_replace_request E v) (\<lambda>r.
                  map_ok (\<lambda>ws. (r, ws)) (statement E 0 (filter (sql_replace_matches v) (rows s)))) of
             Ok (r, ws) \<Rightarrow>
               (case update_rows S E r 1 ws s of
                  (Ok _, s') \<Rightarrow> (Ok (ws \<noteq> []), s')
                | (Err e, s') \<Rightarrow> (Err e, s')
                | (Panic, s') \<Rightarrow> (Panic, s'))
           | Err e \<Rightarrow> (Err e, s)
           | Panic \<Rightarrow> (Panic, s))"

section \<open>Expiry and delivery\<close>

definition sql_clean_expired_messages ::
    "sql_formats \<Rightarrow> sql_env \<Rightarrow> SqlMessageStorage \<Rightarrow> unit io \<times> SqlMessageStorage" where
  "sql_clean_expired_messages S E s =
     (case statement E 0 () of
        Ok _ \<Rightarrow>
          (Ok (), s\<lparr>rows := filter (\<lambda>r. case row_validity r of Some t \<Rightarrow> \<not> t < rfc3339 S (env_now E) | None \<Rightarrow> True) (rows s)\<rparr>)
      | Err e \<Rightarrow> (Err e, s)
      | Panic \<Rightarrow> (Panic, s))"

definition delete_message_by_id :: "sql_env \<Rightarrow> nat \<Rightarrow> nat \<Rightarrow> SqlMessageStorage \<Rightarrow> bool \<times> SqlMessageStorage" where
  "delete_message_by_id E n k s =
     (case env_error E n of None \<Rightarrow> (True, delete_row k s) | Some _ \<Rightarrow> (False, s))"

definition due_row :: "sql_formats \<Rightarrow> instant \<Rightarrow> sql_row \<Rightarrow> bool" where
  "due_row S now r = (case row_schedule r of None \<Rightarrow> True | Some t \<Rightarrow> t \<le> rfc3339 S now)"

text \<open>Rows whose text is not JSON are deleted and skipped.\<close>

fun parse_rows ::
    "sql_formats \<Rightarrow> sql_env \<Rightarrow> nat \<Rightarrow> sql_row list \<Rightarrow> SqlMessageStorage \<Rightarrow> (nat \<times> json) list \<times> SqlMessageStorage" where
  "parse_rows S E n [] s = ([], s)"
| "parse_rows S E n (r # rs) s =
     (case parse_json S (row_message r) of
        Some m \<Rightarrow> (case parse_rows S E n rs s of (ds, s') \<Rightarrow> ((row_id r, m) # ds, s'))
      | None \<Rightarrow> parse_rows S E (Suc n) rs (snd (delete_message_by_id E n (row_id r) s)))"

definition sql_get_delivery_messages ::
    "sql_formats \<Rightarrow> sql_env \<Rightarrow> SqlMessageStorage \<Rightarrow> (nat \<times> json) list io \<times> SqlMessageStorage" where
  "sql_get_delivery_messages S E s =
     (case statement E 0 (by_schedule S (filter (due_row S (env_now E)) (rows s))) of
        Ok rs \<Rightarrow> (case parse_rows S E 1 rs s of (ds, s') \<Rightarrow> (Ok ds, s'))
      | Err e \<Rightarrow> (Err e, s)
      | Panic \<Rightarrow> (Panic, s))"

text \<open>The delivery timer: a row is deleted when its delivery has succeeded.\<close>

fun sql_deliver_each ::
    "sql_env \<Rightarrow> (nat \<Rightarrow> json \<Rightarrow> bool) \<Rightarrow> nat \<Rightarrow> (nat \<times> json) list \<Rightarrow> SqlMessageStorage \<Rightarrow> SqlMessageStorage" where
  "sql_deliver_each E handler n [] s = s"
| "sql_deliver_each E handler n ((k, m) # ds) s =
     sql_deliver_each E handler (Suc n) ds (if handler n m then snd (delete_message_by_id E n k s) else s)"

definition sql_delivery_tick ::
    "sql_formats \<Rightarrow> sql_env \<Rightarrow> (nat \<Rightarrow> json \<Rightarrow> bool) \<Rightarrow> SqlMessageStorage \<Rightarrow> SqlMessageStorage" where
  "sql_delivery_tick S E handler s =
     (case sql_get_delivery_messages S E s of
        (Ok ds, s') \<Rightarrow> sql_deliver_each E handler (Suc (length (rows s))) ds s'
      | (_, s') \<Rightarrow> s')"

section \<open>The table as a message store\<close>

text \<open>
  The messages of an identifier are the parsed texts of its rows, in the order of the rows.  In
  a well-formed table every text parses, the columns repeat what the message says, and the row
  numbers are distinct; the text format reads back what it writes, as \<^verbatim>\<open>serde_json\<close> does.
\<close>

definition row_json :: "sql_formats \<Rightarrow> string \<Rightarrow> sql_row \<Rightarrow> json option" where
  "row_json S i r = (if row_message_id r = i then parse_json S (row_message r) else None)"

definition sql_stored :: "sql_formats \<Rightarrow> SqlMessageStorage \<Rightarrow> string \<Rightarrow> json list" where
  "sql_stored S s i = List.map_filter (row_json S i) (rows s)"

definition columns_of :: "sql_row \<Rightarrow> string \<times> int \<times> int \<times> string \<times> int \<times> int \<times> string" where
  "columns_of r = (row_service_type r, row_source_addr_ton r, row_source_addr_npi r, row_source_addr r,
     row_dest_addr_ton r, row_dest_addr_npi r, row_destination_addr r)"

definition row_for :: "sql_formats \<Rightarrow> string \<Rightarrow> json \<Rightarrow> sql_row" where
  "row_for S i m = new_row S 0 i m None None"

definition row_ok :: "sql_formats \<Rightarrow> sql_row \<Rightarrow> bool" where
  "row_ok S r =
     (case parse_json S (row_message r) of
        Some m \<Rightarrow> columns_of r = columns_of (row_for S [] m) | None \<Rightarrow> False)"

definition formats_ok :: "sql_formats \<Rightarrow> bool" where
  "formats_ok S = (\<forall>v. parse_json S (render S v) = Some v)"

definition sql_wf :: "sql_formats \<Rightarrow> SqlMessageStorage \<Rightarrow> bool" where
  "sql_wf S s =
     (formats_ok S \<and> distinct (map row_id (rows s)) \<and> (\<forall>r\<in>set (rows s). row_id r < next_row_id s \<and> row_ok S r))"

definition sql_supersedes :: "sql_formats \<Rightarrow> json \<Rightarrow> json \<Rightarrow> bool" where
  "sql_supersedes S v m = (u8_field ''replace_if_present_flag'' v = 1 \<and> superseded_row v (row_for S [] m))"

definition sql_cancels :: "sql_formats \<Rightarrow> json \<Rightarrow> string \<Rightarrow> json \<Rightarrow> bool" where
  "sql_cancels S v i m = (\<not> no_query_fields v \<and> cancelled_row v (row_for S i m))"

lemma superseded_row_columns: "columns_of r = columns_of r' \<Longrightarrow> superseded_row v r = superseded_row v r'"
  by (simp add: columns_of_def superseded_row_def)

lemma cancelled_row_columns:
  "columns_of r = columns_of r' \<Longrightarrow> row_message_id r = row_message_id r' \<Longrightarrow> cancelled_row v r = cancelled_row v r'"
  by (simp add: columns_of_def cancelled_row_def)

lemma columns_row_for: "columns_of (row_for S i m) = columns_of (row_for S j m)"
  by (simp add: columns_of_def row_for_def new_row_def)

lemma row_message_id_for [simp]: "row_message_id (row_for S i m) = i"
  by (simp add: row_for_def new_row_def)

lemma map_filter_filter:
  "\<forall>r\<in>set rs. \<forall>m. f r = Some m \<longrightarrow> (P r \<longleftrightarrow> Q m) \<Longrightarrow>
     List.map_filter f (filter P rs) = filter Q (List.map_filter f rs)"
  by (induction rs) (auto simp: map_filter_simps split: option.split)

lemma map_filter_append [simp]: "List.map_filter f (xs @ ys) = List.map_filter f xs @ List.map_filter f ys"
  by (simp add: map_filter_def)

lemma sql_stored_filter:
  assumes "\<forall>r\<in>set (rows s). row_ok S r"
    "\<And>r m. r \<in> set (rows s) \<Longrightarrow> columns_of r = columns_of (row_for S [] m) \<Longrightarrow> row_message_id r = i \<Longrightarrow> P r \<longleftrightarrow> Q m"
  shows "sql_stored S (s\<lparr>rows := filter P (rows s)\<rparr>) i = filter Q (sql_stored S s i)"
  unfolding sql_stored_def
  using assms by (simp, intro map_filter_filter) (auto simp: row_json_def row_ok_def split: if_splits)

lemma sql_wf_filter: "sql_wf S s \<Longrightarrow> sql_wf S (s\<lparr>rows := filter P (rows s)\<rparr>)"
  by (simp add: sql_wf_def distinct_map_filter)

subsection \<open>Saving\<close>

lemma delete_rows_spec:
  "\<exists>ks'. set ks' \<subseteq> set ks \<and> snd (delete_rows E n ks s) = s\<lparr>rows := filter (\<lambda>r. row_id r \<notin> set ks') (rows s)\<rparr>
     \<and> (\<forall>m. fst (delete_rows E n ks s) = Ok m \<longrightarrow> set ks' = set ks)"
proof (induction ks arbitrary: n s)
  case Nil
  show ?case by simp
next
  case (Cons k ks)
  show ?case
  proof (cases "statement E n ()")
    case (Ok u)
    obtain ks' where ks': "set ks' \<subseteq> set ks"
      "snd (delete_rows E (Suc n) ks (delete_row k s)) = (delete_row k s)\<lparr>rows := filter (\<lambda>r. row_id r \<notin> set ks') (rows (delete_row k s))\<rparr>"
      "\<forall>m. fst (delete_rows E (Suc n) ks (delete_row k s)) = Ok m \<longrightarrow> set ks' = set ks"
      using Cons.IH by blast
    have "filter (\<lambda>r. row_id r \<notin> set ks') (rows (delete_row k s)) = filter (\<lambda>r. row_id r \<notin> set (k # ks')) (rows s)"
      by (simp add: delete_row_def conj_commute)
    with Ok ks' show ?thesis by (intro exI [of _ "k # ks'"]) (auto simp: delete_row_def)
  next
    case (Err e)
    then show ?thesis by (intro exI [of _ "[]"]) simp
  next
    case Panic
    then show ?thesis by (intro exI [of _ "[]"]) simp
  qed
qed

lemma delete_superseded_spec:
  assumes "distinct (map row_id (rows s))"
  shows "\<exists>P. snd (delete_messages_for_replace_if_present_flag E v s) = s\<lparr>rows := filter P (rows s)\<rparr>
    \<and> (\<forall>r\<in>set (rows s). \<not> superseded_row v r \<longrightarrow> P r)
    \<and> (\<forall>n. fst (delete_messages_for_replace_if_present_flag E v s) = Ok n \<longrightarrow> (\<forall>r\<in>set (rows s). P r \<longrightarrow> \<not> superseded_row v r))"
proof (cases "statement E 0 (map row_id (filter (superseded_row v) (rows s)))")
  case (Ok ks)
  then have ks: "ks = map row_id (filter (superseded_row v) (rows s))" by (simp add: statement_def split: option.splits)
  have hit: "row_id r \<in> set ks \<longleftrightarrow> superseded_row v r" if "r \<in> set (rows s)" for r
    using that assms unfolding ks by (auto simp: distinct_map inj_on_def)
  obtain ks' where "set ks' \<subseteq> set ks" "snd (delete_rows E 1 ks s) = s\<lparr>rows := filter (\<lambda>r. row_id r \<notin> set ks') (rows s)\<rparr>"
    "\<forall>m. fst (delete_rows E 1 ks s) = Ok m \<longrightarrow> set ks' = set ks"
    using delete_rows_spec by blast
  with hit show ?thesis
    unfolding delete_messages_for_replace_if_present_flag_def Ok outcome.case
    by (intro exI [of _ "\<lambda>r. row_id r \<notin> set ks'"]) auto
next
  case (Err e)
  then show ?thesis by (intro exI [of _ "\<lambda>_. True"]) (simp add: delete_messages_for_replace_if_present_flag_def)
next
  case Panic
  then show ?thesis by (intro exI [of _ "\<lambda>_. True"]) (simp add: delete_messages_for_replace_if_present_flag_def)
qed

lemma sql_insert_cases:
  obtains (saved) a b where "sql_insert S E n i v s
      = (Ok (), s\<lparr>rows := rows s @ [new_row S (next_row_id s) i v a b], next_row_id := Suc (next_row_id s)\<rparr>)"
    | (refused) "fst (sql_insert S E n i v s) \<noteq> Ok ()" "snd (sql_insert S E n i v s) = s"
proof (cases "sql_check_save E (sql_default_validity_period s) v")
  case (Ok p)
  then show ?thesis
    using saved refused by (cases p; cases "statement E n ()") (simp_all add: sql_insert_def)
qed (use refused in \<open>simp_all add: sql_insert_def\<close>)

lemma new_row_ok: "formats_ok S \<Longrightarrow> row_ok S (new_row S k i v a b)"
  by (simp add: row_ok_def formats_ok_def columns_of_def row_for_def new_row_def)

lemma sql_insert_wf:
  assumes "sql_wf S s" shows "sql_wf S (snd (sql_insert S E n i v s))"
proof (cases rule: sql_insert_cases [of S E n i v s])
  case (saved a b)
  with assms show ?thesis
    by (auto simp: sql_wf_def new_row_ok less_Suc_eq) (auto simp: new_row_def)
qed (use assms in simp)

lemma sql_insert_stored:
  assumes "sql_wf S s" "sql_insert S E n i v s = (Ok (), s')"
  shows "sql_stored S s' j = sql_stored S s j @ (if j = i then [v] else [])"
proof (cases rule: sql_insert_cases [of S E n i v s])
  case (saved a b)
  with assms show ?thesis
    by (auto simp: sql_stored_def row_json_def new_row_def sql_wf_def formats_ok_def map_filter_simps)
qed (use assms in simp)

lemma sql_save_spec:
  assumes "sql_wf S s"
  shows "\<exists>s1. sql_wf S s1 \<and>
    (\<forall>j. filter (\<lambda>x. \<not> sql_supersedes S v x) (sql_stored S s1 j) = filter (\<lambda>x. \<not> sql_supersedes S v x) (sql_stored S s j)) \<and>
    (\<forall>j. set (sql_stored S s1 j) \<subseteq> set (sql_stored S s j)) \<and>
    ((\<exists>n. sql_save S E i v s = sql_insert S E n i v s1 \<and>
        (\<forall>j. sql_stored S s1 j = filter (\<lambda>x. \<not> sql_supersedes S v x) (sql_stored S s j)))
     \<or> fst (sql_save S E i v s) \<noteq> Ok () \<and> snd (sql_save S E i v s) = s1)"
proof (cases "u8_field ''replace_if_present_flag'' v = 1")
  case False
  then have "\<not> sql_supersedes S v x" for x by (simp add: sql_supersedes_def)
  moreover have "sql_save S E i v s = sql_insert S E 0 i v s" using False by (simp add: sql_save_def)
  ultimately show ?thesis using assms by (intro exI [of _ s]) auto
next
  case True
  have wf: "distinct (map row_id (rows s))" "\<forall>r\<in>set (rows s). row_ok S r" using assms by (simp_all add: sql_wf_def)
  obtain P where P: "snd (delete_messages_for_replace_if_present_flag E v s) = s\<lparr>rows := filter P (rows s)\<rparr>"
    "\<forall>r\<in>set (rows s). \<not> superseded_row v r \<longrightarrow> P r"
    "\<forall>n. fst (delete_messages_for_replace_if_present_flag E v s) = Ok n \<longrightarrow> (\<forall>r\<in>set (rows s). P r \<longrightarrow> \<not> superseded_row v r)"
    using delete_superseded_spec [OF wf(1)] by blast
  let ?s1 = "s\<lparr>rows := filter P (rows s)\<rparr>"
  have sup: "superseded_row v r \<longleftrightarrow> sql_supersedes S v m" if "columns_of r = columns_of (row_for S [] m)" for r m
    using superseded_row_columns [OF that] True by (simp add: sql_supersedes_def)
  have keep: "filter (\<lambda>x. \<not> sql_supersedes S v x) (sql_stored S ?s1 j) = filter (\<lambda>x. \<not> sql_supersedes S v x) (sql_stored S s j)" for j
  proof -
    have "sql_stored S (?s1\<lparr>rows := filter (\<lambda>r. \<not> superseded_row v r) (rows ?s1)\<rparr>) j
        = filter (\<lambda>x. \<not> sql_supersedes S v x) (sql_stored S ?s1 j)"
      using wf(2) sup by (intro sql_stored_filter) auto
    moreover have "sql_stored S (s\<lparr>rows := filter (\<lambda>r. \<not> superseded_row v r) (rows s)\<rparr>) j
        = filter (\<lambda>x. \<not> sql_supersedes S v x) (sql_stored S s j)"
      using wf(2) sup by (intro sql_stored_filter) auto
    moreover have "filter (\<lambda>r. \<not> superseded_row v r \<and> P r) (rows s) = filter (\<lambda>r. \<not> superseded_row v r) (rows s)"
      using P(2) by (intro filter_cong) auto
    ultimately show ?thesis by (simp add: conj_commute)
  qed
  have sub: "set (sql_stored S ?s1 j) \<subseteq> set (sql_stored S s j)" for j
    by (auto simp: sql_stored_def map_filter_def)
  show ?thesis
  proof (cases "fst (delete_messages_for_replace_if_present_flag E v s)")
    case (Ok n)
    then have "delete_messages_for_replace_if_present_flag E v s = (Ok n, ?s1)" using P(1) by (simp add: prod_eq_iff)
    then have "sql_save S E i v s = sql_insert S E n i v ?s1" using True by (simp add: sql_save_def)
    moreover have "sql_stored S ?s1 j = filter (\<lambda>x. \<not> sql_supersedes S v x) (sql_stored S s j)" for j
      using P(2,3) Ok sup wf(2) by (intro sql_stored_filter) auto
    ultimately show ?thesis using keep sub sql_wf_filter [OF assms, of P] by (intro exI [of _ ?s1]) blast
  next
    case (Err e)
    then have "delete_messages_for_replace_if_present_flag E v s = (Err e, ?s1)" using P(1) by (simp add: prod_eq_iff)
    then have "fst (sql_save S E i v s) \<noteq> Ok () \<and> snd (sql_save S E i v s) = ?s1" using True by (simp add: sql_save_def)
    then show ?thesis using keep sub sql_wf_filter [OF assms, of P] by (intro exI [of _ ?s1]) blast
  next
    case Panic
    then have "delete_messages_for_replace_if_present_flag E v s = (Panic, ?s1)" using P(1) by (simp add: prod_eq_iff)
    then have "fst (sql_save S E i v s) \<noteq> Ok () \<and> snd (sql_save S E i v s) = ?s1" using True by (simp add: sql_save_def)
    then show ?thesis using keep sub sql_wf_filter [OF assms, of P] by (intro exI [of _ ?s1]) blast
  qed
qed

lemma sql_insert_refused_stored:
  "fst (sql_insert S E n i v s) \<noteq> Ok () \<Longrightarrow> snd (sql_insert S E n i v s) = s"
  by (cases rule: sql_insert_cases [of S E n i v s]) simp_all

lemma sql_save_wf: "sql_wf S s \<Longrightarrow> sql_wf S (snd (sql_save S E i v s))"
  using sql_save_spec [of S s v E i] sql_insert_wf by metis

lemma sql_save_stored:
  assumes "sql_wf S s" "sql_save S E i v s = (Ok (), s')"
  shows "sql_stored S s' j = filter (\<lambda>x. \<not> sql_supersedes S v x) (sql_stored S s j) @ (if j = i then [v] else [])"
proof -
  obtain s1 n where "sql_wf S s1" "sql_save S E i v s = sql_insert S E n i v s1"
    "\<forall>j. sql_stored S s1 j = filter (\<lambda>x. \<not> sql_supersedes S v x) (sql_stored S s j)"
    using sql_save_spec [OF assms(1), of v E i] assms(2) by force
  with assms(2) sql_insert_stored show ?thesis by metis
qed

lemma sql_save_refused:
  assumes "sql_wf S s" "fst (sql_save S E i v s) \<noteq> Ok ()"
  shows "filter (\<lambda>x. \<not> sql_supersedes S v x) (sql_stored S (snd (sql_save S E i v s)) j)
    = filter (\<lambda>x. \<not> sql_supersedes S v x) (sql_stored S s j)"
  using sql_save_spec [OF assms(1), of v E i] assms(2) sql_insert_refused_stored by metis

subsection \<open>Cancelling\<close>

lemma sql_cancel_stored:
  assumes "sql_wf S s" "sql_cancel_message E v s = (Ok b, s')"
  shows "sql_stored S s' j = filter (\<lambda>x. \<not> sql_cancels S v j x) (sql_stored S s j)"
    "b = (\<exists>j x. x \<in> set (sql_stored S s j) \<and> sql_cancels S v j x)"
proof -
  have wf: "\<forall>r\<in>set (rows s). row_ok S r" using assms(1) by (simp add: sql_wf_def)
  have nq: "\<not> no_query_fields v" using assms(2) by (auto simp: sql_cancel_message_def)
  have can: "cancelled_row v r \<longleftrightarrow> sql_cancels S v j m"
    if "columns_of r = columns_of (row_for S [] m)" "row_message_id r = j" for r m j
    using cancelled_row_columns [of r "row_for S j m" v] that columns_row_for [of S j m "[]"] nq
    by (simp add: sql_cancels_def)
  have s': "s' = s\<lparr>rows := filter (\<lambda>r. \<not> cancelled_row v r) (rows s)\<rparr>" "b = (filter (cancelled_row v) (rows s) \<noteq> [])"
    using assms(2) nq by (auto simp: sql_cancel_message_def split: outcome.splits)
  show "sql_stored S s' j = filter (\<lambda>x. \<not> sql_cancels S v j x) (sql_stored S s j)"
    unfolding s'(1) using wf can by (intro sql_stored_filter) auto
  have "b \<longleftrightarrow> (\<exists>r\<in>set (rows s). cancelled_row v r)" by (auto simp: s'(2) filter_empty_conv)
  also have "\<dots> \<longleftrightarrow> (\<exists>j x. x \<in> set (sql_stored S s j) \<and> sql_cancels S v j x)"
  proof
    assume "\<exists>r\<in>set (rows s). cancelled_row v r"
    then obtain r where r: "r \<in> set (rows s)" "cancelled_row v r" by blast
    with wf obtain m where m: "parse_json S (row_message r) = Some m" "columns_of r = columns_of (row_for S [] m)"
      by (force simp: row_ok_def split: option.splits)
    then have "m \<in> set (sql_stored S s (row_message_id r))"
      using r(1) by (force simp: sql_stored_def map_filter_def row_json_def)
    with can [OF m(2) refl] r(2) show "\<exists>j x. x \<in> set (sql_stored S s j) \<and> sql_cancels S v j x" by blast
  next
    assume "\<exists>j x. x \<in> set (sql_stored S s j) \<and> sql_cancels S v j x"
    then obtain j x where x: "x \<in> set (sql_stored S s j)" "sql_cancels S v j x" by blast
    then obtain r where r: "r \<in> set (rows s)" "row_message_id r = j" "parse_json S (row_message r) = Some x"
      by (auto simp: sql_stored_def map_filter_def row_json_def split: if_splits)
    with wf have "columns_of r = columns_of (row_for S [] x)" by (force simp: row_ok_def)
    with can r x(2) show "\<exists>r\<in>set (rows s). cancelled_row v r" by blast
  qed
  finally show "b = (\<exists>j x. x \<in> set (sql_stored S s j) \<and> sql_cancels S v j x)" .
qed

lemma sql_cancel_wf: "sql_wf S s \<Longrightarrow> sql_wf S (snd (sql_cancel_message E v s))"
  by (simp add: sql_cancel_message_def sql_wf_filter split: outcome.split)

lemma sql_cancel_refused: "fst (sql_cancel_message E v s) = Err e \<Longrightarrow> snd (sql_cancel_message E v s) = s"
  by (auto simp: sql_cancel_message_def split: outcome.splits if_splits)

lemma sql_cancel_total: "fst (sql_cancel_message E v s) \<noteq> Panic"
  by (simp add: sql_cancel_message_def statement_def split: option.split)

interpretation sql: message_store "sql_stored S" "sql_save S" sql_cancel_message "sql_wf S"
    "sql_supersedes S" "sql_cancels S" "\<lambda>_ _. True" for S
  by unfold_locales
    (simp_all add: sql_save_wf sql_cancel_wf sql_save_stored sql_save_refused sql_cancel_stored sql_cancel_refused sql_cancel_total)

end
