(* ===== verification/Server_State.thy ===== *)
theory Server_State
  imports Actions Access Ids Message_Handler Connections Transactions Sql_Storage Command_Status Message_Laws
begin

text \<open>
  The state that a connection of the SMSC server works on and the environment that answers its
  calls.  What the server shares between its connections
  (identifiers, sequence numbers, pending messages, registered clients, waiting transactions)
  and the octets written to the peer are members of one record.
\<close>

section \<open>Pending messages\<close>

datatype pending_store = MemoryStore InMemoryMessageStorage | SqlStore SqlMessageStorage

text \<open>
  What a storage is asked with: calendar and clock, the text formats, the outcome of SQL
  statements, and the order in which a hash map lists its keys.
\<close>

record store_env =
  st_chrono :: chrono
  st_now :: instant
  st_formats :: sql_formats
  st_error :: "nat \<Rightarrow> string option"
  st_order :: "(string \<rightharpoonup> stored_message list) \<Rightarrow> string list"

definition st_sql :: "store_env \<Rightarrow> sql_env" where
  "st_sql E = \<lparr>env_chrono = st_chrono E, env_now = st_now E, env_error = st_error E\<rparr>"

definition store_save :: "store_env \<Rightarrow> string \<Rightarrow> json \<Rightarrow> pending_store \<Rightarrow> unit io \<times> pending_store" where
  "store_save E i v p =
     (case p of
        MemoryStore s \<Rightarrow> map_prod id MemoryStore (im_save (st_chrono E, st_now E) i v s)
      | SqlStore s \<Rightarrow> map_prod id SqlStore (sql_save (st_formats E) (st_sql E) i v s))"

definition store_cancel :: "store_env \<Rightarrow> json \<Rightarrow> pending_store \<Rightarrow> bool io \<times> pending_store" where
  "store_cancel E v p =
     (case p of
        MemoryStore s \<Rightarrow> map_prod id MemoryStore (im_cancel_message (st_order E (messages s)) v s)
      | SqlStore s \<Rightarrow> map_prod id SqlStore (sql_cancel_message (st_sql E) v s))"

definition store_replace :: "store_env \<Rightarrow> json \<Rightarrow> pending_store \<Rightarrow> bool io \<times> pending_store" where
  "store_replace E v p =
     (case p of
        MemoryStore s \<Rightarrow> map_prod id MemoryStore (im_replace_message (st_chrono E, st_now E) v s)
      | SqlStore s \<Rightarrow> map_prod id SqlStore (sql_replace_message (st_formats E) (st_sql E) v s))"

definition stored_under :: "sql_formats \<Rightarrow> pending_store \<Rightarrow> string \<Rightarrow> json list" where
  "stored_under S p i = (case p of MemoryStore s \<Rightarrow> im_stored s i | SqlStore s \<Rightarrow> sql_stored S s i)"

section \<open>Environment and state of a connection\<close>

text \<open>
  \<open>e_write n\<close> tells whether the \<open>n\<close>-th write to the peer succeeds, \<open>e_client_write w d\<close> whether
  the octets \<open>d\<close> can be written to client \<open>w\<close>, \<open>e_ids n\<close> answers the \<open>n\<close>-th request for an
  identifier, \<open>e_handler n\<close> the HTTP requests of the \<open>n\<close>-th message passed to the handler, and
  \<open>e_await s\<close> is what waiting for the response to sequence number \<open>s\<close> gives.
\<close>

record server_env =
  e_base64 :: base64
  e_tlvs :: "TLVFieldCodec list"
  e_overflow_checks :: bool
  e_config :: ServerConfig
  e_interface_version :: u8
  e_auth :: UserAuthentication
  e_auth_post :: "string \<Rightarrow> json \<Rightarrow> http_result"
  e_handler :: "nat \<Rightarrow> http_poster"
  e_ids :: "nat \<Rightarrow> id_env"
  e_store :: store_env
  e_distribution :: DistrubutionList
  e_compile :: "string \<Rightarrow> (string \<Rightarrow> bool) option"
  e_peer :: string
  e_writer :: nat
  e_write :: "nat \<Rightarrow> bool"
  e_client_write :: "nat \<Rightarrow> bytes \<Rightarrow> bool"
  e_client_order :: "(string \<rightharpoonup> (string \<Rightarrow> bool) \<times> nat) \<Rightarrow> string list"
  e_await :: "u32 \<Rightarrow> json option"

record server_state =
  v_ids :: MessageIdGenerator
  v_id_count :: nat
  v_seq :: SequenceNumberAllocator
  v_store :: pending_store
  v_handler :: message_handler
  v_handled :: nat
  v_clients :: ClientManager
  v_transactions :: TransactionResponseManager
  v_sent :: "bytes list"
  v_writes :: nat
  v_closed :: bool
  v_forwarded :: "(nat \<times> bytes) list"
  v_spawned :: "json list"
  v_enquire_tasks :: nat

type_synonym 'a server_action = "(server_state, 'a) action"

section \<open>Elementary actions\<close>

text \<open>\<^verbatim>\<open>SmscServerConnection::send\<close>.\<close>

definition server_send :: "server_env \<Rightarrow> bytes \<Rightarrow> unit server_action" where
  "server_send E d s =
     (let s' = s\<lparr>v_writes := Suc (v_writes s)\<rparr> in
      if e_write E (v_writes s) then (Ok (), s'\<lparr>v_sent := v_sent s' @ [d]\<rparr>)
      else (Err (IoError Other ''write failed''), s'))"

text \<open>\<^verbatim>\<open>SmscServerConnection::close\<close>: the shutdown of the socket.\<close>

definition server_close :: "server_env \<Rightarrow> unit server_action" where
  "server_close E s =
     (let s' = s\<lparr>v_writes := Suc (v_writes s), v_closed := True\<rparr> in
      if e_write E (v_writes s) then (Ok (), s') else (Err (IoError Other ''shutdown failed''), s'))"

text \<open>\<^verbatim>\<open>from_json(v).map_or(vec![], |v| v.to_vec())\<close>.\<close>

definition encode_or_empty :: "server_env \<Rightarrow> json \<Rightarrow> bytes io" where
  "encode_or_empty E v =
     (case from_json (e_base64 E) (e_tlvs E) v of
        Ok m \<Rightarrow> Ok (message m) | Err _ \<Rightarrow> Ok [] | Panic \<Rightarrow> Panic)"

definition send_response :: "server_env \<Rightarrow> string \<Rightarrow> json \<Rightarrow> unit server_action" where
  "send_response E what v =
     act_bind (act_io (encode_or_empty E v)) (\<lambda>d. act_map_err (io_error_text what) (server_send E d))"

definition next_message_id :: "server_env \<Rightarrow> string server_action" where
  "next_message_id E s =
     (case generate (e_ids E (v_id_count s)) ''msg-'' (v_ids s) of
        Ok (i, g) \<Rightarrow> (Ok i, s\<lparr>v_ids := g, v_id_count := Suc (v_id_count s)\<rparr>)
      | _ \<Rightarrow> (Panic, s))"

definition next_sequence_number :: "u32 server_action" where
  "next_sequence_number s =
     (case allocator_next (v_seq s) of (n, q) \<Rightarrow> (Ok n, s\<lparr>v_seq := q\<rparr>))"

definition handler_call :: "server_env \<Rightarrow> json \<Rightarrow> json server_action" where
  "handler_call E v s =
     (case handle_message (e_handler E (v_handled s)) v (v_handler s) of
        (r, h) \<Rightarrow> (r, s\<lparr>v_handler := h, v_handled := Suc (v_handled s)\<rparr>))"

definition pending_save :: "server_env \<Rightarrow> string \<Rightarrow> json \<Rightarrow> unit server_action" where
  "pending_save E i v s = map_prod id (\<lambda>p. s\<lparr>v_store := p\<rparr>) (store_save (e_store E) i v (v_store s))"

definition pending_cancel :: "server_env \<Rightarrow> json \<Rightarrow> bool server_action" where
  "pending_cancel E v s = map_prod id (\<lambda>p. s\<lparr>v_store := p\<rparr>) (store_cancel (e_store E) v (v_store s))"

definition pending_replace :: "server_env \<Rightarrow> json \<Rightarrow> bool server_action" where
  "pending_replace E v s = map_prod id (\<lambda>p. s\<lparr>v_store := p\<rparr>) (store_replace (e_store E) v (v_store s))"

definition status :: "CommandStatus \<Rightarrow> u32" where
  "status c = CommandStatus_as_u32 c"

end
