(* ===== verification/Smsc_Server.thy ===== *)
theory Smsc_Server
  imports Server_State
begin

text \<open>
  The requests of a client to the SMSC server (\<^verbatim>\<open>smsc_server/smsc_server.rs\<close>):
  \<^verbatim>\<open>SmscServerConnection::handle_message\<close> with every handler it dispatches to, the delivery of
  scheduled messages and the REST request of \<^verbatim>\<open>SmscServer\<close>.
\<close>

section \<open>Forwarding to clients\<close>

text \<open>Encoding the message is unwrapped: a message that cannot be encoded panics.\<close>

definition forward_message_to_client :: "server_env \<Rightarrow> json \<Rightarrow> unit server_action" where
  "forward_message_to_client E v s =
     (case get_str ''destination_addr'' v of
        Some dest \<Rightarrow>
          (case from_json (e_base64 E) (e_tlvs E) v of
             Ok m \<Rightarrow>
               (case client_send_message (e_client_write E) (e_client_order E (clients (v_clients s))) dest (message m) (v_clients s) of
                  Ok w \<Rightarrow> (Ok (), s\<lparr>v_forwarded := v_forwarded s @ [(w, message m)]\<rparr>)
                | _ \<Rightarrow> (Ok (), s))
           | _ \<Rightarrow> (Panic, s))
      | None \<Rightarrow> (Ok (), s))"

text \<open>The message as it is forwarded: a \<^verbatim>\<open>deliver_sm\<close> with a sequence number of the server.\<close>

definition as_deliver_sm :: "u32 \<Rightarrow> json \<Rightarrow> json" where
  "as_deliver_sm seq v =
     obj_replace ''sequence_number'' (jnum seq)
       (obj_replace ''command_id'' (jnum (CommandId_as_u32 DeliverSm)) v)"

section \<open>Links and binds\<close>

definition handle_enquire_link :: "server_env \<Rightarrow> u32 \<Rightarrow> u32 \<Rightarrow> unit server_action" where
  "handle_enquire_link E command_id seq =
     send_response E ''Failed to send enquire link response: '' (create_json_response command_id seq (status EsmeRok) [])"

text \<open>One tick of \<^verbatim>\<open>start_enquire_link_task\<close>.\<close>

definition enquire_link_tick :: "server_env \<Rightarrow> unit server_action" where
  "enquire_link_tick E =
     act_bind next_sequence_number (\<lambda>seq.
     act_bind (act_io (encode_or_empty E (create_json_request (CommandId_as_u32 EnquireLink) seq []))) (\<lambda>d.
     server_send E d))"

definition bind_response :: "server_env \<Rightarrow> u32 \<Rightarrow> u32 \<Rightarrow> json \<Rightarrow> bool \<Rightarrow> json" where
  "bind_response E command_id seq v authentic =
     create_json_response command_id seq (status (if authentic then EsmeRok else EsmeRBindFail))
       [(''system_id'', JString (str_or_empty ''system_id'' v)),
        (''sc_interface_version'', jnum (e_interface_version E))]"

definition handle_bind :: "server_env \<Rightarrow> u32 \<Rightarrow> u32 \<Rightarrow> json \<Rightarrow> unit server_action" where
  "handle_bind E command_id seq v s =
     (let authentic = authenticate (e_auth_post E) (e_auth E) (str_or_empty ''system_id'' v) (str_or_empty ''password'' v)
      in act_bind (act_io (encode_or_empty E (bind_response E command_id seq v authentic)))
           (\<lambda>d s. act_map_err (io_error_text ''Failed to send bind response: '') (server_send E d)
              (if authentic then s\<lparr>v_enquire_tasks := Suc (v_enquire_tasks s)\<rparr> else s)) s)"

definition register_client :: "server_env \<Rightarrow> json \<Rightarrow> unit server_action" where
  "register_client E v s =
     (Ok (), s\<lparr>v_clients := add_client (e_compile E) (e_peer E) (str_or_empty ''address_range'' v) (e_writer E) (v_clients s)\<rparr>)"

definition handle_unbind :: "server_env \<Rightarrow> u32 \<Rightarrow> u32 \<Rightarrow> unit server_action" where
  "handle_unbind E command_id seq =
     act_bind (send_response E ''Failed to send unbind response: '' (create_json_response command_id seq (status EsmeRok) []))
       (\<lambda>_. act_map_err (io_error_text ''Failed to close connection: '') (server_close E))"

section \<open>Preparing a submitted message\<close>

definition replace_sm_default_msg_id :: "server_env \<Rightarrow> json \<Rightarrow> json io" where
  "replace_sm_default_msg_id E v =
     (let n = u64_or 0 ''sm_default_msg_id'' v in
      if n = 0 then Ok v
      else case get_predefined_message (e_overflow_checks E) (e_config E) (unat n) of
             Ok (Some msg) \<Rightarrow> replace_message_with_predefined msg (obj_replace ''sm_default_msg_id'' (jnum (0 :: u64)) v)
           | Ok None \<Rightarrow> Ok v
           | _ \<Rightarrow> Panic)"

definition set_service_type :: "server_env \<Rightarrow> json \<Rightarrow> json" where
  "set_service_type E v =
     (if str_or_empty ''service_type'' v = [] \<and> get_default_service_type (e_config E) \<noteq> []
      then obj_replace ''service_type'' (JString (get_default_service_type (e_config E))) v
      else v)"

definition get_message_mode :: "server_env \<Rightarrow> json \<Rightarrow> MessageMode" where
  "get_message_mode E v =
     (let e = (case EsmClass_from_u8 (u8_field ''esm_class'' v) of Some e \<Rightarrow> e | None \<Rightarrow> EsmClass_default)
      in case message_mode e of MM_Default \<Rightarrow> get_default_mc_mode (e_config E) | m \<Rightarrow> m)"

section \<open>Ways of delivering\<close>

definition extract_tlv_fields :: "json \<Rightarrow> (string \<times> json) list" where
  "extract_tlv_fields response =
     (case response of JObject m \<Rightarrow> filter (\<lambda>p. is_valid_tlv_field (fst p)) m | _ \<Rightarrow> [])"

definition id_field :: "string \<Rightarrow> (string \<times> json) list" where
  "id_field i = [(''message_id'', JString i)]"

definition process_local_data_submit_message :: "server_env \<Rightarrow> u32 \<Rightarrow> u32 \<Rightarrow> json \<Rightarrow> bytes server_action" where
  "process_local_data_submit_message E command_id seq v =
     act_bind (act_match (handler_call E v)
        (\<lambda>value. act_return (create_json_response command_id seq (status EsmeRok)
           (id_field (str_or_empty ''message_id'' value) @ extract_tlv_fields value)))
        (\<lambda>_. act_bind (next_message_id E) (\<lambda>i.
           act_return (create_json_response command_id seq (status EsmeRUnknownErr) (id_field i))))) (\<lambda>response.
     act_match (act_io (from_json (e_base64 E) (e_tlvs E) response))
       (\<lambda>m. act_return (message m))
       (\<lambda>_. act_bind (next_message_id E) (\<lambda>i.
          act_io (encode_or_empty E (create_json_response command_id seq (status EsmeRUnknownErr)
            (id_field i @ [(''command_status'', jnum (status EsmeRUnknownErr))]))))))"

text \<open>
  The three modes answer with a response, which the source wraps in \<^verbatim>\<open>Ok\<close> or \<^verbatim>\<open>Err\<close>; here the
  flag tells which.  Forwarding in datagram mode is left to a spawned task.
\<close>

definition send_message_in_datagram_mode :: "server_env \<Rightarrow> u32 \<Rightarrow> u32 \<Rightarrow> string \<Rightarrow> json \<Rightarrow> (bool \<times> json) server_action" where
  "send_message_in_datagram_mode E command_id seq i v =
     act_bind next_sequence_number (\<lambda>n s.
       (Ok (True, create_json_response command_id seq (status EsmeRok) (id_field i)),
        s\<lparr>v_spawned := v_spawned s @ [as_deliver_sm n v]\<rparr>))"

definition transaction_result :: "server_env \<Rightarrow> u32 \<Rightarrow> u32 \<Rightarrow> string \<Rightarrow> u32 \<Rightarrow> bool \<times> json" where
  "transaction_result E command_id seq i n =
     (case e_await E n of
        Some response \<Rightarrow>
          (let st = (ucast (u64_or (ucast (status EsmeRUnknownErr)) ''command_status'' response) :: u32) in
           (st = status EsmeRok, create_json_response command_id seq st (id_field i)))
      | None \<Rightarrow> (False, create_json_response command_id seq (status EsmeRSubmitFail) (id_field i)))"

definition send_message_in_transaction_mode :: "server_env \<Rightarrow> u32 \<Rightarrow> u32 \<Rightarrow> string \<Rightarrow> json \<Rightarrow> (bool \<times> json) server_action" where
  "send_message_in_transaction_mode E command_id seq i v =
     act_bind next_sequence_number (\<lambda>n.
     act_match (forward_message_to_client E (as_deliver_sm n v))
       (\<lambda>_. act_return (transaction_result E command_id seq i n))
       (\<lambda>_. act_return (False, create_json_response command_id seq (status EsmeRUnknownErr) (id_field i))))"

definition store_check :: "server_env \<Rightarrow> json \<Rightarrow> (CommandStatus \<times> string) option io" where
  "store_check E v =
     (let C = st_chrono (e_store E); now = st_now (e_store E) in
      try_ok (time_or_none (get_schedule_delivery_time C now v)) (\<lambda>schedule.
      if schedule \<noteq> None \<and> the schedule < now then Ok (Some (EsmeRInvSched, ''invalid-schedule-delivery-time''))
      else try_ok (time_or_none (get_validity_period C now v (get_default_validity_period (e_config E)))) (\<lambda>validity.
      if validity \<noteq> None \<and> the validity < now then Ok (Some (EsmeRInvExpiry, ''invalid-validity-period''))
      else if schedule \<noteq> None \<and> validity \<noteq> None \<and> the schedule > the validity
      then Ok (Some (EsmeRInvSched, ''schedule-delivery-time-after-validity-period''))
      else Ok None)))"

definition store_and_forward_message :: "server_env \<Rightarrow> u32 \<Rightarrow> u32 \<Rightarrow> string \<Rightarrow> json \<Rightarrow> (bool \<times> json) server_action" where
  "store_and_forward_message E command_id seq i v =
     act_bind (act_io (store_check E v)) (\<lambda>r.
     case r of
       Some (st, text) \<Rightarrow> act_return (False, create_json_response command_id seq (status st) (id_field text))
     | None \<Rightarrow>
         act_match (pending_save E i v)
           (\<lambda>_. act_return (True, create_json_response command_id seq (status EsmeRok) (id_field i)))
           (\<lambda>_. act_return (False, create_json_response command_id seq (status EsmeRUnknownErr) (id_field ''fail-to-store''))))"

section \<open>Submitting\<close>

definition dispatch_mode :: "server_env \<Rightarrow> MessageMode \<Rightarrow> u32 \<Rightarrow> u32 \<Rightarrow> string \<Rightarrow> json \<Rightarrow> (bool \<times> json) server_action" where
  "dispatch_mode E mode command_id seq i v =
     (case mode of
        MM_Datagram \<Rightarrow> send_message_in_datagram_mode E command_id seq i v
      | MM_Transaction \<Rightarrow> send_message_in_transaction_mode E command_id seq i v
      | MM_StoreAndForward \<Rightarrow> store_and_forward_message E command_id seq i v
      | _ \<Rightarrow> act_return (True, create_json_response command_id seq (status EsmeRok) (id_field i)))"

definition handle_data_submit_sm :: "server_env \<Rightarrow> u32 \<Rightarrow> u32 \<Rightarrow> json \<Rightarrow> unit server_action" where
  "handle_data_submit_sm E command_id seq v =
     act_bind (next_message_id E) (\<lambda>i.
     act_bind (act_io (replace_sm_default_msg_id E v)) (\<lambda>v.
     act_bind next_sequence_number (\<lambda>n s.
       let v = obj_insert ''sequence_number'' (jnum n) (set_service_type E v) in
       (if is_my_request_address (v_handler s) (str_or_empty ''destination_addr'' v)
        then act_bind (process_local_data_submit_message E command_id seq v)
               (\<lambda>d. act_map_err (io_error_text ''Failed to send response: '') (server_send E d))
        else act_bind (dispatch_mode E (get_message_mode E v) command_id seq i v)
               (\<lambda>r. send_response E ''Failed to send response: '' (snd r))) s)))"

definition multi_fields :: "string list" where
  "multi_fields = [''service_type'', ''source_addr_ton'', ''source_addr_npi'', ''source_addr'', ''esm_class'',
     ''protocol_id'', ''priority_flag'', ''schedule_delivery_time'', ''validity_period'', ''registered_delivery'',
     ''replace_if_present_flag'', ''data_coding'', ''sm_default_msg_id'', ''short_message'']"

definition create_submit_sm_from_submit_multi :: "json \<Rightarrow> Address \<Rightarrow> json" where
  "create_submit_sm_from_submit_multi v a =
     jobject ([(''command_id'', jnum (CommandId_as_u32 SubmitSm)),
       (''sequence_number'', case jget ''sequence_number'' v of Some n \<Rightarrow> n | None \<Rightarrow> jnum (0 :: u64)),
       (''command_status'', jnum (0 :: u64)), (''dest_addr_ton'', jnum (ton a)), (''dest_addr_npi'', jnum (npi a)),
       (''destination_addr'', JString (address a))]
      @ List.map_filter (\<lambda>k. map_option (Pair k) (jget k v)) multi_fields)"

text \<open>
  One destination of a \<^verbatim>\<open>submit_multi\<close>; the result tells whether it counts as failed.
\<close>

definition submit_multi_one :: "server_env \<Rightarrow> MessageMode \<Rightarrow> u32 \<Rightarrow> u32 \<Rightarrow> string \<Rightarrow> json \<Rightarrow> Address \<Rightarrow> bool server_action" where
  "submit_multi_one E mode command_id seq i v a =
     act_bind next_sequence_number (\<lambda>n s.
       let sm = obj_insert ''sequence_number'' (jnum n) (create_submit_sm_from_submit_multi v a) in
       (if is_my_request_address (v_handler s) (address a)
        then act_match (process_local_data_submit_message E (CommandId_as_u32 SubmitSm) seq sm)
               (\<lambda>_. act_return False) (\<lambda>_. act_return True)
        else act_bind
          (case mode of
             MM_Datagram \<Rightarrow> send_message_in_datagram_mode E command_id seq i sm
           | MM_Transaction \<Rightarrow> send_message_in_transaction_mode E command_id seq i sm
           | _ \<Rightarrow> store_and_forward_message E (CommandId_as_u32 SubmitSm) seq i sm)
          (\<lambda>r. act_return (\<not> fst r))) s)"

fun submit_multi_all :: "(Address \<Rightarrow> bool server_action) \<Rightarrow> Address list \<Rightarrow> Address list server_action" where
  "submit_multi_all one [] = act_return []"
| "submit_multi_all one (a # as) =
     act_bind (one a) (\<lambda>failed.
     act_bind (submit_multi_all one as) (\<lambda>rest. act_return (if failed then a # rest else rest)))"

definition unsuccess_sme :: "Address \<Rightarrow> json" where
  "unsuccess_sme a =
     jobject [(''dest_addr_ton'', jnum (ton a)), (''dest_addr_npi'', jnum (npi a)),
       (''destination_addr'', JString (address a)), (''error_status_code'', jnum (status EsmeRUnknownErr))]"

definition submit_multi_response :: "u32 \<Rightarrow> string \<Rightarrow> Address list \<Rightarrow> json" where
  "submit_multi_response seq i failed =
     create_json_response (CommandId_as_u32 SubmitMulti) seq (status (if failed = [] then EsmeRok else EsmeRUnknownErr))
       (id_field i @ [(''unsuccess_smes'', JArray (map unsuccess_sme failed))])"

definition handle_submit_multi :: "server_env \<Rightarrow> u32 \<Rightarrow> u32 \<Rightarrow> json \<Rightarrow> unit server_action" where
  "handle_submit_multi E command_id seq v =
     act_bind (next_message_id E) (\<lambda>i.
     act_bind (act_io (replace_sm_default_msg_id E v)) (\<lambda>v'.
     let v2 = set_service_type E v' in
     act_bind (case extract_destionation_addresses v2 (e_distribution E) of
         Ok as \<Rightarrow> submit_multi_all (submit_multi_one E (get_message_mode E v) command_id seq i v2) as
       | _ \<Rightarrow> act_return []) (\<lambda>failed.
     act_bind (act_io (encode_or_empty E (submit_multi_response seq i failed))) (\<lambda>d s.
       (case server_send E d s of
          (Ok _, s') \<Rightarrow> (Ok (), s')
        | (_, s') \<Rightarrow> (Panic, s'))))))"

section \<open>Dispatch\<close>

definition failed_to_send :: string where
  "failed_to_send = ''Failed to send response: ''"

definition query_sm_response :: "u32 \<Rightarrow> u32 \<Rightarrow> json \<Rightarrow> json" where
  "query_sm_response command_id seq v =
     create_json_response command_id seq (status EsmeRQueryFail)
       [(''message_id'', JString (str_or_empty ''message_id'' v)), (''final_date'', JString []),
        (''message_state'', jnum (5 :: u64)), (''error_code'', jnum (0 :: u64))]"

text \<open>Errors of the storage count as a refusal.\<close>

definition act_or_false :: "bool server_action \<Rightarrow> bool server_action" where
  "act_or_false m = act_match m act_return (\<lambda>_. act_return False)"

definition server_handle_message :: "server_env \<Rightarrow> json \<Rightarrow> unit server_action" where
  "server_handle_message E v =
     (let seq = (ucast (u64_or 0 ''sequence_number'' v) :: u32) in
      case extract_command_id v of
        None \<Rightarrow> act_return ()
      | Some c \<Rightarrow>
          let command_id = CommandId_as_u32 c;
              answer = (\<lambda>st. send_response E failed_to_send (create_json_response command_id seq (status st) []))
          in
          if c \<in> set [BindTransmitter, BindReceiver, BindTransceiver]
          then act_match (handle_bind E command_id seq v) (\<lambda>_. register_client E v) (\<lambda>_. act_return ())
          else if c = Unbind then handle_unbind E command_id seq
          else if c = SubmitSm then handle_data_submit_sm E command_id seq v
          else if c = SubmitMulti then handle_submit_multi E command_id seq v
          else if c = DataSm then handle_data_submit_sm E command_id seq v
          else if c = QuerySm then send_response E failed_to_send (query_sm_response command_id seq v)
          else if c = CancelSm
          then act_bind (act_or_false (pending_cancel E v)) (\<lambda>r. answer (if r then EsmeRok else EsmeRCancelFail))
          else if c = ReplaceSm
          then act_bind (act_or_false (pending_replace E v)) (\<lambda>r. answer (if r then EsmeRok else EsmeRReplaceFail))
          else if c = BroadcastSm then answer EsmeRBcastFail
          else if c = QueryBroadcastSm then answer EsmeRBcastQueryFail
          else if c = CancelBroadcastSm then answer EsmeRBcastCancelFail
          else if c = EnquireLink then handle_enquire_link E command_id seq
          else if c = EnquireLinkResp then act_return ()
          else if c = DeliverSmResp
          then (\<lambda>s. (Ok (), s\<lparr>v_transactions := transaction_response_received seq v (v_transactions s)\<rparr>))
          else if CommandId_is_request c then answer EsmeRInvCmdId
          else act_return ())"

section \<open>The server\<close>

definition handle_schedule_delivery_message :: "server_env \<Rightarrow> json \<Rightarrow> unit server_action" where
  "handle_schedule_delivery_message E v =
     (case extract_command_id v of
        Some c \<Rightarrow>
          if c = SubmitSm \<or> c = DataSm
          then act_bind next_sequence_number (\<lambda>n.
                 act_match (forward_message_to_client E (as_deliver_sm n v)) act_return (\<lambda>_. act_return ()))
          else act_return ()
      | None \<Rightarrow> act_return ())"

text \<open>\<^verbatim>\<open>handle_rest_request\<close>: a \<^verbatim>\<open>deliver_sm\<close> is sent to a client, and the answer does not depend on it.\<close>

definition handle_rest_request :: "server_env \<Rightarrow> json \<Rightarrow> json server_action" where
  "handle_rest_request E payload s =
     (case from_json (e_base64 E) (e_tlvs E) payload of
        Ok m \<Rightarrow>
          (Ok (jobject [(''status'', JString ''ok''), (''message'', JString ''SMPP message received'')]),
           if Option.bind (get_command_id m) CommandId_from_u32 = Some DeliverSm
           then (case client_send_message (e_client_write E) (e_client_order E (clients (v_clients s)))
                    (case get_str ''destination_addr'' payload of Some a \<Rightarrow> a | None \<Rightarrow> ''unknown'') (message m) (v_clients s) of
                   Ok w \<Rightarrow> s\<lparr>v_forwarded := v_forwarded s @ [(w, message m)]\<rparr>
                 | _ \<Rightarrow> s)
           else s)
      | Err e \<Rightarrow>
          (Ok (jobject [(''status'', JString ''error''),
             (''message'', JString (''Failed to decode SMPP message: '' @ (case e of IoError _ t \<Rightarrow> t)))]), s)
      | Panic \<Rightarrow> (Panic, s))"

end
