(* ===== verification/Memory_Delivery.thy ===== *)
theory Memory_Delivery
  imports Message_Storage
begin

text \<open>
  Replacement, expiry and delivery of the in-memory store: what each operation does to a
  well-formed store, the invariant of every reachable store, and the outcome of the delivery
  timer.
\<close>

section \<open>Replacement\<close>

lemma im_replace_cases:
  assumes "im_wf s"
  obtains (replaced) r l where "im_replace_message E v s
        = (Ok True, s\<lparr>messages := (messages s)(str_or_empty ''message_id'' v \<mapsto> map (replace_or_keep r) l)\<rparr>)"
      "messages s (str_or_empty ''message_id'' v) = Some l" "replace_request_of E v = Ok r"
    | (refused) "fst (im_replace_message E v s) \<noteq> Ok True" "snd (im_replace_message E v s) = s"
proof -
  let ?i = "str_or_empty ''message_id'' v"
  show ?thesis
  proof (cases "?i = [] \<or> replaces_nothing v \<or> messages s ?i = None")
    case True
    then show ?thesis by (intro refused) (auto simp: im_replace_message_def Let_def)
  next
    case False
    then obtain l where i: "?i \<noteq> []" "\<not> replaces_nothing v" and Some: "messages s ?i = Some l" by auto
    then have l: "list_all entry_ok l" "l \<noteq> []" using assms by (auto simp: im_wf_def lists_ok_def)
    show ?thesis
    proof (cases "replace_request_of E v")
      case (Ok r)
      then show ?thesis
        using replace_scan_spec [OF l(1), of "length l" r] l(2) i Some
        by (intro replaced [of r l]) (simp_all add: im_replace_message_def Let_def)
    next
      case (Err e)
      then show ?thesis using i Some by (intro refused) (simp_all add: im_replace_message_def Let_def)
    next
      case Panic
      then show ?thesis using i Some by (intro refused) (simp_all add: im_replace_message_def Let_def)
    qed
  qed
qed

lemma im_replace_wf:
  assumes "im_wf s" shows "im_wf (snd (im_replace_message E v s))"
proof (rule im_replace_cases [OF assms, of E v])
  fix r l assume "im_replace_message E v s
      = (Ok True, s\<lparr>messages := (messages s)(str_or_empty ''message_id'' v \<mapsto> map (replace_or_keep r) l)\<rparr>)"
    "messages s (str_or_empty ''message_id'' v) = Some l"
  with assms show ?thesis by (auto simp: im_wf_def lists_ok_def list_all_iff replace_or_keep_ok(1))
qed (use assms in simp)

section \<open>Scanning a list for a due message\<close>

text \<open>The part of \<open>delivery_scan\<close> and \<open>expire_scan\<close> that concerns the list of messages.\<close>

fun due_scan :: "instant \<Rightarrow> nat \<Rightarrow> stored_message list \<Rightarrow> (nat \<times> json) option \<times> stored_message list" where
  "due_scan now 0 l = (None, l)"
| "due_scan now (Suc n) l =
     (if in_future now (l ! n) then due_scan now n l
      else if expired now (l ! n) then due_scan now n (remove_nth n l)
      else (Some (n, sm_json (l ! n)), l))"

lemma delivery_scan_due:
  "fst (delivery_scan now i n l s) = fst (due_scan now n l)
   \<and> fst (snd (delivery_scan now i n l s)) = snd (due_scan now n l)
   \<and> messages (snd (snd (delivery_scan now i n l s))) = messages s
   \<and> (users_ok (user_message_ids s) \<longrightarrow> users_ok (user_message_ids (snd (snd (delivery_scan now i n l s)))))"
  by (induction n arbitrary: l s) (auto simp: users_remove_user)

lemma set_remove_nth_Un: "n < length l \<Longrightarrow> set l = insert (l ! n) (set (remove_nth n l))"
  by (metis append_take_drop_id Cons_nth_drop_Suc list.simps(15) remove_nth_def set_append Un_insert_right)

lemma due_scan_sound:
  assumes "n \<le> length l" "\<forall>e\<in>set (drop n l). in_future now e" "due_scan now n l = (d, l')"
  shows "set l' \<subseteq> set l" "\<forall>e\<in>set l - set l'. expired now e \<and> \<not> in_future now e"
    "case d of Some (k, m) \<Rightarrow> k < length l' \<and> m = sm_json (l' ! k) \<and> \<not> in_future now (l' ! k) \<and>
        \<not> expired now (l' ! k) \<and> (\<forall>e\<in>set (drop (Suc k) l'). in_future now e)
      | None \<Rightarrow> \<forall>e\<in>set l'. in_future now e"
proof -
  have "set l' \<subseteq> set l \<and> (\<forall>e\<in>set l - set l'. expired now e \<and> \<not> in_future now e) \<and>
    (case d of Some (k, m) \<Rightarrow> k < length l' \<and> m = sm_json (l' ! k) \<and> \<not> in_future now (l' ! k) \<and>
        \<not> expired now (l' ! k) \<and> (\<forall>e\<in>set (drop (Suc k) l'). in_future now e)
      | None \<Rightarrow> \<forall>e\<in>set l'. in_future now e)"
    using assms
  proof (induction n arbitrary: l)
    case (Suc n)
    then have n: "n < length l" by simp
    have d: "drop n l = l ! n # drop (Suc n) l" using n by (simp add: Cons_nth_drop_Suc)
    consider "in_future now (l ! n)" | "\<not> in_future now (l ! n)" "expired now (l ! n)"
      | "\<not> in_future now (l ! n)" "\<not> expired now (l ! n)" by blast
    then show ?case
    proof cases
      case 1
      then show ?thesis using Suc.prems n d by (intro Suc.IH) simp_all
    next
      case 2
      have "n \<le> length (remove_nth n l)" using n by (simp add: length_remove_nth)
      moreover have "\<forall>e\<in>set (drop n (remove_nth n l)). in_future now e"
        using Suc.prems(2) n by (simp add: drop_remove_nth)
      moreover have "due_scan now n (remove_nth n l) = (d, l')" using Suc.prems(3) 2 by simp
      ultimately have IH: "set l' \<subseteq> set (remove_nth n l)"
        "\<forall>e\<in>set (remove_nth n l) - set l'. expired now e \<and> \<not> in_future now e"
        "case d of Some (k, m) \<Rightarrow> k < length l' \<and> m = sm_json (l' ! k) \<and> \<not> in_future now (l' ! k) \<and>
          \<not> expired now (l' ! k) \<and> (\<forall>e\<in>set (drop (Suc k) l'). in_future now e)
        | None \<Rightarrow> \<forall>e\<in>set l'. in_future now e"
        using Suc.IH [of "remove_nth n l"] by blast+
      show ?thesis
        unfolding set_remove_nth_Un [OF n] by (intro conjI IH(3)) (use IH(1,2) 2 in blast)+
    next
      case 3
      then have "d = Some (n, sm_json (l ! n))" "l' = l" using Suc.prems(3) by auto
      then show ?thesis using Suc.prems(2) n 3 by simp
    qed
  qed simp
  then show "set l' \<subseteq> set l" "\<forall>e\<in>set l - set l'. expired now e \<and> \<not> in_future now e"
    "case d of Some (k, m) \<Rightarrow> k < length l' \<and> m = sm_json (l' ! k) \<and> \<not> in_future now (l' ! k) \<and>
        \<not> expired now (l' ! k) \<and> (\<forall>e\<in>set (drop (Suc k) l'). in_future now e)
      | None \<Rightarrow> \<forall>e\<in>set l'. in_future now e" by blast+
qed

lemma due_scan_skip:
  "k \<le> n \<Longrightarrow> \<forall>j. k \<le> j \<and> j < n \<longrightarrow> in_future now (l ! j) \<Longrightarrow> due_scan now n l = due_scan now k l"
proof (induction n)
  case (Suc n)
  then show ?case by (cases "k = Suc n") auto
qed simp

text \<open>A second scan of what is left finds the same message again.\<close>

lemma due_scan_again:
  assumes "due_scan now (length l) l = (d, l')"
  shows "due_scan now (length l') l' = (d, l')"
proof -
  note D = due_scan_sound [OF _ _ assms]
  show ?thesis
  proof (cases d)
    case None
    with D(3) have "\<forall>e\<in>set l'. in_future now e" by simp
    then show ?thesis using due_scan_skip [of 0 "length l'" now l'] None by simp
  next
    case (Some p)
    obtain k m where p: "p = (k, m)" by (cases p)
    from D(3) Some p have k: "k < length l'" "m = sm_json (l' ! k)" "\<not> in_future now (l' ! k)" "\<not> expired now (l' ! k)"
      "\<forall>e\<in>set (drop (Suc k) l'). in_future now e" by simp_all
    have "in_future now (l' ! j)" if "Suc k \<le> j" "j < length l'" for j
    proof -
      have "l' ! j \<in> set (drop (Suc k) l')"
        using that by (auto simp: in_set_conv_nth intro!: exI [of _ "j - Suc k"])
      then show ?thesis using k(5) by blast
    qed
    then show ?thesis using due_scan_skip [of "Suc k" "length l'" now l'] k Some p by simp
  qed
qed

section \<open>Collecting due messages\<close>

definition due_lists :: "instant \<Rightarrow> string list \<Rightarrow> (string \<rightharpoonup> stored_message list) \<Rightarrow> string \<rightharpoonup> stored_message list" where
  "due_lists now order ms j =
     (if j \<in> set order then map_option (\<lambda>l. snd (due_scan now (length l) l)) (ms j) else ms j)"

definition due_at :: "instant \<Rightarrow> (string \<rightharpoonup> stored_message list) \<Rightarrow> string \<Rightarrow> (string \<times> nat \<times> json) list" where
  "due_at now ms i =
     (case ms i of
        Some l \<Rightarrow> (case fst (due_scan now (length l) l) of Some (k, m) \<Rightarrow> [(i, k, m)] | None \<Rightarrow> [])
      | None \<Rightarrow> [])"

lemma due_at_mem:
  "(j, k, m) \<in> set (due_at now ms i) \<longleftrightarrow> j = i \<and> (\<exists>l l'. ms i = Some l \<and> due_scan now (length l) l = (Some (k, m), l'))"
  by (cases "ms i") (auto simp: due_at_def prod_eq_iff split: option.split)

lemma due_at_keys: "map fst (concat (map (due_at now ms) order)) = filter (\<lambda>i. due_at now ms i \<noteq> []) order"
proof (induction order)
  case (Cons i order)
  have "map fst (due_at now ms i) = (if due_at now ms i = [] then [] else [i])"
    by (auto simp: due_at_def split: option.split)
  with Cons show ?case by simp
qed simp

lemma deliver_one_spec:
  assumes "deliver_one now i (s, found, em) = (s', found', em')"
  shows "messages s' = due_lists now [i] (messages s)" "found' = found @ due_at now (messages s) i"
    "set em' = set em \<union> {j. j = i \<and> messages s' i = Some []}"
    "users_ok (user_message_ids s) \<longrightarrow> users_ok (user_message_ids s')"
proof -
  have "messages s' = due_lists now [i] (messages s) \<and> found' = found @ due_at now (messages s) i
    \<and> set em' = set em \<union> {j. j = i \<and> messages s' i = Some []}
    \<and> (users_ok (user_message_ids s) \<longrightarrow> users_ok (user_message_ids s'))"
  proof (cases "messages s i")
    case None
    then show ?thesis using assms by (auto simp: deliver_one_def due_lists_def due_at_def fun_eq_iff)
  next
    case (Some l)
    obtain d l' s1 where d: "delivery_scan now i (length l) l s = (d, l', s1)" by (metis prod_cases3)
    with delivery_scan_due [of now i "length l" l s]
    have "due_scan now (length l) l = (d, l')" "messages s1 = messages s"
      "users_ok (user_message_ids s) \<longrightarrow> users_ok (user_message_ids s1)"
      by (simp_all add: prod_eq_iff)
    then show ?thesis using assms Some d
      by (auto simp: deliver_one_def due_lists_def due_at_def fun_eq_iff split: option.splits if_splits)
  qed
  then show "messages s' = due_lists now [i] (messages s)" "found' = found @ due_at now (messages s) i"
    "set em' = set em \<union> {j. j = i \<and> messages s' i = Some []}"
    "users_ok (user_message_ids s) \<longrightarrow> users_ok (user_message_ids s')" by blast+
qed

lemma fold_deliver_spec:
  assumes "distinct order" "fold (deliver_one now) order (s, found, em) = (s', found', em')"
  shows "messages s' = due_lists now order (messages s)
    \<and> found' = found @ concat (map (due_at now (messages s)) order)
    \<and> set em' = set em \<union> {i \<in> set order. messages s' i = Some []}
    \<and> (users_ok (user_message_ids s) \<longrightarrow> users_ok (user_message_ids s'))"
  using assms
proof (induction order arbitrary: s found em)
  case Nil
  then show ?case by (simp add: due_lists_def fun_eq_iff)
next
  case (Cons i order)
  obtain s1 found1 em1 where one: "deliver_one now i (s, found, em) = (s1, found1, em1)" by (metis prod_cases3)
  note o = deliver_one_spec [OF one]
  have IH: "messages s' = due_lists now order (messages s1)"
    "found' = found1 @ concat (map (due_at now (messages s1)) order)"
    "set em' = set em1 \<union> {i \<in> set order. messages s' i = Some []}"
    "users_ok (user_message_ids s1) \<longrightarrow> users_ok (user_message_ids s')"
    using Cons.IH [of s1 found1 em1] Cons.prems one by simp_all
  have other: "messages s1 j = messages s j" if "j \<in> set order" for j
    using that Cons.prems(1) by (auto simp: o(1) due_lists_def)
  then have "map (due_at now (messages s1)) order = map (due_at now (messages s)) order"
    by (simp add: due_at_def)
  then have "concat (map (due_at now (messages s1)) order) = concat (map (due_at now (messages s)) order)"
    by (rule arg_cong)
  then have found: "found' = found @ concat (map (due_at now (messages s)) (i # order))"
    unfolding IH(2) o(2) by simp
  have ms: "messages s' = due_lists now (i # order) (messages s)"
    unfolding IH(1) o(1) using Cons.prems(1) by (auto simp: due_lists_def fun_eq_iff)
  have "messages s' i = messages s1 i" using Cons.prems(1) by (simp add: IH(1) due_lists_def)
  then have em: "set em' = set em \<union> {j \<in> set (i # order). messages s' j = Some []}"
    unfolding IH(3) o(3) by auto
  show ?case using found em IH(4) o(4) unfolding ms [symmetric] by blast
qed

lemma im_get_delivery_spec:
  assumes "im_walks order s" "lists_ok (messages s)" "im_get_delivery_messages now order s = (found, s')"
  shows "found = concat (map (due_at now (messages s)) order)"
    "messages s' i = (case messages s i of
       Some l \<Rightarrow> let k = snd (due_scan now (length l) l) in if k = [] then None else Some k
     | None \<Rightarrow> None)"
    "users_ok (user_message_ids s) \<Longrightarrow> users_ok (user_message_ids s')"
proof -
  have d: "distinct order" "set order = dom (messages s)" using assms(1) by (simp_all add: im_walks_def)
  obtain s1 f1 em where f: "fold (deliver_one now) order (s, [], []) = (s1, f1, em)" by (metis prod_cases3)
  note F = fold_deliver_spec [OF d(1) f]
  have s': "found = f1" "s' = s1\<lparr>messages := remove_ids em (messages s1)\<rparr>"
    using assms(3) f by (simp_all add: im_get_delivery_messages_def)
  show "found = concat (map (due_at now (messages s)) order)" using F s' by simp
  show "users_ok (user_message_ids s) \<Longrightarrow> users_ok (user_message_ids s')" using F s' by simp
  have em: "j \<in> set em \<longleftrightarrow> j \<in> set order \<and> messages s1 j = Some []" for j using F by simp
  have ms: "messages s1 j = due_lists now order (messages s) j" for j using F by simp
  show "messages s' i = (case messages s i of
       Some l \<Rightarrow> let k = snd (due_scan now (length l) l) in if k = [] then None else Some k | None \<Rightarrow> None)"
  proof (cases "messages s i")
    case None
    then show ?thesis using d(2) by (auto simp: s'(2) remove_ids_apply em ms due_lists_def)
  next
    case (Some l)
    then have "i \<in> set order" using d(2) by auto
    with Some show ?thesis by (simp add: s'(2) remove_ids_apply em ms due_lists_def Let_def)
  qed
qed

lemma due_scan_list_ok: "list_all entry_ok l \<Longrightarrow> list_all entry_ok (snd (due_scan now (length l) l))"
  using due_scan_sound(1) [of "length l" l now] by (cases "due_scan now (length l) l") (auto simp: list_all_iff)

lemma im_get_delivery_wf:
  assumes "im_wf s" "im_walks order s"
  shows "im_wf (snd (im_get_delivery_messages now order s))"
proof -
  obtain found s' where g: "im_get_delivery_messages now order s = (found, s')" by fastforce
  have l: "lists_ok (messages s)" "users_ok (user_message_ids s)" using assms(1) by (simp_all add: im_wf_def)
  note S = im_get_delivery_spec [OF assms(2) l(1) g]
  have "lists_ok (messages s')"
    using l(1) by (auto simp: lists_ok_def S(2) Let_def due_scan_list_ok split: option.splits if_splits)
  with S(3) l show ?thesis by (simp add: g im_wf_def)
qed

text \<open>Every entry handed out refers to a message of the resulting store.\<close>

lemma im_get_delivery_entry:
  assumes "im_walks order s" "lists_ok (messages s)" "im_get_delivery_messages now order s = (found, s')"
    "(i, k, m) \<in> set found"
  obtains l where "messages s' i = Some l" "k < length l" "sm_json (l ! k) = m" "\<not> in_future now (l ! k)"
    "\<not> expired now (l ! k)" "\<forall>e\<in>set (drop (Suc k) l). in_future now e"
proof -
  note S = im_get_delivery_spec [OF assms(1-3)]
  from assms(4) obtain l0 l where l0: "messages s i = Some l0" and l: "due_scan now (length l0) l0 = (Some (k, m), l)"
    by (auto simp: S(1) due_at_mem)
  have "k < length l \<and> m = sm_json (l ! k) \<and> \<not> in_future now (l ! k) \<and> \<not> expired now (l ! k) \<and>
      (\<forall>e\<in>set (drop (Suc k) l). in_future now e)"
    using due_scan_sound(3) [OF _ _ l] by simp
  moreover from this have "messages s' i = Some l" using l0 l by (auto simp: S(2) Let_def)
  ultimately show ?thesis using that by blast
qed

lemma im_get_delivery_distinct:
  assumes "im_walks order s" "lists_ok (messages s)" "im_get_delivery_messages now order s = (found, s')"
  shows "distinct (map fst found)"
  using assms(1) by (simp add: im_get_delivery_spec(1) [OF assms] due_at_keys im_walks_def)

section \<open>The delivery timer\<close>

lemma deliver_each_success: "deliver_each (\<lambda>_ _. True) n ds s = (Ok (), s)"
  by (induction ds arbitrary: n) (auto split: prod.splits)

definition drop_entry :: "nat \<Rightarrow> stored_message list \<Rightarrow> stored_message list option" where
  "drop_entry k l = (let l' = remove_nth k l in if l' = [] then None else Some l')"

lemma remove_by_id_hit:
  assumes "messages s i = Some l" "k < length l"
  obtains s' where "remove_message_by_id i k s = (Ok (), s')" "messages s' = (messages s)(i := drop_entry k l)"
    "user_message_ids s' = user_message_ids s"
  using assms by (simp add: remove_message_by_id_def drop_entry_def Let_def)

lemma deliver_each_failure:
  assumes "distinct (map fst ds)" "\<forall>i k m. (i, k, m) \<in> set ds \<longrightarrow> (\<exists>l. messages s i = Some l \<and> k < length l)"
  shows "\<exists>s'. deliver_each (\<lambda>_ _. False) n ds s = (Ok (), s') \<and>
    (\<forall>i. i \<notin> fst ` set ds \<longrightarrow> messages s' i = messages s i) \<and>
    (\<forall>i k m. (i, k, m) \<in> set ds \<longrightarrow> messages s' i = drop_entry k (the (messages s i)))"
  using assms
proof (induction ds arbitrary: n s)
  case (Cons d ds)
  obtain i k m where d: "d = (i, k, m)" by (metis prod_cases3)
  have "(i, k, m) \<in> set (d # ds)" by (simp add: d)
  with Cons.prems(2) obtain l where l: "messages s i = Some l" "k < length l" by blast
  obtain s1 where s1: "remove_message_by_id i k s = (Ok (), s1)" "messages s1 = (messages s)(i := drop_entry k l)"
    using remove_by_id_hit [OF l] by metis
  have ni: "i \<notin> fst ` set ds" and dist: "distinct (map fst ds)" using Cons.prems(1) by (simp_all add: d)
  have other: "j \<noteq> i" if "(j, k', m') \<in> set ds" for j k' m' using ni that by force
  have "\<forall>j k' m'. (j, k', m') \<in> set ds \<longrightarrow> (\<exists>l. messages s1 j = Some l \<and> k' < length l)"
  proof (intro allI impI)
    fix j k' m' assume j: "(j, k', m') \<in> set ds"
    then have "\<exists>l. messages s j = Some l \<and> k' < length l" using Cons.prems(2) by auto
    with other [OF j] show "\<exists>l. messages s1 j = Some l \<and> k' < length l" by (simp add: s1(2))
  qed
  from Cons.IH [OF dist this, of "Suc n"] obtain s' where s':
    "deliver_each (\<lambda>_ _. False) (Suc n) ds s1 = (Ok (), s')"
    "\<forall>j. j \<notin> fst ` set ds \<longrightarrow> messages s' j = messages s1 j"
    "\<forall>j k' m'. (j, k', m') \<in> set ds \<longrightarrow> messages s' j = drop_entry k' (the (messages s1 j))" by blast
  show ?case
  proof (intro exI [of _ s'] conjI)
    show "deliver_each (\<lambda>_ _. False) n (d # ds) s = (Ok (), s')" using s1(1) s'(1) by (simp add: d)
    show "\<forall>j. j \<notin> fst ` set (d # ds) \<longrightarrow> messages s' j = messages s j" using s'(2) by (simp add: d s1(2))
    show "\<forall>j k' m'. (j, k', m') \<in> set (d # ds) \<longrightarrow> messages s' j = drop_entry k' (the (messages s j))"
    proof (intro allI impI)
      fix j k' m' assume "(j, k', m') \<in> set (d # ds)"
      then consider "j = i" "k' = k" | "(j, k', m') \<in> set ds" by (auto simp: d)
      then show "messages s' j = drop_entry k' (the (messages s j))"
      proof cases
        case 1
        with s'(2) ni l show ?thesis by (simp add: s1(2))
      next
        case 2
        from s'(3) [rule_format, OF 2] other [OF 2] show ?thesis by (simp add: s1(2))
      qed
    qed
  qed
qed simp

section \<open>Expiry\<close>

lemma expire_scan_spec:
  "n \<le> length l \<Longrightarrow>
     fst (expire_scan now i n l s) = filter (\<lambda>e. \<not> expired now e) (take n l) @ drop n l
     \<and> messages (snd (expire_scan now i n l s)) = messages s
     \<and> (users_ok (user_message_ids s) \<longrightarrow> users_ok (user_message_ids (snd (expire_scan now i n l s))))"
proof (induction n arbitrary: l s)
  case (Suc n)
  then have n: "n < length l" by simp
  then have t: "take (Suc n) l = take n l @ [l ! n]" and d: "drop n l = l ! n # drop (Suc n) l"
    by (simp_all add: take_Suc_conv_app_nth Cons_nth_drop_Suc)
  show ?case
  proof (cases "expired now (l ! n)")
    case True
    then show ?thesis
      using Suc.IH [of "remove_nth n l" "remove_user_message_id (sm_user (l ! n)) i s"] n
      by (simp add: t remove_nth_simps users_remove_user)
  next
    case False
    then show ?thesis using Suc.IH [of l s] n by (simp add: t d)
  qed
qed simp

definition unexpired_lists :: "instant \<Rightarrow> string list \<Rightarrow> (string \<rightharpoonup> stored_message list) \<Rightarrow> string \<rightharpoonup> stored_message list" where
  "unexpired_lists now order ms j =
     (if j \<in> set order then map_option (filter (\<lambda>e. \<not> expired now e)) (ms j) else ms j)"

lemma clean_one_spec:
  assumes "clean_one now i (s, em) = (s', em')"
  shows "messages s' = unexpired_lists now [i] (messages s) \<and> set em' = set em \<union> {j. j = i \<and> messages s' i = Some []}
    \<and> (users_ok (user_message_ids s) \<longrightarrow> users_ok (user_message_ids s'))"
proof (cases "messages s i")
  case None
  then show ?thesis using assms by (auto simp: clean_one_def unexpired_lists_def fun_eq_iff)
next
  case (Some l)
  obtain l' s1 where e: "expire_scan now i (length l) l s = (l', s1)" by fastforce
  with expire_scan_spec [of "length l" l now i s]
  have "l' = filter (\<lambda>e. \<not> expired now e) l" "messages s1 = messages s"
    "users_ok (user_message_ids s) \<longrightarrow> users_ok (user_message_ids s1)" by simp_all
  then show ?thesis using assms Some e
    by (auto simp: clean_one_def unexpired_lists_def fun_eq_iff split: if_splits)
qed

lemma fold_clean_spec:
  assumes "distinct order" "fold (clean_one now) order (s, em) = (s', em')"
  shows "messages s' = unexpired_lists now order (messages s)
    \<and> set em' = set em \<union> {i \<in> set order. messages s' i = Some []}
    \<and> (users_ok (user_message_ids s) \<longrightarrow> users_ok (user_message_ids s'))"
  using assms
proof (induction order arbitrary: s em)
  case Nil
  then show ?case by (simp add: unexpired_lists_def fun_eq_iff)
next
  case (Cons i order)
  obtain s1 em1 where one: "clean_one now i (s, em) = (s1, em1)" by fastforce
  note o = clean_one_spec [OF one]
  have IH: "messages s' = unexpired_lists now order (messages s1)"
    "set em' = set em1 \<union> {i \<in> set order. messages s' i = Some []}"
    "users_ok (user_message_ids s1) \<longrightarrow> users_ok (user_message_ids s')"
    using Cons.IH [of s1 em1] Cons.prems one by simp_all
  have ms: "messages s' = unexpired_lists now (i # order) (messages s)"
    unfolding IH(1) using o Cons.prems(1) by (auto simp: unexpired_lists_def fun_eq_iff)
  have "messages s' i = messages s1 i" using Cons.prems(1) by (simp add: IH(1) unexpired_lists_def)
  then have "set em' = set em \<union> {j \<in> set (i # order). messages s' j = Some []}"
    using IH(2) o by auto
  then show ?case using IH(3) o unfolding ms [symmetric] by blast
qed

lemma im_clean_spec:
  assumes "im_walks order s" "lists_ok (messages s)"
  shows "messages (im_clean_expired_messages now order s) i = (case messages s i of
       Some l \<Rightarrow> let k = filter (\<lambda>e. \<not> expired now e) l in if k = [] then None else Some k
     | None \<Rightarrow> None)"
    "users_ok (user_message_ids s) \<Longrightarrow> users_ok (user_message_ids (im_clean_expired_messages now order s))"
proof -
  have d: "distinct order" "set order = dom (messages s)" using assms(1) by (simp_all add: im_walks_def)
  obtain s1 em where f: "fold (clean_one now) order (s, []) = (s1, em)" by fastforce
  note F = fold_clean_spec [OF d(1) f]
  show "users_ok (user_message_ids s) \<Longrightarrow> users_ok (user_message_ids (im_clean_expired_messages now order s))"
    using F f by (simp add: im_clean_expired_messages_def)
  have em: "j \<in> set em \<longleftrightarrow> j \<in> set order \<and> messages s1 j = Some []" for j using F by simp
  have ms: "messages s1 j = unexpired_lists now order (messages s) j" for j using F by simp
  have r: "messages (im_clean_expired_messages now order s) i = remove_ids em (messages s1) i"
    by (simp add: im_clean_expired_messages_def f)
  show "messages (im_clean_expired_messages now order s) i = (case messages s i of
       Some l \<Rightarrow> let k = filter (\<lambda>e. \<not> expired now e) l in if k = [] then None else Some k | None \<Rightarrow> None)"
  proof (cases "messages s i")
    case None
    then show ?thesis using d(2) by (auto simp: r remove_ids_apply em ms unexpired_lists_def)
  next
    case (Some l)
    then have "i \<in> set order" using d(2) by auto
    with Some show ?thesis by (simp add: r remove_ids_apply em ms unexpired_lists_def Let_def)
  qed
qed

lemma im_clean_wf:
  assumes "im_wf s" "im_walks order s" shows "im_wf (im_clean_expired_messages now order s)"
proof -
  have l: "lists_ok (messages s)" "users_ok (user_message_ids s)" using assms(1) by (simp_all add: im_wf_def)
  note C = im_clean_spec [OF assms(2) l(1), of now]
  show ?thesis unfolding im_wf_def using filtered_lists_ok [OF l(1) C(1)] C(2) [OF l(2)] by blast
qed

lemma remove_by_id_wf: "im_wf s \<Longrightarrow> im_wf (snd (remove_message_by_id i k s))"
  using set_remove_nth [of k]
  by (fastforce simp: im_wf_def lists_ok_def remove_message_by_id_def Let_def list_all_iff split: option.splits)

section \<open>Reachable stores\<close>

text \<open>
  The tasks that use a store interleave between the operations, each of which holds the lock of
  the map throughout: requests, the expiry timer, the collection of due messages, and the
  removal that follows a failed delivery, whatever index was handed out before.
\<close>

inductive im_step :: "InMemoryMessageStorage \<Rightarrow> InMemoryMessageStorage \<Rightarrow> bool" where
  im_saves: "im_step s (snd (im_save E i v s))"
| im_cancels_some: "im_walks order s \<Longrightarrow> im_step s (snd (im_cancel_message order v s))"
| im_replaces: "im_step s (snd (im_replace_message E v s))"
| im_cleans: "im_walks order s \<Longrightarrow> im_step s (im_clean_expired_messages now order s)"
| im_collects: "im_walks order s \<Longrightarrow> im_step s (snd (im_get_delivery_messages now order s))"
| im_drops: "im_step s (snd (remove_message_by_id i k s))"

inductive_cases im_step_cases: "im_step s s'"

inductive im_reachable :: "u32 \<Rightarrow> InMemoryMessageStorage \<Rightarrow> bool" for p where
  im_init: "im_reachable p (InMemoryMessageStorage_new p)"
| im_next: "im_reachable p s \<Longrightarrow> im_step s s' \<Longrightarrow> im_reachable p s'"

lemma im_step_wf: "im_step s s' \<Longrightarrow> im_wf s \<Longrightarrow> im_wf s'"
  by (erule im_step_cases)
    (simp_all add: im_save_wf im_cancel_wf im_replace_wf im_clean_wf im_get_delivery_wf remove_by_id_wf)

lemma im_reachable_wf: "im_reachable p s \<Longrightarrow> im_wf s"
proof (induction rule: im_reachable.induct)
  case im_init
  show ?case by (simp add: im_wf_def lists_ok_def users_ok_def InMemoryMessageStorage_new_def)
qed (rule im_step_wf)

section \<open>Properties\<close>

lemma im_replace_panic:
  assumes "im_wf s" "fst (im_replace_message E v s) = Panic"
  shows "replace_request_of E v = Panic"
proof (cases "messages s (str_or_empty ''message_id'' v)")
  case None
  then show ?thesis using assms(2) by (auto simp: im_replace_message_def Let_def split: if_splits)
next
  case (Some l)
  then have l: "list_all entry_ok l" "l \<noteq> []" using assms(1) by (auto simp: im_wf_def lists_ok_def)
  show ?thesis
    using assms(2) Some l replace_scan_spec [OF l(1) order_refl]
    by (cases "replace_request_of E v") (auto simp: im_replace_message_def Let_def split: if_splits)
qed


definition plain_env :: "chrono \<times> instant" where
  "plain_env = (plain_chrono, 0)"

definition short_sm :: "string \<Rightarrow> json" where
  "short_sm a = JObject [(''destination_addr'', JString a), (''short_message'', JString ''hi''), (''validity_period'', JNull)]"

definition sample_store :: InMemoryMessageStorage where
  "sample_store = snd (im_save plain_env ''m1'' (short_sm ''b'') (snd (im_save plain_env ''m1'' (short_sm ''a'') (InMemoryMessageStorage_new 3600))))"

lemma sample_store_reachable: "im_reachable 3600 sample_store"
  unfolding sample_store_def by (intro im_init im_next [OF _ im_saves])

lemma short_sm_get:
  "str_or_empty ''destination_addr'' (short_sm a) = a" "get_str ''schedule_delivery_time'' (short_sm a) = None"
  "get_str ''validity_period'' (short_sm a) = None" "get_str ''qos_time_to_live'' (short_sm a) = None"
  by (simp_all add: short_sm_def str_or_empty_def get_str_def)

lemma im_save_short_sm:
  "a \<noteq> [] \<Longrightarrow> im_default_validity_period s = 3600 \<Longrightarrow> im_save plain_env i (short_sm a) s
    = (Ok (), s\<lparr>messages := push_at i \<lparr>sm_user = a, sm_json = short_sm a, sm_schedule = None, sm_validity = Some 3600000000000\<rparr> (messages s),
        user_message_ids := push_at a i (user_message_ids s)\<rparr>)"
  by (simp add: im_save_def im_check_save_def short_sm_get get_validity_period_def get_schedule_delivery_time_def
      plain_env_def plain_chrono_def seconds_def Let_def)

definition sample_entry :: "string \<Rightarrow> stored_message" where
  "sample_entry a = \<lparr>sm_user = a, sm_json = short_sm a, sm_schedule = None, sm_validity = Some 3600000000000\<rparr>"

lemma sample_store_messages:
  "messages sample_store = [''m1'' \<mapsto> [sample_entry ''a'', sample_entry ''b'']]"
  "im_default_validity_period sample_store = 3600"
  by (simp_all add: sample_store_def im_save_short_sm InMemoryMessageStorage_new_def push_at_def sample_entry_def)



definition cancel_a :: json where
  "cancel_a = JObject [(''destination_addr'', JString ''a'')]"

lemma cancel_a_matches: "im_cancels cancel_a i (short_sm a) \<longleftrightarrow> a = ''a''"
  by (auto simp: im_cancels_def selected_def cancel_matches_def cancel_criteria_of_def cancel_a_def text_matches_def
      u8_matches_def u8_field_def u64_or_def get_u64_def short_sm_get str_or_empty_def [of _ "JObject _"] get_str_def [of _ "JObject _"])



lemma sample_delivery:
  "im_get_delivery_messages 1 [''m1''] sample_store = ([(''m1'', 1, short_sm ''b'')], sample_store)"
proof -
  let ?l = "[sample_entry ''a'', sample_entry ''b'']"
  have m: "messages sample_store ''m1'' = Some ?l" by (simp add: sample_store_messages)
  have "delivery_scan 1 ''m1'' (length ?l) ?l sample_store = (Some (1, short_sm ''b''), ?l, sample_store)"
    by (simp add: in_future_def expired_def sample_entry_def)
  moreover have "sample_store\<lparr>messages := (messages sample_store)(''m1'' \<mapsto> ?l)\<rparr> = sample_store"
    by (simp add: fun_upd_idem m)
  ultimately have "deliver_one 1 ''m1'' (sample_store, [], []) = (sample_store, [(''m1'', 1, short_sm ''b'')], [])"
    by (simp only: deliver_one_def m prod.case option.case) simp
  then show ?thesis by (simp add: im_get_delivery_messages_def remove_ids_def)
qed


text \<open>
  C37.  An accepted replacement answers true and changes exactly the messages of its identifier
  whose source address matches: they get the new text, times, predefined message number and
  registered delivery, and keep everything else; every other message is left alone.
\<close>

theorem replacement_effect:
  assumes "im_reachable p s" "im_replace_message E v s = (Ok b, s')"
  shows "b \<and> (\<exists>r l. replace_request_of E v = Ok r \<and> messages s (str_or_empty ''message_id'' v) = Some l \<and>
      messages s' = (messages s)(str_or_empty ''message_id'' v \<mapsto> map (replace_or_keep r) l) \<and>
      (\<forall>e\<in>set l. if replace_matches r (sm_json e) then replaced_by r e (replace_or_keep r e)
        else replace_or_keep r e = e))"
proof (rule im_replace_cases [OF im_reachable_wf [OF assms(1)], of E v])
  fix r l assume r: "im_replace_message E v s
      = (Ok True, s\<lparr>messages := (messages s)(str_or_empty ''message_id'' v \<mapsto> map (replace_or_keep r) l)\<rparr>)"
    "messages s (str_or_empty ''message_id'' v) = Some l" "replace_request_of E v = Ok r"
  have "\<forall>e\<in>set l. entry_ok e"
    using im_reachable_wf [OF assms(1)] r(2) by (auto simp: im_wf_def lists_ok_def list_all_iff)
  with r assms(2) show ?thesis by (auto simp: replace_or_keep_ok)
next
  assume "fst (im_replace_message E v s) \<noteq> Ok True" "snd (im_replace_message E v s) = s"
  then have "b = False" using assms(2) by simp
  moreover have "fst (im_replace_message E v s) \<noteq> Ok False"
    by (auto simp: im_replace_message_def Let_def split: option.split outcome.split)
  ultimately show ?thesis using assms(2) by simp
qed

definition replace_m1 :: json where
  "replace_m1 = JObject [(''message_id'', JString ''m1''), (''short_message'', JString ''new'')]"

theorem replacement_effect_witness:
  "\<exists>r. messages (snd (im_replace_message plain_env replace_m1 sample_store)) =
     (messages sample_store)(''m1'' \<mapsto> map (replace_or_keep r) [sample_entry ''a'', sample_entry ''b''])"
proof -
  have v: "str_or_empty ''message_id'' replace_m1 = ''m1''" "str_or_empty ''short_message'' replace_m1 = ''new''"
    "str_or_empty ''schedule_delivery_time'' replace_m1 = []" "str_or_empty ''validity_period'' replace_m1 = []"
    by (simp_all add: replace_m1_def str_or_empty_def get_str_def)
  obtain r where "replace_request_of plain_env replace_m1 = Ok r"
    by (simp add: replace_request_of_def optional_time_def v)
  moreover have "list_all entry_ok [sample_entry ''a'', sample_entry ''b'']"
    by (simp add: entry_ok_def sample_entry_def short_sm_get is_object_def) (simp add: short_sm_def)
  ultimately have "fst (im_replace_message plain_env replace_m1 sample_store) = Ok True"
    using replace_scan_spec [of "[sample_entry ''a'', sample_entry ''b'']" 2 r]
    by (simp add: im_replace_message_def v Let_def replaces_nothing_def sample_store_messages numeral_2_eq_2)
  then have "im_replace_message plain_env replace_m1 sample_store = (Ok True, snd (im_replace_message plain_env replace_m1 sample_store))"
    by (simp add: prod_eq_iff)
  from replacement_effect [OF sample_store_reachable this] show ?thesis
    by (auto simp: v sample_store_messages)
qed

end
