(* ===== verification/Sql_Delivery.thy ===== *)
theory Sql_Delivery
  imports Sql_Storage Memory_Delivery "HOL-Library.Countable"
begin

text \<open>
  Replacement, expiry and delivery of the SQL store, the invariant of every reachable table, and
  the properties of the SQL store, compared with those of the in-memory store.
\<close>

section \<open>Operations keep the table well-formed\<close>

definition replaceable_keys :: "string set" where
  "replaceable_keys = {''schedule_delivery_time'', ''validity_period'', ''sm_default_msg_id'', ''short_message'',
     ''registered_delivery''}"

lemma index_set_other:
  "index_set k x m = Ok m' \<Longrightarrow> k \<in> replaceable_keys \<Longrightarrow> j \<notin> replaceable_keys \<Longrightarrow> jget j m' = jget j m"
  by (drule index_set_get [of _ _ _ _ j]) auto

lemma optional_text_other:
  "(case w of Some (tx, _) \<Rightarrow> index_set k (JString tx) m | None \<Rightarrow> Ok m) = Ok m' \<Longrightarrow> k \<in> replaceable_keys \<Longrightarrow>
     j \<notin> replaceable_keys \<Longrightarrow> jget j m' = jget j m"
  by (cases w) (auto intro: index_set_other)

lemma optional_set_other:
  "(if b then index_set k x m else Ok m) = Ok m' \<Longrightarrow> k \<in> replaceable_keys \<Longrightarrow>
     j \<notin> replaceable_keys \<Longrightarrow> jget j m' = jget j m"
  by (cases b) (auto intro: index_set_other)

lemma replace_text_other: "replace_text r m = Ok m' \<Longrightarrow> j \<notin> replaceable_keys \<Longrightarrow> jget j m' = jget j m"
  unfolding replace_text_def
  by (simp split: if_splits, (erule index_set_other, simp_all add: replaceable_keys_def)+)

lemma updated_message_other:
  assumes "updated_message r m = Ok m'" "j \<notin> replaceable_keys"
  shows "jget j m' = jget j m"
proof -
  obtain m1 m2 m3 m4 where u:
    "(case rr_schedule r of Some (tx, _) \<Rightarrow> index_set ''schedule_delivery_time'' (JString tx) m | None \<Rightarrow> Ok m) = (Ok m1 :: json io)"
    "(case rr_validity r of Some (tx, _) \<Rightarrow> index_set ''validity_period'' (JString tx) m1 | None \<Rightarrow> Ok m1) = (Ok m2 :: json io)"
    "(if rr_sm_default_msg_id r \<noteq> 0 then index_set ''sm_default_msg_id'' (jnum (rr_sm_default_msg_id r)) m2 else Ok m2) = (Ok m3 :: json io)"
    "replace_text r m3 = Ok m4"
    "index_set ''registered_delivery'' (jnum (rr_registered_delivery r)) m4 = (Ok m' :: json io)"
    using assms(1) unfolding updated_message_def try_ok_eq_Ok by (elim exE conjE) (rule that)
  have "jget j m1 = jget j m" by (rule optional_text_other [OF u(1) _ assms(2)]) (simp add: replaceable_keys_def)
  moreover have "jget j m2 = jget j m1" by (rule optional_text_other [OF u(2) _ assms(2)]) (simp add: replaceable_keys_def)
  moreover have "jget j m3 = jget j m2" by (rule optional_set_other [OF u(3) _ assms(2)]) (simp add: replaceable_keys_def)
  moreover have "jget j m4 = jget j m3" by (rule replace_text_other [OF u(4) assms(2)])
  moreover have "jget j m' = jget j m4" by (rule index_set_other [OF u(5) _ assms(2)]) (simp add: replaceable_keys_def)
  ultimately show ?thesis by simp
qed

lemma updated_message_columns:
  assumes "updated_message r m = Ok m'"
  shows "columns_of (row_for S i m') = columns_of (row_for S i m)"
proof -
  have "jget k m' = jget k m" if "k \<in> {''service_type'', ''source_addr_ton'', ''source_addr_npi'', ''source_addr'',
      ''dest_addr_ton'', ''dest_addr_npi'', ''destination_addr''}" for k
    using that by (intro updated_message_other [OF assms]) (auto simp: replaceable_keys_def)
  then show ?thesis
    by (simp add: columns_of_def row_for_def new_row_def str_or_empty_def get_str_def i16_field_def u64_or_def get_u64_def)
qed

lemma update_row_simps [simp]:
  "row_id (update_row S r m w) = row_id w" "columns_of (update_row S r m w) = columns_of w"
  "row_message (update_row S r m w) = render S m" "row_message_id (update_row S r m w) = row_message_id w"
  by (simp_all add: update_row_def columns_of_def)

lemma update_rows_wf:
  "sql_wf S s \<Longrightarrow> \<forall>w\<in>set ws. row_ok S w \<Longrightarrow> (\<forall>w\<in>set ws. \<forall>x\<in>set (rows s). row_id x = row_id w \<longrightarrow> columns_of x = columns_of w) \<Longrightarrow>
     sql_wf S (snd (update_rows S E r n ws s))"
proof (induction ws arbitrary: n s)
  case (Cons w ws)
  obtain m where m: "parse_json S (row_message w) = Some m" "columns_of w = columns_of (row_for S [] m)"
    using Cons.prems(2) by (auto simp: row_ok_def split: option.splits)
  show ?case
  proof (cases "try_ok (updated_message r m) (\<lambda>m. statement E n m)")
    case (Ok m')
    then have u: "updated_message r m = Ok m'" by (auto simp: try_ok_eq_Ok statement_def split: option.splits)
    let ?s = "s\<lparr>rows := map (\<lambda>x. if row_id x = row_id w then update_row S r m' x else x) (rows s)\<rparr>"
    have id: "row_id \<circ> (\<lambda>x. if row_id x = row_id w then update_row S r m' x else x) = row_id"
      by (simp add: fun_eq_iff)
    have "row_ok S (update_row S r m' x)" if "x \<in> set (rows s)" "row_id x = row_id w" for x
      using Cons.prems(1,3) that m(2) updated_message_columns [OF u, of S "[]"]
      by (simp add: row_ok_def sql_wf_def formats_ok_def)
    then have "sql_wf S ?s" using Cons.prems(1) by (auto simp: sql_wf_def id)
    moreover have "\<forall>v\<in>set ws. \<forall>x\<in>set (rows ?s). row_id x = row_id v \<longrightarrow> columns_of x = columns_of v"
      using Cons.prems(3) by auto
    ultimately show ?thesis using Cons.IH [of ?s "Suc n"] Cons.prems(2) m(1) Ok by simp
  qed (use Cons.prems(1) m(1) in simp_all)
qed simp

lemma sql_replace_wf: "sql_wf S s \<Longrightarrow> sql_wf S (snd (sql_replace_message S E v s))"
proof -
  assume wf: "sql_wf S s"
  have "sql_wf S (snd (update_rows S E r 1 (filter (sql_replace_matches v) (rows s)) s))" for r
  proof (rule update_rows_wf [OF wf])
    show "\<forall>w\<in>set (filter (sql_replace_matches v) (rows s)). row_ok S w" using wf by (simp add: sql_wf_def)
    have "inj_on row_id (set (rows s))" using wf by (simp add: sql_wf_def distinct_map)
    then show "\<forall>w\<in>set (filter (sql_replace_matches v) (rows s)). \<forall>x\<in>set (rows s). row_id x = row_id w \<longrightarrow> columns_of x = columns_of w"
      by (auto dest: inj_onD)
  qed
  then show ?thesis using wf
    by (auto simp: sql_replace_message_def outcome_elims statement_def split: outcome.splits prod.splits option.splits)
      (metis snd_conv)+
qed

lemma delete_by_id_wf: "sql_wf S s \<Longrightarrow> sql_wf S (snd (delete_message_by_id E n k s))"
  by (simp add: delete_message_by_id_def delete_row_def sql_wf_filter split: option.split)

text \<open>In a well-formed table no row is skipped by the delivery.\<close>

lemma parse_rows_ok:
  "\<forall>r\<in>set rs. row_ok S r \<Longrightarrow>
     parse_rows S E n rs s = (map (\<lambda>r. (row_id r, the (parse_json S (row_message r)))) rs, s)"
  by (induction rs) (auto simp: row_ok_def split: option.splits)

section \<open>Reachable tables\<close>

inductive sql_step :: "sql_formats \<Rightarrow> SqlMessageStorage \<Rightarrow> SqlMessageStorage \<Rightarrow> bool" for S where
  sql_saves: "sql_step S s (snd (sql_save S E i v s))"
| sql_cancels_some: "sql_step S s (snd (sql_cancel_message E v s))"
| sql_replaces: "sql_step S s (snd (sql_replace_message S E v s))"
| sql_cleans: "sql_step S s (snd (sql_clean_expired_messages S E s))"
| sql_drops: "sql_step S s (snd (delete_message_by_id E n k s))"

inductive_cases sql_step_cases: "sql_step S s s'"

inductive sql_reachable :: "sql_formats \<Rightarrow> u32 \<Rightarrow> SqlMessageStorage \<Rightarrow> bool" for S p where
  sql_init: "sql_reachable S p \<lparr>rows = [], next_row_id = 1, sql_default_validity_period = p\<rparr>"
| sql_next: "sql_reachable S p s \<Longrightarrow> sql_step S s s' \<Longrightarrow> sql_reachable S p s'"

lemma sql_clean_wf: "sql_wf S s \<Longrightarrow> sql_wf S (snd (sql_clean_expired_messages S E s))"
  by (simp add: sql_clean_expired_messages_def sql_wf_filter split: outcome.split)

lemma sql_reachable_wf: "sql_reachable S p s \<Longrightarrow> formats_ok S \<Longrightarrow> sql_wf S s"
proof (induction rule: sql_reachable.induct)
  case sql_init
  then show ?case by (simp add: sql_wf_def)
next
  case (sql_next s s')
  then have "sql_wf S s" by simp
  with sql_next.hyps(2) show ?case
    by (auto elim!: sql_step_cases simp: sql_save_wf sql_cancel_wf sql_replace_wf sql_clean_wf delete_by_id_wf)
qed

section \<open>Properties\<close>

text \<open>A concrete text format for the examples: a message is written in unary.\<close>

instance number :: countable by countable_datatype
instance json :: countable by countable_datatype

definition unary_formats :: sql_formats where
  "unary_formats = \<lparr>render = (\<lambda>v. replicate (to_nat v) CHR ''x''), parse_json = (\<lambda>s. Some (from_nat (length s))),
     rfc3339 = (\<lambda>t. replicate (nat t) CHR ''t''), by_schedule = id\<rparr>"

lemma formats_ok_unary: "formats_ok unary_formats"
  by (simp add: formats_ok_def unary_formats_def)

definition plain_sql_env :: sql_env where
  "plain_sql_env = \<lparr>env_chrono = plain_chrono, env_now = 0, env_error = (\<lambda>_. None)\<rparr>"

definition empty_sql_table :: SqlMessageStorage where
  "empty_sql_table = \<lparr>rows = [], next_row_id = 1, sql_default_validity_period = 3600\<rparr>"

lemma empty_sql_table_reachable: "sql_reachable S 3600 empty_sql_table"
  unfolding empty_sql_table_def by (rule sql_init)

lemma sql_save_short_sm:
  assumes "a \<noteq> []"
  shows "sql_save unary_formats plain_sql_env i (short_sm a) s = (Ok (), s\<lparr>rows := rows s @
      [new_row unary_formats (next_row_id s) i (short_sm a) None (Some (seconds (uint (sql_default_validity_period s))))],
      next_row_id := Suc (next_row_id s)\<rparr>)"
proof -
  have "u8_field ''replace_if_present_flag'' (short_sm a) = 0"
    by (simp add: u8_field_def u64_or_def get_u64_def short_sm_def)
  moreover have "sql_check_save plain_sql_env p (short_sm a) = Ok (None, Some (seconds (uint p)))" for p
    using assms by (simp add: sql_check_save_def short_sm_get get_validity_period_def get_schedule_delivery_time_def
      plain_sql_env_def plain_chrono_def)
  ultimately show ?thesis by (simp add: sql_save_def sql_insert_def statement_def plain_sql_env_def)
qed



text \<open>
  A message with \<^verbatim>\<open>replace_if_present_flag\<close> removes the messages it would replace before it
  is checked: when the check then refuses it, the old messages are lost all the same.
\<close>

theorem refused_save_deletes:
  assumes "sql_reachable S p s" "formats_ok S" "\<forall>n. env_error E n = None"
    "u8_field ''replace_if_present_flag'' v = 1" "sql_check_save E (sql_default_validity_period s) v = Err e"
  shows "fst (sql_save S E i v s) = Err e
    \<and> sql_stored S (snd (sql_save S E i v s)) j = filter (\<lambda>x. \<not> sql_supersedes S v x) (sql_stored S s j)"
proof -
  have st: "statement E n x = Ok x" for n x using assms(3) by (simp add: statement_def)
  have fst_del: "\<exists>m. fst (delete_rows E n ks t) = Ok m" for n ks t
    by (induction ks arbitrary: n t) (simp_all add: st)
  have wf: "sql_wf S s" by (rule sql_reachable_wf [OF assms(1,2)])
  obtain n s1 where d: "delete_messages_for_replace_if_present_flag E v s = (Ok n, s1)"
    using fst_del [of 1 "map row_id (filter (superseded_row v) (rows s))" s]
    by (cases "delete_messages_for_replace_if_present_flag E v s")
      (auto simp: delete_messages_for_replace_if_present_flag_def st)
  obtain P where P: "s1 = s\<lparr>rows := filter P (rows s)\<rparr>" "\<forall>r\<in>set (rows s). P r \<longleftrightarrow> \<not> superseded_row v r"
    using delete_superseded_spec [of s E v] wf d by (auto simp: sql_wf_def)
  have "sql_insert S E n i v s1 = (Err e, s1)" using assms(5) by (simp add: sql_insert_def P(1))
  then have "sql_save S E i v s = (Err e, s1)" using d assms(4) by (simp add: sql_save_def)
  moreover have "sql_stored S s1 j = filter (\<lambda>x. \<not> sql_supersedes S v x) (sql_stored S s j)"
    unfolding P(1)
  proof (rule sql_stored_filter)
    show "\<forall>r\<in>set (rows s). row_ok S r" using wf by (simp add: sql_wf_def)
    fix r m assume "r \<in> set (rows s)" "columns_of r = columns_of (row_for S [] m)"
    then show "P r \<longleftrightarrow> \<not> sql_supersedes S v m"
      using P(2) superseded_row_columns [of r "row_for S [] m" v] assms(4) by (simp add: sql_supersedes_def)
  qed
  ultimately show ?thesis by simp
qed

text \<open>A replacement for a message to \<open>b\<close> whose schedule lies in the past.\<close>

definition late_calendar :: chrono where
  "late_calendar = plain_chrono\<lparr>naive_of := \<lambda>_. Some (-1)\<rparr>"

definition late_env :: sql_env where
  "late_env = plain_sql_env\<lparr>env_chrono := late_calendar\<rparr>"

definition late_sm :: json where
  "late_sm = JObject [(''destination_addr'', JString ''b''), (''replace_if_present_flag'', JNumber (PosInt 1)),
     (''schedule_delivery_time'', JString ''000101000000000+'')]"

lemma late_sm_refused:
  "sql_check_save late_env p late_sm = Err (IoError InvalidInput ''schedule_delivery_time is in the past'')"
proof -
  have g: "str_or_empty ''destination_addr'' late_sm = ''b''"
    "get_str ''schedule_delivery_time'' late_sm = Some ''000101000000000+''"
    by (simp_all add: late_sm_def str_or_empty_def get_str_def)
  have a: "is_ascii ''000101000000000+''" by (simp add: is_ascii_def)
  have "parse_i64 ''00'' = Some 0" "parse_i64 ''0'' = Some 0" by code_simp+
  then have "parse_absolute_relative_time late_calendar 0 ''000101000000000+'' = Ok (-1)"
    by (simp add: parse_absolute_relative_time_def str_slice_ascii [OF a] parse_absolute_def late_calendar_def
        plain_chrono_def minutes_def seconds_def milliseconds_def Let_def eval_nat_numeral)
  then show ?thesis
    by (simp add: sql_check_save_def g get_schedule_delivery_time_def late_env_def plain_sql_env_def)
qed

theorem refused_save_deletes_witness:
  "sql_stored unary_formats (snd (sql_save unary_formats late_env ''m2'' late_sm
      (snd (sql_save unary_formats plain_sql_env ''m1'' (short_sm ''b'') empty_sql_table)))) ''m1'' = []"
proof -
  let ?s = "snd (sql_save unary_formats plain_sql_env ''m1'' (short_sm ''b'') empty_sql_table)"
  have "sql_reachable unary_formats 3600 ?s" by (intro sql_next [OF empty_sql_table_reachable sql_saves])
  moreover have "u8_field ''replace_if_present_flag'' late_sm = 1"
    by (simp add: late_sm_def u8_field_def u64_or_def get_u64_def)
  moreover have "\<forall>n. env_error late_env n = None" by (simp add: late_env_def plain_sql_env_def)
  ultimately have "sql_stored unary_formats (snd (sql_save unary_formats late_env ''m2'' late_sm ?s)) ''m1''
      = filter (\<lambda>x. \<not> sql_supersedes unary_formats late_sm x) (sql_stored unary_formats ?s ''m1'')"
    using refused_save_deletes [OF _ formats_ok_unary _ _ late_sm_refused] by blast
  moreover have "sql_stored unary_formats ?s ''m1'' = [short_sm ''b'']"
    unfolding sql_save_short_sm [OF list.simps(3)]
    by (simp add: sql_stored_def empty_sql_table_def row_json_def new_row_def map_filter_simps)
      (simp add: unary_formats_def)
  moreover have "sql_supersedes unary_formats late_sm (short_sm ''b'')"
    by (simp add: sql_supersedes_def superseded_row_def row_for_def new_row_def late_sm_def short_sm_def u8_field_def
        u64_or_def get_u64_def str_or_empty_def get_str_def i32_field_def i16_field_def)
  ultimately show ?thesis by simp
qed

text \<open>
  Every decoded \<^verbatim>\<open>submit_sm\<close> has its two times as texts, empty where the sender gave none.
  The in-memory store refuses such a message, while the SQL store keeps it for the default
  validity period.
\<close>

theorem empty_times_differ:
  assumes "str_or_empty ''destination_addr'' v \<noteq> []"
    "get_str ''schedule_delivery_time'' v = Some []" "get_str ''validity_period'' v = Some []"
    "chrono_ok C" "u8_field ''replace_if_present_flag'' v = 0"
  shows "im_save (C, now) i v s
      = (Err (IoError InvalidInput ''Message has neither schedule_delivery_time nor validity_period''), s)
    \<and> sql_save S \<lparr>env_chrono = C, env_now = now, env_error = (\<lambda>_. None)\<rparr> i v t
      = (Ok (), t\<lparr>rows := rows t @ [new_row S (next_row_id t) i v None
            (Some (now + seconds (uint (sql_default_validity_period t))))],
          next_row_id := Suc (next_row_id t)\<rparr>)"
  using assms
  by (simp add: im_save_def im_check_save_def sql_save_def sql_insert_def sql_check_save_def statement_def
      get_schedule_delivery_time_def get_validity_period_def chrono_ok_def)

definition timeless_sm :: json where
  "timeless_sm = JObject [(''destination_addr'', JString ''b''), (''schedule_delivery_time'', JString []), (''validity_period'', JString [])]"

theorem empty_times_differ_witness:
  "fst (im_save plain_env ''m1'' timeless_sm (InMemoryMessageStorage_new 3600))
     = Err (IoError InvalidInput ''Message has neither schedule_delivery_time nor validity_period'')
   \<and> fst (sql_save unary_formats plain_sql_env ''m1'' timeless_sm empty_sql_table) = Ok ()"
proof -
  have "str_or_empty ''destination_addr'' timeless_sm \<noteq> []" "get_str ''schedule_delivery_time'' timeless_sm = Some []"
    "get_str ''validity_period'' timeless_sm = Some []" "u8_field ''replace_if_present_flag'' timeless_sm = 0"
    by (simp_all add: timeless_sm_def str_or_empty_def get_str_def u8_field_def u64_or_def get_u64_def)
  from empty_times_differ [OF this(1-3) chrono_ok_plain this(4)] show ?thesis
    by (simp add: plain_env_def plain_sql_env_def)
qed

lemma sql_deliver_each_rows:
  "\<forall>n. env_error E n = None \<Longrightarrow>
     rows (sql_deliver_each E (\<lambda>_. handler) n ds s) =
       filter (\<lambda>r. \<not> (\<exists>m. (row_id r, m) \<in> set ds \<and> handler m)) (rows s)"
proof (induction ds arbitrary: n s)
  case (Cons d ds)
  obtain k m where d: "d = (k, m)" by (cases d)
  show ?case using Cons
    by (auto simp: d delete_message_by_id_def delete_row_def intro!: filter_cong)
qed simp

lemma sql_tick_rows:
  assumes "sql_reachable S p s" "formats_ok S" "\<forall>n. env_error E n = None" "\<forall>rs. set (by_schedule S rs) = set rs"
  shows "rows (sql_delivery_tick S E (\<lambda>_. handler) s) =
     filter (\<lambda>r. \<not> (due_row S (env_now E) r \<and> handler (the (parse_json S (row_message r))))) (rows s)"
proof -
  have wf: "sql_wf S s" by (rule sql_reachable_wf [OF assms(1,2)])
  let ?due = "by_schedule S (filter (due_row S (env_now E)) (rows s))"
  let ?ds = "map (\<lambda>r. (row_id r, the (parse_json S (row_message r)))) ?due"
  have due: "set ?due = {r \<in> set (rows s). due_row S (env_now E) r}" using assms(4) by auto
  then have "\<forall>r\<in>set ?due. row_ok S r" using wf by (simp add: sql_wf_def)
  then have "sql_get_delivery_messages S E s = (Ok ?ds, s)"
    using assms(3) by (simp add: sql_get_delivery_messages_def statement_def parse_rows_ok)
  then have "rows (sql_delivery_tick S E (\<lambda>_. handler) s)
      = filter (\<lambda>r. \<not> (\<exists>m. (row_id r, m) \<in> set ?ds \<and> handler m)) (rows s)"
    using sql_deliver_each_rows [OF assms(3)] by (simp add: sql_delivery_tick_def)
  also have "\<dots> = filter (\<lambda>r. \<not> (due_row S (env_now E) r \<and> handler (the (parse_json S (row_message r))))) (rows s)"
  proof (rule filter_cong [OF refl])
    fix r assume r: "r \<in> set (rows s)"
    have "inj_on row_id (set (rows s))" using wf by (simp add: sql_wf_def distinct_map)
    then have hit: "(row_id r, m) \<in> set ?ds \<longleftrightarrow> due_row S (env_now E) r \<and> m = the (parse_json S (row_message r))" for m
      using r due by (auto dest: inj_onD)
    show "(\<not> (\<exists>m. (row_id r, m) \<in> set ?ds \<and> handler m)) =
        (\<not> (due_row S (env_now E) r \<and> handler (the (parse_json S (row_message r)))))" unfolding hit by blast
  qed
  finally show ?thesis .
qed

text \<open>
  C18.  The delivery timer of the SQL store, with a working database: a due message whose delivery
  succeeds is deleted, one whose delivery fails stays for the next attempt, and no other message
  is touched.
\<close>

theorem sql_delivery_outcome:
  assumes "sql_reachable S p s" "formats_ok S" "\<forall>n. env_error E n = None" "\<forall>rs. set (by_schedule S rs) = set rs"
  shows "rows (sql_delivery_tick S E (\<lambda>_. handler) s) =
     filter (\<lambda>r. \<not> (due_row S (env_now E) r \<and> handler (the (parse_json S (row_message r))))) (rows s)"
  using assms by (rule sql_tick_rows)

theorem sql_delivery_outcome_witness:
  "let s = snd (sql_save unary_formats plain_sql_env ''m1'' (short_sm ''b'') empty_sql_table) in
   rows (sql_delivery_tick unary_formats plain_sql_env (\<lambda>_ _. True) s) = []
   \<and> rows (sql_delivery_tick unary_formats plain_sql_env (\<lambda>_ _. False) s) = rows s"
proof -
  let ?s = "snd (sql_save unary_formats plain_sql_env ''m1'' (short_sm ''b'') empty_sql_table)"
  have "sql_reachable unary_formats 3600 ?s" by (intro sql_next [OF empty_sql_table_reachable sql_saves])
  moreover have "\<forall>n. env_error plain_sql_env n = None" by (simp add: plain_sql_env_def)
  moreover have "\<forall>rs. set (by_schedule unary_formats rs) = set rs" by (simp add: unary_formats_def)
  ultimately have "rows (sql_delivery_tick unary_formats plain_sql_env (\<lambda>_. h) ?s) =
     filter (\<lambda>r. \<not> (due_row unary_formats 0 r \<and> h (the (parse_json unary_formats (row_message r))))) (rows ?s)" for h
    using sql_delivery_outcome [OF _ formats_ok_unary, of 3600 ?s plain_sql_env h] by (simp add: plain_sql_env_def)
  moreover have "\<forall>r\<in>set (rows ?s). due_row unary_formats 0 r"
    by (simp add: sql_save_short_sm empty_sql_table_def due_row_def new_row_def)
  ultimately show ?thesis by (simp add: Let_def)
qed

end
