(* ===== verification/Replies.thy ===== *)
theory Replies
  imports Message_Laws
begin

text \<open>
  Responses made by \<^verbatim>\<open>create_json_response\<close> and what their encoding carries: the response command
  and the sequence number of the request they answer.
\<close>

text \<open>
  A reply to command \<open>c\<close> with sequence number \<open>seq\<close>: nothing where the response cannot be encoded,
  and otherwise a PDU whose header has the response command and that number.
\<close>

definition reply_to :: "CommandId \<Rightarrow> u32 \<Rightarrow> bytes \<Rightarrow> bool" where
  "reply_to c seq d =
     (d = [] \<or> get_command_id (SMPPMessage_of d) = Some (0x80000000 OR CommandId_as_u32 c)
        \<and> get_sequence_number (SMPPMessage_of d) = Some seq)"

definition reply_fields :: "(string \<times> json) list \<Rightarrow> bool" where
  "reply_fields fs =
     (\<forall>p\<in>set fs. fst p \<noteq> ''command_id'' \<and> fst p \<noteq> ''sequence_number'' \<and> (fst p = ''command_status'' \<longrightarrow> as_u64 (snd p) \<noteq> None))"

lemma map_of_rev_append: "map_of (rev (xs @ ys)) k = (case map_of (rev ys) k of Some v \<Rightarrow> Some v | None \<Rightarrow> map_of (rev xs) k)"
  by (simp add: map_add_def)

lemma map_of_rev_None: "(\<And>p. p \<in> set fs \<Longrightarrow> fst p \<noteq> k) \<Longrightarrow> map_of (rev fs) k = None"
  by (force simp: map_of_eq_None_iff)

lemma create_json_response_get:
  assumes "reply_fields fs"
  shows "jget ''command_id'' (create_json_response cid seq st fs) = Some (JString (command_hex (0x80000000 OR cid)))"
    "jget ''sequence_number'' (create_json_response cid seq st fs) = Some (jnum seq)"
    "header_number ''command_status'' (create_json_response cid seq st fs) \<noteq> None"
proof -
  have n: "map_of (rev fs) ''command_id'' = None" "map_of (rev fs) ''sequence_number'' = None"
    using assms by (auto intro!: map_of_rev_None simp: reply_fields_def)
  show "jget ''command_id'' (create_json_response cid seq st fs) = Some (JString (command_hex (0x80000000 OR cid)))"
    "jget ''sequence_number'' (create_json_response cid seq st fs) = Some (jnum seq)"
    unfolding create_json_response_def jget_jobject map_of_rev_append by (simp_all add: n)
  show "header_number ''command_status'' (create_json_response cid seq st fs) \<noteq> None"
  proof (cases "map_of (rev fs) ''command_status''")
    case None
    then show ?thesis
      unfolding header_number_def create_json_response_def jget_jobject map_of_rev_append by simp
  next
    case (Some x)
    then have "(''command_status'', x) \<in> set fs" by (auto dest: map_of_SomeD)
    then have "as_u64 x \<noteq> None" using assms by (force simp: reply_fields_def)
    with Some show ?thesis
      unfolding header_number_def create_json_response_def jget_jobject map_of_rev_append by simp
  qed
qed

lemma from_json_response:
  assumes "reply_fields fs" "from_json B order (create_json_response (CommandId_as_u32 c) seq st fs) = Ok m"
  shows "reply_to c seq (message m)" "message m \<noteq> []"
proof -
  let ?v = "create_json_response (CommandId_as_u32 c) seq st fs"
  note g = create_json_response_get [OF assms(1), of "CommandId_as_u32 c" seq st]
  have "extract_command_id ?v = CommandId_from_u32 (0x80000000 OR CommandId_as_u32 c)"
    by (simp add: extract_command_id_def g CommandId_from_str_hex)
  moreover obtain d where d: "extract_command_id ?v = Some d"
    using assms(2) by (auto simp: from_json_def split: option.splits)
  ultimately have c: "CommandId_as_u32 d = 0x80000000 OR CommandId_as_u32 c" using command_code.enc_dec by metis
  obtain x where x: "header_number ''command_status'' ?v = Some x" using g(3) by blast
  have q: "header_number ''sequence_number'' ?v = Some seq" by (simp add: header_number_def g)
  note w = from_json_words [OF assms(2) d x q]
  show "reply_to c seq (message m)"
    using w c by (simp add: reply_to_def get_command_id_def get_sequence_number_def)
  show "message m \<noteq> []" using w by (auto simp: SMPPMessage_len_def)
qed

lemma reply_is_no_request:
  assumes "get_command_id m = Some (0x80000000 OR w)" shows "\<not> is_request m"
proof -
  have "(0x80000000 OR w) AND 0x80000000 = (0x80000000 :: u32)"
    by (rule bit_word_eqI) (auto simp: bit_simps)
  then show ?thesis using assms by (simp add: is_request_def)
qed

end
