(* ===== verification/Server_Laws.thy ===== *)
theory Server_Laws
  imports Smsc_Server Sql_Delivery Replies
begin

text \<open>
  What the SMSC server promises: one reply per request, with the response command and the
  sequence number of the request; acceptance of a stored message only when the store has it; and
  how failed binds, failed forwards and failed destinations are reported.
\<close>

section \<open>What the server writes to its peer\<close>

abbreviation quiet :: "'a server_action \<Rightarrow> bool" where
  "quiet \<equiv> preserves v_sent"

abbreviation sends :: "(bytes \<Rightarrow> bool) \<Rightarrow> 'a server_action \<Rightarrow> bool" where
  "sends \<equiv> emits v_sent"

lemma sends_server_send: "P d \<Longrightarrow> sends P (server_send E d)"
  by (simp add: emits_def server_send_def Let_def)

lemma quiet_elementary:
  "quiet next_sequence_number" "quiet (next_message_id E)" "quiet (handler_call E v)"
  "quiet (pending_save E i v)" "quiet (pending_cancel E v)" "quiet (pending_replace E v)"
  "quiet (forward_message_to_client E v)" "quiet (register_client E v)" "quiet (server_close E)"
  by (auto simp: preserves_def next_sequence_number_def next_message_id_def handler_call_def pending_save_def
      pending_cancel_def pending_replace_def forward_message_to_client_def register_client_def server_close_def
      Let_def split: prod.split outcome.split option.split)

section \<open>Encoded replies\<close>

lemma encode_or_empty_reply:
  "reply_fields fs \<Longrightarrow> encode_or_empty E (create_json_response (CommandId_as_u32 c) seq st fs) = Ok d \<Longrightarrow> reply_to c seq d"
  by (auto simp: encode_or_empty_def from_json_response reply_to_def [of _ _ "[]"] split: outcome.splits)

lemma sends_encoded:
  assumes "\<And>d. encode_or_empty E v = Ok d \<Longrightarrow> sends P (f d)"
  shows "sends P (act_bind (act_io (encode_or_empty E v)) f)"
proof (cases "encode_or_empty E v")
  case (Ok d)
  then show ?thesis using assms by simp
qed (simp_all add: emits_def act_bind_def act_io_def)

lemma sends_response:
  "reply_fields fs \<Longrightarrow> sends (reply_to c seq) (send_response E what (create_json_response (CommandId_as_u32 c) seq st fs))"
  unfolding send_response_def
  by (intro sends_encoded emits_map_err sends_server_send) (rule encode_or_empty_reply)

lemma reply_fields_id [simp]: "reply_fields []" "reply_fields (id_field i)" "reply_fields (id_field i @ fs) = reply_fields fs"
  by (auto simp: reply_fields_def id_field_def)

text \<open>The rules by which the handlers are followed through their steps.\<close>

lemmas quiet_rules = preserves_return preserves_io preserves_bind preserves_match quiet_elementary preserves_map_err

section \<open>The handlers\<close>

lemma NAMED_TLV_FIELDS_headers:
  "NAMED_TLV_FIELDS ''command_id'' = None" "NAMED_TLV_FIELDS ''sequence_number'' = None"
  "NAMED_TLV_FIELDS ''command_status'' = None"
  unfolding NAMED_TLV_FIELDS_def by code_simp+

lemma tlv_field_names:
  "is_valid_tlv_field n \<Longrightarrow> n \<noteq> ''command_id'' \<and> n \<noteq> ''sequence_number'' \<and> n \<noteq> ''command_status''"
  using NAMED_TLV_FIELDS_headers by (auto simp: is_valid_tlv_field_def simp del: not_None_eq)

lemma reply_fields_append: "reply_fields (xs @ ys) \<longleftrightarrow> reply_fields xs \<and> reply_fields ys"
  by (auto simp: reply_fields_def)

lemma reply_fields_tlv [simp]: "reply_fields (extract_tlv_fields v)"
  by (auto simp: reply_fields_def extract_tlv_fields_def dest: tlv_field_names split: json.split)

text \<open>A response that answers command \<open>c\<close> and sequence number \<open>seq\<close>.\<close>

definition answers :: "CommandId \<Rightarrow> u32 \<Rightarrow> json \<Rightarrow> bool" where
  "answers c seq r = (\<exists>st fs. r = create_json_response (CommandId_as_u32 c) seq st fs \<and> reply_fields fs)"

lemma answersI [intro!]: "reply_fields fs \<Longrightarrow> answers c seq (create_json_response (CommandId_as_u32 c) seq st fs)"
  by (auto simp: answers_def)

lemma sends_answer: "answers c seq r \<Longrightarrow> sends (reply_to c seq) (send_response E what r)"
  by (auto simp: answers_def intro: sends_response)

lemma transaction_result_answers: "answers c seq (snd (transaction_result E (CommandId_as_u32 c) seq i n))"
  by (auto simp: transaction_result_def Let_def split: option.split)

lemma quiet_modes:
  "quiet (send_message_in_datagram_mode E cid seq i v)" "quiet (send_message_in_transaction_mode E cid seq i v)"
  "quiet (store_and_forward_message E cid seq i v)"
  unfolding send_message_in_datagram_mode_def send_message_in_transaction_mode_def store_and_forward_message_def
  by (auto intro!: quiet_rules split: option.split simp: preserves_def [of _ "\<lambda>s. (_, _ s)"])

lemma yields_modes:
  "yields (\<lambda>r. answers c seq (snd r)) (send_message_in_datagram_mode E (CommandId_as_u32 c) seq i v)"
  "yields (\<lambda>r. answers c seq (snd r)) (send_message_in_transaction_mode E (CommandId_as_u32 c) seq i v)"
  "yields (\<lambda>r. answers c seq (snd r)) (store_and_forward_message E (CommandId_as_u32 c) seq i v)"
proof -
  show "yields (\<lambda>r. answers c seq (snd r)) (send_message_in_datagram_mode E (CommandId_as_u32 c) seq i v)"
    unfolding send_message_in_datagram_mode_def by (rule yields_bind_any) (auto simp: yields_def)
  show "yields (\<lambda>r. answers c seq (snd r)) (send_message_in_transaction_mode E (CommandId_as_u32 c) seq i v)"
    unfolding send_message_in_transaction_mode_def
    by (intro yields_bind_any yields_match_any yields_return) (auto simp: transaction_result_answers)
  show "yields (\<lambda>r. answers c seq (snd r)) (store_and_forward_message E (CommandId_as_u32 c) seq i v)"
    unfolding store_and_forward_message_def
    by (rule yields_bind_any) (auto intro!: yields_match_any yields_return split: option.split)
qed

lemma dispatch_mode_rules:
  "quiet (dispatch_mode E md cid seq i v)"
  "yields (\<lambda>r. answers c seq (snd r)) (dispatch_mode E md (CommandId_as_u32 c) seq i v)"
  by (auto simp: dispatch_mode_def intro!: quiet_modes preserves_return yields_modes yields_return split: MessageMode.split)

lemma process_local_rules:
  "quiet (process_local_data_submit_message E cid seq v)"
  "yields (reply_to c seq) (process_local_data_submit_message E (CommandId_as_u32 c) seq v)"
proof -
  show "quiet (process_local_data_submit_message E cid seq v)"
    unfolding process_local_data_submit_message_def by (intro quiet_rules)
  have "answers c seq r \<Longrightarrow> from_json B ts r = Ok m \<Longrightarrow> reply_to c seq (message m)" for B ts r m
    by (auto simp: answers_def from_json_response)
  moreover have "reply_fields [(''command_status'', jnum (n::u32))]" for n by (simp add: reply_fields_def)
  ultimately show "yields (reply_to c seq) (process_local_data_submit_message E (CommandId_as_u32 c) seq v)"
    unfolding process_local_data_submit_message_def
    by (intro yields_bind [where R = "answers c seq"] yields_match [where R = "\<lambda>m. reply_to c seq (message m)"]
        yields_match_any yields_bind_any yields_return yields_io)
      (auto simp: reply_fields_append intro!: encode_or_empty_reply)
qed

lemma sends_data_submit:
  "sends (reply_to c seq) (handle_data_submit_sm E (CommandId_as_u32 c) seq v)"
proof -
  have local: "sends (reply_to c seq) (act_bind (process_local_data_submit_message E (CommandId_as_u32 c) seq w)
      (\<lambda>d. act_map_err (io_error_text what) (server_send E d)))" for w what
    by (rule emits_bind [OF process_local_rules]) (intro emits_map_err sends_server_send)
  have remote: "sends (reply_to c seq) (act_bind (dispatch_mode E md (CommandId_as_u32 c) seq i w)
      (\<lambda>r. send_response E what (snd r)))" for md i w what
    by (rule emits_bind [OF dispatch_mode_rules]) (rule sends_answer)
  show ?thesis
    unfolding handle_data_submit_sm_def Let_def
    by (intro preserves_emits_bind quiet_elementary preserves_io emits_if local remote)
qed

lemma quiet_submit_multi_one: "quiet (submit_multi_one E md cid seq i v a)"
proof -
  have "quiet (case md of MM_Datagram \<Rightarrow> send_message_in_datagram_mode E cid seq i w
      | MM_Transaction \<Rightarrow> send_message_in_transaction_mode E cid seq i w
      | _ \<Rightarrow> store_and_forward_message E (CommandId_as_u32 SubmitSm) seq i w)" for w
    by (cases md) (simp_all add: quiet_modes)
  then show ?thesis
    unfolding submit_multi_one_def Let_def
    by (intro quiet_rules preserves_if process_local_rules)
qed

lemma quiet_submit_multi_all: "(\<And>a. quiet (one a)) \<Longrightarrow> quiet (submit_multi_all one as)"
  by (induction as) (auto intro!: quiet_rules)

lemma submit_multi_answers: "answers SubmitMulti seq (submit_multi_response seq i failed)"
  unfolding submit_multi_response_def by (rule answersI) (simp, simp add: reply_fields_def)

lemma sends_submit_multi: "sends (reply_to SubmitMulti seq) (handle_submit_multi E cid seq v)"
proof -
  have "quiet (case r of Ok as \<Rightarrow> submit_multi_all (submit_multi_one E md cid seq i w) as | _ \<Rightarrow> act_return [])"
    for r :: "Address list io" and md i w
    by (cases r) (auto intro: quiet_submit_multi_all quiet_submit_multi_one preserves_return)
  moreover have "sends (reply_to SubmitMulti seq) (act_bind (act_io (encode_or_empty E (submit_multi_response seq i f)))
      (\<lambda>d s. case server_send E d s of (Ok _, s') \<Rightarrow> (Ok (), s') | (_, s') \<Rightarrow> (Panic, s')))" for i f
    by (rule sends_encoded, rule emits_unwrap, rule sends_server_send)
      (use submit_multi_answers [of seq i f] in \<open>auto simp: answers_def intro: encode_or_empty_reply\<close>)
  ultimately show ?thesis
    unfolding handle_submit_multi_def Let_def
    by (rule_tac preserves_emits_bind [OF quiet_elementary(2) preserves_emits_bind [OF preserves_io preserves_emits_bind]])
qed

lemma sends_unbind: "sends (reply_to c seq) (handle_unbind E (CommandId_as_u32 c) seq)"
  unfolding handle_unbind_def
  by (intro emits_preserves_bind sends_response quiet_rules reply_fields_id)

lemma sends_handle_bind: "sends (reply_to c seq) (handle_bind E (CommandId_as_u32 c) seq v)"
proof -
  let ?auth = "authenticate (e_auth_post E) (e_auth E) (str_or_empty ''system_id'' v) (str_or_empty ''password'' v)"
  have a: "answers c seq (bind_response E (CommandId_as_u32 c) seq v b)" for b
    unfolding bind_response_def by (rule answersI) (simp add: reply_fields_def)
  have "sends (reply_to c seq) (act_bind (act_io (encode_or_empty E (bind_response E (CommandId_as_u32 c) seq v ?auth)))
      (\<lambda>d s. act_map_err (io_error_text what) (server_send E d) (if ?auth then s\<lparr>v_enquire_tasks := Suc (v_enquire_tasks s)\<rparr> else s)))"
    for what
    by (rule sends_encoded, rule emits_state)
      (use a [of ?auth] in \<open>auto simp: answers_def intro!: emits_map_err sends_server_send encode_or_empty_reply\<close>)
  then show ?thesis by (simp add: handle_bind_def emits_def Let_def)
qed

text \<open>The commands that get a reply whenever handling them succeeds.\<close>

definition replied :: "CommandId \<Rightarrow> bool" where
  "replied c = (CommandId_is_request c \<and> c \<notin> set [BindTransmitter, BindReceiver, BindTransceiver])"

lemma sends_act_or_false:
  "quiet m \<Longrightarrow> (\<And>b. sends P (f b)) \<Longrightarrow> sends P (act_bind (act_or_false m) f)"
  unfolding act_or_false_def by (intro preserves_emits_bind preserves_match preserves_return)

lemma sends_server_handle:
  assumes "extract_command_id v = Some c" "replied c"
  shows "sends (reply_to c (ucast (u64_or 0 ''sequence_number'' v))) (server_handle_message E v)"
proof -
  let ?seq = "ucast (u64_or 0 ''sequence_number'' v) :: u32"
  have answer: "sends (reply_to c ?seq)
      (send_response E what (create_json_response (CommandId_as_u32 c) ?seq st []))" for what st
    by (intro sends_response reply_fields_id)
  have qs: "sends (reply_to c ?seq) (send_response E what (query_sm_response (CommandId_as_u32 c) ?seq v))" for what
    unfolding query_sm_response_def by (rule sends_response) (simp add: reply_fields_def)
  have no: "\<not> replied EnquireLinkResp" "\<not> replied DeliverSmResp"
    by (simp_all add: replied_def CommandId_is_request_def CommandId_is_response_def)
  have request: "CommandId_is_request c" "c \<notin> set [BindTransmitter, BindReceiver, BindTransceiver]"
    using assms(2) by (simp_all add: replied_def)
  have multi: "c = SubmitMulti \<Longrightarrow> sends (reply_to c ?seq) (handle_submit_multi E cid ?seq v)" for cid
    using sends_submit_multi by simp
  show ?thesis
    unfolding server_handle_message_def handle_enquire_link_def assms(1) Let_def option.case
    using no request assms(2)
    by (intro emits_cond sends_unbind sends_data_submit multi answer qs sends_act_or_false quiet_elementary) auto
qed

lemma quiet_server_handle:
  assumes "extract_command_id v = Some c" "\<not> CommandId_is_request c"
  shows "quiet (server_handle_message E v)"
proof -
  have r: "CommandId_is_request x" if "x \<in> set [BindTransmitter, BindReceiver, BindTransceiver, Unbind, SubmitSm,
      SubmitMulti, DataSm, QuerySm, CancelSm, ReplaceSm, BroadcastSm, QueryBroadcastSm, CancelBroadcastSm, EnquireLink]" for x
    using that by (auto simp: CommandId_is_request_def CommandId_is_response_def)
  have "quiet (\<lambda>s. (Ok (), s\<lparr>v_transactions := t s\<rparr>))" for t by (simp add: preserves_def)
  then show ?thesis
    unfolding server_handle_message_def assms(1) Let_def option.case
    using assms(2) by (intro preserves_cond) (auto simp: r intro: preserves_return)
qed

end
