(* ===== verification/Server_Properties.thy ===== *)
theory Server_Properties
  imports Server_Laws
begin

text \<open>
  The properties of the SMSC server over all its requests, with a sample server on which they
  are instantiated.
\<close>

section \<open>A sample server\<close>

definition sample_config :: ServerConfig where
  "sample_config = \<lparr>request_handlers = None, user_auth = \<lparr>users_file = None, auth_url = None\<rparr>, distribution_list = None, message_store = None,
     default_validity_period = None, default_mc_mode = None, predefined_messages = None, default_service_type = None\<rparr>"

definition sample_env :: server_env where
  "sample_env = \<lparr>e_base64 = std_base64, e_tlvs = create_tlv_fields, e_overflow_checks = True, e_config = sample_config,
     e_interface_version = 0x34, e_auth = SimpleUserAuthentication [(''user'', ''secret'')],
     e_auth_post = (\<lambda>_ _. HttpFailed ''down''), e_handler = (\<lambda>_ _ _ _. HttpFailed ''down''),
     e_ids = (\<lambda>_. \<lparr>new_uuid = ''u'', redis_open = (\<lambda>_. False), redis_incr = (\<lambda>_. Panic)\<rparr>),
     e_store = \<lparr>st_chrono = plain_chrono, st_now = 0, st_formats = unary_formats, st_error = (\<lambda>_. None), st_order = (\<lambda>_. [])\<rparr>,
     e_distribution = DistrubutionList_create_from [], e_compile = (\<lambda>_. Some (\<lambda>_. True)), e_peer = ''peer'', e_writer = 7,
     e_write = (\<lambda>_. True), e_client_write = (\<lambda>_ _. True), e_client_order = (\<lambda>_. []), e_await = (\<lambda>_. None)\<rparr>"

definition sample_state :: server_state where
  "sample_state = \<lparr>v_ids = UuidGenerator, v_id_count = 0, v_seq = SequenceNumberAllocator_new, v_store = SqlStore empty_sql_table,
     v_handler = NoOpHandler, v_handled = 0, v_clients = ClientManager_new, v_transactions = TransactionResponseManager_new,
     v_sent = [], v_writes = 0, v_closed = False, v_forwarded = [], v_spawned = [], v_enquire_tasks = 0\<rparr>"

section \<open>Replies\<close>


lemma sample_enquire_fields:
  "extract_command_id sample_enquire_link = Some EnquireLink" "u64_or 0 ''sequence_number'' sample_enquire_link = 3"
  by code_simp+


text \<open>The octets of a response without members.\<close>

definition bare_reply :: "CommandId \<Rightarrow> u32 \<Rightarrow> u32 \<Rightarrow> bytes" where
  "bare_reply c st seq = u32_be 16 @ u32_be (0x80000000 OR CommandId_as_u32 c) @ u32_be st @ u32_be seq"

lemma bare_response_header:
  "extract_command_id (create_json_response w seq st []) = CommandId_from_u32 (0x80000000 OR w)"
  "header_number ''command_status'' (create_json_response w seq st []) = Some st"
  "header_number ''sequence_number'' (create_json_response w seq st []) = Some seq"
  by (simp_all add: extract_command_id_def header_number_def create_json_response_def jget_jobject CommandId_from_str_hex)

lemma no_tlv_in_bare_response:
  assumes "set ts \<subseteq> set create_tlv_fields"
  shows "fold_io (encode_tlv_field B (create_json_response w seq st [])) ts buf = Ok buf"
proof -
  have "tlv_name t \<notin> {''command_id'', ''command_status'', ''sequence_number''}" if "t \<in> set create_tlv_fields" for t
  proof -
    have "is_valid_tlv_field (tlv_name t)"
      using that by (auto simp: is_valid_tlv_field_def NAMED_TLV_FIELDS_def map_of_eq_None_iff image_iff)
    then show ?thesis by (auto dest: tlv_field_names)
  qed
  then show ?thesis using assms
    by (induction ts arbitrary: buf)
      (auto simp: encode_tlv_field_def create_json_response_def jget_jobject)
qed

lemma encode_bare_response:
  assumes "set (e_tlvs E) \<subseteq> set create_tlv_fields" "CommandId_from_u32 (0x80000000 OR CommandId_as_u32 c) = Some d"
    "MESSAGE_COMMAND_FIELDS (CommandId_as_u32 d) = Some []"
  shows "encode_or_empty E (create_json_response (CommandId_as_u32 c) seq st []) = Ok (bare_reply c st seq)"
proof -
  have "CommandId_as_u32 d = 0x80000000 OR CommandId_as_u32 c" using assms(2) by (rule command_code.enc_dec)
  with assms show ?thesis
    by (simp add: encode_or_empty_def from_json_def bare_response_header encode_message_with_fields_def
        no_tlv_in_bare_response write_header_number_eq write_defs update_length_def put_u32_at_def bare_reply_def)
qed

lemma send_encoded_response:
  assumes "encode_or_empty E r = Ok d" "e_write E (v_writes s)"
  shows "send_response E what r s = (Ok (), s\<lparr>v_writes := Suc (v_writes s), v_sent := v_sent s @ [d]\<rparr>)"
  using assms by (simp add: send_response_def act_map_err_def server_send_def)

lemma bare_commands:
  "c \<in> {CancelSm, ReplaceSm, EnquireLink, Unbind} \<Longrightarrow>
     CommandId_from_u32 (0x80000000 OR CommandId_as_u32 c) \<noteq> None
     \<and> MESSAGE_COMMAND_FIELDS (CommandId_as_u32 (the (CommandId_from_u32 (0x80000000 OR CommandId_as_u32 c)))) = Some []"
  by (elim insertE emptyE; simp only:; code_simp)

lemma bare_command_reply:
  assumes "set (e_tlvs E) \<subseteq> set create_tlv_fields" "c \<in> {CancelSm, ReplaceSm, EnquireLink, Unbind}"
  shows "encode_or_empty E (create_json_response (CommandId_as_u32 c) seq st []) = Ok (bare_reply c st seq)"
  using bare_commands [OF assms(2)] encode_bare_response [OF assms(1)] by fastforce

lemma act_or_false_answer:
  assumes "m s = (r, s')" "r \<noteq> Panic"
  shows "act_bind (act_or_false m) f s = f (r = Ok True) s'"
  using assms by (cases r) (auto simp: act_bind_def act_or_false_def act_match_def act_return_def)

text \<open>
  C14.  A \<^verbatim>\<open>cancel_sm\<close> changes exactly what the storage cancels, and the client reads the outcome
  in the reply: success only if the storage answered \<^verbatim>\<open>true\<close>, \<^verbatim>\<open>ESME_RCANCELFAIL\<close> if it answered
  \<^verbatim>\<open>false\<close> or an error.
\<close>

theorem cancel_reports_outcome:
  assumes "set (e_tlvs E) \<subseteq> set create_tlv_fields" "e_write E (v_writes s)" "extract_command_id v = Some CancelSm"
    "store_cancel (e_store E) v (v_store s) = (r, p')" "r \<noteq> Panic"
  shows "server_handle_message E v s = (Ok (), s\<lparr>v_store := p', v_writes := Suc (v_writes s),
     v_sent := v_sent s @ [bare_reply CancelSm (status (if r = Ok True then EsmeRok else EsmeRCancelFail))
       (ucast (u64_or 0 ''sequence_number'' v))]\<rparr>)"
proof -
  have c: "pending_cancel E v s = (r, s\<lparr>v_store := p'\<rparr>)"
    using assms(4) by (simp add: pending_cancel_def)
  have "server_handle_message E v s = send_response E failed_to_send (create_json_response (CommandId_as_u32 CancelSm)
      (ucast (u64_or 0 ''sequence_number'' v)) (status (if r = Ok True then EsmeRok else EsmeRCancelFail)) [])
      (s\<lparr>v_store := p'\<rparr>)"
    unfolding server_handle_message_def assms(3) Let_def option.case
    by (simp del: CommandId_as_u32.simps add: act_or_false_answer [where m = "pending_cancel E v", OF c assms(5)])
  then show ?thesis
    by (subst (asm) send_encoded_response [OF bare_command_reply [OF assms(1)]]) (simp_all add: assms(2))
qed

definition sample_cancel :: json where
  "sample_cancel = jobject [(''command_id'', JString ''0x00000008''), (''sequence_number'', JNumber (PosInt 5)),
     (''message_id'', JString ''m1'')]"

lemma sample_cancel_fields:
  "extract_command_id sample_cancel = Some CancelSm" "u64_or 0 ''sequence_number'' sample_cancel = 5"
  by code_simp+

theorem cancel_reports_outcome_witness:
  "v_sent (snd (server_handle_message sample_env sample_cancel sample_state))
     = [[0, 0, 0, 16, 0x80, 0, 0, 8, 0, 0, 0, 17, 0, 0, 0, 5]]"
proof -
  have "\<not> no_query_fields sample_cancel" by code_simp
  then have "store_cancel (e_store sample_env) sample_cancel (v_store sample_state)
      = (Ok False, SqlStore empty_sql_table)"
    by (simp add: store_cancel_def sample_state_def sql_cancel_message_def empty_sql_table_def statement_def
        st_sql_def sample_env_def)
  from cancel_reports_outcome [OF _ _ sample_cancel_fields(1) this]
  have "server_handle_message sample_env sample_cancel sample_state = (Ok (), sample_state\<lparr>v_store := SqlStore empty_sql_table,
      v_writes := 1, v_sent := [bare_reply CancelSm (status EsmeRCancelFail) 5]\<rparr>)"
    by (simp add: sample_env_def sample_state_def sample_cancel_fields)
  moreover have "bare_reply CancelSm (status EsmeRCancelFail) 5 = [0, 0, 0, 16, 0x80, 0, 0, 8, 0, 0, 0, 17, 0, 0, 0, 5]"
    by code_simp
  ultimately show ?thesis by simp
qed

lemma missing_message_id:
  "encode_field B (create_json_response w seq st []) (''message_id'', None) buf
     = Err (IoError InvalidInput ''Missing field: message_id'')"
proof -
  have "FIELD_CODECS ''message_id'' \<noteq> None" by code_simp
  then show ?thesis by (auto simp: encode_field_def create_json_response_def jget_jobject)
qed

text \<open>
  The answers to \<^verbatim>\<open>broadcast_sm\<close>, \<^verbatim>\<open>query_broadcast_sm\<close> and a \<^verbatim>\<open>deliver_sm\<close> sent by a
  client lack the mandatory \<^verbatim>\<open>message_id\<close> and cannot be encoded: the server reports success and
  writes no octet, so the client never sees a response.
\<close>

theorem broadcast_gets_no_octet:
  assumes "extract_command_id v = Some c" "c \<in> {BroadcastSm, QueryBroadcastSm, DeliverSm}" "e_write E (v_writes s)"
  shows "server_handle_message E v s = (Ok (), s\<lparr>v_writes := Suc (v_writes s), v_sent := v_sent s @ [[]]\<rparr>)"
proof -
  have "c \<in> {BroadcastSm, QueryBroadcastSm, DeliverSm} \<Longrightarrow>
     (case CommandId_from_u32 (0x80000000 OR CommandId_as_u32 c) of Some d \<Rightarrow> MESSAGE_COMMAND_FIELDS (CommandId_as_u32 d) | None \<Rightarrow> None)
       \<in> {Some [(''message_id'', None)], Some [(''message_id'', None), (''message_state'', None)]}"
    by (elim insertE emptyE; simp only:; code_simp)
  from this [OF assms(2)] obtain d fs where d: "CommandId_from_u32 (0x80000000 OR CommandId_as_u32 c) = Some d"
      "MESSAGE_COMMAND_FIELDS (CommandId_as_u32 d) = Some ((''message_id'', None) # fs)"
    by (auto split: option.splits)
  have "encode_or_empty E (create_json_response (CommandId_as_u32 c) seq st []) = Ok []" for seq st
    by (simp add: encode_or_empty_def from_json_def bare_response_header d encode_message_with_fields_def missing_message_id)
  from send_encoded_response [OF this assms(3)] show ?thesis
    using assms(2) unfolding server_handle_message_def assms(1) Let_def option.case
    by (elim insertE emptyE; simp add: CommandId_is_request_def CommandId_is_response_def)
qed

theorem broadcast_gets_no_octet_witness:
  "v_sent (snd (server_handle_message sample_env (jobject [(''command_name'', JString ''BroadcastSm'')]) sample_state)) = [[]]"
proof -
  have "extract_command_id (jobject [(''command_name'', JString ''BroadcastSm'')]) = Some BroadcastSm" by code_simp
  from broadcast_gets_no_octet [OF this, of sample_env sample_state] show ?thesis
    by (simp add: sample_env_def sample_state_def)
qed

section \<open>Binding\<close>

text \<open>
  C35.  A bind with wrong credentials is answered with \<^verbatim>\<open>ESME_RBINDFAIL\<close>, and the client is
  registered all the same: it receives messages although it is not authenticated.
\<close>

theorem failed_bind_registers_client:
  assumes "extract_command_id v = Some c" "c \<in> {BindTransmitter, BindReceiver, BindTransceiver}"
    "\<not> authenticate (e_auth_post E) (e_auth E) (str_or_empty ''system_id'' v) (str_or_empty ''password'' v)"
    "from_json (e_base64 E) (e_tlvs E)
       (bind_response E (CommandId_as_u32 c) (ucast (u64_or 0 ''sequence_number'' v)) v False) = Ok m"
    "e_write E (v_writes s)"
  shows "get_command_status (SMPPMessage_of (message m)) = Some (status EsmeRBindFail)
    \<and> server_handle_message E v s = (Ok (), s\<lparr>v_writes := Suc (v_writes s), v_sent := v_sent s @ [message m],
        v_clients := add_client (e_compile E) (e_peer E) (str_or_empty ''address_range'' v) (e_writer E) (v_clients s)\<rparr>)"
proof
  let ?seq = "ucast (u64_or 0 ''sequence_number'' v) :: u32"
  let ?r = "bind_response E (CommandId_as_u32 c) ?seq v False"
  have "handle_bind E (CommandId_as_u32 c) ?seq v s
      = (Ok (), s\<lparr>v_writes := Suc (v_writes s), v_sent := v_sent s @ [message m]\<rparr>)"
    using assms(3-5) by (simp add: handle_bind_def Let_def encode_or_empty_def act_map_err_def server_send_def)
  then show "server_handle_message E v s = (Ok (), s\<lparr>v_writes := Suc (v_writes s), v_sent := v_sent s @ [message m],
        v_clients := add_client (e_compile E) (e_peer E) (str_or_empty ''address_range'' v) (e_writer E) (v_clients s)\<rparr>)"
    using assms(2) by (auto simp: server_handle_message_def assms(1) Let_def act_match_def register_client_def)
  have f: "reply_fields [(''system_id'', JString (str_or_empty ''system_id'' v)), (''sc_interface_version'', jnum (e_interface_version E))]"
    by (simp add: reply_fields_def)
  have r: "header_number ''command_status'' ?r = Some (status EsmeRBindFail)"
    by (simp add: bind_response_def header_number_def create_json_response_def jget_jobject)
  obtain d where d: "extract_command_id ?r = Some d"
    using assms(4) by (auto simp: from_json_def split: option.splits)
  have q: "header_number ''sequence_number'' ?r = Some ?seq"
    by (simp add: bind_response_def header_number_def create_json_response_get(2) [OF f])
  show "get_command_status (SMPPMessage_of (message m)) = Some (status EsmeRBindFail)"
    using from_json_words [OF assms(4) d r q] by (cases m) simp
qed

definition sample_bind :: json where
  "sample_bind = jobject [(''command_name'', JString ''BindTransceiver''), (''sequence_number'', JNumber (PosInt 9)),
     (''system_id'', JString ''user''), (''password'', JString ''wrong''), (''address_range'', JString ''555'')]"

lemma sample_bind_fields:
  "extract_command_id sample_bind = Some BindTransceiver" "u64_or 0 ''sequence_number'' sample_bind = 9"
  "str_or_empty ''system_id'' sample_bind = ''user''" "str_or_empty ''password'' sample_bind = ''wrong''"
  "str_or_empty ''address_range'' sample_bind = ''555''"
  by code_simp+

lemma sample_bind_encodable:
  "is_ok (from_json std_base64 create_tlv_fields (create_json_response 9 9 13
     [(''system_id'', JString ''user''), (''sc_interface_version'', jnum (0x34 :: u8))]))"
  by code_simp

theorem failed_bind_registers_client_witness:
  "(let s = snd (server_handle_message sample_env sample_bind sample_state) in
     length (v_sent s) = 1 \<and> dom (clients (v_clients s)) = {''peer''} \<and> v_enquire_tasks s = 0)"
proof -
  have r: "bind_response sample_env (CommandId_as_u32 BindTransceiver) (ucast (u64_or 0 ''sequence_number'' sample_bind)) sample_bind False
      = create_json_response 9 9 13 [(''system_id'', JString ''user''), (''sc_interface_version'', jnum (0x34 :: u8))]"
    by (simp add: bind_response_def sample_bind_fields sample_env_def status_def)
  obtain m where m: "from_json std_base64 create_tlv_fields (create_json_response 9 9 13
     [(''system_id'', JString ''user''), (''sc_interface_version'', jnum (0x34 :: u8))]) = Ok m"
    using sample_bind_encodable by (auto elim: is_ok.elims)
  have "\<not> authenticate (e_auth_post sample_env) (e_auth sample_env) (str_or_empty ''system_id'' sample_bind)
      (str_or_empty ''password'' sample_bind)"
    by (simp add: sample_bind_fields authenticate_def sample_env_def)
  from failed_bind_registers_client [OF sample_bind_fields(1) _ this, unfolded r, of m sample_state] m show ?thesis
    by (simp add: sample_env_def sample_state_def sample_bind_fields add_client_def ClientManager_new_def)
qed

section \<open>Submitting\<close>

text \<open>The invariant of the store behind the server.\<close>

definition store_ok :: "sql_formats \<Rightarrow> pending_store \<Rightarrow> bool" where
  "store_ok S p = (case p of MemoryStore t \<Rightarrow> im_wf t | SqlStore t \<Rightarrow> formats_ok S \<and> sql_wf S t)"

lemma store_save_keeps:
  assumes "store_ok (st_formats D) p" "store_save D i v p = (Ok (), p')"
  shows "store_ok (st_formats D) p' \<and> v \<in> set (stored_under (st_formats D) p' i)"
proof (cases p)
  case (MemoryStore t)
  obtain t' where t: "im_save (st_chrono D, st_now D) i v t = (Ok (), t')" "p' = MemoryStore t'"
    using assms(2) by (cases "im_save (st_chrono D, st_now D) i v t") (simp add: store_save_def MemoryStore)
  have "im_wf t" using assms(1) by (simp add: store_ok_def MemoryStore)
  with t memory.save_ok [OF this t(1), of i] memory.wf_save [OF this, of "(st_chrono D, st_now D)" i v] show ?thesis
    by (simp add: store_ok_def stored_under_def)
next
  case (SqlStore t)
  obtain t' where t: "sql_save (st_formats D) (st_sql D) i v t = (Ok (), t')" "p' = SqlStore t'"
    using assms(2) by (cases "sql_save (st_formats D) (st_sql D) i v t") (simp add: store_save_def SqlStore)
  have wf: "formats_ok (st_formats D)" "sql_wf (st_formats D) t" using assms(1) by (simp_all add: store_ok_def SqlStore)
  with t sql.save_ok [OF wf(2) t(1), of i] sql.wf_save [OF wf(2), of "st_sql D" i v] show ?thesis
    by (simp add: store_ok_def stored_under_def)
qed



section \<open>Scheduled deliveries\<close>

lemma schedule_delivery_ok:
  "is_ok (fst (handle_schedule_delivery_message E v s)) \<or> fst (handle_schedule_delivery_message E v s) = Panic"
proof -
  have f: "fst (forward_message_to_client E w t) \<in> {Ok (), Panic}" for w t
    by (simp add: forward_message_to_client_def split: option.split outcome.split)
  have "fst (act_match (forward_message_to_client E w) act_return (\<lambda>_. act_return ()) t) \<in> {Ok (), Panic}" for w t
    using f [of w t] by (cases "forward_message_to_client E w t") (auto simp: act_match_def act_return_def)
  then have "fst (handle_schedule_delivery_message E v s) \<in> {Ok (), Panic}"
    by (auto simp: handle_schedule_delivery_message_def act_bind_def next_sequence_number_def act_return_def
        split: option.split prod.split)
  then show ?thesis by auto
qed

lemma schedule_delivery_no_clients:
  assumes "clients (v_clients s) = Map.empty" "is_ok (from_json (e_base64 E) (e_tlvs E) (as_deliver_sm (fst (allocator_next (v_seq s))) v))"
  shows "is_ok (fst (handle_schedule_delivery_message E v s))
    \<and> v_forwarded (snd (handle_schedule_delivery_message E v s)) = v_forwarded s"
proof -
  have g: "get_writer order a (v_clients s) = []" for order a
    using assms(1) by (induction order) (simp_all add: get_writer_def List.map_filter_def)
  have f: "forward_message_to_client E (as_deliver_sm n v) (s\<lparr>v_seq := q\<rparr>) = (Ok (), s\<lparr>v_seq := q\<rparr>)"
    if "allocator_next (v_seq s) = (n, q)" for n q
    using assms(2) that by (auto simp: forward_message_to_client_def client_send_message_def g elim: is_ok.elims split: option.split)
  show ?thesis
    by (auto simp: handle_schedule_delivery_message_def act_bind_def next_sequence_number_def act_match_def f
        act_return_def split: option.split prod.split)
qed

lemma sql_deliver_each_cong:
  "(\<And>n d. d \<in> set ds \<Longrightarrow> h n (snd d)) \<Longrightarrow> sql_deliver_each D h n ds t = sql_deliver_each D (\<lambda>_ _. True) n ds t"
  by (induction ds arbitrary: n t) (simp, force)

lemma sql_tick_all_delivered:
  assumes "sql_reachable S p t" "formats_ok S" "\<forall>n. env_error D n = None" "\<forall>rs. set (by_schedule S rs) = set rs"
    "\<And>n r. r \<in> set (rows t) \<Longrightarrow> due_row S (env_now D) r \<Longrightarrow> h n (the (parse_json S (row_message r)))"
  shows "rows (sql_delivery_tick S D h t) = filter (\<lambda>r. \<not> due_row S (env_now D) r) (rows t)"
proof -
  let ?due = "by_schedule S (filter (due_row S (env_now D)) (rows t))"
  let ?ds = "map (\<lambda>r. (row_id r, the (parse_json S (row_message r)))) ?due"
  have wf: "sql_wf S t" by (rule sql_reachable_wf [OF assms(1,2)])
  have due: "set ?due = {r \<in> set (rows t). due_row S (env_now D) r}" using assms(4) by auto
  then have "\<forall>r\<in>set ?due. row_ok S r" using wf by (simp add: sql_wf_def)
  then have q: "sql_get_delivery_messages S D t = (Ok ?ds, t)"
    using assms(3) by (simp add: sql_get_delivery_messages_def statement_def parse_rows_ok)
  have "d \<in> set ?ds \<Longrightarrow> h n (snd d)" for n d using due assms(5) by auto
  then have "sql_delivery_tick S D h t = sql_delivery_tick S D (\<lambda>_ _. True) t"
    unfolding sql_delivery_tick_def q prod.case outcome.case by (rule sql_deliver_each_cong)
  then show ?thesis using sql_tick_rows [OF assms(1-4), of "\<lambda>_. True"] by simp
qed


lemma sample_submit_sm_checked:
  "sql_check_save plain_sql_env 3600 sample_submit_sm = Ok (None, Some (seconds 3600))"
  "u8_field ''replace_if_present_flag'' sample_submit_sm = 0"
  by code_simp+

lemma sample_deliver_encodable: "is_ok (from_json std_base64 create_tlv_fields (as_deliver_sm 0 sample_submit_sm))"
  by code_simp


section \<open>Destinations of this gateway\<close>

lemma infallible_elementary:
  "infallible (act_return x)" "infallible (next_message_id E)" "infallible next_sequence_number"
  "infallible (act_io (encode_or_empty E v))"
  by (auto simp: infallible_def act_return_def next_message_id_def next_sequence_number_def act_io_def encode_or_empty_def
      split: outcome.split prod.split)

lemma infallible_process_local: "infallible (process_local_data_submit_message E cid seq v)"
  unfolding process_local_data_submit_message_def by (intro infallible_bind infallible_match infallible_elementary)

text \<open>
  A destination of \<^verbatim>\<open>submit_multi\<close> that is handled by the gateway itself never counts as
  unsuccessful, whether its handler answered, refused or could not be reached.
\<close>

theorem local_failures_unreported:
  assumes "is_my_request_address (v_handler s) (address a)"
  shows "fst (submit_multi_one E md cid seq i v a s) \<in> {Ok False, Panic}"
proof -
  have "fst (act_match (process_local_data_submit_message E c n w) (\<lambda>_. act_return False) (\<lambda>_. act_return True) t) \<in> {Ok False, Panic}"
    for c n w t
    using infallible_process_local [of E c n w, unfolded infallible_def, rule_format, of t]
    by (cases "process_local_data_submit_message E c n w t") (auto simp: act_match_def act_return_def elim: is_ok.elims)
  then show ?thesis using assms
    by (auto simp: submit_multi_one_def act_bind_def next_sequence_number_def Let_def split: prod.split)
qed

theorem local_failures_unreported_witness:
  "(let handler = HttpHandler (HttpMessageHandler_new (\<lambda>_. None) [''5''] [] [''http://down''] RoundRobin) in
    fst (submit_multi_one sample_env MM_StoreAndForward 0x21 1 ''m1'' sample_submit_sm \<lparr>ton = 1, npi = 1, address = ''5''\<rparr>
       (sample_state\<lparr>v_handler := handler\<rparr>)) \<in> {Ok False, Panic})"
  unfolding Let_def by (rule local_failures_unreported)
    (simp add: HttpMessageHandler_new_def http_is_my_request_address_def match_any_address_def match_any_pattern_def)

section \<open>Transactions\<close>

text \<open>
  In transaction mode the message is forwarded before the waiter is registered.  A response
  that arrives in between is dropped: whatever else arrives, the wait ends with its timeout.
\<close>

theorem early_response_lost:
  assumes "table_ok t" "senders t n = None" "n \<notin> fst ` set evs"
  shows "let (ch, t1) = transaction_wait_begin n (transaction_response_received n response t) in
    fst (transaction_wait_select False n ch (transaction.traffic evs t1)) = None
    \<and> fst (transaction_wait_select True n ch (transaction.traffic evs t1)) = Some None"
proof -
  obtain ch t1 where b: "transaction_wait_begin n t = (ch, t1)" by (cases "transaction_wait_begin n t")
  have "table_ok t1" "senders t1 n = Some ch" "channels t1 ch = Pending"
    using transaction.ok_register [OF assms(1), of n] transaction.register_senders [of n t]
      transaction.register_pending [of n t] b by simp_all
  from transaction.traffic_keeps [OF this assms(3)] show ?thesis
    using assms(2) b by (simp add: transaction_response_received_def transaction_wait_select_def Let_def)
qed

theorem early_response_lost_witness:
  "let (ch, t1) = transaction_wait_begin 7 (transaction_response_received 7 JNull empty_table) in
    fst (transaction_wait_select True 7 ch (transaction.traffic [(8, None)] t1)) = Some None"
proof -
  have "table_ok (empty_table :: TransactionResponseManager)" "senders (empty_table :: TransactionResponseManager) 7 = None"
    by simp (simp add: empty_table_def)
  moreover have "(7 :: u32) \<notin> fst ` set [(8, None)]" by simp
  ultimately show ?thesis using early_response_lost [of empty_table 7 "[(8, None)]" JNull] by (simp add: case_prod_beta)
qed

end
