(* ===== verification/Alarm.thy ===== *)
theory Alarm
  imports Json
begin

text \<open>
  Alarm notifications (\<^verbatim>\<open>alarm.rs\<close>): a notifier posts a JSON document to a URL or inserts a row
  into a table.  What has been posted and inserted is the state; whether a statement on the
  database succeeds is an argument.  Failures are logged and otherwise ignored.
\<close>

datatype AlarmConfig = AlarmHttp string string | AlarmDatabase string string

definition default_alarm_id :: string where
  "default_alarm_id = ''smsc_connection_failure''"

datatype AlarmNotifier = HttpAlarmNotifier string string | DatabaseAlarmNotifier string

text \<open>\<open>connect url\<close> and \<open>create\<close> give the error of connecting to the database and of creating the table.\<close>

definition create_alarm_notifier ::
    "(string \<Rightarrow> string option) \<Rightarrow> string option \<Rightarrow> AlarmConfig \<Rightarrow> AlarmNotifier io" where
  "create_alarm_notifier connect create config =
     (case config of
        AlarmHttp notify_url alarm_id \<Rightarrow> Ok (HttpAlarmNotifier notify_url alarm_id)
      | AlarmDatabase url alarm_id \<Rightarrow>
          (case connect url of
             Some e \<Rightarrow> Err (IoError ConnectionRefused e)
           | None \<Rightarrow>
               (case create of
                  Some e \<Rightarrow> Err (IoError Other e)
                | None \<Rightarrow> Ok (DatabaseAlarmNotifier alarm_id))))"

record alarm_row =
  ar_alarm_id :: string
  ar_status :: string
  ar_host :: string
  ar_port :: int
  ar_description :: string

record alarm_world =
  alarm_posts :: "(string \<times> json) list"
  alarm_rows :: "alarm_row list"
  alarm_statements :: nat

definition alarm_payload :: "string \<Rightarrow> string \<Rightarrow> string \<Rightarrow> u16 \<Rightarrow> string \<Rightarrow> json" where
  "alarm_payload alarm_id st host port description =
     jobject [(''alarm_id'', JString alarm_id), (''status'', JString st), (''host'', JString host),
       (''port'', jnum port), (''description'', JString description)]"

definition notify_alarm ::
    "(nat \<Rightarrow> bool) \<Rightarrow> AlarmNotifier \<Rightarrow> string \<Rightarrow> string \<Rightarrow> u16 \<Rightarrow> string \<Rightarrow> alarm_world \<Rightarrow> alarm_world" where
  "notify_alarm ok notifier st host port description w =
     (case notifier of
        HttpAlarmNotifier notify_url alarm_id \<Rightarrow>
          w\<lparr>alarm_posts := alarm_posts w @ [(notify_url, alarm_payload alarm_id st host port description)]\<rparr>
      | DatabaseAlarmNotifier alarm_id \<Rightarrow>
          w\<lparr>alarm_statements := Suc (alarm_statements w),
            alarm_rows := alarm_rows w @
              (if ok (alarm_statements w)
               then [\<lparr>ar_alarm_id = alarm_id, ar_status = st, ar_host = host, ar_port = uint port, ar_description = description\<rparr>]
               else [])\<rparr>)"

definition raise_alarm ::
    "(nat \<Rightarrow> bool) \<Rightarrow> AlarmNotifier \<Rightarrow> string \<Rightarrow> u16 \<Rightarrow> string \<Rightarrow> alarm_world \<Rightarrow> alarm_world" where
  "raise_alarm ok notifier host port description w = notify_alarm ok notifier ''raised'' host port description w"

definition clear_alarm ::
    "(nat \<Rightarrow> bool) \<Rightarrow> AlarmNotifier \<Rightarrow> string \<Rightarrow> u16 \<Rightarrow> string \<Rightarrow> alarm_world \<Rightarrow> alarm_world" where
  "clear_alarm ok notifier host port description w = notify_alarm ok notifier ''cleared'' host port description w"

definition no_alarms :: alarm_world where
  "no_alarms = \<lparr>alarm_posts = [], alarm_rows = [], alarm_statements = 0\<rparr>"

text \<open>What has been notified: the status, and where it concerns.\<close>

definition alarm_statuses :: "alarm_world \<Rightarrow> string list" where
  "alarm_statuses w = map (\<lambda>p. case jget ''status'' (snd p) of Some (JString t) \<Rightarrow> t | _ \<Rightarrow> []) (alarm_posts w)
     @ map ar_status (alarm_rows w)"

lemma alarm_payload_status [simp]: "jget ''status'' (alarm_payload i st h p d) = Some (JString st)"
  by (simp add: alarm_payload_def jget_jobject)

end
