(* ===== verification/Smsc_Connection.thy ===== *)
theory Smsc_Connection
  imports Actions Alarm Framing Delivery_Receipts Message_Handler Transactions Command_Status
begin

text \<open>
  A connection of the gateway to an SMSC (\<^verbatim>\<open>smsc_client/smsc_connection.rs\<close>): the bind handshake,
  the requests and responses that go over it, the main loop with its two timers, and the loop
  that reconnects and raises and clears alarms.
\<close>

section \<open>Environment and state\<close>

text \<open>\<^verbatim>\<open>parse_host_port\<close>: the text before and the number after the last colon.\<close>

definition parse_host_port :: "string \<Rightarrow> string \<times> u16" where
  "parse_host_port a =
     (if CHR '':'' \<in> set a
      then let port = rev (takeWhile (\<lambda>c. c \<noteq> CHR '':'') (rev a)) in
        (take (length a - Suc (length port)) a,
         case parse_unsigned (2 ^ 16) 10 port of Some n \<Rightarrow> word_of_nat n | None \<Rightarrow> 0)
      else (a, 0))"

text \<open>
  \<open>n_write i\<close> tells whether the \<open>i\<close>-th write succeeds, \<open>n_handler i\<close> answers the HTTP requests
  for the \<open>i\<close>-th message passed to the handler, \<open>n_clock i\<close> is the \<open>i\<close>-th reading of the clock, and
  \<open>n_response q\<close> is the response with sequence number \<open>q\<close> that arrives before its timer fires, if
  any.  \<open>n_alarm_ok\<close> tells which statements on the alarm table succeed.
\<close>

record connection_env =
  n_base64 :: base64
  n_tlvs :: "TLVFieldCodec list"
  n_config :: SmscConnectionConfig
  n_bind_type :: string
  n_notifier :: "AlarmNotifier option"
  n_write :: "nat \<Rightarrow> bool"
  n_handler :: "nat \<Rightarrow> http_poster"
  n_clock :: "nat \<Rightarrow> int"
  n_response :: "u32 \<Rightarrow> json option"
  n_alarm_ok :: "nat \<Rightarrow> bool"

text \<open>
  The state: the shared allocator, whether a socket is there to write to, the callbacks, the
  receipt registry and the handler; then what has been written and posted, and the two metrics.
\<close>

record connection_state =
  k_seq :: SequenceNumberAllocator
  k_writer :: bool
  k_responses :: ResponseManager
  k_receipts :: DeliveryReceiptManager
  k_readings :: nat
  k_handler :: message_handler
  k_handled :: nat
  k_sent :: "bytes list"
  k_writes :: nat
  k_posted :: "(string \<times> json) list"
  k_active :: int
  k_inbound :: nat
  k_alarms :: alarm_world

type_synonym 'a connection_action = "(connection_state, 'a) action"

section \<open>Sending\<close>

definition connection_write :: "connection_env \<Rightarrow> bytes \<Rightarrow> unit connection_action" where
  "connection_write E d s =
     (let s' = s\<lparr>k_writes := Suc (k_writes s)\<rparr> in
      if n_write E (k_writes s) then (Ok (), s'\<lparr>k_sent := k_sent s' @ [d]\<rparr>)
      else (Err (IoError Other ''write failed''), s'))"

text \<open>
  Waiting for a response on channel \<open>ch\<close>: a response that arrives in time goes through the
  callbacks; without one the timer fires.
\<close>

definition connection_wait_response :: "connection_env \<Rightarrow> u32 \<Rightarrow> nat \<Rightarrow> json connection_action" where
  "connection_wait_response E seq ch s =
     (let t = (case n_response E seq of
                 Some v \<Rightarrow> callback_response_received seq v (k_responses s)
               | None \<Rightarrow> k_responses s)
      in case channels t ch of
           Delivered (Ok response) \<Rightarrow> (Ok response, s\<lparr>k_responses := t\<rparr>)
         | Delivered _ \<Rightarrow> (Err (IoError Other ''Failed to receive response''), s\<lparr>k_responses := t\<rparr>)
         | SenderDropped \<Rightarrow> (Err (IoError Other ''Failed to receive response''), s\<lparr>k_responses := t\<rparr>)
         | _ \<Rightarrow> (Err (IoError TimedOut ''Timeout waiting for response''),
                 s\<lparr>k_responses := t\<lparr>channels := (channels t)(ch := ReceiverGone)\<rparr>\<rparr>))"

definition number_or_0 :: "u32 option \<Rightarrow> u32" where
  "number_or_0 n = (case n of Some w \<Rightarrow> w | None \<Rightarrow> 0)"

definition awaits_response :: "SMPPMessage \<Rightarrow> bool" where
  "awaits_response m = (is_request m \<and> number_or_0 (get_command_id m) \<noteq> CommandId_as_u32 EnquireLink)"

definition connection_register :: "SMPPMessage \<Rightarrow> nat option connection_action" where
  "connection_register m s =
     (if awaits_response m
      then case register_callback (number_or_0 (get_sequence_number m)) (k_responses s) of
             (ch, t) \<Rightarrow> (Ok (Some ch), s\<lparr>k_responses := t\<rparr>)
      else (Ok None, s))"

definition connection_send_message :: "connection_env \<Rightarrow> SMPPMessage \<Rightarrow> json option connection_action" where
  "connection_send_message E m =
     act_bind (connection_register m) (\<lambda>receiver s.
       if k_writer s
       then act_bind (connection_write E (message m)) (\<lambda>_.
              case receiver of
                Some ch \<Rightarrow>
                  act_bind (connection_wait_response E (number_or_0 (get_sequence_number m)) ch) (\<lambda>r. act_return (Some r))
              | None \<Rightarrow> act_return None) s
       else (Err (IoError NotConnected ''SMSC writer not available''), s))"

definition connection_next_number :: "u32 connection_action" where
  "connection_next_number s = (case allocator_next (k_seq s) of (n, q) \<Rightarrow> (Ok n, s\<lparr>k_seq := q\<rparr>))"

definition link_message :: "string \<Rightarrow> u32 \<Rightarrow> json" where
  "link_message command seq =
     jobject [(''command_id'', JString command), (''command_status'', jnum (0 :: u32)), (''sequence_number'', jnum seq)]"

definition send_enquire_link :: "connection_env \<Rightarrow> unit connection_action" where
  "send_enquire_link E =
     act_bind connection_next_number (\<lambda>seq.
     act_bind (act_io (case from_json (n_base64 E) (n_tlvs E) (link_message ''0x00000015'' seq) of
         Ok m \<Rightarrow> Ok m | Err _ \<Rightarrow> Ok (SMPPMessage_of []) | Panic \<Rightarrow> Panic)) (\<lambda>m.
     act_bind (connection_send_message E m) (\<lambda>_. act_return ())))"

section \<open>Binding\<close>

definition bind_command :: "string \<Rightarrow> CommandId" where
  "bind_command bind_type =
     (if bind_type = ''transmitter'' then BindTransmitter
      else if bind_type = ''receiver'' then BindReceiver
      else if bind_type = ''transceiver'' then BindTransceiver
      else BindTransceiver)"

definition create_bind_message :: "connection_env \<Rightarrow> u32 \<Rightarrow> SMPPMessage io" where
  "create_bind_message E seq_num =
     (let c = n_config E in
      update_length (SMPPMessage_of
        (write_c_octet_str (sc_address_range c)
        (write_u8 (sc_addr_npi c)
        (write_u8 (sc_addr_ton c)
        (write_u8 (sc_interface_version c)
        (write_c_octet_str (sc_system_type c)
        (write_c_octet_str (sc_password c)
        (write_c_octet_str (sc_system_id c)
        (write_u32 seq_num (write_u32 0 (write_u32 (CommandId_as_u32 (bind_command (n_bind_type E))) (write_u32 0 []))))))))))))) "

definition is_bind_ok :: "json \<Rightarrow> bool" where
  "is_bind_ok response =
     (case extract_command_id response of
        Some c \<Rightarrow>
          c \<in> set [BindTransmitterResp, BindReceiverResp, BindTransceiverResp]
          \<and> u64_or (ucast (CommandStatus_as_u32 EsmeRInvBndSts)) ''command_status'' response
             = ucast (CommandStatus_as_u32 EsmeRok)
      | None \<Rightarrow> False)"

text \<open>
  The loop of \<^verbatim>\<open>do_bind\<close> on the events it selects: the socket is readable, or the timer, which is
  armed anew in every round, has fired.  The result is \<open>None\<close> while the loop still runs.  An error
  of the read is ignored, and so is the end of the stream, a read of no octets.
\<close>

datatype bind_event = BindReadable read_result | BindTimeout

fun bind_loop :: "base64 \<Rightarrow> bind_event list \<Rightarrow> SmppMessageBuffer \<Rightarrow> unit io option \<times> SmppMessageBuffer" where
  "bind_loop B [] b = (None, b)"
| "bind_loop B (BindTimeout # es) b = (Some (Err (IoError TimedOut ''Timeout waiting for bind response'')), b)"
| "bind_loop B (BindReadable (ReadData data) # es) b =
     (case extract_message (SmppMessageBuffer_write data b) of
        (Some m, b1) \<Rightarrow>
          (case to_json B m of
             Ok response \<Rightarrow> (Some (if is_bind_ok response then Ok () else Err (IoError Other ''Bind failed'')), b1)
           | Err _ \<Rightarrow> (Some (Err (IoError Other ''Failed to decode bind response'')), b1)
           | Panic \<Rightarrow> (Some Panic, b1))
      | (None, b1) \<Rightarrow> bind_loop B es b1)"
| "bind_loop B (BindReadable _ # es) b = bind_loop B es b"

definition do_bind ::
    "connection_env \<Rightarrow> bind_event list \<Rightarrow> SmppMessageBuffer \<Rightarrow> connection_state
     \<Rightarrow> (unit io option \<times> SmppMessageBuffer) \<times> connection_state" where
  "do_bind E es b s =
     (case act_bind connection_next_number (\<lambda>seq. act_bind (act_io (create_bind_message E seq)) (\<lambda>m s.
             if k_writer s then connection_write E (message m) s
             else (Err (IoError Other ''SMSC writer not available''), s))) s of
        (Ok _, s') \<Rightarrow> (bind_loop (n_base64 E) es b, s')
      | (Err e, s') \<Rightarrow> ((Some (Err e), b), s')
      | (Panic, s') \<Rightarrow> ((Some Panic, b), s'))"

section \<open>Incoming messages\<close>

definition process_enquire_link :: "connection_env \<Rightarrow> SMPPMessage \<Rightarrow> unit connection_action" where
  "process_enquire_link E m =
     act_bind (act_io (from_json (n_base64 E) (n_tlvs E)
        (link_message ''0x80000015'' (number_or_0 (get_sequence_number m))))) (\<lambda>r.
     act_bind (connection_send_message E r) (\<lambda>_. act_return ()))"

definition deliver_sm_response :: "u32 \<Rightarrow> u32 \<Rightarrow> u32 \<Rightarrow> json" where
  "deliver_sm_response sequence_number command_id command_status =
     create_json_response command_id sequence_number command_status [(''message_id'', JString [])]"

definition send_deliver_sm_resp :: "connection_env \<Rightarrow> u32 \<Rightarrow> u32 \<Rightarrow> u32 \<Rightarrow> unit connection_action" where
  "send_deliver_sm_resp E sequence_number command_id command_status =
     act_bind (act_io (map_err (\<lambda>_. IoError InvalidData ''Failed to encode response'')
        (from_json (n_base64 E) (n_tlvs E) (deliver_sm_response sequence_number command_id command_status)))) (\<lambda>v.
     act_bind (connection_send_message E v) (\<lambda>_. act_return ()))"

text \<open>
  \<^verbatim>\<open>handle_deliver_sm\<close>.  A receipt with a registered URL is posted by a spawned task, and the
  function returns; everything else goes to the message handler and is acknowledged.
\<close>

definition lookup_receipt :: "connection_env \<Rightarrow> json \<Rightarrow> string option connection_action" where
  "lookup_receipt E v s =
     (let receipted_message_id = str_or_empty ''receipted_message_id'' v;
          esm_class = (case EsmClass_from_u8 (ucast (u64_or 0 ''esm_class'' v)) of Some e \<Rightarrow> e | None \<Rightarrow> EsmClass_default)
      in if receipted_message_id = [] then (Ok None, s)
         else case get_receipt_url (n_clock E (k_readings s)) receipted_message_id esm_class (k_receipts s) of
                (url, r) \<Rightarrow> (Ok url, s\<lparr>k_receipts := r, k_readings := Suc (k_readings s)\<rparr>))"

definition connection_handle :: "connection_env \<Rightarrow> json \<Rightarrow> json connection_action" where
  "connection_handle E v s =
     (case handle_message (n_handler E (k_handled s)) v (k_handler s) of
        (r, h) \<Rightarrow> (r, s\<lparr>k_handler := h, k_handled := Suc (k_handled s)\<rparr>))"

definition handler_status :: "json \<Rightarrow> u32" where
  "handler_status response =
     (case jget ''command_status'' response of
        Some v \<Rightarrow> (case as_u64 v of Some n \<Rightarrow> ucast n | None \<Rightarrow> 0)
      | None \<Rightarrow> 0)"

definition handle_deliver_sm :: "connection_env \<Rightarrow> SMPPMessage \<Rightarrow> json \<Rightarrow> unit connection_action" where
  "handle_deliver_sm E m v s =
     act_bind (lookup_receipt E v) (\<lambda>url.
       case url of
         Some receipt_url \<Rightarrow> (\<lambda>s. (Ok (), s\<lparr>k_posted := k_posted s @ [(receipt_url, v)]\<rparr>))
       | None \<Rightarrow>
           act_bind (act_match (connection_handle E v)
               (\<lambda>response. act_return (handler_status response))
               (\<lambda>_. act_return (CommandStatus_as_u32 EsmeRSysErr))) (\<lambda>command_status.
           send_deliver_sm_resp E (number_or_0 (get_sequence_number m)) (number_or_0 (get_command_id m)) command_status))
       (s\<lparr>k_inbound := Suc (k_inbound s)\<rparr>)"

definition process_in_message :: "connection_env \<Rightarrow> SMPPMessage \<Rightarrow> unit connection_action" where
  "process_in_message E m =
     (let seq = number_or_0 (get_sequence_number m);
          command_id = (case CommandId_from_u32 (number_or_0 (get_command_id m)) of Some c \<Rightarrow> c | None \<Rightarrow> Unknown)
      in case to_json (n_base64 E) m of
           Ok v \<Rightarrow>
             if command_id = EnquireLink then process_enquire_link E m
             else if command_id = EnquireLinkResp then act_return ()
             else if command_id = DeliverSm \<or> command_id = DataSm then handle_deliver_sm E m v
             else if command_id = AlertNotification \<or> command_id = GenericNack then act_return ()
             else if CommandId_is_response command_id
             then (\<lambda>s. (Ok (), s\<lparr>k_responses := callback_response_received seq v (k_responses s)\<rparr>))
             else act_return ()
         | Err _ \<Rightarrow> act_io (Err (IoError InvalidData ''Failed to decode message from SMSC''))
         | Panic \<Rightarrow> act_io Panic)"

section \<open>The main loop\<close>

text \<open>Errors of a message are logged; the messages after it are processed all the same.\<close>

fun process_in_messages :: "connection_env \<Rightarrow> SMPPMessage list \<Rightarrow> unit connection_action" where
  "process_in_messages E [] = act_return ()"
| "process_in_messages E (m # ms) =
     act_match (process_in_message E m) (\<lambda>_. process_in_messages E ms) (\<lambda>_. process_in_messages E ms)"

datatype loop_event = Readable read_result | EnquireTick | InactiveTick

text \<open>
  The loop of \<^verbatim>\<open>connect_smsc_to\<close> on the events it selects.  The first component of the result is
  \<open>None\<close> while the loop runs; \<open>received\<close> is the number of reads since the last tick of the
  inactivity timer.  \<open>None\<close> as a whole is a read that never returns.
\<close>

fun main_loop ::
    "connection_env \<Rightarrow> loop_event list \<Rightarrow> SmppMessageBuffer \<Rightarrow> u32 \<Rightarrow> connection_state
     \<Rightarrow> (unit io option \<times> SmppMessageBuffer \<times> connection_state) option" where
  "main_loop E [] b received s = Some (None, b, s)"
| "main_loop E (Readable r # es) b received s =
     (case read_messages r b of
        Some (Ok (Some ms), b1) \<Rightarrow>
          (case process_in_messages E ms s of
             (Ok _, s1) \<Rightarrow> main_loop E es b1 (received + 1) s1
           | (Err _, s1) \<Rightarrow> main_loop E es b1 (received + 1) s1
           | (Panic, s1) \<Rightarrow> Some (Some Panic, b1, s1))
      | Some (Ok None, b1) \<Rightarrow> main_loop E es b1 received s
      | Some (Err _, b1) \<Rightarrow> Some (Some (Ok ()), b1, s)
      | Some (Panic, b1) \<Rightarrow> Some (Some Panic, b1, s)
      | None \<Rightarrow> None)"
| "main_loop E (EnquireTick # es) b received s =
     (case send_enquire_link E s of
        (Ok _, s1) \<Rightarrow> main_loop E es b received s1
      | (Err e, s1) \<Rightarrow> Some (Some (Err e), b, s1)
      | (Panic, s1) \<Rightarrow> Some (Some Panic, b, s1))"
| "main_loop E (InactiveTick # es) b received s =
     (if received = 0 then Some (Some (Ok ()), b, s) else main_loop E es b 0 s)"

section \<open>Reconnecting\<close>

text \<open>One attempt to connect: the outcome of the TCP connection, then the events of the two loops.\<close>

record attempt =
  a_connect :: "unit io"
  a_bind :: "bind_event list"
  a_loop :: "loop_event list"

definition address_text :: "connection_env \<Rightarrow> string" where
  "address_text E = (case parse_host_port (sc_address (n_config E)) of (host, port) \<Rightarrow> host @ '':'' @ fmt_dec (unat port))"

definition tell_alarm :: "connection_env \<Rightarrow> bool \<Rightarrow> string \<Rightarrow> connection_state \<Rightarrow> connection_state" where
  "tell_alarm E raised description s =
     (case (n_notifier E, parse_host_port (sc_address (n_config E))) of
        (Some notifier, host, port) \<Rightarrow>
          s\<lparr>k_alarms := (if raised then raise_alarm else clear_alarm) (n_alarm_ok E) notifier host port description (k_alarms s)\<rparr>
      | (None, _) \<Rightarrow> s)"

text \<open>
  \<^verbatim>\<open>connect_smsc_to\<close>: its result, \<open>None\<close> while it runs, with the flag \<^verbatim>\<open>alarm_active\<close> and the
  state.  The gauge of active connections is lowered where the main loop breaks, and not where
  sending an \<^verbatim>\<open>enquire_link\<close> fails.
\<close>

definition restored :: "connection_env \<Rightarrow> bool \<Rightarrow> connection_state \<Rightarrow> bool \<times> connection_state" where
  "restored E alarm_active s =
     (let s1 = s\<lparr>k_active := k_active s + 1\<rparr> in
      if alarm_active then (False, tell_alarm E False (''Connection to SMSC '' @ address_text E @ '' restored'') s1)
      else (False, s1))"

definition connect_smsc_to ::
    "connection_env \<Rightarrow> attempt \<Rightarrow> bool \<Rightarrow> connection_state \<Rightarrow> (unit io option \<times> bool \<times> connection_state) option" where
  "connect_smsc_to E a alarm_active s =
     (case a_connect a of
        Ok _ \<Rightarrow>
          (case do_bind E (a_bind a) SmppMessageBuffer_new (s\<lparr>k_writer := True\<rparr>) of
             ((Some (Ok _), b), s1) \<Rightarrow>
               (case restored E alarm_active s1 of
                  (active, s2) \<Rightarrow>
                    (case main_loop E (a_loop a) b 0 s2 of
                       Some (Some (Ok _), _, s3) \<Rightarrow> Some (Some (Ok ()), active, s3\<lparr>k_active := k_active s3 - 1\<rparr>)
                     | Some (r, _, s3) \<Rightarrow> Some (r, active, s3)
                     | None \<Rightarrow> None))
           | ((r, _), s1) \<Rightarrow> Some (r, alarm_active, s1))
      | Err e \<Rightarrow> Some (Some (Err e), alarm_active, s)
      | Panic \<Rightarrow> Some (Some Panic, alarm_active, s))"

definition error_text :: "io_error \<Rightarrow> string" where
  "error_text e = (case e of IoError _ msg \<Rightarrow> msg)"

text \<open>One round of \<^verbatim>\<open>run\<close> after an attempt has ended with result \<open>r\<close>.\<close>

definition after_attempt :: "connection_env \<Rightarrow> unit io \<Rightarrow> bool \<Rightarrow> connection_state \<Rightarrow> bool \<times> connection_state" where
  "after_attempt E r alarm_active s =
     (case r of
        Ok _ \<Rightarrow>
          if n_notifier E = None then (alarm_active, s)
          else (True, tell_alarm E True (''Connection to SMSC '' @ address_text E @ '' lost'') s)
      | Err e \<Rightarrow>
          if n_notifier E = None \<or> alarm_active then (alarm_active, s)
          else (True, tell_alarm E True (''Failed to connect to SMSC '' @ address_text E @ '': '' @ error_text e) s)
      | Panic \<Rightarrow> (alarm_active, s))"

text \<open>\<^verbatim>\<open>run\<close> on a sequence of attempts; the last one may still be running.\<close>

fun connection_run :: "connection_env \<Rightarrow> attempt list \<Rightarrow> bool \<Rightarrow> connection_state \<Rightarrow> (bool \<times> connection_state) option" where
  "connection_run E [] alarm_active s = Some (alarm_active, s)"
| "connection_run E (a # as) alarm_active s =
     (case connect_smsc_to E a alarm_active s of
        Some (Some Panic, active, s1) \<Rightarrow> Some (active, s1)
      | Some (Some r, active, s1) \<Rightarrow> (case after_attempt E r active s1 of (active', s2) \<Rightarrow> connection_run E as active' s2)
      | Some (None, active, s1) \<Rightarrow> Some (active, s1)
      | None \<Rightarrow> None)"

end
