(* ===== verification/Connection_Laws.thy ===== *)
theory Connection_Laws
  imports Smsc_Connection Replies
begin

text \<open>
  What a connection to an SMSC promises: the bind PDU carries its configuration, alarms are
  raised and cleared in turn, inbound messages are acknowledged, and what happens when the SMSC
  closes the connection during the bind.
\<close>

section \<open>The bind PDU\<close>

lemma bind_command_fields: "MESSAGE_COMMAND_FIELDS (CommandId_as_u32 (bind_command t)) = Some bind_transceiver_fields"
proof -
  have "c \<in> {BindTransmitter, BindReceiver, BindTransceiver} \<Longrightarrow>
      MESSAGE_COMMAND_FIELDS (CommandId_as_u32 c) = Some bind_transceiver_fields" for c
    by (elim insertE emptyE; simp only:; code_simp)
  then show ?thesis by (simp add: bind_command_def)
qed

lemma bind_codecs:
  "FIELD_CODECS ''system_id'' = Some (COctetStrFieldCodec 16)" "FIELD_CODECS ''password'' = Some (COctetStrFieldCodec 9)"
  "FIELD_CODECS ''system_type'' = Some (COctetStrFieldCodec 13)" "FIELD_CODECS ''interface_version'' = Some U8FieldCodec"
  "FIELD_CODECS ''addr_ton'' = Some U8FieldCodec" "FIELD_CODECS ''addr_npi'' = Some U8FieldCodec"
  "FIELD_CODECS ''address_range'' = Some (COctetStrFieldCodec 41)"
  by code_simp+

definition bind_octets :: "SmscConnectionConfig \<Rightarrow> bytes" where
  "bind_octets c = as_bytes (sc_system_id c) @ 0 # as_bytes (sc_password c) @ 0 # as_bytes (sc_system_type c) @ 0 #
     sc_interface_version c # sc_addr_ton c # sc_addr_npi c # as_bytes (sc_address_range c) @ [0]"

lemma create_bind_message_octets:
  "create_bind_message E seq = Ok (SMPPMessage_of
     (u32_be (word_of_nat (16 + length (bind_octets (n_config E)))) @ u32_be (CommandId_as_u32 (bind_command (n_bind_type E)))
       @ u32_be 0 @ u32_be seq @ bind_octets (n_config E)))"
  by (simp add: create_bind_message_def Let_def write_defs update_length_def put_u32_at_def map_ok_def bind_octets_def)

definition bind_json :: "CommandId \<Rightarrow> u32 \<Rightarrow> SmscConnectionConfig \<Rightarrow> json" where
  "bind_json c seq cfg =
     jobject [(''command_name'', JString (CommandId_to_str c)), (''command_id'', JString (command_hex (CommandId_as_u32 c))),
       (''command_status'', jnum (0 :: u32)), (''sequence_number'', jnum seq),
       (''system_id'', JString (sc_system_id cfg)), (''password'', JString (sc_password cfg)),
       (''system_type'', JString (sc_system_type cfg)), (''interface_version'', jnum (sc_interface_version cfg)),
       (''addr_ton'', jnum (sc_addr_ton cfg)), (''addr_npi'', jnum (sc_addr_npi cfg)),
       (''address_range'', JString (sc_address_range cfg))]"

lemma decode_bind_fields:
  assumes "c_string_ok (sc_system_id c)" "c_string_ok (sc_password c)" "c_string_ok (sc_system_type c)" "c_string_ok (sc_address_range c)"
  shows "decode_fields B bind_transceiver_fields m (bind_octets c) =
     (Ok (insert_all [(''system_id'', JString (sc_system_id c)), (''password'', JString (sc_password c)),
       (''system_type'', JString (sc_system_type c)), (''interface_version'', jnum (sc_interface_version c)),
       (''addr_ton'', jnum (sc_addr_ton c)), (''addr_npi'', jnum (sc_addr_npi c)),
       (''address_range'', JString (sc_address_range c))] m), [])"
  using assms
  by (simp add: bind_transceiver_fields_def bind_codecs decode_c_octet_str_def read_c_octet_str_append decode_uint_def
      bind_octets_def wire_simps)

lemma to_json_bind:
  assumes "c_string_ok (sc_system_id c)" "c_string_ok (sc_password c)" "c_string_ok (sc_system_type c)" "c_string_ok (sc_address_range c)"
  shows "to_json B (SMPPMessage_of (u32_be n @ u32_be (CommandId_as_u32 (bind_command t)) @ u32_be 0 @ u32_be seq @ bind_octets c))
     = Ok (bind_json (bind_command t) seq c)"
proof -
  have k: "bind_command t \<noteq> Unknown" by (simp add: bind_command_def)
  show ?thesis
    unfolding to_json_def
    by (simp add: read_u32_u32_be bind_command_fields decode_bind_fields [OF assms] from_u32_as_u32 [OF k]
        decode_tlvs.simps bind_json_def jobject_def map_ok_def)
qed

section \<open>Alarms and the gauge of active connections\<close>

text \<open>Only the outer loops touch the alarms and the gauge.\<close>

abbreviation outer :: "connection_state \<Rightarrow> alarm_world \<times> int" where
  "outer s \<equiv> (k_alarms s, k_active s)"

lemma outer_elementary:
  "preserves outer (connection_write E d)" "preserves outer (connection_wait_response E q ch)"
  "preserves outer (connection_register m)" "preserves outer connection_next_number"
  "preserves outer (lookup_receipt E v)" "preserves outer (connection_handle E v)"
  by (auto simp: preserves_def connection_write_def connection_wait_response_def connection_register_def
      connection_next_number_def lookup_receipt_def connection_handle_def Let_def
      split: prod.split channel.split outcome.split option.split)

lemma preserves_guard: "preserves view m \<Longrightarrow> preserves view (\<lambda>s. if b s then m s else (r s, s))"
  by (simp add: preserves_def)

lemma preserves_option: "(\<And>x. y = Some x \<Longrightarrow> preserves view (f x)) \<Longrightarrow> (y = None \<Longrightarrow> preserves view m)
    \<Longrightarrow> preserves view (case y of Some x \<Rightarrow> f x | None \<Rightarrow> m)"
  by (cases y) simp_all

lemma outer_send: "preserves outer (connection_send_message E m)"
  unfolding connection_send_message_def
  by (intro preserves_bind preserves_guard preserves_option preserves_return outer_elementary)

lemma outer_actions:
  "preserves outer (send_enquire_link E)" "preserves outer (process_enquire_link E m)"
  "preserves outer (send_deliver_sm_resp E q c st)"
  unfolding send_enquire_link_def process_enquire_link_def send_deliver_sm_resp_def
  by (intro preserves_bind preserves_io preserves_return outer_send outer_elementary)+

lemma preserves_state: "preserves view m \<Longrightarrow> (\<And>s. view (h s) = view s) \<Longrightarrow> preserves view (\<lambda>s. m (h s))"
  by (simp add: preserves_def)

lemma outer_deliver: "preserves outer (handle_deliver_sm E m v)"
proof -
  have posted: "preserves outer (\<lambda>s. (Ok (), s\<lparr>k_posted := k_posted s @ [x]\<rparr>))" for x by (simp add: preserves_def)
  show ?thesis
    unfolding handle_deliver_sm_def [abs_def]
    by (rule preserves_state)
      (auto intro!: preserves_bind preserves_match preserves_return outer_elementary outer_actions posted split: option.split)
qed

lemma outer_process: "preserves outer (process_in_message E m)"
proof -
  have "preserves outer (\<lambda>s. (Ok (), s\<lparr>k_responses := f s\<rparr>))" for f by (simp add: preserves_def)
  then show ?thesis
    unfolding process_in_message_def Let_def
    by (cases "to_json (n_base64 E) m")
      (auto intro!: preserves_cond preserves_return preserves_io outer_actions outer_deliver simp del: if_split)
qed

lemma outer_process_all: "preserves outer (process_in_messages E ms)"
  by (induction ms) (auto intro!: preserves_return preserves_match outer_process)

lemma emitsD: "emits view P m \<Longrightarrow>
    \<exists>ds. view (snd (m s)) = view s @ ds \<and> length ds \<le> 1 \<and> (\<forall>d\<in>set ds. P d) \<and> (is_ok (fst (m s)) \<longrightarrow> length ds = 1)"
  unfolding emits_def by (rule spec)

lemma preservesD: "preserves view m \<Longrightarrow> m s = (r, s') \<Longrightarrow> view s' = view s"
  by (metis preserves_def snd_conv)

lemma main_loop_outer: "main_loop E es b n s = Some (r, b', s') \<Longrightarrow> outer s' = outer s"
proof (induction es arbitrary: b n s)
  case (Cons e es)
  show ?case
  proof (cases e)
    case (Readable rd)
    obtain q b1 where rd: "read_messages rd b = Some (q, b1)" using Cons.prems by (auto simp: Readable split: option.splits)
    show ?thesis
    proof (cases "\<exists>ms. q = Ok (Some ms)")
      case True
      then obtain ms where q: "q = Ok (Some ms)" by blast
      obtain p s1 where p: "process_in_messages E ms s = (p, s1)" by (cases "process_in_messages E ms s")
      then have "outer s1 = outer s" by (rule preservesD [OF outer_process_all])
      moreover have "outer s' = outer s1" using Cons.prems Cons.IH by (cases p) (simp_all add: Readable rd q p)
      ultimately show ?thesis by simp
    next
      case False
      then have "main_loop E es b1 n s = Some (r, b', s') \<or> s' = s"
        using Cons.prems by (cases q) (auto simp: Readable rd split: option.splits)
      then show ?thesis using Cons.IH by blast
    qed
  next
    case EnquireTick
    obtain p s1 where p: "send_enquire_link E s = (p, s1)" by (cases "send_enquire_link E s")
    then have "outer s1 = outer s" by (rule preservesD [OF outer_actions(1)])
    moreover have "outer s' = outer s1" using Cons.prems Cons.IH by (cases p) (simp_all add: EnquireTick p)
    ultimately show ?thesis by simp
  next
    case InactiveTick
    then show ?thesis using Cons by (auto split: if_splits)
  qed
qed simp

lemma do_bind_outer: "do_bind E es b s = (r, s') \<Longrightarrow> outer s' = outer s"
proof -
  have "preserves outer (act_bind connection_next_number (\<lambda>seq. act_bind (act_io (create_bind_message E seq)) (\<lambda>m s.
             if k_writer s then connection_write E (message m) s
             else (Err (IoError Other ''SMSC writer not available''), s))))"
    by (intro preserves_bind preserves_io preserves_guard outer_elementary)
  then show "do_bind E es b s = (r, s') \<Longrightarrow> outer s' = outer s"
    by (auto simp: do_bind_def split: prod.splits outcome.splits dest!: preservesD)
qed

definition told :: "connection_env \<Rightarrow> bool \<Rightarrow> string \<Rightarrow> alarm_world \<Rightarrow> alarm_world" where
  "told E raised description w =
     (case (n_notifier E, parse_host_port (sc_address (n_config E))) of
        (Some notifier, host, port) \<Rightarrow> (if raised then raise_alarm else clear_alarm) (n_alarm_ok E) notifier host port description w
      | (None, _) \<Rightarrow> w)"

lemma tell_alarm_told: "k_alarms (tell_alarm E raised d s) = told E raised d (k_alarms s)" "k_active (tell_alarm E raised d s) = k_active s"
  by (auto simp: tell_alarm_def told_def split: option.split prod.split)

text \<open>
  An attempt that has ended: either it never bound, or it cleared an active alarm, and then the
  gauge is back at its value exactly when the main loop was left by a break.
\<close>

lemma connect_cases:
  assumes "connect_smsc_to E a al s = Some (r, al', s')"
  obtains "al' = al" "outer s' = outer s" "r \<noteq> Some (Ok ())"
      "is_ok (a_connect a) \<Longrightarrow> fst (fst (do_bind E (a_bind a) SmppMessageBuffer_new (s\<lparr>k_writer := True\<rparr>))) \<noteq> Some (Ok ())"
  | d where "al' = False" "k_alarms s' = (if al then told E False d (k_alarms s) else k_alarms s)"
      "k_active s' = (if r = Some (Ok ()) then k_active s else k_active s + 1)"
proof (cases "a_connect a")
  case (Ok u)
  obtain rb b s1 where d: "do_bind E (a_bind a) SmppMessageBuffer_new (s\<lparr>k_writer := True\<rparr>) = ((rb, b), s1)"
    by (metis prod.collapse)
  then have o: "outer s1 = outer s" using do_bind_outer by fastforce
  show ?thesis
  proof (cases "rb = Some (Ok ())")
    case True
    obtain al2 s2 where r2: "restored E al s1 = (al2, s2)" by (cases "restored E al s1")
    obtain q b3 s3 where m: "main_loop E (a_loop a) b 0 s2 = Some (q, b3, s3)"
      using assms by (auto simp: connect_smsc_to_def Ok d True r2 split: option.splits)
    have a: "al' = al2" "k_alarms s' = k_alarms s3" "k_active s' = (if q = Some (Ok ()) then k_active s3 - 1 else k_active s3)" "r = q"
      using assms m by (auto simp: connect_smsc_to_def Ok d True r2 split: option.splits outcome.splits)
    obtain t where "al2 = False" "k_alarms s2 = (if al then told E False t (k_alarms s1) else k_alarms s1)" "k_active s2 = k_active s1 + 1"
      using r2 by (auto simp: restored_def Let_def tell_alarm_told split: if_splits)
    then show ?thesis using that(2) [of t] a o main_loop_outer [OF m] by auto
  next
    case False
    then have "r = rb \<and> al' = al \<and> s' = s1" using assms
      by (auto simp: connect_smsc_to_def Ok d split: option.splits outcome.splits)
    with that(1) o False show ?thesis by (simp add: d)
  qed
qed (use assms that(1) in \<open>auto simp: connect_smsc_to_def\<close>)

definition alarm_inv :: "bool \<Rightarrow> alarm_world \<Rightarrow> bool" where
  "alarm_inv active w =
     (alarm_rows w = [] \<and> (active \<longleftrightarrow> odd (length (alarm_statuses w)))
      \<and> (\<forall>i<length (alarm_statuses w). alarm_statuses w ! i = (if even i then ''raised'' else ''cleared'')))"

lemma told_statuses:
  assumes "n_notifier E = Some (HttpAlarmNotifier url i)" "alarm_rows w = []"
  shows "alarm_statuses (told E raised d w) = alarm_statuses w @ [if raised then ''raised'' else ''cleared'']
    \<and> alarm_rows (told E raised d w) = []"
  using assms by (auto simp: told_def alarm_statuses_def raise_alarm_def clear_alarm_def notify_alarm_def split: prod.split)

lemma alarm_inv_told:
  assumes "n_notifier E = Some (HttpAlarmNotifier url i)" "alarm_inv (\<not> raised) w"
  shows "alarm_inv raised (told E raised d w)"
  using assms(2) told_statuses [OF assms(1), of w raised d]
  by (auto simp: alarm_inv_def nth_append less_Suc_eq)

lemma after_attempt_inv:
  assumes "n_notifier E = Some (HttpAlarmNotifier url i)" "alarm_inv active (k_alarms s)" "is_ok r \<Longrightarrow> \<not> active"
    "after_attempt E r active s = (active', s')"
  shows "alarm_inv active' (k_alarms s')"
  using assms alarm_inv_told [OF assms(1), of True "k_alarms s"]
  by (cases r) (auto simp: after_attempt_def tell_alarm_told split: if_splits)

section \<open>A sample connection\<close>

definition sample_connection :: connection_env where
  "sample_connection = \<lparr>n_base64 = std_base64, n_tlvs = create_tlv_fields,
     n_config = \<lparr>sc_address = ''smsc:2775'', sc_system_id = ''user'', sc_password = ''secret'', sc_system_type = [],
       sc_addr_ton = 1, sc_addr_npi = 1, sc_address_range = ''555'', sc_interface_version = 0x34\<rparr>,
     n_bind_type = ''transceiver'', n_notifier = Some (HttpAlarmNotifier ''http://alarms'' default_alarm_id),
     n_write = (\<lambda>_. True), n_handler = (\<lambda>_ _ _ _. HttpFailed ''down''), n_clock = int, n_response = (\<lambda>_. None),
     n_alarm_ok = (\<lambda>_. True)\<rparr>"

definition sample_link_state :: connection_state where
  "sample_link_state = \<lparr>k_seq = SequenceNumberAllocator_new, k_writer = True, k_responses = ResponseManager_new,
     k_receipts = DeliveryReceiptManager_new 0, k_readings = 0, k_handler = NoOpHandler, k_handled = 0, k_sent = [],
     k_writes = 0, k_posted = [], k_active = 0, k_inbound = 0, k_alarms = no_alarms\<rparr>"

text \<open>
  C16.  Alarms alternate: whatever the outcome of the attempts to connect, what is posted to the
  alarm URL is a raise, a clear, a raise and so on, and an alarm is active exactly when the last
  notification was a raise.
\<close>

theorem alarms_alternate:
  assumes "n_notifier E = Some (HttpAlarmNotifier url i)" "k_alarms s = no_alarms" "connection_run E as False s = Some (active, s')"
  shows "(active \<longleftrightarrow> odd (length (alarm_statuses (k_alarms s'))))
    \<and> (\<forall>i<length (alarm_statuses (k_alarms s')). alarm_statuses (k_alarms s') ! i = (if even i then ''raised'' else ''cleared''))"
proof -
  have "alarm_inv al (k_alarms t) \<Longrightarrow> connection_run E as al t = Some (active, s') \<Longrightarrow> alarm_inv active (k_alarms s')" for al t
  proof (induction as arbitrary: al t)
    case (Cons a as)
    obtain r al1 s1 where c: "connect_smsc_to E a al t = Some (r, al1, s1)"
      using Cons.prems(2) by (auto split: option.splits)
    have inv: "alarm_inv al1 (k_alarms s1) \<and> (r = Some (Ok ()) \<longrightarrow> \<not> al1)"
      using c
    proof (cases rule: connect_cases)
      case 1
      with Cons.prems(1) show ?thesis by simp
    next
      case (2 d)
      then show ?thesis using Cons.prems(1) alarm_inv_told [OF assms(1), of False "k_alarms t" d] by (cases al) auto
    qed
    show ?case
    proof (cases "r = None \<or> r = Some Panic")
      case True
      then show ?thesis using Cons.prems(2) inv by (auto simp: c)
    next
      case False
      then obtain x where x: "r = Some x" "x \<noteq> Panic" by (cases r) auto
      obtain al2 s2 where p: "after_attempt E x al1 s1 = (al2, s2)" by (cases "after_attempt E x al1 s1")
      have "is_ok x \<Longrightarrow> \<not> al1" using inv x by (cases x) auto
      from after_attempt_inv [OF assms(1) _ this p] have "alarm_inv al2 (k_alarms s2)" using inv by blast
      moreover have "connection_run E as al2 s2 = Some (active, s')"
        using Cons.prems(2) x p by (cases x) (simp_all add: c)
      ultimately show ?thesis by (rule Cons.IH)
    qed
  qed simp
  moreover have "alarm_inv False (k_alarms s)" by (simp add: assms(2) no_alarms_def alarm_inv_def alarm_statuses_def)
  ultimately show ?thesis using assms(3) unfolding alarm_inv_def by blast
qed

theorem alarms_alternate_witness:
  "alarm_statuses (k_alarms (snd (the (connection_run sample_connection
     [\<lparr>a_connect = Err (IoError ConnectionRefused ''refused''), a_bind = [], a_loop = []\<rparr>,
      \<lparr>a_connect = Err (IoError ConnectionRefused ''refused''), a_bind = [], a_loop = []\<rparr>] False sample_link_state)))) ! 0 = ''raised''"
proof -
  let ?a = "\<lparr>a_connect = Err (IoError ConnectionRefused ''refused''), a_bind = [], a_loop = []\<rparr>"
  let ?d = "''Failed to connect to SMSC '' @ address_text sample_connection @ '': '' @ ''refused''"
  let ?s = "tell_alarm sample_connection True ?d sample_link_state"
  have n: "n_notifier sample_connection = Some (HttpAlarmNotifier ''http://alarms'' default_alarm_id)"
    and k: "k_alarms sample_link_state = no_alarms"
    by (simp_all add: sample_connection_def sample_link_state_def)
  have r: "connection_run sample_connection [?a, ?a] False sample_link_state = Some (True, ?s)"
    by (simp add: connect_smsc_to_def after_attempt_def n error_text_def)
  from alarms_alternate [OF n k r] have "odd (length (alarm_statuses (k_alarms ?s)))"
    "\<forall>i<length (alarm_statuses (k_alarms ?s)). alarm_statuses (k_alarms ?s) ! i = (if even i then ''raised'' else ''cleared'')"
    by auto
  then have "alarm_statuses (k_alarms ?s) ! 0 = ''raised''" by (cases "alarm_statuses (k_alarms ?s)") auto
  then show ?thesis unfolding r by simp
qed

text \<open>
  A connection that is lost because its \<^verbatim>\<open>enquire_link\<close> cannot be sent still counts as active:
  the gauge is one higher than before the connection was made.
\<close>

theorem active_gauge_leaks:
  assumes "connect_smsc_to E a al s = Some (Some r, al', s')"
    "fst (fst (do_bind E (a_bind a) SmppMessageBuffer_new (s\<lparr>k_writer := True\<rparr>))) = Some (Ok ())" "a_connect a = Ok ()"
  shows "k_active s' = (if r = Ok () then k_active s else k_active s + 1)"
  using assms(1)
proof (cases rule: connect_cases)
  case 1
  then show ?thesis using assms(2,3) by simp
qed simp

section \<open>Inbound messages\<close>

lemma emits_write: "P d \<Longrightarrow> emits k_sent P (connection_write E d)"
  by (simp add: emits_def connection_write_def Let_def)

lemma emits_guard: "emits view P m \<Longrightarrow> emits view P (\<lambda>s. if b s then m s else (Err e, s))"
  by (simp add: emits_def)

lemma emits_send_reply:
  assumes "P (message m)" "\<not> is_request m" shows "emits k_sent P (connection_send_message E m)"
proof -
  have "connection_register m = act_return None"
    using assms(2) by (simp add: fun_eq_iff connection_register_def awaits_response_def act_return_def)
  then show ?thesis
    unfolding connection_send_message_def
    by (simp add: emits_guard emits_preserves_bind emits_write preserves_return assms(1))
qed

lemma emits_io:
  "(\<And>x. r = Ok x \<Longrightarrow> emits view P (f x)) \<Longrightarrow> emits view P (act_bind (act_io r) f)"
  by (cases r) (simp_all add: emits_def act_bind_def act_io_def)

lemma reply_to_command: "reply_to c seq d \<Longrightarrow> d \<noteq> [] \<Longrightarrow> \<not> is_request (SMPPMessage_of d)"
  by (auto simp: reply_to_def dest: reply_is_no_request)

lemma emits_deliver_resp: "emits k_sent (reply_to c seq) (send_deliver_sm_resp E seq (CommandId_as_u32 c) st)"
  unfolding send_deliver_sm_resp_def
proof (rule emits_io)
  fix m assume "map_err (\<lambda>_. IoError InvalidData ''Failed to encode response'')
      (from_json (n_base64 E) (n_tlvs E) (deliver_sm_response seq (CommandId_as_u32 c) st)) = Ok m"
  then have f: "from_json (n_base64 E) (n_tlvs E) (create_json_response (CommandId_as_u32 c) seq st [(''message_id'', JString [])]) = Ok m"
    by (cases "from_json (n_base64 E) (n_tlvs E) (deliver_sm_response seq (CommandId_as_u32 c) st)")
      (simp_all add: deliver_sm_response_def)
  have "reply_fields [(''message_id'', JString [])]" by (simp add: reply_fields_def)
  from from_json_response [OF this f] show "emits k_sent (reply_to c seq) (act_bind (connection_send_message E m) (\<lambda>_. act_return ()))"
    using reply_to_command [of c seq "message m"]
    by (cases m) (intro emits_preserves_bind emits_send_reply preserves_return; simp)
qed

lemma posted_elementary:
  "preserves k_posted (connection_write E d)" "preserves k_posted (connection_wait_response E q ch)"
  "preserves k_posted (connection_register m)" "preserves k_posted (connection_handle E v)"
  "preserves k_sent (connection_handle E v)"
  by (auto simp: preserves_def connection_write_def connection_wait_response_def connection_register_def
      connection_handle_def Let_def split: prod.split channel.split outcome.split option.split)

lemma posted_deliver_resp: "preserves k_posted (send_deliver_sm_resp E q c st)"
  unfolding send_deliver_sm_resp_def connection_send_message_def
  by (intro preserves_bind preserves_io preserves_guard preserves_option preserves_return posted_elementary)

lemma lookup_receipt_fields:
  "lookup_receipt E v s = (r, s') \<Longrightarrow> \<exists>u. r = Ok u \<and> k_sent s' = k_sent s \<and> k_posted s' = k_posted s"
  by (auto simp: lookup_receipt_def Let_def split: if_splits prod.splits)


definition sample_deliver_pdu :: SMPPMessage where
  "sample_deliver_pdu = SMPPMessage_of [0, 0, 0, 37, 0, 0, 0, 5, 0, 0, 0, 0, 0, 0, 0, 9, 0, 1, 1, 49, 0, 1, 1, 50, 0, 0, 0, 0,
     0, 0, 1, 0, 0, 0, 2, 104, 105]"

lemma sample_deliver_decodes:
  "is_ok (to_json std_base64 sample_deliver_pdu)" "get_command_id sample_deliver_pdu = Some (CommandId_as_u32 DeliverSm)"
  "get_sequence_number sample_deliver_pdu = Some 9"
  by code_simp+


section \<open>The end of the stream during a bind\<close>

text \<open>
  C33.  When the SMSC closes the connection before it has answered the bind, \<^verbatim>\<open>do_bind\<close> never
  returns: every round of its loop reads no octets and arms the timer anew, however many rounds
  have passed.
\<close>

theorem bind_never_returns_at_eof:
  assumes "k_writer s" "n_write E (k_writes s)"
  shows "fst (fst (do_bind E (replicate n (BindReadable (ReadData []))) SmppMessageBuffer_new s)) = None"
proof -
  have "bind_loop B (replicate n (BindReadable (ReadData []))) SmppMessageBuffer_new = (None, SmppMessageBuffer_new)" for B
    by (induction n) (simp_all add: SmppMessageBuffer_write_def SmppMessageBuffer_new_def extract_message_def)
  then show ?thesis using assms
    by (simp add: do_bind_def act_bind_def connection_next_number_def act_io_def create_bind_message_octets connection_write_def
        split: prod.split)
qed

theorem bind_never_returns_at_eof_witness:
  "fst (fst (do_bind sample_connection (replicate 1000 (BindReadable (ReadData []))) SmppMessageBuffer_new sample_link_state)) = None"
  by (rule bind_never_returns_at_eof) (simp_all add: sample_connection_def sample_link_state_def)

end
