(* ===== verification/Gateway.thy ===== *)
theory Gateway
  imports Server_Properties Connection_Laws
begin

text \<open>
  The two halves of the gateway against each other: the bind PDU that a client connection sends
  goes through the server's receive loop, and the octets of its answer through the client's
  bind loop.
\<close>

section \<open>Responses at the receiving end\<close>

text \<open>The encoder reads no member named \<^verbatim>\<open>command_name\<close> once it knows the command.\<close>

lemma no_field_command_name:
  assumes "MESSAGE_COMMAND_FIELDS w = Some fs" "f \<in> set fs" shows "fst f \<noteq> ''command_name''"
proof -
  have "list_all (\<lambda>(c, fs). list_all (\<lambda>f. fst f \<noteq> ''command_name'') fs) create_command_fields" by code_simp
  then show ?thesis using assms
    by (fastforce simp: MESSAGE_COMMAND_FIELDS_def list_all_iff dest: map_of_SomeD)
qed

lemma no_tlv_command_name: "c \<in> set create_tlv_fields \<Longrightarrow> tlv_name c \<noteq> ''command_name''"
proof -
  have "list_all (\<lambda>c. tlv_name c \<noteq> ''command_name'') create_tlv_fields" by code_simp
  then show "c \<in> set create_tlv_fields \<Longrightarrow> tlv_name c \<noteq> ''command_name''" by (simp add: list_all_iff)
qed

lemma from_json_unnamed:
  assumes "\<And>k. k \<noteq> ''command_name'' \<Longrightarrow> jget k v = jget k w" "extract_command_id v = extract_command_id w"
    "set order \<subseteq> set create_tlv_fields"
  shows "from_json B order v = from_json B order w"
proof -
  have t: "fold_io (encode_tlv_field B v) order b = fold_io (encode_tlv_field B w) order b" for b
    using assms(1,3) no_tlv_command_name by (intro fold_io_cong refl) (auto simp: encode_tlv_field_def)
  have f: "fold_io (encode_field B v) fs b = fold_io (encode_field B w) fs b"
    if "MESSAGE_COMMAND_FIELDS x = Some fs" for x fs b
    using assms(1) [OF no_field_command_name [OF that]] by (intro fold_io_cong refl) (simp add: encode_field_def split: option.split)
  have h: "write_header_number k v b = write_header_number k w b" if "k \<noteq> ''command_name''" for k b
    using assms(1) [OF that] by (simp add: write_header_number_def)
  show ?thesis
    by (auto simp: from_json_def assms(2) encode_message_with_fields_def t f h split: option.split)
qed

text \<open>What the receiver of a response sees: the members it was made with, and the command's name.\<close>

definition received_response :: "CommandId \<Rightarrow> u32 \<Rightarrow> u32 \<Rightarrow> (string \<times> json) list \<Rightarrow> json" where
  "received_response c seq st fs =
     jobject ((''command_name'', JString (CommandId_to_str c)) # (''command_id'', JString (command_hex (CommandId_as_u32 c)))
       # (''command_status'', jnum st) # (''sequence_number'', jnum seq) # fs)"

lemma response_round_trip:
  assumes "CommandId_as_u32 r = 0x80000000 OR CommandId_as_u32 c" "reply_fields fs" "''command_name'' \<notin> fst ` set fs"
    "message_ok B (received_response r seq st fs)" "tlv_order order"
  shows "\<exists>p. from_json B order (create_json_response (CommandId_as_u32 c) seq st fs) = Ok p
    \<and> to_json B p = Ok (received_response r seq st fs) \<and> from_json B order (received_response r seq st fs) = Ok p"
proof -
  let ?v = "create_json_response (CommandId_as_u32 c) seq st fs" and ?w = "received_response r seq st fs"
  have g: "jget k ?v = jget k ?w" if "k \<noteq> ''command_name''" for k
    using that assms(1)
    by (simp add: create_json_response_def received_response_def jget_jobject map_of_rev_append map_add_def split: option.split)
  have "jget ''command_id'' ?w = Some (JString (command_hex (CommandId_as_u32 r)))"
    using g [of "''command_id''"] create_json_response_get(1) [OF assms(2)] assms(1) by simp
  then have e: "extract_command_id ?v = extract_command_id ?w"
    using g [of "''command_id''"] by (simp add: extract_command_id_def)
  have "from_json B order ?v = from_json B order ?w"
    by (intro from_json_unnamed) (use assms(5) g e in \<open>auto simp: tlv_order_def\<close>)
  then show ?thesis using canonical_round_trip [OF assms(4,5)] by auto
qed

section \<open>The bind response\<close>

lemma bind_response_command:
  "\<exists>r. CommandId_as_u32 r = 0x80000000 OR CommandId_as_u32 (bind_command t)
     \<and> r \<in> set [BindTransmitterResp, BindReceiverResp, BindTransceiverResp]"
proof -
  have "CommandId_as_u32 BindTransmitterResp = 0x80000000 OR CommandId_as_u32 BindTransmitter"
    "CommandId_as_u32 BindReceiverResp = 0x80000000 OR CommandId_as_u32 BindReceiver"
    "CommandId_as_u32 BindTransceiverResp = 0x80000000 OR CommandId_as_u32 BindTransceiver"
    by code_simp+
  moreover have "bind_command t = BindTransmitter \<or> bind_command t = BindReceiver \<or> bind_command t = BindTransceiver"
    by (simp add: bind_command_def)
  ultimately show ?thesis by (metis list.set_intros)
qed

lemma bind_resp_tables:
  "r \<in> set [BindTransmitterResp, BindReceiverResp, BindTransceiverResp] \<Longrightarrow>
     MESSAGE_COMMAND_FIELDS (CommandId_as_u32 r) = Some [(''system_id'', None)]"
proof -
  have "list_all (\<lambda>r. MESSAGE_COMMAND_FIELDS (CommandId_as_u32 r) = Some [(''system_id'', None)])
      [BindTransmitterResp, BindReceiverResp, BindTransceiverResp]" by code_simp
  then show "r \<in> set [BindTransmitterResp, BindReceiverResp, BindTransceiverResp] \<Longrightarrow>
     MESSAGE_COMMAND_FIELDS (CommandId_as_u32 r) = Some [(''system_id'', None)]" by (simp only: list_all_iff)
qed

lemma bind_resp_tlvs:
  "NAMED_TLV_FIELDS ''sc_interface_version'' = Some (TLV 0x0210 ''sc_interface_version'' U8FieldCodec)"
  "NAMED_TLV_FIELDS ''system_id'' = None" "NAMED_TLV_FIELDS ''command_name'' = None" "NAMED_TLV_FIELDS ''command_id'' = None"
  "NAMED_TLV_FIELDS ''command_status'' = None" "NAMED_TLV_FIELDS ''sequence_number'' = None"
  by code_simp+

lemma set_insert_all: "set (insert_all fs m) \<subseteq> set fs \<union> set m"
proof (induction fs m rule: insert_all.induct)
  case (2 k v fs m)
  then show ?case using set_btree_insert [of k v m] by auto
qed simp

definition bind_resp_json :: "CommandId \<Rightarrow> u32 \<Rightarrow> u32 \<Rightarrow> string \<Rightarrow> u8 \<Rightarrow> json" where
  "bind_resp_json r seq st system_id version =
     received_response r seq st [(''system_id'', JString system_id), (''sc_interface_version'', jnum version)]"

lemma fits_jnum: "fits 256 (jnum (a :: u8))" "fits (2 ^ 32) (jnum (b :: u32))"
  using unsigned_less [of a, where 'a = nat] unsigned_less [of b, where 'a = nat]
  by (simp_all add: fits_def unsigned_ucast_eq take_bit_nat_eq_self)

lemma bind_resp_ok:
  assumes r: "r \<in> set [BindTransmitterResp, BindReceiverResp, BindTransceiverResp]"
    and s: "c_string_ok system_id" "length system_id \<le> 16"
  shows "message_ok B (bind_resp_json r seq st system_id version)"
proof -
  let ?fs = "(''command_name'', JString (CommandId_to_str r)) # (''command_id'', JString (command_hex (CommandId_as_u32 r)))
       # (''command_status'', jnum st) # (''sequence_number'', jnum seq)
       # [(''system_id'', JString system_id), (''sc_interface_version'', jnum version)]"
  let ?m = "insert_all ?fs []"
  have v: "bind_resp_json r seq st system_id version = JObject ?m"
    by (simp add: bind_resp_json_def received_response_def jobject_def)
  have g: "map_of ?m k = map_of (rev ?fs) k" for k by (simp only: map_of_insert_all) (simp split: option.split)
  have u: "r \<noteq> Unknown" using r by auto
  have e: "extract_command_id (JObject ?m) = Some r"
    by (simp add: extract_command_id_def g CommandId_from_str_hex from_u32_as_u32 [OF u] del: insert_all.simps)
  have "list_all (member_ok B [''system_id'']) ?fs"
    by (simp add: member_ok_def bind_resp_tlvs header_keys_def tlv_canonical_def tlv_value_ok_def tlv_octets_def fits_jnum(1))
  then have "list_all (member_ok B [''system_id'']) ?m"
    using set_insert_all [of ?fs "[]"] by (auto simp: list_all_iff simp del: insert_all.simps)
  then have "message_ok_for B ?m r [(''system_id'', None)]"
    using s by (simp add: message_ok_for_def btree_ok_insert_all g header_number_ok_def field_ok_def bind_codecs fits_jnum(2) [simplified] del: insert_all.simps)
  then show ?thesis using e by (simp add: message_ok_def v bind_resp_tables [OF r] del: insert_all.simps)
qed


lemma bind_resp_command:
  assumes "r \<in> set [BindTransmitterResp, BindReceiverResp, BindTransceiverResp]"
  shows "extract_command_id (bind_resp_json r seq st system_id version) = Some r"
proof -
  have "r \<noteq> Unknown" using assms by auto
  then show ?thesis
    by (simp add: extract_command_id_def bind_resp_json_def received_response_def jget_jobject CommandId_from_str_hex from_u32_as_u32)
qed

lemma bind_resp_is_ok:
  assumes "r \<in> set [BindTransmitterResp, BindReceiverResp, BindTransceiverResp]"
  shows "is_bind_ok (bind_resp_json r seq st system_id version) \<longleftrightarrow> st = CommandStatus_as_u32 EsmeRok"
proof -
  have "u64_or d ''command_status'' (bind_resp_json r seq st system_id version) = ucast st" for d
    by (simp add: u64_or_def get_u64_def bind_resp_json_def received_response_def jget_jobject)
  moreover have "(ucast st :: u64) = ucast (CommandStatus_as_u32 EsmeRok) \<longleftrightarrow> st = CommandStatus_as_u32 EsmeRok"
    by (auto dest: arg_cong [of _ _ "ucast :: u64 \<Rightarrow> u32"])
  ultimately show ?thesis using assms by (simp add: is_bind_ok_def bind_resp_command [OF assms])
qed

lemma only_element: "distinct xs \<Longrightarrow> set xs \<subseteq> {a} \<Longrightarrow> length xs \<le> 1"
  using card_mono [of "{a}" "set xs"] by (simp add: distinct_card)

text \<open>The response has one optional parameter, so it is short.\<close>

lemma bind_resp_length:
  assumes r: "r \<in> set [BindTransmitterResp, BindReceiverResp, BindTransceiverResp]"
    and s: "c_string_ok system_id" "length system_id \<le> 16" and o: "tlv_order order"
    and e: "from_json B order (bind_resp_json r seq st system_id version) = Ok p"
  shows "length (message p) \<le> 38"
proof -
  let ?v = "bind_resp_json r seq st system_id version" and ?t = "TLV 0x0210 ''sc_interface_version'' U8FieldCodec"
  obtain m c fs where v: "?v = JObject m" "extract_command_id ?v = Some c"
      "MESSAGE_COMMAND_FIELDS (CommandId_as_u32 c) = Some fs" "message_ok_for B m c fs"
    using bind_resp_ok [OF r s] by (rule message_okE)
  have "c = r" using v(2) bind_resp_command [OF r] by simp
  then have fs: "fs = [(''system_id'', None)]" using v(3) bind_resp_tables [OF r] by simp
  have "t = ?t" if "t \<in> set (tlvs_present ?v order)" for t
  proof -
    have t: "NAMED_TLV_FIELDS (tlv_name t) = Some t" "jget (tlv_name t) ?v \<noteq> None"
      using that o named_tlv_lookup by (auto simp: tlvs_present_def tlv_order_def)
    then have "tlv_name t \<in> {''command_name'', ''command_id'', ''command_status'', ''sequence_number'', ''system_id'', ''sc_interface_version''}"
      by (auto simp: bind_resp_json_def received_response_def jget_jobject split: if_splits)
    then show ?thesis using t(1) by (auto simp: bind_resp_tlvs)
  qed
  then have n: "length (tlvs_present ?v order) \<le> 1"
    using o by (intro only_element [of _ ?t]) (auto simp: tlvs_present_def tlv_order_def)
  have "length (tlv_block B ?t (the (jget (tlv_name ?t) ?v))) = 5"
    by (simp add: tlv_block_def tlv_octets_def Let_def u16_be_def)
  then have "length (tlvs_block B ?v (tlvs_present ?v order)) \<le> 5"
    using n \<open>\<And>t. t \<in> set (tlvs_present ?v order) \<Longrightarrow> t = ?t\<close>
    by (cases "tlvs_present ?v order") (auto simp: tlvs_block_def)
  moreover have "length (fields_block B ?v fs) = Suc (length system_id)"
    by (simp add: fs fields_block_def bind_codecs bind_resp_json_def received_response_def jget_jobject)
  moreover have "message p = message_block B order c fs ?v"
    using from_json_block [OF v(4) _ v(3)] v(1,2) o e by (auto simp: tlv_order_def)
  ultimately show ?thesis using s(2) by (simp add: message_block_def header_block_def Let_def)
qed

section \<open>The bind loop on a response that arrives in pieces\<close>

definition bind_result :: "base64 \<Rightarrow> SMPPMessage \<Rightarrow> unit io" where
  "bind_result B m =
     (case to_json B m of
        Ok response \<Rightarrow> if is_bind_ok response then Ok () else Err (IoError Other ''Bind failed'')
      | Err _ \<Rightarrow> Err (IoError Other ''Failed to decode bind response'')
      | Panic \<Rightarrow> Panic)"

lemma incomplete_prefix:
  assumes "pdu_ok (t @ q)" "q \<noteq> []" shows "incomplete t"
proof (cases "length t < 16")
  case False
  then have "u32_at 0 t = Some (word_of_nat (length (t @ q)))"
    using assms(1) u32_at_0_append [of t q] by (simp add: pdu_ok_def)
  moreover have "unat (word_of_nat (length (t @ q)) :: u32) = length (t @ q)"
    using assms(1) by (simp only: pdu_ok_def unat_of_nat) simp
  ultimately show ?thesis using assms(2) by (simp only: incomplete_def) simp
qed (simp add: incomplete_def)

lemma bind_loop_pieces:
  assumes "pdu_ok d" "buffer b @ concat cs = d" "buffer b \<noteq> d"
  shows "fst (bind_loop B (map (\<lambda>c. BindReadable (ReadData c)) cs) b) = Some (bind_result B (SMPPMessage_of d))"
  using assms(2,3)
proof (induction cs arbitrary: b)
  case (Cons c cs)
  let ?b = "\<lparr>buffer = buffer b @ c\<rparr>"
  have w: "SmppMessageBuffer_write c b = ?b" by (simp add: SmppMessageBuffer_write_def)
  show ?case
  proof (cases "concat cs = []")
    case True
    then have "buffer b @ c = d" using Cons.prems(1) by (metis True append_Nil2 concat.simps(2))
    then have "extract_message ?b = (Some (SMPPMessage_of d), \<lparr>buffer = []\<rparr>)"
      using extract_message_pdu [OF assms(1), of "[]"] by simp
    then show ?thesis by (simp add: w bind_result_def split: outcome.split)
  next
    case False
    then have "extract_message ?b = (None, ?b)"
      using extract_message_incomplete incomplete_prefix [of "buffer b @ c" "concat cs"] Cons.prems assms(1) by simp
    moreover have "buffer b @ c \<noteq> d" using Cons.prems(1) False by auto
    ultimately show ?thesis using Cons.IH [of ?b] Cons.prems(1) by (simp add: w)
  qed
qed simp


section \<open>The handshake\<close>

lemma bind_json_members:
  "c \<noteq> Unknown \<Longrightarrow> extract_command_id (bind_json c seq cfg) = Some c"
  "u64_or 0 ''sequence_number'' (bind_json c seq cfg) = ucast seq"
  "str_or_empty ''system_id'' (bind_json c seq cfg) = sc_system_id cfg"
  "str_or_empty ''password'' (bind_json c seq cfg) = sc_password cfg"
  by (simp_all add: bind_json_def extract_command_id_def u64_or_def get_u64_def str_or_empty_def get_str_def jget_jobject
      CommandId_from_str_hex from_u32_as_u32)

lemma server_answers_bind:
  assumes "from_json (e_base64 S) (e_tlvs S) (bind_response S (CommandId_as_u32 (bind_command t)) seq (bind_json (bind_command t) seq cfg)
       (authenticate (e_auth_post S) (e_auth S) (sc_system_id cfg) (sc_password cfg))) = Ok p"
    "e_write S (v_writes s)"
  shows "\<exists>s'. server_handle_message S (bind_json (bind_command t) seq cfg) s = (Ok (), s') \<and> v_sent s' = v_sent s @ [message p]"
proof -
  have c: "bind_command t \<noteq> Unknown" "bind_command t \<in> set [BindTransmitter, BindReceiver, BindTransceiver]"
    by (simp_all add: bind_command_def)
  then show ?thesis using assms
    by (simp add: server_handle_message_def bind_json_members act_match_def handle_bind_def Let_def encode_or_empty_def
        act_bind_def act_io_def act_map_err_def server_send_def register_client_def)
qed


lemma bind_response_received:
  assumes "c_string_ok (sc_system_id cfg)" "length (sc_system_id cfg) \<le> 16" "tlv_order (e_tlvs S)"
  shows "\<exists>p. from_json (e_base64 S) (e_tlvs S)
      (bind_response S (CommandId_as_u32 (bind_command t)) seq (bind_json (bind_command t) seq cfg) authentic) = Ok p
    \<and> pdu_ok (message p) \<and> bind_result (e_base64 S) p = (if authentic then Ok () else Err (IoError Other ''Bind failed''))"
proof -
  let ?fs = "[(''system_id'', JString (sc_system_id cfg)), (''sc_interface_version'', jnum (e_interface_version S))]"
  let ?st = "status (if authentic then EsmeRok else EsmeRBindFail)"
  let ?v = "create_json_response (CommandId_as_u32 (bind_command t)) seq ?st ?fs"
  obtain r where r: "CommandId_as_u32 r = 0x80000000 OR CommandId_as_u32 (bind_command t)"
      "r \<in> set [BindTransmitterResp, BindReceiverResp, BindTransceiverResp]"
    using bind_response_command by blast
  let ?w = "bind_resp_json r seq ?st (sc_system_id cfg) (e_interface_version S)"
  have f: "reply_fields ?fs" by (simp add: reply_fields_def)
  have ok: "message_ok (e_base64 S) (received_response r seq ?st ?fs)"
    using bind_resp_ok [OF r(2) assms(1,2)] by (simp only: bind_resp_json_def)
  obtain p where p: "from_json (e_base64 S) (e_tlvs S) ?v = Ok p" "to_json (e_base64 S) p = Ok ?w"
      "from_json (e_base64 S) (e_tlvs S) ?w = Ok p"
    using response_round_trip [OF r(1) f _ ok assms(3)] by (auto simp: bind_resp_json_def)
  have "header_number ''command_status'' ?v = Some ?st" "header_number ''sequence_number'' ?v = Some seq"
    by (simp_all add: header_number_def create_json_response_def jget_jobject)
  moreover obtain d where "extract_command_id ?v = Some d" using p(1) by (auto simp: from_json_def split: option.splits)
  ultimately have "pdu_ok (message p)"
    using from_json_words [OF p(1)] bind_resp_length [OF r(2) assms(1,2,3) p(3)] by (simp add: pdu_ok_def SMPPMessage_len_def)
  moreover have "?st = CommandStatus_as_u32 EsmeRok \<longleftrightarrow> authentic" by (simp add: status_def)
  ultimately show ?thesis
    using p(1,2) by (auto simp: bind_response_def bind_json_members bind_result_def bind_resp_is_ok [OF r(2)])
qed

text \<open>
  C2.  The bind handshake between the client half and the server half: a bind PDU made from a
  connection's configuration, fed to the receive loop of a server, is answered by one response;
  that response, cut into reads anywhere, ends the client's bind loop, and the client is bound
  exactly when its credentials are those the server accepts.
\<close>

theorem bind_handshake:
  assumes "c_string_ok (sc_system_id c)" "c_string_ok (sc_password c)" "c_string_ok (sc_system_type c)"
    "c_string_ok (sc_address_range c)" "length (sc_system_id c) \<le> 16"
    "n_config E = c" "create_bind_message E seq = Ok m" "length (message m) < 2 ^ 32"
    "tlv_order (e_tlvs S)" "e_write S (v_writes s)" "n_base64 E = e_base64 S"
  shows "\<exists>d s'. process_buffered (e_base64 S) (server_handle_message S) \<lparr>buffer = message m\<rparr> s = Some (True, \<lparr>buffer = []\<rparr>, s')
    \<and> v_sent s' = v_sent s @ [d]
    \<and> (\<forall>cs. concat cs = d \<longrightarrow>
        fst (bind_loop (n_base64 E) (map (\<lambda>x. BindReadable (ReadData x)) cs) SmppMessageBuffer_new)
          = Some (if authenticate (e_auth_post S) (e_auth S) (sc_system_id c) (sc_password c) then Ok ()
                  else Err (IoError Other ''Bind failed'')))"
proof -
  let ?t = "n_bind_type E" and ?a = "authenticate (e_auth_post S) (e_auth S) (sc_system_id c) (sc_password c)"
  let ?b = "u32_be (word_of_nat (16 + length (bind_octets c))) @ u32_be (CommandId_as_u32 (bind_command ?t)) @ u32_be 0 @ u32_be seq @ bind_octets c"
  have m: "m = SMPPMessage_of ?b" using assms(6,7) by (simp add: create_bind_message_octets)
  have "pdu_ok ?b" using assms(8) by (simp add: m pdu_ok_def u32_at_def read_u32_u32_be)
  then have x: "extract_message \<lparr>buffer = ?b\<rparr> = (Some m, \<lparr>buffer = []\<rparr>)"
    using extract_message_pdu [of ?b "[]"] by (simp add: m)
  have mm: "message m = ?b" by (simp add: m)
  have j: "to_json (e_base64 S) m = Ok (bind_json (bind_command ?t) seq c)"
    unfolding m by (rule to_json_bind [OF assms(1-4)])
  obtain p where p: "from_json (e_base64 S) (e_tlvs S)
      (bind_response S (CommandId_as_u32 (bind_command ?t)) seq (bind_json (bind_command ?t) seq c) ?a) = Ok p" "pdu_ok (message p)"
      "bind_result (e_base64 S) p = (if ?a then Ok () else Err (IoError Other ''Bind failed''))"
    using bind_response_received [OF assms(1,5,9)] by blast
  obtain s' where h: "server_handle_message S (bind_json (bind_command ?t) seq c) s = (Ok (), s')" "v_sent s' = v_sent s @ [message p]"
    using server_answers_bind [OF p(1) assms(10)] by blast
  have "process_buffered (e_base64 S) (server_handle_message S) \<lparr>buffer = []\<rparr> s' = Some (True, \<lparr>buffer = []\<rparr>, s')"
    by (subst process_buffered.simps) (simp add: extract_message_incomplete incomplete_def)
  then have "process_buffered (e_base64 S) (server_handle_message S) \<lparr>buffer = message m\<rparr> s = Some (True, \<lparr>buffer = []\<rparr>, s')"
    by (subst process_buffered.simps) (simp only: mm x j h(1) prod.case option.case outcome.case)
  moreover have "fst (bind_loop (n_base64 E) (map (\<lambda>x. BindReadable (ReadData x)) cs) SmppMessageBuffer_new)
      = Some (if ?a then Ok () else Err (IoError Other ''Bind failed''))" if "concat cs = message p" for cs
  proof -
    have n: "buffer SmppMessageBuffer_new = []" "message p \<noteq> []" using p(2) by (auto simp: SmppMessageBuffer_new_def pdu_ok_def)
    have "SMPPMessage_of (message p) = p" by simp
    with bind_loop_pieces [OF p(2), of SmppMessageBuffer_new cs "n_base64 E"] n that p(3) assms(11) show ?thesis
      by (simp del: concat_eq_Nil_conv)
  qed
  ultimately show ?thesis using h(2) by blast
qed


theorem bind_handshake_witness:
  "\<exists>d s'. process_buffered std_base64 (server_handle_message sample_env)
       \<lparr>buffer = message (case create_bind_message sample_connection 1 of Ok m \<Rightarrow> m)\<rparr> sample_state = Some (True, \<lparr>buffer = []\<rparr>, s')
     \<and> v_sent s' = [d] \<and> fst (bind_loop std_base64 [BindReadable (ReadData d)] SmppMessageBuffer_new) = Some (Ok ())"
proof -
  have m: "create_bind_message sample_connection 1 = Ok (case create_bind_message sample_connection 1 of Ok m \<Rightarrow> m)"
    by (simp add: create_bind_message_octets)
  have t: "c_string_ok ''user''" "c_string_ok ''secret''" "c_string_ok []" "c_string_ok ''555''" by code_simp+
  have a: "authenticate (e_auth_post sample_env) (e_auth sample_env) ''user'' ''secret''"
    by (simp add: authenticate_def sample_env_def)
  have "\<exists>d s'. process_buffered (e_base64 sample_env) (server_handle_message sample_env)
       \<lparr>buffer = message (case create_bind_message sample_connection 1 of Ok m \<Rightarrow> m)\<rparr> sample_state = Some (True, \<lparr>buffer = []\<rparr>, s')
    \<and> v_sent s' = v_sent sample_state @ [d]
    \<and> (\<forall>cs. concat cs = d \<longrightarrow>
        fst (bind_loop (n_base64 sample_connection) (map (\<lambda>x. BindReadable (ReadData x)) cs) SmppMessageBuffer_new)
          = Some (if authenticate (e_auth_post sample_env) (e_auth sample_env) (sc_system_id (n_config sample_connection))
                      (sc_password (n_config sample_connection)) then Ok ()
                  else Err (IoError Other ''Bind failed'')))"
    by (rule bind_handshake [OF _ _ _ _ _ refl m])
      (simp_all add: sample_connection_def sample_env_def sample_state_def tlv_order_table t
        create_bind_message_octets bind_octets_def)
  then obtain d s' where d: "process_buffered (e_base64 sample_env) (server_handle_message sample_env)
       \<lparr>buffer = message (case create_bind_message sample_connection 1 of Ok m \<Rightarrow> m)\<rparr> sample_state = Some (True, \<lparr>buffer = []\<rparr>, s')"
    "v_sent s' = v_sent sample_state @ [d]"
    "\<And>cs. concat cs = d \<Longrightarrow> fst (bind_loop (n_base64 sample_connection) (map (\<lambda>x. BindReadable (ReadData x)) cs) SmppMessageBuffer_new)
        = Some (Ok ())"
    using a by (auto simp: sample_connection_def)
  show ?thesis
    using d(1,2) d(3) [of "[d]"] by (auto simp: sample_connection_def sample_env_def sample_state_def)
qed

end
