(* ===== verification/Gateway_Submit.thy ===== *)
theory Gateway_Submit
  imports Gateway
begin

text \<open>
  A submitted message on its way through both halves of the gateway: the PDU through the server's
  receive loop into the store, and the octets of the response through the client's main loop to the
  request that waits for it.
\<close>

section \<open>The response to a submission\<close>

lemma submit_resp_tables:
  "MESSAGE_COMMAND_FIELDS (CommandId_as_u32 SubmitSmResp) = Some [(''message_id'', None)]"
  "CommandId_as_u32 SubmitSmResp = 0x80000000 OR CommandId_as_u32 SubmitSm"
  "FIELD_CODECS ''message_id'' = Some (COctetStrFieldCodec 65)" "NAMED_TLV_FIELDS ''message_id'' = None"
  by code_simp+

abbreviation submit_resp :: "u32 \<Rightarrow> u32 \<Rightarrow> string \<Rightarrow> json" where
  "submit_resp seq st i \<equiv> received_response SubmitSmResp seq st (id_field i)"

lemma submit_resp_command: "extract_command_id (submit_resp seq st i) = Some SubmitSmResp"
  by (simp add: extract_command_id_def received_response_def id_field_def jget_jobject CommandId_from_str_hex from_u32_as_u32
      del: CommandId_as_u32.simps)

lemma submit_resp_ok:
  assumes "c_string_ok i" "length i \<le> 65" shows "message_ok B (submit_resp seq st i)"
proof -
  obtain r where r: "r = SubmitSmResp" by simp
  let ?fs = "(''command_name'', JString (CommandId_to_str r)) # (''command_id'', JString (command_hex (CommandId_as_u32 r)))
       # (''command_status'', jnum st) # (''sequence_number'', jnum seq) # [(''message_id'', JString i)]"
  let ?m = "insert_all ?fs []"
  have v: "submit_resp seq st i = JObject ?m" unfolding r by (simp add: received_response_def id_field_def jobject_def)
  have g: "map_of ?m k = map_of (rev ?fs) k" for k by (simp only: map_of_insert_all) (simp split: option.split)
  have e: "extract_command_id (JObject ?m) = Some r" using submit_resp_command v r by metis
  have t: "MESSAGE_COMMAND_FIELDS (CommandId_as_u32 r) = Some [(''message_id'', None)]" unfolding r by (rule submit_resp_tables(1))
  have "list_all (member_ok B [''message_id'']) ?fs"
    by (simp add: member_ok_def bind_resp_tlvs submit_resp_tables(4) header_keys_def)
  then have "list_all (member_ok B [''message_id'']) ?m"
    using set_insert_all [of ?fs "[]"] by (auto simp: list_all_iff simp del: insert_all.simps)
  then have "message_ok_for B ?m r [(''message_id'', None)]"
    using assms by (simp add: message_ok_for_def btree_ok_insert_all g header_number_ok_def field_ok_def submit_resp_tables(3)
        fits_jnum(2) [simplified] del: insert_all.simps)
  then show ?thesis using e by (simp add: message_ok_def v t del: insert_all.simps)
qed

text \<open>Its encoding decodes to it; it has no optional parameters, so it is short.\<close>

lemma submit_resp_pdu:
  assumes "c_string_ok i" "length i \<le> 65" "tlv_order order"
  shows "\<exists>p. from_json B order (create_json_response (CommandId_as_u32 SubmitSm) seq st (id_field i)) = Ok p
    \<and> to_json B p = Ok (submit_resp seq st i) \<and> pdu_ok (message p)
    \<and> get_command_id p = Some (CommandId_as_u32 SubmitSmResp) \<and> get_sequence_number p = Some seq"
proof -
  let ?v = "submit_resp seq st i" and ?c = "create_json_response (CommandId_as_u32 SubmitSm) seq st (id_field i)"
  have f: "reply_fields (id_field i)" "''command_name'' \<notin> fst ` set (id_field i)" by (simp_all add: reply_fields_def id_field_def)
  obtain p where p: "from_json B order ?c = Ok p" "to_json B p = Ok ?v" "from_json B order ?v = Ok p"
    using response_round_trip [OF submit_resp_tables(2) f submit_resp_ok [OF assms(1,2)] assms(3)] by blast
  obtain m c fs where v: "?v = JObject m" "extract_command_id ?v = Some c"
      "MESSAGE_COMMAND_FIELDS (CommandId_as_u32 c) = Some fs" "message_ok_for B m c fs"
    using submit_resp_ok [OF assms(1,2)] by (rule message_okE)
  have c: "c = SubmitSmResp" "fs = [(''message_id'', None)]"
    using v(2,3) submit_resp_command submit_resp_tables(1) by (auto simp del: CommandId_as_u32.simps)
  have "jget (tlv_name t) ?v = None" if "t \<in> set order" for t
  proof -
    have "NAMED_TLV_FIELDS (tlv_name t) = Some t" using that assms(3) named_tlv_lookup by (auto simp: tlv_order_def)
    then have "tlv_name t \<notin> {''command_name'', ''command_id'', ''command_status'', ''sequence_number'', ''message_id''}"
      using bind_resp_tlvs submit_resp_tables(4) by auto
    then show ?thesis by (simp add: received_response_def id_field_def jget_jobject)
  qed
  then have "tlvs_present ?v order = []" by (simp add: tlvs_present_def filter_empty_conv)
  moreover have "length (fields_block B ?v fs) = Suc (length i)"
    by (simp add: c fields_block_def submit_resp_tables(3) received_response_def id_field_def jget_jobject)
  moreover have "message p = message_block B order c fs ?v"
    using from_json_block [OF v(4) _ v(3)] v(1,2) assms(3) p(3) by (auto simp: tlv_order_def)
  ultimately have l: "length (message p) \<le> 82" using assms(2) by (simp add: message_block_def header_block_def Let_def tlvs_block_def)
  have "header_number ''command_status'' ?v = Some st" "header_number ''sequence_number'' ?v = Some seq"
    by (simp_all add: header_number_def received_response_def id_field_def jget_jobject)
  from from_json_words [OF p(3) submit_resp_command this] p(1,2) l show ?thesis
    by (intro exI [of _ p]) (simp add: pdu_ok_def SMPPMessage_len_def del: CommandId_as_u32.simps)
qed

lemma submit_resp_members:
  "u64_or d ''command_status'' (submit_resp seq st i) = ucast st" "str_or_empty ''message_id'' (submit_resp seq st i) = i"
  by (simp_all add: u64_or_def get_u64_def str_or_empty_def get_str_def received_response_def id_field_def jget_jobject)

section \<open>The client's main loop on a PDU that arrives in pieces\<close>

lemma main_loop_pieces:
  assumes "pdu_ok d" "buffer b @ concat cs = d" "buffer b \<noteq> d" "[] \<notin> set cs" "process_in_message E (SMPPMessage_of d) k = (Ok (), k')"
  shows "main_loop E (map (\<lambda>c. Readable (ReadData c)) cs) b received k = Some (None, SmppMessageBuffer_new, k')"
  using assms(2-4)
proof (induction cs arbitrary: b received)
  case (Cons c cs)
  let ?b = "\<lparr>buffer = buffer b @ c\<rparr>"
  have w: "SmppMessageBuffer_write c b = ?b" by (simp add: SmppMessageBuffer_write_def)
  have ne: "c \<noteq> []" using Cons.prems(3) by auto
  show ?case
  proof (cases "cs = []")
    case True
    then have "buffer b @ c = d" using Cons.prems(1) by simp
    then have "extract_message ?b = (Some (SMPPMessage_of d), SmppMessageBuffer_new)"
      using extract_message_pdu [OF assms(1), of "[]"] by (simp add: SmppMessageBuffer_new_def)
    moreover have "extract_all SmppMessageBuffer_new = Some ([], SmppMessageBuffer_new)"
      by (intro extract_all_None) (simp add: extract_message_incomplete incomplete_def SmppMessageBuffer_new_def)
    ultimately have "extract_all ?b = Some ([SMPPMessage_of d], SmppMessageBuffer_new)" by (subst extract_all.simps) simp
    then show ?thesis using True ne assms(5) by (simp add: read_messages_def w act_match_def act_return_def)
  next
    case False
    then have n: "concat cs \<noteq> []" using Cons.prems(3) by (cases cs) auto
    then have "extract_message ?b = (None, ?b)"
      using extract_message_incomplete incomplete_prefix [of "buffer b @ c" "concat cs"] Cons.prems(1) assms(1) by simp
    then have "extract_all ?b = Some ([], ?b)" by (rule extract_all_None)
    moreover have "buffer b @ c \<noteq> d" using Cons.prems(1) n by auto
    ultimately show ?thesis using Cons.IH [of ?b] Cons.prems(1,3) ne by (simp add: read_messages_def w act_return_def)
  qed
qed simp

lemma submit_resp_wakes_waiter:
  assumes "to_json (n_base64 E) p = Ok v" "get_command_id p = Some (CommandId_as_u32 SubmitSmResp)" "get_sequence_number p = Some seq"
    "senders (k_responses k) seq = Some ch" "channels (k_responses k) ch = Pending"
  shows "\<exists>k'. process_in_message E p k = (Ok (), k') \<and> channels (k_responses k') ch = Delivered (Ok v)"
proof -
  have "CommandId_from_u32 (CommandId_as_u32 SubmitSmResp) = Some SubmitSmResp" by (intro from_u32_as_u32) simp
  moreover have "CommandId_is_response SubmitSmResp" by code_simp
  ultimately have "process_in_message E p k = (Ok (), k\<lparr>k_responses := callback_response_received seq v (k_responses k)\<rparr>)"
    using assms(1-3) by (simp add: process_in_message_def number_or_0_def del: CommandId_as_u32.simps)
  then show ?thesis using callback.respond_hit [OF assms(4,5)] by simp
qed

section \<open>The server's answer\<close>

text \<open>
  The status and the text of the answer in store-and-forward mode: the verdict of the checks, and after them
  whether the message could be saved.
\<close>

definition submit_verdict :: "string \<Rightarrow> (CommandStatus \<times> string) option \<Rightarrow> unit io \<Rightarrow> CommandStatus \<times> string" where
  "submit_verdict i q x =
     (case q of Some r \<Rightarrow> r | None \<Rightarrow> if is_ok x then (EsmeRok, i) else (EsmeRUnknownErr, ''fail-to-store''))"

lemma store_check_refusals:
  assumes "store_check E v = Ok (Some r)"
  shows "r \<in> set [(EsmeRInvSched, ''invalid-schedule-delivery-time''), (EsmeRInvExpiry, ''invalid-validity-period''),
    (EsmeRInvSched, ''schedule-delivery-time-after-validity-period'')]"
  using assms by (auto simp: store_check_def Let_def outcome_elims split: if_splits)

lemma submit_verdict_text:
  assumes "store_check E v = Ok q" "c_string_ok i" "length i \<le> 65"
  shows "c_string_ok (snd (submit_verdict i q x)) \<and> length (snd (submit_verdict i q x)) \<le> 65"
    and "status (fst (submit_verdict i q x)) = 0 \<longleftrightarrow> q = None \<and> is_ok x"
proof -
  have "list_all (\<lambda>t. c_string_ok t \<and> length t \<le> 65) [''invalid-schedule-delivery-time'', ''invalid-validity-period'',
      ''schedule-delivery-time-after-validity-period'', ''fail-to-store'']" by code_simp
  then show "c_string_ok (snd (submit_verdict i q x)) \<and> length (snd (submit_verdict i q x)) \<le> 65"
    using assms store_check_refusals [of E v] by (cases q) (auto simp: submit_verdict_def)
  show "status (fst (submit_verdict i q x)) = 0 \<longleftrightarrow> q = None \<and> is_ok x"
    using assms(1) store_check_refusals [of E v] by (cases q) (auto simp: submit_verdict_def status_def)
qed

lemma store_and_forward_verdict:
  assumes "store_check E v = Ok q" "store_save (e_store E) i v (v_store s) = (x, p)" "x \<noteq> Panic"
  shows "\<exists>a. store_and_forward_message E cid seq i v s =
    (Ok (a, create_json_response cid seq (status (fst (submit_verdict i q x))) (id_field (snd (submit_verdict i q x)))),
     if q = None then s\<lparr>v_store := p\<rparr> else s)"
proof (cases q)
  case None
  then show ?thesis using assms
    by (cases x) (auto simp: store_and_forward_message_def act_match_def pending_save_def act_return_def submit_verdict_def)
next
  case (Some r)
  then show ?thesis using assms
    by (cases r) (auto simp: store_and_forward_message_def act_return_def submit_verdict_def)
qed

lemma next_message_id_fields:
  assumes "next_message_id E s = (Ok i, s1)"
  shows "v_seq s1 = v_seq s \<and> v_handler s1 = v_handler s \<and> v_store s1 = v_store s \<and> v_sent s1 = v_sent s \<and> v_writes s1 = v_writes s"
  using assms by (auto simp: next_message_id_def split: outcome.splits prod.splits)

lemma server_answers_submit:
  assumes "next_message_id S s = (Ok i, s1)" "replace_sm_default_msg_id S v = Ok v1"
    "w = obj_insert ''sequence_number'' (jnum (current (v_seq s))) (set_service_type S v1)"
    "\<not> is_my_request_address (v_handler s) (str_or_empty ''destination_addr'' w)" "get_message_mode S w = MM_StoreAndForward"
    "store_check S w = Ok q" "store_save (e_store S) i w (v_store s) = (x, p)" "x \<noteq> Panic" "e_write S (v_writes s)"
    "from_json (e_base64 S) (e_tlvs S) (create_json_response cid seq (status (fst (submit_verdict i q x)))
       (id_field (snd (submit_verdict i q x)))) = Ok d"
  shows "\<exists>s'. handle_data_submit_sm S cid seq v s = (Ok (), s') \<and> v_sent s' = v_sent s @ [message d]
    \<and> v_store s' = (if q = None then p else v_store s)"
proof -
  note f = next_message_id_fields [OF assms(1)]
  let ?s = "s1\<lparr>v_seq := (v_seq s)\<lparr>current := current (v_seq s) + 1\<rparr>\<rparr>"
  obtain a where "store_and_forward_message S cid seq i w ?s = (Ok (a, create_json_response cid seq (status (fst (submit_verdict i q x)))
      (id_field (snd (submit_verdict i q x)))), if q = None then ?s\<lparr>v_store := p\<rparr> else ?s)"
    using store_and_forward_verdict [OF assms(6), of i ?s x p cid seq] assms(7,8) f by auto
  then have "dispatch_mode S (get_message_mode S w) cid seq i w ?s = (Ok (a, create_json_response cid seq
      (status (fst (submit_verdict i q x))) (id_field (snd (submit_verdict i q x)))), if q = None then ?s\<lparr>v_store := p\<rparr> else ?s)"
    by (simp add: assms(5) dispatch_mode_def)
  then show ?thesis
    using assms(1,2,4,9,10) f
    by (simp add: handle_data_submit_sm_def act_bind_def next_sequence_number_def allocator_next_def act_io_def assms(3) [symmetric]
        send_response_def encode_or_empty_def act_map_err_def server_send_def Let_def)
qed

section \<open>A sample submission\<close>

definition sample_stored_sm :: json where
  "sample_stored_sm = obj_insert ''sequence_number'' (jnum (0 :: u32)) sample_submit_sm"

lemma sample_stored_members:
  "get_str ''schedule_delivery_time'' sample_stored_sm = Some []" "get_str ''validity_period'' sample_stored_sm = Some []"
  "u8_field ''replace_if_present_flag'' sample_stored_sm = 0" "str_or_empty ''destination_addr'' sample_stored_sm = ''5678''"
  "u8_field ''esm_class'' sample_stored_sm = 0"
  by code_simp+

lemma sample_submit_pdu_ok:
  "pdu_ok (encoded std_base64 create_tlv_fields sample_submit_sm)"
  "to_json std_base64 (SMPPMessage_of (encoded std_base64 create_tlv_fields sample_submit_sm)) = Ok sample_submit_sm"
proof -
  have "length (encoded std_base64 create_tlv_fields sample_submit_sm) = 55" by code_simp
  then show "pdu_ok (encoded std_base64 create_tlv_fields sample_submit_sm)"
    "to_json std_base64 (SMPPMessage_of (encoded std_base64 create_tlv_fields sample_submit_sm)) = Ok sample_submit_sm"
    using encoded_pdu [OF sample_submit_sm_ok tlv_order_table] by simp_all
qed

lemma sample_submit_prepared:
  "replace_sm_default_msg_id sample_env sample_submit_sm = Ok sample_submit_sm"
  "sample_stored_sm = obj_insert ''sequence_number'' (jnum (current (v_seq sample_state))) (set_service_type sample_env sample_submit_sm)"
  "extract_command_id sample_submit_sm = Some SubmitSm" "u64_or 0 ''sequence_number'' sample_submit_sm = 77"
proof -
  have "u64_or 0 ''sm_default_msg_id'' sample_submit_sm = 0" by code_simp
  then show "replace_sm_default_msg_id sample_env sample_submit_sm = Ok sample_submit_sm"
    by (simp add: replace_sm_default_msg_id_def)
  show "sample_stored_sm = obj_insert ''sequence_number'' (jnum (current (v_seq sample_state))) (set_service_type sample_env sample_submit_sm)"
    by (simp add: sample_stored_sm_def set_service_type_def sample_env_def sample_config_def get_default_service_type_def
        sample_state_def SequenceNumberAllocator_new_def)
  show "extract_command_id sample_submit_sm = Some SubmitSm" "u64_or 0 ''sequence_number'' sample_submit_sm = 77" by code_simp+
qed

lemma sample_submit_accepted:
  "store_check sample_env sample_stored_sm = Ok None"
  "\<exists>p. store_save (e_store sample_env) ''msg-u'' sample_stored_sm (v_store sample_state) = (Ok (), p)"
  "get_message_mode sample_env sample_stored_sm = MM_StoreAndForward"
proof -
  have t: "get_schedule_delivery_time C 0 sample_stored_sm = Err (''Invalid absolute_time format: '' @ [])"
    "get_validity_period C 0 sample_stored_sm d = Err (''Invalid absolute_time format: '' @ [])" for C d
    by (simp_all add: get_schedule_delivery_time_def get_validity_period_def sample_stored_members parse_absolute_relative_time_def)
  show "store_check sample_env sample_stored_sm = Ok None"
    by (simp add: store_check_def t sample_env_def Let_def)
  show "\<exists>p. store_save (e_store sample_env) ''msg-u'' sample_stored_sm (v_store sample_state) = (Ok (), p)"
    by (simp add: store_save_def sample_state_def sql_save_def sample_stored_members sql_insert_def sql_check_save_def st_sql_def
        sample_env_def t plain_chrono_def map_ok_def statement_def)
  have "message_mode EsmClass_default = MM_Default" by code_simp
  moreover have "(case EsmClass_from_u8 0 of Some e \<Rightarrow> e | None \<Rightarrow> EsmClass_default) = EsmClass_default" by code_simp
  moreover have "get_default_mc_mode sample_config = MM_StoreAndForward" by code_simp
  ultimately show "get_message_mode sample_env sample_stored_sm = MM_StoreAndForward"
    by (simp add: get_message_mode_def sample_stored_members sample_env_def)
qed

section \<open>From the request to the waiting task\<close>

text \<open>
  C3.  A \<^verbatim>\<open>submit_sm\<close> on its way through both halves, in store-and-forward mode: its PDU, in the receive
  loop of the server, is answered by one response; that response, cut into reads anywhere, reaches in the
  client's main loop the request that waits for its sequence number.  The status it gives is success exactly
  when the checks have passed and the message could be saved, and then the message is in the store under the
  identifier that the response gives.
\<close>

theorem submit_handshake:
  assumes "pdu_ok (message m)" "to_json (e_base64 S) m = Ok v" "extract_command_id v = Some SubmitSm"
    "ucast (u64_or 0 ''sequence_number'' v) = seq"
    "next_message_id S s = (Ok i, s1)" "c_string_ok i" "length i \<le> 65" "replace_sm_default_msg_id S v = Ok v1"
    "w = obj_insert ''sequence_number'' (jnum (current (v_seq s))) (set_service_type S v1)"
    "\<not> is_my_request_address (v_handler s) (str_or_empty ''destination_addr'' w)" "get_message_mode S w = MM_StoreAndForward"
    "store_check S w = Ok q" "store_save (e_store S) i w (v_store s) = (x, p)" "x \<noteq> Panic"
    "store_ok (st_formats (e_store S)) (v_store s)" "e_write S (v_writes s)" "tlv_order (e_tlvs S)"
    "n_base64 E = e_base64 S" "senders (k_responses k) seq = Some ch" "channels (k_responses k) ch = Pending"
  shows "\<exists>d s' response.
      process_buffered (e_base64 S) (server_handle_message S) \<lparr>buffer = message m\<rparr> s = Some (True, \<lparr>buffer = []\<rparr>, s')
    \<and> v_sent s' = v_sent s @ [d]
    \<and> (\<forall>cs received. concat cs = d \<and> [] \<notin> set cs \<longrightarrow>
        (\<exists>k'. main_loop E (map (\<lambda>c. Readable (ReadData c)) cs) SmppMessageBuffer_new received k = Some (None, SmppMessageBuffer_new, k')
          \<and> channels (k_responses k') ch = Delivered (Ok response)))
    \<and> (u64_or 1 ''command_status'' response = 0 \<longleftrightarrow> q = None \<and> is_ok x)
    \<and> (u64_or 1 ''command_status'' response = 0 \<longrightarrow> str_or_empty ''message_id'' response = i
        \<and> w \<in> set (stored_under (st_formats (e_store S)) (v_store s') i))"
proof -
  let ?V = "submit_verdict i q x"
  let ?r = "submit_resp seq (status (fst ?V)) (snd ?V)"
  note V = submit_verdict_text [OF assms(12,6,7), of x]
  obtain d where d: "from_json (e_base64 S) (e_tlvs S)
        (create_json_response (CommandId_as_u32 SubmitSm) seq (status (fst ?V)) (id_field (snd ?V))) = Ok d"
      "to_json (e_base64 S) d = Ok ?r" "pdu_ok (message d)"
      "get_command_id d = Some (CommandId_as_u32 SubmitSmResp)" "get_sequence_number d = Some seq"
    using submit_resp_pdu [OF V(1) [THEN conjunct1] V(1) [THEN conjunct2] assms(17)] by blast
  obtain s' where s': "handle_data_submit_sm S (CommandId_as_u32 SubmitSm) seq v s = (Ok (), s')" "v_sent s' = v_sent s @ [message d]"
      "v_store s' = (if q = None then p else v_store s)"
    using server_answers_submit [OF assms(5,8-14,16) d(1)] by blast
  have h: "server_handle_message S v s = (Ok (), s')"
    using s'(1) by (simp add: server_handle_message_def assms(3,4) Let_def del: CommandId_as_u32.simps)
  have b: "process_buffered (e_base64 S) (server_handle_message S) \<lparr>buffer = message m\<rparr> s = Some (True, \<lparr>buffer = []\<rparr>, s')"
  proof -
    have x: "extract_message \<lparr>buffer = message m\<rparr> = (Some m, \<lparr>buffer = []\<rparr>)"
      using extract_message_pdu [OF assms(1), of "[]"] by simp
    have "process_buffered (e_base64 S) (server_handle_message S) \<lparr>buffer = []\<rparr> s' = Some (True, \<lparr>buffer = []\<rparr>, s')"
      by (subst process_buffered.simps) (simp add: extract_message_incomplete incomplete_def)
    then show ?thesis by (subst process_buffered.simps) (simp only: x assms(2) h prod.case option.case outcome.case)
  qed
  obtain k' where k': "process_in_message E d k = (Ok (), k')" "channels (k_responses k') ch = Delivered (Ok ?r)"
    using submit_resp_wakes_waiter [OF _ d(4,5) assms(19,20), of E ?r] d(2) assms(18) by auto
  have "SMPPMessage_of (message d) = d" by simp
  then have kd: "process_in_message E (SMPPMessage_of (message d)) k = (Ok (), k')" using k'(1) by (simp only:)
  have n: "buffer SmppMessageBuffer_new \<noteq> message d" using d(3) by (auto simp: SmppMessageBuffer_new_def pdu_ok_def)
  have c: "main_loop E (map (\<lambda>c. Readable (ReadData c)) cs) SmppMessageBuffer_new received k = Some (None, SmppMessageBuffer_new, k')"
    if "concat cs = message d" "[] \<notin> set cs" for cs received
    using main_loop_pieces [OF d(3) _ n that(2)] that(1) kd by (simp add: SmppMessageBuffer_new_def)
  have z: "u64_or 1 ''command_status'' ?r = 0 \<longleftrightarrow> q = None \<and> is_ok x"
    unfolding submit_resp_members V(2) [symmetric] by (auto dest: arg_cong [of _ _ "ucast :: u64 \<Rightarrow> u32"])
  have st: "str_or_empty ''message_id'' ?r = i \<and> w \<in> set (stored_under (st_formats (e_store S)) (v_store s') i)"
    if "q = None \<and> is_ok x"
    using that s'(3) store_save_keeps [OF assms(15), of i w p] assms(13) by (auto simp: submit_resp_members submit_verdict_def is_ok_iff)
  show ?thesis
    by (intro exI [of _ "message d"] exI [of _ s'] exI [of _ ?r] conjI allI impI b s'(2) z)
      (use c k'(2) st z in blast)+
qed

theorem submit_handshake_witness:
  "\<exists>d s' k' response. process_buffered std_base64 (server_handle_message sample_env)
       \<lparr>buffer = encoded std_base64 create_tlv_fields sample_submit_sm\<rparr> sample_state = Some (True, \<lparr>buffer = []\<rparr>, s')
     \<and> v_sent s' = [d]
     \<and> main_loop sample_connection [Readable (ReadData d)] SmppMessageBuffer_new 0
         (sample_link_state\<lparr>k_responses := snd (register_callback 77 ResponseManager_new)\<rparr>) = Some (None, SmppMessageBuffer_new, k')
     \<and> channels (k_responses k') 0 = Delivered (Ok response) \<and> str_or_empty ''message_id'' response = ''msg-u''
     \<and> sample_stored_sm \<in> set (stored_under unary_formats (v_store s') ''msg-u'')"
proof -
  let ?m = "SMPPMessage_of (encoded std_base64 create_tlv_fields sample_submit_sm)"
  let ?k = "sample_link_state\<lparr>k_responses := snd (register_callback 77 ResponseManager_new)\<rparr>"
  obtain p where p: "store_save (e_store sample_env) ''msg-u'' sample_stored_sm (v_store sample_state) = (Ok (), p)"
    using sample_submit_accepted(2) by blast
  have E: "e_base64 sample_env = std_base64" "e_tlvs sample_env = create_tlv_fields" "st_formats (e_store sample_env) = unary_formats"
    "n_base64 sample_connection = std_base64" "e_write sample_env (v_writes sample_state)" "v_sent sample_state = []"
    by (simp_all add: sample_env_def sample_connection_def sample_state_def)
  have i: "next_message_id sample_env sample_state = (Ok ''msg-u'', sample_state\<lparr>v_id_count := 1\<rparr>)"
    by (simp add: next_message_id_def sample_state_def sample_env_def generate_def)
  have c: "c_string_ok ''msg-u''" by code_simp
  have "sql_wf unary_formats empty_sql_table" using empty_sql_table_reachable formats_ok_unary by (rule sql_reachable_wf)
  then have st: "store_ok (st_formats (e_store sample_env)) (v_store sample_state)"
    by (simp add: store_ok_def E formats_ok_unary sample_state_def)
  have k: "senders (k_responses ?k) 77 = Some 0" "channels (k_responses ?k) 0 = Pending"
    by (simp_all add: register_callback_def insert_sender_def ResponseManager_new_def empty_table_def Let_def)
  have "\<exists>d s' response.
      process_buffered (e_base64 sample_env) (server_handle_message sample_env) \<lparr>buffer = message ?m\<rparr> sample_state = Some (True, \<lparr>buffer = []\<rparr>, s')
    \<and> v_sent s' = v_sent sample_state @ [d]
    \<and> (\<forall>cs received. concat cs = d \<and> [] \<notin> set cs \<longrightarrow>
        (\<exists>k'. main_loop sample_connection (map (\<lambda>c. Readable (ReadData c)) cs) SmppMessageBuffer_new received ?k = Some (None, SmppMessageBuffer_new, k')
          \<and> channels (k_responses k') 0 = Delivered (Ok response)))
    \<and> (u64_or 1 ''command_status'' response = 0 \<longleftrightarrow> None = (None :: (CommandStatus \<times> string) option) \<and> is_ok (Ok () :: unit io))
    \<and> (u64_or 1 ''command_status'' response = 0 \<longrightarrow> str_or_empty ''message_id'' response = ''msg-u''
        \<and> sample_stored_sm \<in> set (stored_under (st_formats (e_store sample_env)) (v_store s') ''msg-u''))"
    by (rule submit_handshake [OF _ _ sample_submit_prepared(3) _ i c _ sample_submit_prepared(1,2) _ sample_submit_accepted(3,1) p _ st E(5) _ _ k])
      (simp_all add: E sample_submit_pdu_ok sample_submit_prepared(4) tlv_order_table, simp add: sample_state_def)
  then obtain d s' response where d:
      "process_buffered std_base64 (server_handle_message sample_env) \<lparr>buffer = message ?m\<rparr> sample_state = Some (True, \<lparr>buffer = []\<rparr>, s')"
      "v_sent s' = [d]"
      "\<And>cs received. concat cs = d \<Longrightarrow> [] \<notin> set cs \<Longrightarrow>
        \<exists>k'. main_loop sample_connection (map (\<lambda>c. Readable (ReadData c)) cs) SmppMessageBuffer_new received ?k = Some (None, SmppMessageBuffer_new, k')
          \<and> channels (k_responses k') 0 = Delivered (Ok response)"
      "str_or_empty ''message_id'' response = ''msg-u''" "sample_stored_sm \<in> set (stored_under unary_formats (v_store s') ''msg-u'')"
    unfolding E append_Nil is_ok.simps simp_thms by blast
  have "d \<noteq> []" using d(3) [of "[]" 0] k(2) by auto
  then obtain k' where "main_loop sample_connection (map (\<lambda>c. Readable (ReadData c)) [d]) SmppMessageBuffer_new 0 ?k = Some (None, SmppMessageBuffer_new, k')"
      "channels (k_responses k') 0 = Delivered (Ok response)"
    using d(3) [of "[d]" 0] by auto
  with d show ?thesis by (intro exI conjI) (assumption | simp)+
qed

end
