(* ===== verification/Smsc_Client.thy ===== *)
theory Smsc_Client
  imports Smsc_Connection Connections Ids
begin

text \<open>
  The client side of the gateway (\<^verbatim>\<open>smsc_client/smsc_client.rs\<close>, \<^verbatim>\<open>client_app_state.rs\<close>): the pool
  of connections to SMSCs that the configuration asks for, and the handlers of the REST API.
  The bodies of requests are given as the records that \<^verbatim>\<open>serde\<close> has made of them.
\<close>

section \<open>Configuration and requests\<close>

record SmppConnectionInfo =
  ci_connection_id :: string
  ci_name :: string
  ci_host :: string
  ci_port :: u16
  ci_system_id :: string
  ci_bind_type :: string
  ci_status :: string
  ci_reconnect_enabled :: bool
  ci_heartbeat_interval :: u32

record CreateSmppConnectionRequest =
  cr_name :: string
  cr_host :: string
  cr_port :: u16
  cr_system_id :: string
  cr_password :: string
  cr_bind_type :: "string option"
  cr_system_type :: "string option"
  cr_reconnect_enabled :: "bool option"
  cr_reconnect_interval :: "u32 option"
  cr_heartbeat_interval :: "u32 option"
  cr_enquire_link_interval :: "u32 option"
  cr_throughput_limit :: "u32 option"

record UpdateSmppConnectionRequest =
  up_name :: "string option"
  up_reconnect_enabled :: "bool option"
  up_reconnect_interval :: "u32 option"
  up_heartbeat_interval :: "u32 option"

record AddSmscRequest =
  as_bind_type :: string
  as_session_init_timer :: u32
  as_enquire_link_timer :: u32
  as_inactive_timer :: u32
  as_response_timer :: u32
  as_address :: string
  as_system_id :: string
  as_password :: string
  as_system_type :: "string option"
  as_addr_ton :: "u8 option"
  as_addr_npi :: "u8 option"
  as_address_range :: "string option"
  as_interface_version :: "u8 option"
  as_weight :: "u32 option"

text \<open>The addresses of the REST listeners are left out: listening is the operating system's.\<close>

record ClientConfig =
  cc_bind_type :: string
  cc_connections :: "SmscConnectionConfig list"
  cc_load_balancing_algorithm :: "string option"
  cc_request_handlers :: "RequestHandlerConfig list option"
  cc_alarm_config :: "AlarmConfig option"
  cc_id_generator :: "IdGeneratorConfig option"
  cc_session_init_timer :: u32
  cc_enquire_link_timer :: u32
  cc_inactive_timer :: u32
  cc_response_timer :: u32

section \<open>State\<close>

text \<open>What a connection is created with, apart from what all connections share.\<close>

record SmscConnection =
  co_bind_type :: string
  co_session_init_timer :: u32
  co_enquire_link_timer :: u32
  co_inactive_timer :: u32
  co_response_timer :: u32
  co_config :: SmscConnectionConfig

record SmscClient =
  cl_config :: ClientConfig
  cl_seq_allocator :: SequenceNumberAllocator
  cl_message_handler :: message_handler
  cl_receipts :: DeliveryReceiptManager
  cl_pool :: SmscConnectionManager

text \<open>
  The shared state of the REST handlers.  \<open>ca_running\<close> are the connections whose loops have been
  spawned, and \<open>ca_links\<close> the states of the connections of the pool, by their identity.
\<close>

record ClientAppState =
  smpp_connections_store :: "SmppConnectionInfo list"
  start_time :: int
  id_generator :: MessageIdGenerator
  smsc_connection_manager :: SmscConnectionManager
  seq_allocator :: SequenceNumberAllocator
  smsc_message_handler :: message_handler
  alarm_notifier :: "AlarmNotifier option"
  delivery_receipt_manager :: DeliveryReceiptManager
  ca_running :: "SmscConnection list"
  ca_links :: "nat \<Rightarrow> connection_state"

definition SmscClient_new :: "regex_compiler \<Rightarrow> int \<Rightarrow> ClientConfig \<Rightarrow> SmscClient" where
  "SmscClient_new compile now config =
     \<lparr>cl_config = config,
      cl_seq_allocator = SequenceNumberAllocator_new,
      cl_message_handler =
        (case cc_request_handlers config of
           Some hs \<Rightarrow> create_request_handler compile hs
         | None \<Rightarrow> NoOpHandler),
      cl_receipts = DeliveryReceiptManager_new now,
      cl_pool = SmscConnectionManager_new (LoadBalancingAlgorithm_from
        (case cc_load_balancing_algorithm config of Some a \<Rightarrow> a | None \<Rightarrow> ''round_robin''))\<rparr>"

definition link_of :: "nat \<Rightarrow> SmscConnection \<Rightarrow> smsc_link" where
  "link_of i c = \<lparr>link_id = i, link_address = sc_address (co_config c)\<rparr>"

text \<open>\<^verbatim>\<open>start\<close>: every configured connection joins the pool and its loop is spawned.\<close>

fun start_connections :: "nat \<Rightarrow> SmscConnection list \<Rightarrow> SmscConnectionManager \<Rightarrow> SmscConnectionManager" where
  "start_connections i [] m = m"
| "start_connections i (c # cs) m = start_connections (Suc i) cs (add_connection (link_of i c) m)"

definition configured_connections :: "ClientConfig \<Rightarrow> SmscConnection list" where
  "configured_connections config =
     map (\<lambda>c. \<lparr>co_bind_type = cc_bind_type config, co_session_init_timer = cc_session_init_timer config,
        co_enquire_link_timer = cc_enquire_link_timer config, co_inactive_timer = cc_inactive_timer config,
        co_response_timer = cc_response_timer config, co_config = c\<rparr>) (cc_connections config)"

text \<open>A connection before its first attempt: no socket, no callbacks, nothing sent.\<close>

definition unconnected :: "SmscClient \<Rightarrow> connection_state" where
  "unconnected cl =
     \<lparr>k_seq = cl_seq_allocator cl, k_writer = False, k_responses = ResponseManager_new, k_receipts = cl_receipts cl,
      k_readings = 0, k_handler = cl_message_handler cl, k_handled = 0, k_sent = [], k_writes = 0, k_posted = [],
      k_active = 0, k_inbound = 0, k_alarms = no_alarms\<rparr>"

definition client_start ::
    "(AlarmConfig \<Rightarrow> AlarmNotifier io) \<Rightarrow> id_env \<Rightarrow> int \<Rightarrow> SmscClient \<Rightarrow> ClientAppState io" where
  "client_start create_notifier R now cl =
     (let config = cl_config cl; cs = configured_connections config in
      try_ok (case cc_alarm_config config of
          Some cfg \<Rightarrow> map_ok Some (create_notifier cfg)
        | None \<Rightarrow> Ok None) (\<lambda>notifier.
      case create_id_generator R (cc_id_generator config) of
        Ok g \<Rightarrow> Ok
          \<lparr>smpp_connections_store = [], start_time = now, id_generator = g,
           smsc_connection_manager = start_connections 0 cs (cl_pool cl),
           seq_allocator = cl_seq_allocator cl, smsc_message_handler = cl_message_handler cl,
           alarm_notifier = notifier, delivery_receipt_manager = cl_receipts cl,
           ca_running = cs, ca_links = (\<lambda>_. unconnected cl)\<rparr>
      | _ \<Rightarrow> Panic))"

section \<open>Sending through the pool\<close>

text \<open>
  The loop of \<^verbatim>\<open>SmscConnectionManager::send_message\<close> over the connections themselves; \<open>N i\<close> is the
  environment of connection \<open>i\<close>.
\<close>

fun send_over_links ::
    "(nat \<Rightarrow> connection_env) \<Rightarrow> SMPPMessage \<Rightarrow> smsc_link list \<Rightarrow> (nat \<Rightarrow> connection_state)
     \<Rightarrow> json io \<times> (nat \<Rightarrow> connection_state)" where
  "send_over_links N m [] w = (Err (IoError Other ''Failed to send message to any SMSC connection''), w)"
| "send_over_links N m (c # cs) w =
     (case connection_send_message (N (link_id c)) m (w (link_id c)) of
        (Ok (Some inner_response), s) \<Rightarrow> (Ok inner_response, w(link_id c := s))
      | (Ok None, s) \<Rightarrow> send_over_links N m cs (w(link_id c := s))
      | (Err _, s) \<Rightarrow> send_over_links N m cs (w(link_id c := s))
      | (Panic, s) \<Rightarrow> (Panic, w(link_id c := s)))"

definition send_through_pool ::
    "(nat \<Rightarrow> connection_env) \<Rightarrow> SMPPMessage \<Rightarrow> ClientAppState \<Rightarrow> json io \<times> ClientAppState" where
  "send_through_pool N m st =
     (case get_connections (smsc_connection_manager st) of
        (Ok cs, p) \<Rightarrow>
          (if cs = [] then (Err (IoError Other ''No active SMSC connections available''), st\<lparr>smsc_connection_manager := p\<rparr>)
           else case send_over_links N m cs (ca_links st) of
                  (r, w) \<Rightarrow> (r, st\<lparr>smsc_connection_manager := p, ca_links := w\<rparr>))
      | (_, p) \<Rightarrow> (Panic, st\<lparr>smsc_connection_manager := p\<rparr>))"

section \<open>Handlers of the REST API\<close>

definition error_json :: "string \<Rightarrow> string \<Rightarrow> json" where
  "error_json code msg =
     jobject [(''success'', JBool False), (''error'', jobject [(''code'', JString code), (''message'', JString msg)])]"

definition success_json :: "json \<Rightarrow> json" where
  "success_json v = jobject [(''success'', JBool True), (''data'', v)]"

definition api_error :: "string \<Rightarrow> json" where
  "api_error msg = jobject [(''error'', JString msg)]"

definition smpp_api_handler ::
    "base64 \<Rightarrow> TLVFieldCodec list \<Rightarrow> (nat \<Rightarrow> connection_env) \<Rightarrow> json \<Rightarrow> ClientAppState \<Rightarrow> json io \<times> ClientAppState" where
  "smpp_api_handler B order N payload st =
     (case from_json B order payload of
        Ok m \<Rightarrow>
          (case CommandId_from_u32 (number_or_0 (get_command_id m)) of
             None \<Rightarrow> (Ok (api_error ''Unknown command_id''), st)
           | Some command_id \<Rightarrow>
               if \<not> is_client_request command_id
               then (Ok (api_error ''Command_id is not a client request''), st)
               else
                 (case allocator_next (seq_allocator st) of
                    (sequence_number, q) \<Rightarrow>
                      let st1 = st\<lparr>seq_allocator := q\<rparr> in
                      (case (update_sequence_number sequence_number m :: SMPPMessage io) of
                         Ok m1 \<Rightarrow>
                           (case send_through_pool N m1 st1 of
                              (Ok response, st2) \<Rightarrow> (Ok response, st2)
                            | (Err _, st2) \<Rightarrow> (Ok (api_error ''Failed to send message''), st2)
                            | (Panic, st2) \<Rightarrow> (Panic, st2))
                       | _ \<Rightarrow> (Panic, st1))))
      | Err _ \<Rightarrow> (Ok (api_error ''Failed to create message''), st)
      | Panic \<Rightarrow> (Panic, st))"

text \<open>The JSON form of a connection's record.\<close>

definition connection_json :: "SmppConnectionInfo \<Rightarrow> json" where
  "connection_json c =
     jobject [(''connection_id'', JString (ci_connection_id c)), (''name'', JString (ci_name c)),
       (''host'', JString (ci_host c)), (''port'', jnum (ci_port c)), (''system_id'', JString (ci_system_id c)),
       (''bind_type'', JString (ci_bind_type c)), (''status'', JString (ci_status c)),
       (''reconnect_enabled'', JBool (ci_reconnect_enabled c)), (''heartbeat_interval'', jnum (ci_heartbeat_interval c))]"

definition connections_json :: "ClientAppState \<Rightarrow> json" where
  "connections_json st = JArray (map connection_json (smpp_connections_store st))"

definition get_gateway_status :: "int \<Rightarrow> ClientAppState \<Rightarrow> json" where
  "get_gateway_status now st =
     success_json (jobject
       [(''gateway'', jobject [(''version'', JString ''1.0.0''),
           (''uptime_seconds'', jnum (word_of_int (now - start_time st) :: u64)), (''status'', JString ''healthy'')]),
        (''smpp_connections'', connections_json st)])"

definition list_smpp_connections :: "ClientAppState \<Rightarrow> json" where
  "list_smpp_connections st = success_json (connections_json st)"

definition option_or :: "'a \<Rightarrow> 'a option \<Rightarrow> 'a" where
  "option_or d x = (case x of Some y \<Rightarrow> y | None \<Rightarrow> d)"

definition create_smpp_connection ::
    "id_env \<Rightarrow> CreateSmppConnectionRequest \<Rightarrow> ClientAppState \<Rightarrow> (nat \<times> json) io \<times> ClientAppState" where
  "create_smpp_connection R req st =
     (case generate R ''smpp_conn-'' (id_generator st) of
        Ok (connection_id, g) \<Rightarrow>
          let conn = \<lparr>ci_connection_id = connection_id, ci_name = cr_name req, ci_host = cr_host req,
                ci_port = cr_port req, ci_system_id = cr_system_id req,
                ci_bind_type = option_or ''transceiver'' (cr_bind_type req), ci_status = ''disconnected'',
                ci_reconnect_enabled = option_or True (cr_reconnect_enabled req),
                ci_heartbeat_interval = option_or 30 (cr_heartbeat_interval req)\<rparr>
          in (Ok (201, success_json (connection_json conn)),
              st\<lparr>id_generator := g, smpp_connections_store := smpp_connections_store st @ [conn]\<rparr>)
      | _ \<Rightarrow> (Panic, st))"

definition not_found :: "nat \<times> json" where
  "not_found = (404, error_json ''NOT_FOUND'' ''Connection not found'')"

text \<open>\<^verbatim>\<open>iter_mut().find\<close>: the first record with the identifier, changed in place.\<close>

fun change_first :: "('a \<Rightarrow> bool) \<Rightarrow> ('a \<Rightarrow> 'a) \<Rightarrow> 'a list \<Rightarrow> ('a \<times> 'a list) option" where
  "change_first P f [] = None"
| "change_first P f (x # xs) =
     (if P x then Some (f x, f x # xs)
      else case change_first P f xs of Some (y, ys) \<Rightarrow> Some (y, x # ys) | None \<Rightarrow> None)"

definition apply_update :: "UpdateSmppConnectionRequest \<Rightarrow> SmppConnectionInfo \<Rightarrow> SmppConnectionInfo" where
  "apply_update req c =
     c\<lparr>ci_name := option_or (ci_name c) (up_name req),
       ci_reconnect_enabled := option_or (ci_reconnect_enabled c) (up_reconnect_enabled req),
       ci_heartbeat_interval := option_or (ci_heartbeat_interval c) (up_heartbeat_interval req)\<rparr>"

definition update_smpp_connection ::
    "string \<Rightarrow> UpdateSmppConnectionRequest \<Rightarrow> ClientAppState \<Rightarrow> (nat \<times> json) \<times> ClientAppState" where
  "update_smpp_connection connection_id req st =
     (case change_first (\<lambda>c. ci_connection_id c = connection_id) (apply_update req) (smpp_connections_store st) of
        Some (conn, conns) \<Rightarrow> ((200, success_json (connection_json conn)), st\<lparr>smpp_connections_store := conns\<rparr>)
      | None \<Rightarrow> (not_found, st))"

definition delete_smpp_connection :: "string \<Rightarrow> ClientAppState \<Rightarrow> (nat \<times> json) \<times> ClientAppState" where
  "delete_smpp_connection connection_id st =
     (let conns = smpp_connections_store st;
          kept = filter (\<lambda>c. ci_connection_id c \<noteq> connection_id) conns
      in (if length kept < length conns then (200, success_json (jobject [(''deleted'', JBool True)])) else not_found,
          st\<lparr>smpp_connections_store := kept\<rparr>))"

definition rebind_smpp_connection :: "string \<Rightarrow> ClientAppState \<Rightarrow> (nat \<times> json) \<times> ClientAppState" where
  "rebind_smpp_connection connection_id st =
     (case change_first (\<lambda>c. ci_connection_id c = connection_id) (ci_status_update (\<lambda>_. ''reconnecting'')) (smpp_connections_store st) of
        Some (_, conns) \<Rightarrow>
          ((200, success_json (jobject [(''connection_id'', JString connection_id), (''status'', JString ''reconnecting'')])),
           st\<lparr>smpp_connections_store := conns\<rparr>)
      | None \<Rightarrow> (not_found, st))"

definition list_live_smsc_connections :: "ClientAppState \<Rightarrow> json" where
  "list_live_smsc_connections st =
     success_json (JArray (map (\<lambda>(i, a). jobject [(''index'', jnum (word_of_nat i :: u64)), (''address'', JString a)])
       (enumerate 0 (get_connection_addresses (smsc_connection_manager st)))))"

text \<open>The new connection is run, but it does not join the pool.\<close>

definition add_live_smsc_connection :: "AddSmscRequest \<Rightarrow> ClientAppState \<Rightarrow> (nat \<times> json) \<times> ClientAppState" where
  "add_live_smsc_connection req st =
     (let conn_config = \<lparr>sc_address = as_address req, sc_system_id = as_system_id req, sc_password = as_password req,
            sc_system_type = option_or [] (as_system_type req), sc_addr_ton = option_or 0 (as_addr_ton req),
            sc_addr_npi = option_or 0 (as_addr_npi req), sc_address_range = option_or [] (as_address_range req),
            sc_interface_version = option_or 0x34 (as_interface_version req)\<rparr>;
          connection = \<lparr>co_bind_type = as_bind_type req, co_session_init_timer = as_session_init_timer req,
            co_enquire_link_timer = as_enquire_link_timer req, co_inactive_timer = as_inactive_timer req,
            co_response_timer = as_response_timer req, co_config = conn_config\<rparr>
      in ((201, success_json (jobject [(''address'', JString (as_address req)), (''system_id'', JString (as_system_id req)),
             (''status'', JString ''connecting'')])),
          st\<lparr>ca_running := ca_running st @ [connection]\<rparr>))"


section \<open>The routes\<close>

text \<open>A request that the router of \<^verbatim>\<open>start_rest\<close> has matched, with its path parameter and body.\<close>

datatype rest_request =
    PostSmpp json
  | GetGatewayStatus
  | GetConnections
  | PostConnection CreateSmppConnectionRequest
  | PutConnection string UpdateSmppConnectionRequest
  | DeleteConnection string
  | PostRebind string
  | GetLiveConnections
  | PostLiveConnection AddSmscRequest

text \<open>What a request is answered with: the encoding and the peers, the identifiers and the clock.\<close>

record rest_env =
  re_base64 :: base64
  re_tlvs :: "TLVFieldCodec list"
  re_peers :: "nat \<Rightarrow> connection_env"
  re_ids :: id_env
  re_now :: int

definition rest_route :: "rest_env \<Rightarrow> rest_request \<Rightarrow> ClientAppState \<Rightarrow> (nat \<times> json) io \<times> ClientAppState" where
  "rest_route R req st =
     (case req of
        PostSmpp payload \<Rightarrow>
          (case smpp_api_handler (re_base64 R) (re_tlvs R) (re_peers R) payload st of (r, st') \<Rightarrow> (map_ok (Pair 200) r, st'))
      | GetGatewayStatus \<Rightarrow> (Ok (200, get_gateway_status (re_now R) st), st)
      | GetConnections \<Rightarrow> (Ok (200, list_smpp_connections st), st)
      | PostConnection body \<Rightarrow> create_smpp_connection (re_ids R) body st
      | PutConnection connection_id body \<Rightarrow> (case update_smpp_connection connection_id body st of (r, st') \<Rightarrow> (Ok r, st'))
      | DeleteConnection connection_id \<Rightarrow> (case delete_smpp_connection connection_id st of (r, st') \<Rightarrow> (Ok r, st'))
      | PostRebind connection_id \<Rightarrow> (case rebind_smpp_connection connection_id st of (r, st') \<Rightarrow> (Ok r, st'))
      | GetLiveConnections \<Rightarrow> (Ok (200, list_live_smsc_connections st), st)
      | PostLiveConnection body \<Rightarrow> (case add_live_smsc_connection body st of (r, st') \<Rightarrow> (Ok r, st')))"

text \<open>Requests one after the other; the handlers hold the lock of what they change.\<close>

fun rest_run :: "(nat \<Rightarrow> rest_env) \<Rightarrow> nat \<Rightarrow> rest_request list \<Rightarrow> ClientAppState \<Rightarrow> ClientAppState" where
  "rest_run R i [] st = st"
| "rest_run R i (req # reqs) st = rest_run R (Suc i) reqs (snd (rest_route (R i) req st))"

end
