(* ===== verification/Client_Laws.thy ===== *)
theory Client_Laws
  imports Smsc_Client Connection_Laws
begin

text \<open>
  What the REST API of the client promises: a submitted message goes to the first connection that
  answers, with a fresh sequence number, and the collection of connection records behaves as a
  map from identifiers to records.
\<close>

section \<open>A request over one connection\<close>

definition writable :: "connection_env \<Rightarrow> connection_state \<Rightarrow> bool" where
  "writable E s = (k_writer s \<and> n_write E (k_writes s))"

definition link_answer :: "connection_env \<Rightarrow> SMPPMessage \<Rightarrow> connection_state \<Rightarrow> json option" where
  "link_answer E m s = (if writable E s then n_response E (number_or_0 (get_sequence_number m)) else None)"

lemma awaited_response:
  assumes "register_callback q t = (ch, t1)"
  shows "channels (callback_response_received q v t1) ch = Delivered (Ok v)" "channels t1 ch = Pending"
  using callback.register_senders [of q t] callback.register_pending [of q t]
    callback.respond_hit [of t1 q ch v] assms by simp_all

lemma connection_send_outcome:
  assumes "awaits_response m" "connection_send_message E m s = (r, s')"
  shows "(case link_answer E m s of Some v \<Rightarrow> r = Ok (Some v) | None \<Rightarrow> \<exists>e. r = Err e)
    \<and> k_sent s' = k_sent s @ (if writable E s then [message m] else [])"
proof -
  let ?q = "number_or_0 (get_sequence_number m)"
  obtain ch t1 where c: "register_callback ?q (k_responses s) = (ch, t1)" by fastforce
  note w = awaited_response [OF c]
  show ?thesis
    using assms by (auto simp: connection_send_message_def connection_register_def c act_bind_def connection_write_def Let_def
        connection_wait_response_def writable_def link_answer_def w act_return_def split: if_splits option.splits)
qed

section \<open>A request over the pool\<close>

lemma first_success_cong:
  "(\<And>i c. c \<in> set cs \<Longrightarrow> f i c = g i c) \<Longrightarrow> first_success f i cs = first_success g i cs"
  by (induction cs arbitrary: i) (simp_all split: option.split)

definition pool_answer :: "(nat \<Rightarrow> connection_env) \<Rightarrow> SMPPMessage \<Rightarrow> (nat \<Rightarrow> connection_state) \<Rightarrow> smsc_link \<Rightarrow> json option" where
  "pool_answer N m w c = link_answer (N (link_id c)) m (w (link_id c))"

lemma pool_answer_other: "link_id c \<noteq> k \<Longrightarrow> pool_answer N m (w(k := s)) c = pool_answer N m w c"
  by (simp add: pool_answer_def)

lemma send_over_links_answer:
  assumes "awaits_response m" "distinct (map link_id cs)" "send_over_links N m cs w = (r, w')"
  shows "r = (case first_success (\<lambda>_. pool_answer N m w) i cs of
      Some v \<Rightarrow> Ok v | None \<Rightarrow> Err (IoError Other ''Failed to send message to any SMSC connection''))"
  using assms(2,3)
proof (induction cs arbitrary: w i)
  case (Cons c cs)
  obtain q s where q: "connection_send_message (N (link_id c)) m (w (link_id c)) = (q, s)" by fastforce
  have o: "case pool_answer N m w c of Some v \<Rightarrow> q = Ok (Some v) | None \<Rightarrow> \<exists>e. q = Err e"
    using connection_send_outcome [OF assms(1) q] by (simp add: pool_answer_def)
  show ?case
  proof (cases "pool_answer N m w c")
    case None
    then have "send_over_links N m cs (w(link_id c := s)) = (r, w')" using o q Cons.prems(2) by auto
    moreover have "first_success (\<lambda>_. pool_answer N m (w(link_id c := s))) j cs = first_success (\<lambda>_. pool_answer N m w) j cs" for j
    proof (intro first_success_cong pool_answer_other)
      show "link_id d \<noteq> link_id c" if "d \<in> set cs" for d using Cons.prems(1) that by (metis distinct.simps(2) image_set list.map(2) imageI)
    qed
    ultimately show ?thesis using Cons.IH [of "w(link_id c := s)" "Suc i"] Cons.prems(1) None by (simp del: fun_upd_apply)
  next
    case (Some v)
    then show ?thesis using o q Cons.prems(2) by auto
  qed
qed simp

lemma send_over_links_frame:
  assumes "send_over_links N m cs w = (r, w')" "k \<notin> link_id ` set cs" shows "w' k = w k"
  using assms
proof (induction cs arbitrary: w)
  case (Cons c cs)
  obtain q s where q: "connection_send_message (N (link_id c)) m (w (link_id c)) = (q, s)" by fastforce
  then have "w' = w(link_id c := s) \<or> send_over_links N m cs (w(link_id c := s)) = (r, w')"
    using Cons.prems(1) by (auto split: outcome.splits option.splits)
  then show ?case
  proof
    assume "send_over_links N m cs (w(link_id c := s)) = (r, w')"
    with Cons.IH have "w' k = (w(link_id c := s)) k" using Cons.prems(2) by simp
    then show ?thesis using Cons.prems(2) by simp
  qed (use Cons.prems(2) in auto)
qed simp

text \<open>A connection gets the octets exactly when it can be written to and none before it has answered.\<close>

lemma send_over_links_sent:
  assumes "awaits_response m" "distinct (map link_id cs)" "send_over_links N m cs w = (r, w')" "i < length cs"
  shows "k_sent (w' (link_id (cs ! i))) = k_sent (w (link_id (cs ! i))) @
    (if writable (N (link_id (cs ! i))) (w (link_id (cs ! i))) \<and> (\<forall>j<i. pool_answer N m w (cs ! j) = None) then [message m] else [])"
  using assms(2-4)
proof (induction cs arbitrary: w i)
  case (Cons c cs)
  obtain q s where q: "connection_send_message (N (link_id c)) m (w (link_id c)) = (q, s)" by fastforce
  note o = connection_send_outcome [OF assms(1) q]
  let ?w = "w(link_id c := s)"
  have same: "w' = ?w \<and> pool_answer N m w c \<noteq> None \<or> send_over_links N m cs ?w = (r, w') \<and> pool_answer N m w c = None"
    using o q Cons.prems(2) by (auto simp: pool_answer_def split: option.splits)
  have d: "link_id c \<notin> link_id ` set cs" using Cons.prems(1) by auto
  show ?case
  proof (cases i)
    case 0
    have "w' (link_id c) = s" using same send_over_links_frame [OF _ d, of N m ?w r w'] by auto
    then show ?thesis using o by (simp add: 0)
  next
    case (Suc k)
    then have k: "k < length cs" using Cons.prems(3) by simp
    then have other: "link_id (cs ! k) \<noteq> link_id c" using d by (metis image_eqI nth_mem)
    have "pool_answer N m ?w (cs ! j) = pool_answer N m w (cs ! j)" if "j < k" for j
      using d k that by (intro pool_answer_other) (metis image_eqI nth_mem order_less_trans)
    then have eq: "(\<forall>j<k. pool_answer N m ?w (cs ! j) = None) \<longleftrightarrow> (\<forall>j<k. pool_answer N m w (cs ! j) = None)" by simp
    show ?thesis
    proof (cases "pool_answer N m w c")
      case None
      then have "send_over_links N m cs ?w = (r, w')" using same by blast
      from Cons.IH [OF _ this k, unfolded eq] show ?thesis using Cons.prems(1) other None by (simp add: Suc All_less_Suc2)
    next
      case (Some v)
      then show ?thesis using same other by (auto simp: Suc)
    qed
  qed
qed simp


section \<open>Submitting over REST\<close>

lemma client_request_awaits:
  assumes "get_command_id m = Some (CommandId_as_u32 c)" "is_client_request c"
  shows "awaits_response m" "CommandId_from_u32 (number_or_0 (get_command_id m)) = Some c"
proof -
  have u: "c \<noteq> Unknown" "c \<noteq> EnquireLink" using assms(2) by (auto simp: is_client_request_def)
  have "CommandId_as_u32 c AND 0x80000000 = 0"
    using client_request_is_request [OF assms(2)] by (simp add: CommandId_is_request_def CommandId_is_response_def)
  moreover have "CommandId_as_u32 c \<noteq> CommandId_as_u32 EnquireLink"
    using from_u32_as_u32 [OF u(1)] from_u32_as_u32 [of EnquireLink] u(2) by fastforce
  ultimately show "awaits_response m" by (simp add: awaits_response_def is_request_def assms(1) number_or_0_def)
  show "CommandId_from_u32 (number_or_0 (get_command_id m)) = Some c"
    by (simp add: assms(1) number_or_0_def from_u32_as_u32 [OF u(1)])
qed

lemma update_sequence_number_ok:
  assumes "16 \<le> length (message m)"
  obtains m1 where "update_sequence_number q m = (Ok m1 :: SMPPMessage io)" "get_sequence_number m1 = Some q" "get_command_id m1 = get_command_id m"
    "get_command_status m1 = get_command_status m" "drop 16 (message m1) = drop 16 (message m)"
proof -
  obtain b where b: "put_u32_at 12 q (message m) = (Ok b :: bytes io)" using assms by (simp add: put_u32_at_def)
  then have d: "drop 16 b = drop 16 (message m)" using assms by (auto simp: put_u32_at_def)
  show thesis
    using that [of "SMPPMessage_of b"] b d u32_at_put_same [OF b] u32_at_put_other [OF b, of 4] u32_at_put_other [OF b, of 8]
    by (simp add: update_sequence_number_def map_ok_def get_sequence_number_def get_command_id_def get_command_status_def)
qed

text \<open>
  C6.  A client request that the encoder accepts, posted while the pool has connections: it gets the
  next sequence number; the answer is that of the first connection, in rotation order, that can
  be written to and whose SMSC responds in time, and otherwise an error; and every connection up
  to that one that can be written to has been sent the message once, so that a message whose
  response is late has been submitted more than once.
\<close>

theorem rest_submit:
  assumes "from_json B order v = Ok m" "extract_command_id v = Some c" "is_client_request c"
    "header_number ''command_status'' v = Some x" "header_number ''sequence_number'' v = Some y"
    "links (smsc_connection_manager st) \<noteq> []" "distinct (map link_id (links (smsc_connection_manager st)))"
    "cs = rotation (pool_start (smsc_connection_manager st)) (links (smsc_connection_manager st))"
    "smpp_api_handler B order N v st = (r, st')"
  shows "\<exists>m1. get_sequence_number m1 = Some (current (seq_allocator st)) \<and> get_command_id m1 = Some (CommandId_as_u32 c)
    \<and> get_command_status m1 = Some x \<and> drop 16 (message m1) = drop 16 (message m)
    \<and> current (seq_allocator st') = current (seq_allocator st) + 1
    \<and> r = Ok (case first_success (\<lambda>_. pool_answer N m1 (ca_links st)) 0 cs of
          Some response \<Rightarrow> response | None \<Rightarrow> api_error ''Failed to send message'')
    \<and> (\<forall>i<length cs. k_sent (ca_links st' (link_id (cs ! i))) = k_sent (ca_links st (link_id (cs ! i))) @
          (if writable (N (link_id (cs ! i))) (ca_links st (link_id (cs ! i)))
              \<and> (\<forall>j<i. pool_answer N m1 (ca_links st) (cs ! j) = None)
           then [message m1] else []))"
proof -
  let ?p = "smsc_connection_manager st"
  have w: "get_command_id m = Some (CommandId_as_u32 c)" "get_command_status m = Some x" "16 \<le> length (message m)"
    using from_json_words [OF assms(1,2,4,5)] by (simp_all add: SMPPMessage_len_def)
  obtain m1 where m1: "update_sequence_number (current (seq_allocator st)) m = (Ok m1 :: SMPPMessage io)"
      "get_sequence_number m1 = Some (current (seq_allocator st))" "get_command_id m1 = get_command_id m"
      "get_command_status m1 = get_command_status m" "drop 16 (message m1) = drop 16 (message m)"
    using update_sequence_number_ok [OF w(3)] by metis
  have a: "awaits_response m1" using client_request_awaits(1) w(1) m1(3) assms(3) by simp
  obtain p where p: "get_connections ?p = (Ok cs, p)"
    using get_connections_rotation [OF assms(6)] assms(8) by (metis prod.collapse)
  have ne: "cs \<noteq> []" using assms(6,8) by (metis length_0_conv length_rotation)
  obtain q l where q: "send_over_links N m1 cs (ca_links st) = (q, l)" by fastforce
  have d: "distinct (map link_id cs)" using assms(7) by (simp add: assms(8) rotation_eq_rotate rotate_map [symmetric])
  note f = send_over_links_answer [OF a d q, of 0]
  have "r = Ok (case first_success (\<lambda>_. pool_answer N m1 (ca_links st)) 0 cs of
      Some response \<Rightarrow> response | None \<Rightarrow> api_error ''Failed to send message'')
    \<and> ca_links st' = l \<and> seq_allocator st' = (seq_allocator st)\<lparr>current := current (seq_allocator st) + 1\<rparr>"
    using assms(9) f
    by (auto simp: smpp_api_handler_def assms(1,3) client_request_awaits(2) [OF w(1) assms(3)] allocator_next_def Let_def m1(1)
        send_through_pool_def p ne q split: option.splits)
  then show ?thesis
    using m1(2-5) w(1,2) send_over_links_sent [OF a d q] by (intro exI [of _ m1]) simp
qed


definition sample_app :: ClientAppState where
  "sample_app = \<lparr>smpp_connections_store = [], start_time = 0, id_generator = AtomicGenerator \<lparr>counter = 1\<rparr>,
     smsc_connection_manager = sample_pool, seq_allocator = SequenceNumberAllocator_new, smsc_message_handler = NoOpHandler,
     alarm_notifier = None, delivery_receipt_manager = DeliveryReceiptManager_new 0, ca_running = [],
     ca_links = (\<lambda>_. sample_link_state)\<rparr>"

text \<open>The first of two connections gets no response, the second does.\<close>

definition sample_peers :: "nat \<Rightarrow> connection_env" where
  "sample_peers i = (if i = 1 then sample_connection\<lparr>n_response := (\<lambda>q. if q = 0 then Some JNull else None)\<rparr> else sample_connection)"

lemma sample_submit_header:
  "extract_command_id sample_submit_sm = Some SubmitSm" "is_client_request SubmitSm"
  "header_number ''command_status'' sample_submit_sm = Some 0" "header_number ''sequence_number'' sample_submit_sm = Some 77"
  by code_simp+

theorem rest_submit_witness:
  "(case smpp_api_handler std_base64 create_tlv_fields sample_peers sample_submit_sm sample_app of
      (r, st') \<Rightarrow> r = Ok JNull \<and> length (k_sent (ca_links st' 0)) = 1 \<and> k_sent (ca_links st' 1) = k_sent (ca_links st' 0))"
proof -
  obtain m where m: "from_json std_base64 create_tlv_fields sample_submit_sm = Ok m"
    using canonical_round_trip [OF sample_submit_sm_ok tlv_order_table] by blast
  obtain r st' where h: "smpp_api_handler std_base64 create_tlv_fields sample_peers sample_submit_sm sample_app = (r, st')" by fastforce
  let ?cs = "[\<lparr>link_id = 0, link_address = ''a:2775''\<rparr>, \<lparr>link_id = 1, link_address = ''b:2775''\<rparr>]"
  have l: "links (smsc_connection_manager sample_app) = ?cs" "pool_start (smsc_connection_manager sample_app) = 0"
    by (simp_all add: sample_app_def sample_pool_def add_connection_def SmscConnectionManager_new_def pool_start_def)
  have cs: "?cs = rotation (pool_start (smsc_connection_manager sample_app)) (links (smsc_connection_manager sample_app))"
    by (simp add: l rotation_eq_rotate)
  from rest_submit [OF m sample_submit_header _ _ cs h] l obtain m1 where m1: "get_sequence_number m1 = Some 0"
    "r = Ok (case first_success (\<lambda>_. pool_answer sample_peers m1 (ca_links sample_app)) 0 ?cs of
          Some response \<Rightarrow> response | None \<Rightarrow> api_error ''Failed to send message'')"
    "\<forall>i<length ?cs. k_sent (ca_links st' (link_id (?cs ! i))) = k_sent (ca_links sample_app (link_id (?cs ! i))) @
          (if writable (sample_peers (link_id (?cs ! i))) (ca_links sample_app (link_id (?cs ! i)))
              \<and> (\<forall>j<i. pool_answer sample_peers m1 (ca_links sample_app) (?cs ! j) = None)
           then [message m1] else [])"
    by (auto simp: sample_app_def SequenceNumberAllocator_new_def)
  have w: "writable (sample_peers i) (ca_links sample_app i)" "k_sent (ca_links sample_app i) = []" for i
    by (simp_all add: writable_def sample_peers_def sample_connection_def sample_app_def sample_link_state_def)
  have a: "pool_answer sample_peers m1 (ca_links sample_app) (?cs ! 0) = None"
    "pool_answer sample_peers m1 (ca_links sample_app) (?cs ! 1) = Some JNull"
    using m1(1) by (simp_all add: pool_answer_def link_answer_def w number_or_0_def) (simp_all add: sample_peers_def sample_connection_def)
  have "k_sent (ca_links st' 0) = [message m1]" "k_sent (ca_links st' 1) = [message m1]"
    using m1(3) [rule_format, of 0] m1(3) [rule_format, of 1] a w by simp_all
  moreover have "r = Ok JNull" using m1(2) a by simp
  ultimately show ?thesis by (simp add: h)
qed


section \<open>The collection of connection records\<close>

lemma change_first_None: "change_first P f xs = None \<longleftrightarrow> (\<forall>x\<in>set xs. \<not> P x)"
  by (induction xs) (auto split: option.split)

lemma change_first_Some:
  "change_first P f xs = Some (y, ys) \<Longrightarrow>
     \<exists>us x vs. xs = us @ x # vs \<and> ys = us @ f x # vs \<and> y = f x \<and> P x \<and> (\<forall>u\<in>set us. \<not> P u)"
proof (induction xs arbitrary: ys)
  case (Cons x xs)
  show ?case
  proof (cases "P x")
    case True
    then show ?thesis using Cons.prems by (intro exI [of _ "[]"]) auto
  next
    case False
    then obtain zs where z: "change_first P f xs = Some (y, zs)" "ys = x # zs"
      using Cons.prems by (auto split: option.splits)
    then obtain us w vs where "xs = us @ w # vs" "zs = us @ f w # vs" "y = f w" "P w" "\<forall>u\<in>set us. \<not> P u"
      using Cons.IH by blast
    then show ?thesis using z False by (intro exI [of _ "x # us"]) auto
  qed
qed simp

definition record_of :: "ClientAppState \<Rightarrow> string \<rightharpoonup> SmppConnectionInfo" where
  "record_of st = map_of (map (\<lambda>c. (ci_connection_id c, c)) (smpp_connections_store st))"

abbreviation connection_ids :: "ClientAppState \<Rightarrow> string list" where
  "connection_ids st \<equiv> map ci_connection_id (smpp_connections_store st)"

lemma record_of_None: "record_of st i = None \<longleftrightarrow> i \<notin> set (connection_ids st)"
  by (simp add: record_of_def map_of_eq_None_iff image_image)

lemma record_of_id: "record_of st i = Some c \<Longrightarrow> ci_connection_id c = i"
  by (auto simp: record_of_def dest: map_of_SomeD)

lemma change_first_record:
  assumes "\<And>c. ci_connection_id (f c) = ci_connection_id c"
    and "change_first (\<lambda>c. ci_connection_id c = i) f (smpp_connections_store st) = Some (y, ys)"
  shows "map ci_connection_id ys = connection_ids st"
    "record_of (st\<lparr>smpp_connections_store := ys\<rparr>) = (record_of st)(i \<mapsto> y)" "record_of st i \<noteq> None" "y = f (the (record_of st i))"
proof -
  obtain us x vs where s: "smpp_connections_store st = us @ x # vs" "ys = us @ f x # vs" "y = f x"
      "ci_connection_id x = i" "\<forall>u\<in>set us. ci_connection_id u \<noteq> i"
    using change_first_Some [OF assms(2)] by blast
  have n: "map_of (map (\<lambda>c. (ci_connection_id c, c)) us) i = None" using s(5) by (auto simp: map_of_eq_None_iff)
  show "map ci_connection_id ys = connection_ids st" using assms(1) s by simp
  show "record_of (st\<lparr>smpp_connections_store := ys\<rparr>) = (record_of st)(i \<mapsto> y)"
    using assms(1) n s by (intro ext) (auto simp: record_of_def map_add_def split: option.split)
  show "record_of st i \<noteq> None" "y = f (the (record_of st i))" using n s by (auto simp: record_of_def map_add_def)
qed


text \<open>Submitting a message leaves the records and the identifiers alone.\<close>

lemma submit_keeps_records:
  assumes "smpp_api_handler B order N v st = (r, st')"
  shows "smpp_connections_store st' = smpp_connections_store st" "id_generator st' = id_generator st"
proof -
  have "smpp_connections_store t' = smpp_connections_store t \<and> id_generator t' = id_generator t"
    if "send_through_pool N m t = (q, t')" for m t q t'
    using that by (auto simp: send_through_pool_def split: prod.splits outcome.splits if_splits)
  then have "smpp_connections_store st' = smpp_connections_store st \<and> id_generator st' = id_generator st"
    using assms by (auto simp: smpp_api_handler_def Let_def split: outcome.splits option.splits prod.splits if_splits)
  then show "smpp_connections_store st' = smpp_connections_store st" "id_generator st' = id_generator st" by simp_all
qed

text \<open>The abstract collection: a map from identifiers to records, and the status of the answer.\<close>

definition new_record :: "string \<Rightarrow> CreateSmppConnectionRequest \<Rightarrow> SmppConnectionInfo" where
  "new_record i req =
     \<lparr>ci_connection_id = i, ci_name = cr_name req, ci_host = cr_host req, ci_port = cr_port req, ci_system_id = cr_system_id req,
      ci_bind_type = option_or ''transceiver'' (cr_bind_type req), ci_status = ''disconnected'',
      ci_reconnect_enabled = option_or True (cr_reconnect_enabled req),
      ci_heartbeat_interval = option_or 30 (cr_heartbeat_interval req)\<rparr>"

definition spec_route ::
    "rest_env \<Rightarrow> rest_request \<Rightarrow> MessageIdGenerator \<Rightarrow> (string \<rightharpoonup> SmppConnectionInfo) \<Rightarrow> nat option \<times> (string \<rightharpoonup> SmppConnectionInfo)" where
  "spec_route R req g m =
     (case req of
        PostConnection body \<Rightarrow>
          (case generate (re_ids R) ''smpp_conn-'' g of
             Ok (i, _) \<Rightarrow> (Some 201, if m i = None then m(i \<mapsto> new_record i body) else m)
           | _ \<Rightarrow> (None, m))
      | PutConnection i body \<Rightarrow> (Some (if m i = None then 404 else 200), m(i := map_option (apply_update body) (m i)))
      | DeleteConnection i \<Rightarrow> (Some (if m i = None then 404 else 200), m(i := None))
      | PostRebind i \<Rightarrow> (Some (if m i = None then 404 else 200), m(i := map_option (ci_status_update (\<lambda>_. ''reconnecting'')) (m i)))
      | PostLiveConnection _ \<Rightarrow> (Some 201, m)
      | _ \<Rightarrow> (Some 200, m))"

definition answer_status :: "(nat \<times> json) io \<Rightarrow> nat option" where
  "answer_status r = (case r of Ok (n, _) \<Rightarrow> Some n | _ \<Rightarrow> None)"

lemma apply_update_id: "ci_connection_id (apply_update b c) = ci_connection_id c"
  by (simp add: apply_update_def)

lemma update_refines:
  assumes "\<And>c. ci_connection_id (f c) = ci_connection_id c"
  shows "case change_first (\<lambda>c. ci_connection_id c = i) f (smpp_connections_store st) of
      Some (y, ys) \<Rightarrow> record_of st i \<noteq> None \<and> y = f (the (record_of st i))
        \<and> record_of (st\<lparr>smpp_connections_store := ys\<rparr>) = (record_of st)(i := map_option f (record_of st i))
    | None \<Rightarrow> record_of st i = None"
proof (cases "change_first (\<lambda>c. ci_connection_id c = i) f (smpp_connections_store st)")
  case None
  then have "record_of st i = None" by (auto simp: change_first_None record_of_None)
  with None show ?thesis by simp
next
  case (Some p)
  then obtain y ys where p: "change_first (\<lambda>c. ci_connection_id c = i) f (smpp_connections_store st) = Some (y, ys)" by fastforce
  note r = change_first_record [OF assms p]
  show ?thesis using r(2-4) by (auto simp: p)
qed

lemma delete_refines:
  "record_of (st\<lparr>smpp_connections_store := filter (\<lambda>c. ci_connection_id c \<noteq> i) (smpp_connections_store st)\<rparr>) = (record_of st)(i := None)"
  "length (filter (\<lambda>c. ci_connection_id c \<noteq> i) (smpp_connections_store st)) < length (smpp_connections_store st) \<longleftrightarrow> record_of st i \<noteq> None"
proof -
  have "map_of (map (\<lambda>c. (ci_connection_id c, c)) (filter (\<lambda>c. ci_connection_id c \<noteq> i) cs))
      = (map_of (map (\<lambda>c. (ci_connection_id c, c)) cs))(i := None)" for cs
    by (induction cs) auto
  then show "record_of (st\<lparr>smpp_connections_store := filter (\<lambda>c. ci_connection_id c \<noteq> i) (smpp_connections_store st)\<rparr>) = (record_of st)(i := None)"
    by (simp add: record_of_def)
  show "length (filter (\<lambda>c. ci_connection_id c \<noteq> i) (smpp_connections_store st)) < length (smpp_connections_store st) \<longleftrightarrow> record_of st i \<noteq> None"
    by (auto simp: record_of_None length_filter_less intro: length_filter_less)
      (metis (mono_tags, lifting) filter_True less_irrefl imageI)
qed

lemma create_refines:
  "record_of (st\<lparr>id_generator := g, smpp_connections_store := smpp_connections_store st @ [c]\<rparr>)
     = (if record_of st (ci_connection_id c) = None then (record_of st)(ci_connection_id c \<mapsto> c) else record_of st)"
  by (intro ext) (auto simp: record_of_def map_add_def split: option.split)

text \<open>
  C11.  The REST operations on connection records implement a map from identifiers to records: each
  request has the effect of the corresponding map operation and is answered with its status,
  \<^verbatim>\<open>404\<close> exactly when the identifier is not in the map.
\<close>

theorem connection_records_refine:
  "record_of (snd (rest_route R req st)) = snd (spec_route R req (id_generator st) (record_of st))
   \<and> (case req of PostSmpp _ \<Rightarrow> True
      | _ \<Rightarrow> answer_status (fst (rest_route R req st)) = fst (spec_route R req (id_generator st) (record_of st)))"
proof (cases req)
  case (PostSmpp v)
  obtain r st' where h: "smpp_api_handler (re_base64 R) (re_tlvs R) (re_peers R) v st = (r, st')" by fastforce
  then show ?thesis using submit_keeps_records [OF h] by (simp add: PostSmpp rest_route_def spec_route_def record_of_def)
next
  case (PostConnection body)
  show ?thesis
    by (simp add: PostConnection rest_route_def spec_route_def create_smpp_connection_def new_record_def [symmetric] Let_def create_refines
        answer_status_def split: outcome.split prod.split) (auto simp: new_record_def)
next
  case (PutConnection i b)
  show ?thesis using update_refines [of "apply_update b" st i, OF apply_update_id]
    by (auto simp: PutConnection rest_route_def spec_route_def update_smpp_connection_def answer_status_def not_found_def split: option.splits)
next
  case (DeleteConnection i)
  show ?thesis using delete_refines
    by (auto simp: DeleteConnection rest_route_def spec_route_def delete_smpp_connection_def answer_status_def not_found_def Let_def)
next
  case (PostRebind i)
  show ?thesis using update_refines [of "ci_status_update (\<lambda>_. ''reconnecting'')" st i]
    by (auto simp: PostRebind rest_route_def spec_route_def rebind_smpp_connection_def answer_status_def not_found_def split: option.splits)
qed (simp_all add: rest_route_def spec_route_def answer_status_def add_live_smsc_connection_def Let_def record_of_def)


section \<open>Identifiers\<close>

text \<open>After \<open>n\<close> identifiers from counter \<open>w\<close>: all records have different ones among them.\<close>

definition ids_inv :: "u64 \<Rightarrow> nat \<Rightarrow> ClientAppState \<Rightarrow> bool" where
  "ids_inv w n st =
     (id_generator st = AtomicGenerator \<lparr>counter = w + word_of_nat n\<rparr> \<and> distinct (connection_ids st)
      \<and> set (connection_ids st) \<subseteq> (\<lambda>k. ''smpp_conn-'' @ fmt_0x 12 (unat (w + word_of_nat k))) ` {..<n})"

definition creations :: "rest_request list \<Rightarrow> nat" where
  "creations reqs = length (filter (\<lambda>r. case r of PostConnection _ \<Rightarrow> True | _ \<Rightarrow> False) reqs)"

lemma word_of_nat_u64_inject: "k < 2 ^ 64 \<Longrightarrow> n < 2 ^ 64 \<Longrightarrow> (word_of_nat k :: u64) = word_of_nat n \<longleftrightarrow> k = n"
  by (simp add: word_unat_eq_iff unat_of_nat)

lemma ids_inv_create:
  assumes "ids_inv w n st" "n < 2 ^ 64" shows "ids_inv w (Suc n) (snd (create_smpp_connection E b st))"
proof -
  let ?i = "\<lambda>k. ''smpp_conn-'' @ fmt_0x 12 (unat (w + word_of_nat k))"
  have "?i n \<notin> ?i ` {..<n}"
  proof
    assume "?i n \<in> ?i ` {..<n}"
    then obtain k where "k < n" "w + word_of_nat n = w + word_of_nat k" by (auto dest: fmt_0x_inject)
    then show False using word_of_nat_u64_inject [of n k] assms(2) by simp
  qed
  then show ?thesis using assms(1)
    by (auto simp: ids_inv_def create_smpp_connection_def generate_def atomic_generate_def Let_def lessThan_Suc ac_simps)
qed

lemma ids_inv_kept:
  assumes "ids_inv w n st" "id_generator st' = id_generator st" "distinct (connection_ids st')"
    "set (connection_ids st') \<subseteq> set (connection_ids st)"
  shows "ids_inv w n st'"
proof -
  note i = assms(1) [unfolded ids_inv_def]
  show ?thesis unfolding ids_inv_def assms(2)
    by (intro conjI assms(3) subset_trans [OF assms(4)]) (use i in \<open>blast+\<close>)
qed

lemma ids_inv_other:
  assumes "ids_inv w n st" "\<And>b. req \<noteq> PostConnection b" shows "ids_inv w n (snd (rest_route R req st))"
proof -
  have d: "distinct (connection_ids st)" using assms(1) by (simp add: ids_inv_def)
  have change: "connection_ids (st\<lparr>smpp_connections_store := ys\<rparr>) = connection_ids st"
    if "change_first (\<lambda>c. ci_connection_id c = i) f (smpp_connections_store st) = Some (y, ys)"
      "\<And>c. ci_connection_id (f c) = ci_connection_id c" for f i y ys
    using change_first_record(1) [OF that(2,1)] by simp
  have "id_generator (snd (rest_route R req st)) = id_generator st
    \<and> (connection_ids (snd (rest_route R req st)) = connection_ids st
       \<or> (\<exists>P. smpp_connections_store (snd (rest_route R req st)) = filter P (smpp_connections_store st)))"
  proof (cases req)
    case (PostSmpp v)
    obtain r st' where h: "smpp_api_handler (re_base64 R) (re_tlvs R) (re_peers R) v st = (r, st')" by fastforce
    then show ?thesis using submit_keeps_records [OF h] by (simp add: PostSmpp rest_route_def)
  next
    case (PutConnection i b)
    show ?thesis using change [of i "apply_update b", OF _ apply_update_id]
      by (auto simp: PutConnection rest_route_def update_smpp_connection_def split: option.split)
  next
    case (PostRebind i)
    show ?thesis using change [of i "ci_status_update (\<lambda>_. ''reconnecting'')"]
      by (auto simp: PostRebind rest_route_def rebind_smpp_connection_def split: option.split)
  qed (use assms(2) in \<open>auto simp: rest_route_def add_live_smsc_connection_def delete_smpp_connection_def Let_def\<close>)
  then show ?thesis
  proof (elim conjE disjE exE)
    fix P assume "smpp_connections_store (snd (rest_route R req st)) = filter P (smpp_connections_store st)"
    then show ?thesis if "id_generator (snd (rest_route R req st)) = id_generator st"
      using d that by (intro ids_inv_kept [OF assms(1)]) (auto simp: distinct_map_filter)
  qed (rule ids_inv_kept [OF assms(1)]; simp only: d)
qed

text \<open>
  C28.  With the atomic generator no two connection records ever share an identifier, whatever
  requests arrive, as long as fewer than \<open>2 ^ 64\<close> records have been created.
\<close>

theorem connection_ids_unique:
  assumes "ids_inv w n st" "n + creations reqs < 2 ^ 64"
  shows "ids_inv w (n + creations reqs) (rest_run R i reqs st) \<and> distinct (connection_ids (rest_run R i reqs st))"
proof -
  have "ids_inv w (n + creations reqs) (rest_run R i reqs st)"
    using assms
  proof (induction reqs arbitrary: n st i)
    case (Cons req reqs)
    show ?case
    proof (cases "\<exists>b. req = PostConnection b")
      case True
      then obtain b where b: "req = PostConnection b" by blast
      have c: "creations (req # reqs) = Suc (creations reqs)" by (simp add: b creations_def)
      have "ids_inv w (Suc n) (snd (rest_route (R i) req st))"
        using ids_inv_create [OF Cons.prems(1)] Cons.prems(2) by (simp add: b c rest_route_def)
      from Cons.IH [OF this] show ?thesis using Cons.prems(2) by (simp add: c)
    next
      case False
      then have c: "creations (req # reqs) = creations reqs" by (cases req) (simp_all add: creations_def)
      have "ids_inv w n (snd (rest_route (R i) req st))" using ids_inv_other [OF Cons.prems(1)] False by blast
      from Cons.IH [OF this] show ?thesis using Cons.prems(2) by (simp add: c)
    qed
  qed (simp add: creations_def)
  then show ?thesis by (simp add: ids_inv_def)
qed

definition sample_create :: CreateSmppConnectionRequest where
  "sample_create = \<lparr>cr_name = ''a'', cr_host = ''h'', cr_port = 2775, cr_system_id = ''s'', cr_password = ''p'', cr_bind_type = None,
     cr_system_type = None, cr_reconnect_enabled = None, cr_reconnect_interval = None, cr_heartbeat_interval = None,
     cr_enquire_link_interval = None, cr_throughput_limit = None\<rparr>"

theorem connection_ids_unique_witness:
  "distinct (connection_ids (rest_run (\<lambda>_. \<lparr>re_base64 = std_base64, re_tlvs = create_tlv_fields, re_peers = sample_peers,
      re_ids = \<lparr>new_uuid = ''u'', redis_open = (\<lambda>_. False), redis_incr = (\<lambda>_. Panic)\<rparr>, re_now = 0\<rparr>) 0
      [PostConnection sample_create, PostConnection sample_create, DeleteConnection ''smpp_conn-000000000001''] sample_app))"
proof -
  let ?reqs = "[PostConnection sample_create, PostConnection sample_create, DeleteConnection ''smpp_conn-000000000001'']"
  have "ids_inv 1 0 sample_app" "0 + creations ?reqs < 2 ^ 64" by (simp_all add: ids_inv_def sample_app_def creations_def)
  from connection_ids_unique [OF this] show ?thesis by blast
qed


section \<open>The pool of a running client\<close>

lemma start_connections_links: "links (start_connections i cs m) = links m @ map (\<lambda>(j, c). link_of j c) (enumerate i cs)"
  by (induction cs arbitrary: i m) (simp_all add: add_connection_def)

lemma submit_keeps_links:
  assumes "smpp_api_handler B order N v st = (r, st')"
  shows "links (smsc_connection_manager st') = links (smsc_connection_manager st)"
proof -
  have g: "links p = links m" if "get_connections m = (q, p)" for m q p
    using that by (auto simp: get_connections_def Let_def split: LoadBalancingAlgorithm.splits)
  have "links (smsc_connection_manager t') = links (smsc_connection_manager t)"
    if "send_through_pool N m t = (q, t')" for m t q t'
    using that g by (auto simp: send_through_pool_def split: prod.splits outcome.splits if_splits)
  then show ?thesis
    using assms by (fastforce simp: smpp_api_handler_def Let_def split: outcome.splits option.splits prod.splits if_splits)
qed

lemma route_keeps_links: "links (smsc_connection_manager (snd (rest_route R req st))) = links (smsc_connection_manager st)"
proof (cases req)
  case (PostSmpp v)
  obtain r st' where h: "smpp_api_handler (re_base64 R) (re_tlvs R) (re_peers R) v st = (r, st')" by fastforce
  then show ?thesis using submit_keeps_links [OF h] by (simp add: PostSmpp rest_route_def)
qed (auto simp: rest_route_def create_smpp_connection_def update_smpp_connection_def delete_smpp_connection_def
    rebind_smpp_connection_def add_live_smsc_connection_def Let_def split: outcome.split prod.split option.split)

lemma run_keeps_links: "links (smsc_connection_manager (rest_run R i reqs st)) = links (smsc_connection_manager st)"
  by (induction reqs arbitrary: i st) (simp_all add: route_keeps_links)

lemma client_start_pool:
  assumes "client_start create R now cl = Ok st"
  shows "smsc_connection_manager st = start_connections 0 (configured_connections (cl_config cl)) (cl_pool cl)"
  using assms by (cases "create_id_generator R (cc_id_generator (cl_config cl))") (auto simp: client_start_def Let_def outcome_elims)

text \<open>
  C29.  The pool of a client that has been started holds the configured connections, in their order and
  under different identities, whatever requests it has served.  In particular a connection added
  over \<^verbatim>\<open>live-connections\<close> never joins the pool, so no message is ever sent over it.
\<close>

theorem pool_is_configured:
  assumes "client_start create R now (SmscClient_new compile t config) = Ok st"
  shows "get_connection_addresses (smsc_connection_manager (rest_run E i reqs st)) = map sc_address (cc_connections config)
    \<and> distinct (map link_id (links (smsc_connection_manager (rest_run E i reqs st))))"
proof -
  let ?cs = "configured_connections config"
  have "smsc_connection_manager st = start_connections 0 ?cs (cl_pool (SmscClient_new compile t config))"
    using client_start_pool [OF assms] by (simp add: SmscClient_new_def)
  then have l: "links (smsc_connection_manager st) = map (\<lambda>(j, c). link_of j c) (enumerate 0 ?cs)"
    by (simp add: start_connections_links SmscClient_new_def SmscConnectionManager_new_def)
  have "map link_id (links (smsc_connection_manager st)) = map fst (enumerate 0 ?cs)"
    by (simp add: l link_of_def case_prod_unfold comp_def)
  moreover have "map link_address (links (smsc_connection_manager st)) = map (\<lambda>c. sc_address (co_config c)) (map snd (enumerate 0 ?cs))"
    by (simp add: l link_of_def case_prod_unfold comp_def del: map_snd_enumerate)
  ultimately show ?thesis
    by (simp add: run_keeps_links get_connection_addresses_def configured_connections_def comp_def)
qed

definition sample_client_config :: ClientConfig where
  "sample_client_config = \<lparr>cc_bind_type = get_default_bind_type, cc_connections = [n_config sample_connection],
     cc_load_balancing_algorithm = None, cc_request_handlers = None, cc_alarm_config = None, cc_id_generator = None,
     cc_session_init_timer = 30, cc_enquire_link_timer = 30, cc_inactive_timer = 300, cc_response_timer = 30\<rparr>"

definition sample_add :: AddSmscRequest where
  "sample_add = \<lparr>as_bind_type = get_default_bind_type, as_session_init_timer = 30, as_enquire_link_timer = 30, as_inactive_timer = 300,
     as_response_timer = 30, as_address = ''other:2775'', as_system_id = ''s'', as_password = ''p'', as_system_type = None,
     as_addr_ton = None, as_addr_npi = None, as_address_range = None, as_interface_version = None, as_weight = None\<rparr>"

theorem pool_is_configured_witness:
  "\<forall>E. \<exists>st. client_start (\<lambda>_. Panic) \<lparr>new_uuid = ''u'', redis_open = (\<lambda>_. False), redis_incr = (\<lambda>_. Panic)\<rparr> 0
       (SmscClient_new (\<lambda>_. None) 0 sample_client_config) = Ok st
     \<and> get_connection_addresses (smsc_connection_manager (rest_run E 0 [PostLiveConnection sample_add] st)) = [''smsc:2775'']"
proof
  fix E
  obtain st where st: "client_start (\<lambda>_. Panic) \<lparr>new_uuid = ''u'', redis_open = (\<lambda>_. False), redis_incr = (\<lambda>_. Panic)\<rparr> 0
       (SmscClient_new (\<lambda>_. None) 0 sample_client_config) = Ok st"
    by (simp add: client_start_def SmscClient_new_def sample_client_config_def create_id_generator_def IdGeneratorConfig_default_def Let_def)
  from pool_is_configured [OF this, of E 0 "[PostLiveConnection sample_add]"] st show "\<exists>st. client_start (\<lambda>_. Panic) \<lparr>new_uuid = ''u'', redis_open = (\<lambda>_. False), redis_incr = (\<lambda>_. Panic)\<rparr> 0
       (SmscClient_new (\<lambda>_. None) 0 sample_client_config) = Ok st
     \<and> get_connection_addresses (smsc_connection_manager (rest_run E 0 [PostLiveConnection sample_add] st)) = [''smsc:2775'']"
    by (simp add: sample_client_config_def sample_connection_def del: rest_run.simps)
qed

end
