(* ===== verification/Link_Concurrency.thy ===== *)
theory Link_Concurrency
  imports Connection_Laws
begin

text \<open>
  The tasks that share one session with an SMSC (\<^verbatim>\<open>smsc_client/smsc_connection.rs\<close>): the callers of
  \<^verbatim>\<open>send_message\<close>, any number of them, and the task that runs the main loop.  They share the callbacks
  and the socket, and the socket is behind a \<^verbatim>\<open>tokio\<close> mutex.  \<^verbatim>\<open>send_message\<close> takes the mutex for its
  write and keeps it until it returns, that is, while it waits for the response; the main loop takes it
  when it answers the SMSC or sends an \<^verbatim>\<open>enquire_link\<close>.  A run is any interleaving of the steps.
\<close>

section \<open>Tasks and steps\<close>

text \<open>
  A caller has registered its callback and queues for the mutex, or it holds the mutex and awaits
  the response on its channel, or it has returned.  The main loop works off what its \<^verbatim>\<open>select!\<close> has
  yielded, one after the other.
\<close>

datatype send_task = Queued SMPPMessage "nat option" | Awaiting nat | Returned "json option io"

datatype reader_job = InMessage SMPPMessage | EnquireLinkDue

record link_state =
  l_conn :: connection_state
  l_lock :: "nat option"
  l_jobs :: "reader_job list"
  l_reading :: bool
  l_tasks :: "nat \<rightharpoonup> send_task"

definition link_init :: "connection_state \<Rightarrow> link_state" where
  "link_init k = \<lparr>l_conn = k, l_lock = None, l_jobs = [], l_reading = True, l_tasks = Map.empty\<rparr>"

text \<open>What \<^verbatim>\<open>send_message\<close> does once it has the mutex; only a request that awaits its response keeps it.\<close>

definition task_write :: "connection_env \<Rightarrow> nat \<Rightarrow> SMPPMessage \<Rightarrow> nat option \<Rightarrow> link_state \<Rightarrow> link_state" where
  "task_write E i m receiver s =
     (let returned = (\<lambda>r k. s\<lparr>l_conn := k, l_tasks := (l_tasks s)(i \<mapsto> Returned r)\<rparr>) in
      if k_writer (l_conn s)
      then case connection_write E (message m) (l_conn s) of
             (Ok _, k) \<Rightarrow>
               (case receiver of
                  Some ch \<Rightarrow> s\<lparr>l_conn := k, l_lock := Some i, l_tasks := (l_tasks s)(i \<mapsto> Awaiting ch)\<rparr>
                | None \<Rightarrow> returned (Ok None) k)
           | (Err e, k) \<Rightarrow> returned (Err e) k
           | (Panic, k) \<Rightarrow> returned Panic k
      else returned (Err (IoError NotConnected ''SMSC writer not available'')) (l_conn s))"

text \<open>\<^verbatim>\<open>wait_response\<close>: its result and the callbacks after it, or \<open>None\<close> while it waits.\<close>

definition wait_response_select :: "bool \<Rightarrow> nat \<Rightarrow> ResponseManager \<Rightarrow> (json io \<times> ResponseManager) option" where
  "wait_response_select timeout ch t =
     (case channels t ch of
        Delivered (Ok response) \<Rightarrow> Some (Ok response, t)
      | Delivered _ \<Rightarrow> Some (Err (IoError Other ''Failed to receive response''), t)
      | SenderDropped \<Rightarrow> Some (Err (IoError Other ''Failed to receive response''), t)
      | _ \<Rightarrow>
          if timeout then
            Some (Err (IoError TimedOut ''Timeout waiting for response''), t\<lparr>channels := (channels t)(ch := ReceiverGone)\<rparr>)
          else None)"

text \<open>Which jobs of the main loop need the mutex, and what a job does: the flag tells whether the loop ends.\<close>

fun reader_locks :: "connection_env \<Rightarrow> reader_job \<Rightarrow> connection_state \<Rightarrow> bool" where
  "reader_locks E EnquireLinkDue k = True"
| "reader_locks E (InMessage m) k =
     (case to_json (n_base64 E) m of
        Ok v \<Rightarrow>
          (case CommandId_from_u32 (number_or_0 (get_command_id m)) of
             Some c \<Rightarrow> c = EnquireLink \<or> c \<in> {DeliverSm, DataSm} \<and> fst (lookup_receipt E v k) = Ok None
           | None \<Rightarrow> False)
      | _ \<Rightarrow> False)"

fun reader_run :: "connection_env \<Rightarrow> reader_job \<Rightarrow> connection_state \<Rightarrow> bool \<times> connection_state" where
  "reader_run E EnquireLinkDue k = (case send_enquire_link E k of (r, k') \<Rightarrow> (\<not> is_ok r, k'))"
| "reader_run E (InMessage m) k = (case process_in_message E m k of (r, k') \<Rightarrow> (r = Panic, k'))"

inductive link_step :: "connection_env \<Rightarrow> link_state \<Rightarrow> link_state \<Rightarrow> bool" for E where
  link_call: "l_tasks s i = None \<Longrightarrow> connection_register m (l_conn s) = (Ok receiver, k) \<Longrightarrow>
    link_step E s (s\<lparr>l_conn := k, l_tasks := (l_tasks s)(i \<mapsto> Queued m receiver)\<rparr>)"
| link_write: "l_tasks s i = Some (Queued m receiver) \<Longrightarrow> l_lock s = None \<Longrightarrow> link_step E s (task_write E i m receiver s)"
| link_return: "l_tasks s i = Some (Awaiting ch) \<Longrightarrow>
    wait_response_select timeout ch (k_responses (l_conn s)) = Some (r, t) \<Longrightarrow>
    link_step E s (s\<lparr>l_conn := (l_conn s)\<lparr>k_responses := t\<rparr>, l_lock := None,
      l_tasks := (l_tasks s)(i \<mapsto> Returned (map_outcome id Some r))\<rparr>)"
| link_select: "l_reading s \<Longrightarrow> link_step E s (s\<lparr>l_jobs := l_jobs s @ [j]\<rparr>)"
| link_work: "l_reading s \<Longrightarrow> l_jobs s = j # js \<Longrightarrow> reader_locks E j (l_conn s) \<longrightarrow> l_lock s = None \<Longrightarrow>
    reader_run E j (l_conn s) = (ends, k) \<Longrightarrow>
    link_step E s (s\<lparr>l_conn := k, l_jobs := js, l_reading := \<not> ends\<rparr>)"
| link_hang_up: "l_reading s \<Longrightarrow> link_step E s (s\<lparr>l_reading := False\<rparr>)"

inductive_cases link_step_cases: "link_step E s s'"

abbreviation link_steps :: "connection_env \<Rightarrow> link_state \<Rightarrow> link_state \<Rightarrow> bool" where
  "link_steps E \<equiv> (link_step E)\<^sup>*\<^sup>*"

section \<open>The mutex\<close>

definition link_exclusive :: "link_state \<Rightarrow> bool" where
  "link_exclusive s = (\<forall>i. l_lock s = Some i \<longleftrightarrow> (\<exists>ch. l_tasks s i = Some (Awaiting ch)))"

lemma link_exclusiveD:
  "link_exclusive s \<Longrightarrow> l_tasks s i = Some (Awaiting ch) \<Longrightarrow> l_lock s = Some i"
  by (auto simp: link_exclusive_def)

lemma link_exclusive_unique:
  "link_exclusive s \<Longrightarrow> l_tasks s i = Some (Awaiting a) \<Longrightarrow> l_tasks s j = Some (Awaiting b) \<Longrightarrow> i = j"
  by (metis link_exclusiveD option.inject)

text \<open>A task that writes leaves the other tasks alone and takes the mutex exactly when it awaits a response.\<close>

lemma task_write_fields:
  "l_tasks (task_write E i m receiver s) j = (if j = i then l_tasks (task_write E i m receiver s) i else l_tasks s j)"
  "l_lock s = None \<Longrightarrow> l_lock (task_write E i m receiver s) = Some j \<longleftrightarrow>
     j = i \<and> (\<exists>ch. l_tasks (task_write E i m receiver s) i = Some (Awaiting ch))"
  by (auto simp: task_write_def Let_def split: prod.split outcome.split option.split)

lemma link_step_exclusive:
  assumes "link_step E s s'" "link_exclusive s" shows "link_exclusive s'"
  using assms(1)
proof cases
  case (link_call i m receiver k)
  then show ?thesis using assms(2) by (auto simp: link_exclusive_def)
next
  case (link_write i m receiver)
  show ?thesis
    unfolding link_exclusive_def link_write(1)
  proof
    fix j
    show "(l_lock (task_write E i m receiver s) = Some j) \<longleftrightarrow> (\<exists>ch. l_tasks (task_write E i m receiver s) j = Some (Awaiting ch))"
      using task_write_fields(2) [OF link_write(3)] task_write_fields(1) [of E i m receiver s j] assms(2) link_write(3)
      by (cases "j = i") (auto simp: link_exclusive_def)
  qed
next
  case (link_return i ch timeout r t)
  then show ?thesis using assms(2) link_exclusive_unique [OF assms(2)] by (auto simp: link_exclusive_def)
qed (use assms(2) in \<open>simp_all add: link_exclusive_def\<close>)

lemma link_steps_exclusive: "link_steps E s s' \<Longrightarrow> link_exclusive s \<Longrightarrow> link_exclusive s'"
  by (induction rule: rtranclp_induct) (auto intro: link_step_exclusive)

lemma link_init_exclusive: "link_exclusive (link_init k)"
  by (simp add: link_exclusive_def link_init_def)

text \<open>A job that does not need the mutex writes nothing.\<close>

definition pdu_command :: "SMPPMessage \<Rightarrow> CommandId" where
  "pdu_command m = (case CommandId_from_u32 (number_or_0 (get_command_id m)) of Some c \<Rightarrow> c | None \<Rightarrow> Unknown)"

lemma process_in_message_command:
  "to_json (n_base64 E) m = Ok v \<Longrightarrow> process_in_message E m =
     (if pdu_command m = EnquireLink then process_enquire_link E m
      else if pdu_command m \<in> {DeliverSm, DataSm} then handle_deliver_sm E m v
      else if CommandId_is_response (pdu_command m) \<and> pdu_command m \<notin> {EnquireLinkResp, AlertNotification, GenericNack}
      then (\<lambda>s. (Ok (), s\<lparr>k_responses := callback_response_received (number_or_0 (get_sequence_number m)) v (k_responses s)\<rparr>))
      else act_return ())"
  unfolding process_in_message_def Let_def pdu_command_def [symmetric] by (simp only: outcome.case) auto

lemma reader_locks_command:
  "to_json (n_base64 E) m = Ok v \<Longrightarrow> reader_locks E (InMessage m) k \<longleftrightarrow>
     pdu_command m = EnquireLink \<or> pdu_command m \<in> {DeliverSm, DataSm} \<and> fst (lookup_receipt E v k) = Ok None"
  by (simp add: pdu_command_def split: option.split)

lemma lookup_receipt_inbound:
  "fst (lookup_receipt E v (k\<lparr>k_inbound := n\<rparr>)) = fst (lookup_receipt E v k)"
  "k_sent (snd (lookup_receipt E v k)) = k_sent k"
  by (auto simp: lookup_receipt_def Let_def split: prod.split)

lemma receipt_without_lock:
  assumes "fst (lookup_receipt E v k) \<noteq> Ok None" shows "k_sent (snd (handle_deliver_sm E m v k)) = k_sent k"
proof -
  let ?k = "k\<lparr>k_inbound := Suc (k_inbound k)\<rparr>"
  obtain url k' where l: "lookup_receipt E v ?k = (Ok (Some url), k')"
    using assms lookup_receipt_fields [of E v ?k] lookup_receipt_inbound(1) [of E v "Suc (k_inbound k)" k]
    by (cases "lookup_receipt E v ?k") (metis fst_conv not_None_eq)
  then show ?thesis using lookup_receipt_inbound(2) [of E v ?k]
    by (simp add: handle_deliver_sm_def act_bind_def [of "lookup_receipt E v"])
qed

lemma process_without_lock:
  assumes "\<not> reader_locks E (InMessage m) k" shows "k_sent (snd (process_in_message E m k)) = k_sent k"
proof (cases "to_json (n_base64 E) m")
  case (Ok v)
  then show ?thesis using assms receipt_without_lock [of E v k m]
    unfolding process_in_message_command [OF Ok] reader_locks_command [OF Ok] by (auto simp: act_return_def)
qed (simp_all only: process_in_message_def Let_def outcome.case act_io_def snd_conv)

lemma reader_run_without_lock:
  assumes "\<not> reader_locks E j k" "reader_run E j k = (ends, k')" shows "k_sent k' = k_sent k"
proof (cases j)
  case (InMessage m)
  then show ?thesis
    using process_without_lock [of E m k] assms by (cases "process_in_message E m k") simp
qed (use assms in simp)

lemma connection_register_fields:
  assumes "connection_register m k = (r, k')"
  shows "k_sent k' = k_sent k" "k_receipts k' = k_receipts k" "k_readings k' = k_readings k"
  using assms by (auto simp: connection_register_def split: if_splits prod.splits)

section \<open>What a waiting request keeps from happening\<close>

lemma waiting_step_sends_nothing:
  assumes "link_step E s s'" "link_exclusive s" "l_tasks s i = Some (Awaiting ch)"
  shows "k_sent (l_conn s') = k_sent (l_conn s)"
  using assms(1)
proof cases
  case (link_call j m receiver k)
  then show ?thesis by (simp add: connection_register_fields)
next
  case (link_work j js ends k)
  moreover have "l_lock s = Some i" using assms(2,3) by (rule link_exclusiveD)
  ultimately show ?thesis using reader_run_without_lock by auto
qed (use link_exclusiveD [OF assms(2,3)] in simp_all)

text \<open>
  The state of a request that waits while the main loop is stuck in a job: the job stays where it is,
  and the channel of the request can at most lose its sender.
\<close>

definition stuck :: "connection_env \<Rightarrow> nat \<Rightarrow> nat \<Rightarrow> reader_job list \<Rightarrow> link_state \<Rightarrow> bool" where
  "stuck E i ch js s =
     (l_tasks s i = Some (Awaiting ch) \<and> l_lock s = Some i \<and> js \<noteq> [] \<and> reader_locks E (hd js) (l_conn s)
      \<and> channels (k_responses (l_conn s)) ch \<in> {Pending, SenderDropped}
      \<and> (\<exists>later. l_jobs s = js @ later))"

definition failed :: "nat \<Rightarrow> link_state \<Rightarrow> bool" where
  "failed i s = (l_tasks s i \<in> {Some (Returned (Err e)) |e. e \<in> {IoError TimedOut ''Timeout waiting for response'',
     IoError Other ''Failed to receive response''}})"

lemma reader_locks_cong:
  assumes "k_receipts k' = k_receipts k" "k_readings k' = k_readings k"
  shows "reader_locks E j k' = reader_locks E j k"
proof -
  have "fst (lookup_receipt E v k') = fst (lookup_receipt E v k)" for v
    using assms by (simp add: lookup_receipt_def Let_def split: prod.split)
  then show ?thesis by (cases j) (simp_all split: outcome.split option.split)
qed

lemma register_keeps_undelivered:
  assumes "connection_register m k = (r, k')" "channels (k_responses k) ch \<in> {Pending, SenderDropped}"
  shows "channels (k_responses k') ch \<in> {Pending, SenderDropped}"
  using assms
  by (auto simp: connection_register_def register_callback_def insert_sender_def drop_sender_def Let_def
      split: if_splits option.splits)

lemma stuck_step:
  assumes "link_step E s s'" "link_exclusive s" "stuck E i ch js s"
  shows "stuck E i ch js s' \<or> failed i s'"
  using assms(1)
proof cases
  case (link_call j m receiver k)
  note k = connection_register_fields [OF link_call(3)]
  have "j \<noteq> i" using link_call(2) assms(3) by (auto simp: stuck_def)
  then have "stuck E i ch js s'"
    using assms(3) register_keeps_undelivered [OF link_call(3), of ch] reader_locks_cong [OF k(2,3)] link_call(1)
    by (simp add: stuck_def)
  then show ?thesis ..
next
  case (link_return j ch' timeout r t)
  have "l_tasks s i = Some (Awaiting ch)" using assms(3) by (simp add: stuck_def)
  then have "j = i" "ch' = ch" using link_exclusive_unique [OF assms(2) link_return(2)] link_return(2) by auto
  then have "failed i s'"
    using assms(3) link_return
    by (auto simp: failed_def stuck_def wait_response_select_def split: if_splits)
  then show ?thesis ..
next
  case (link_work j js' ends k)
  then show ?thesis using assms(3) by (cases js) (auto simp: stuck_def)
qed (use assms(3) in \<open>auto simp: stuck_def\<close>)

lemma failed_step:
  assumes "link_step E s s'" "failed i s" shows "failed i s'"
proof -
  have "l_tasks s' i = l_tasks s i" if "l_tasks s i = Some (Returned r)" for r
    using assms(1) that
  proof cases
    case (link_write j m receiver)
    then show ?thesis using task_write_fields(1) [of E j m receiver s i] that by (cases "i = j") auto
  qed auto
  then show ?thesis using assms(2) by (auto simp: failed_def)
qed

lemma stuck_steps:
  assumes "link_steps E s s'" "link_exclusive s" "stuck E i ch js s"
  shows "stuck E i ch js s' \<or> failed i s'"
  using assms(1)
proof (induction rule: rtranclp_induct)
  case base
  then show ?case using assms(3) by simp
next
  case (step s1 s2)
  then show ?case using stuck_step failed_step link_steps_exclusive [OF step(1) assms(2)] by blast
qed

section \<open>The end of a wait\<close>

lemma wait_response_select_timeout: "\<exists>r t'. wait_response_select True ch t = Some (r, t')"
  by (auto simp: wait_response_select_def split: channel.split outcome.split)

text \<open>When the main loop gets to a response, the request that waits for it returns with it.\<close>

lemma response_reaches_task:
  assumes "l_tasks s i = Some (Awaiting ch)" "l_reading s" "l_jobs s = InMessage m # js"
    and "to_json (n_base64 E) m = Ok v" "CommandId_is_response (pdu_command m)"
    and "pdu_command m \<notin> {EnquireLink, DeliverSm, DataSm, EnquireLinkResp, AlertNotification, GenericNack}"
    and "senders (k_responses (l_conn s)) (number_or_0 (get_sequence_number m)) = Some ch"
    and "channels (k_responses (l_conn s)) ch = Pending"
  shows "\<exists>s'. link_steps E s s' \<and> l_tasks s' i = Some (Returned (Ok (Some v))) \<and> l_lock s' = None"
proof -
  let ?t = "callback_response_received (number_or_0 (get_sequence_number m)) v (k_responses (l_conn s))"
  let ?s = "s\<lparr>l_conn := (l_conn s)\<lparr>k_responses := ?t\<rparr>, l_jobs := js, l_reading := \<not> False\<rparr>"
  have "\<not> reader_locks E (InMessage m) (l_conn s)" "reader_run E (InMessage m) (l_conn s) = (False, (l_conn s)\<lparr>k_responses := ?t\<rparr>)"
    using assms(5,6) by (simp_all add: reader_locks_command [OF assms(4)] process_in_message_command [OF assms(4)] del: reader_locks.simps)
  then have "link_step E s ?s" by (intro link_work [OF assms(2,3)]) simp_all
  moreover have "channels ?t ch = Delivered (Ok v)" using assms(7,8) by (rule callback.respond_hit)
  then have "wait_response_select False ch (k_responses (l_conn ?s)) = Some (Ok v, ?t)"
    by (simp add: wait_response_select_def)
  from link_return [OF _ this, of i E] have "link_step E ?s (?s\<lparr>l_conn := (l_conn ?s)\<lparr>k_responses := ?t\<rparr>, l_lock := None,
      l_tasks := (l_tasks ?s)(i \<mapsto> Returned (map_outcome id Some (Ok v)))\<rparr>)" (is "link_step E ?s ?r") using assms(1) by simp
  ultimately have "link_steps E s ?r" by (meson converse_rtranclp_into_rtranclp r_into_rtranclp)
  then show ?thesis by (rule exI [where x = ?r, OF conjI]) simp
qed

section \<open>A sample session\<close>

text \<open>
  A caller sends a \<^verbatim>\<open>submit_sm\<close>; then the SMSC sends an \<^verbatim>\<open>enquire_link\<close> and, right after it, the response.
\<close>

definition sample_submit_pdu :: SMPPMessage where
  "sample_submit_pdu = SMPPMessage_of [0, 0, 0, 37, 0, 0, 0, 4, 0, 0, 0, 0, 0, 0, 0, 1, 0, 1, 1, 49, 0, 1, 1, 50, 0, 0, 0, 0,
     0, 0, 1, 0, 0, 0, 2, 104, 105]"

definition sample_submit_resp_pdu :: SMPPMessage where
  "sample_submit_resp_pdu = SMPPMessage_of [0, 0, 0, 18, 128, 0, 0, 4, 0, 0, 0, 0, 0, 0, 0, 1, 55, 0]"

definition sample_waiting :: link_state where
  "sample_waiting = (link_init sample_link_state)\<lparr>
     l_conn := sample_link_state\<lparr>k_responses := snd (register_callback 1 ResponseManager_new), k_writes := 1,
       k_sent := [message sample_submit_pdu]\<rparr>,
     l_lock := Some 0, l_tasks := [0 \<mapsto> Awaiting 0]\<rparr>"

definition sample_blocked :: link_state where
  "sample_blocked = sample_waiting\<lparr>l_jobs := [InMessage sample_enquire_pdu, InMessage sample_submit_resp_pdu]\<rparr>"

lemma sample_submit_awaits: "awaits_response sample_submit_pdu" "get_sequence_number sample_submit_pdu = Some 1"
  by code_simp+

lemma sample_enquire_command: "pdu_command sample_enquire_pdu = EnquireLink"
proof -
  have "get_command_id sample_enquire_pdu = Some (CommandId_as_u32 EnquireLink)" by code_simp
  then show ?thesis by (simp add: pdu_command_def number_or_0_def from_u32_as_u32 del: CommandId_as_u32.simps)
qed

lemma sample_enquire_decodes: "to_json std_base64 sample_enquire_pdu = Ok sample_enquire_link"
  using canonical_round_trip [OF sample_enquire_link_ok tlv_order_table] sample_enquire_link_pdu by auto

lemma sample_waiting_reached: "link_steps sample_connection (link_init sample_link_state) sample_waiting"
proof -
  let ?E = sample_connection and ?s = "link_init sample_link_state"
  let ?k = "sample_link_state\<lparr>k_responses := snd (register_callback 1 ResponseManager_new)\<rparr>"
  let ?q = "?s\<lparr>l_conn := ?k, l_tasks := (l_tasks ?s)(0 \<mapsto> Queued sample_submit_pdu (Some 0))\<rparr>"
  have "connection_register sample_submit_pdu (l_conn ?s) = (Ok (Some 0), ?k)"
    by (simp add: link_init_def connection_register_def sample_submit_awaits number_or_0_def sample_link_state_def
        register_callback_def insert_sender_def Let_def ResponseManager_new_def empty_table_def)
  then have "link_step ?E ?s ?q" by (intro link_call) (simp_all add: link_init_def)
  moreover have "task_write ?E 0 sample_submit_pdu (Some 0) ?q = sample_waiting"
    by (simp add: task_write_def sample_waiting_def link_init_def sample_link_state_def connection_write_def sample_connection_def Let_def)
  then have "link_step ?E ?q sample_waiting"
    using link_write [of ?q 0 sample_submit_pdu "Some 0" ?E] by (simp add: link_init_def)
  ultimately show ?thesis by (rule converse_rtranclp_into_rtranclp [OF _ r_into_rtranclp])
qed

lemma sample_blocked_reached: "link_steps sample_connection (link_init sample_link_state) sample_blocked"
proof -
  let ?E = sample_connection
  let ?s = "sample_waiting\<lparr>l_jobs := l_jobs sample_waiting @ [InMessage sample_enquire_pdu]\<rparr>"
  have "link_step ?E sample_waiting ?s" by (rule link_select) (simp add: sample_waiting_def link_init_def)
  moreover have "link_step ?E ?s (?s\<lparr>l_jobs := l_jobs ?s @ [InMessage sample_submit_resp_pdu]\<rparr>)"
    by (rule link_select) (simp add: sample_waiting_def link_init_def)
  then have "link_step ?E ?s sample_blocked" by (simp add: sample_blocked_def) (simp add: sample_waiting_def link_init_def)
  ultimately show ?thesis using sample_waiting_reached by (meson rtranclp.rtrancl_into_rtrancl)
qed

lemma sample_blocked_facts:
  "l_tasks sample_blocked 0 = Some (Awaiting 0)" "channels (k_responses (l_conn sample_blocked)) 0 = Pending"
  "l_jobs sample_blocked = [InMessage sample_enquire_pdu, InMessage sample_submit_resp_pdu]"
  "reader_locks sample_connection (InMessage sample_enquire_pdu) (l_conn sample_blocked)"
proof -
  have "to_json (n_base64 sample_connection) sample_enquire_pdu = Ok sample_enquire_link"
    using sample_enquire_decodes by (simp add: sample_connection_def)
  then show "reader_locks sample_connection (InMessage sample_enquire_pdu) (l_conn sample_blocked)"
    by (simp only: reader_locks_command sample_enquire_command simp_thms)
qed (simp_all add: sample_blocked_def sample_waiting_def register_callback_def insert_sender_def Let_def
    ResponseManager_new_def empty_table_def)

section \<open>Requests, responses and the mutex\<close>

text \<open>
  C17.  A session with an SMSC has at most one request outstanding, in every interleaving of its
  callers and its main loop.  As long as a request waits, nothing else is written to the socket, neither
  other requests nor responses to the SMSC, and the wait can end at any time.
\<close>

theorem one_outstanding_request:
  assumes "link_steps E (link_init k) s" "l_tasks s i = Some (Awaiting ch)"
  shows "(\<forall>j. (\<exists>ch'. l_tasks s j = Some (Awaiting ch')) \<longleftrightarrow> j = i)
    \<and> (\<forall>s'. link_step E s s' \<longrightarrow> k_sent (l_conn s') = k_sent (l_conn s))
    \<and> (\<exists>s' r. link_step E s s' \<and> l_lock s' = None \<and> l_tasks s' i = Some (Returned r))"
proof (intro conjI allI impI)
  have ok: "link_exclusive s" using link_steps_exclusive [OF assms(1) link_init_exclusive] .
  show "(\<exists>ch'. l_tasks s j = Some (Awaiting ch')) \<longleftrightarrow> j = i" for j
    using link_exclusive_unique [OF ok assms(2)] assms(2) by blast
  show "k_sent (l_conn s') = k_sent (l_conn s)" if "link_step E s s'" for s'
    using that ok assms(2) by (rule waiting_step_sends_nothing)
  obtain r t where "wait_response_select True ch (k_responses (l_conn s)) = Some (r, t)"
    using wait_response_select_timeout by blast
  from link_return [OF assms(2) this, of E]
  show "\<exists>s' r. link_step E s s' \<and> l_lock s' = None \<and> l_tasks s' i = Some (Returned r)"
    by (intro exI conjI, assumption) simp_all
qed

theorem one_outstanding_request_witness:
  "l_tasks sample_blocked 1 = None \<and> k_sent (l_conn sample_blocked) = [message sample_submit_pdu]
    \<and> (\<exists>s' r. link_step sample_connection sample_blocked s' \<and> l_lock s' = None \<and> l_tasks s' 0 = Some (Returned r)
          \<and> k_sent (l_conn s') = [message sample_submit_pdu])"
  using one_outstanding_request [OF sample_blocked_reached sample_blocked_facts(1)]
  by (auto simp: sample_blocked_def sample_waiting_def)

text \<open>
  C22.  A request of the SMSC that the main loop has to answer, or an \<^verbatim>\<open>enquire_link\<close> of its own
  that is due, blocks the response behind it: the main loop waits for the mutex, the holder of the mutex waits
  for a response that only the main loop can hand over, and in every continuation the request still waits
  or has failed, even when its response has been received.
\<close>

theorem blocked_response_lost:
  assumes "link_steps E (link_init k) s" "l_tasks s i = Some (Awaiting ch)"
    and "channels (k_responses (l_conn s)) ch = Pending"
    and "l_jobs s = j # js" "reader_locks E j (l_conn s)"
    and "link_steps E s s'"
  shows "l_tasks s' i = Some (Awaiting ch) \<and> (\<exists>later. l_jobs s' = j # js @ later)
    \<or> (\<exists>e. l_tasks s' i = Some (Returned (Err e)))"
proof -
  have ok: "link_exclusive s" using link_steps_exclusive [OF assms(1) link_init_exclusive] .
  have "stuck E i ch (j # js) s"
    using assms(2-5) link_exclusiveD [OF ok assms(2)] by (simp add: stuck_def)
  from stuck_steps [OF assms(6) ok this] show ?thesis by (auto simp: stuck_def failed_def)
qed

theorem blocked_response_lost_witness:
  "\<exists>s'. link_steps sample_connection sample_blocked s' \<and> InMessage sample_submit_resp_pdu \<in> set (l_jobs s')
    \<and> (\<exists>e. l_tasks s' 0 = Some (Returned (Err e)))"
proof -
  let ?t = "k_responses (l_conn sample_blocked)"
  let ?s = "sample_blocked\<lparr>l_conn := (l_conn sample_blocked)\<lparr>k_responses := ?t\<lparr>channels := (channels ?t)(0 := ReceiverGone)\<rparr>\<rparr>,
    l_lock := None, l_tasks := (l_tasks sample_blocked)(0 \<mapsto> Returned (Err (IoError TimedOut ''Timeout waiting for response'')))\<rparr>"
  have "wait_response_select True 0 ?t =
      Some (Err (IoError TimedOut ''Timeout waiting for response''), ?t\<lparr>channels := (channels ?t)(0 := ReceiverGone)\<rparr>)"
    by (simp add: wait_response_select_def sample_blocked_facts(2))
  from link_return [OF sample_blocked_facts(1) this, of sample_connection]
  have s: "link_steps sample_connection sample_blocked ?s" by (intro r_into_rtranclp) simp
  from blocked_response_lost [OF sample_blocked_reached sample_blocked_facts s] have "\<exists>e. l_tasks ?s 0 = Some (Returned (Err e))"
    by simp
  with s show ?thesis by (intro exI [where x = ?s] conjI) (simp_all add: sample_blocked_facts(3))
qed

end
