(* ===== verification/Rabbit_Storage.thy ===== *)
theory Rabbit_Storage
  imports Message_Storage
begin

text \<open>
  The message storage on a RabbitMQ queue (\<^verbatim>\<open>message_storage.rs\<close>, \<^verbatim>\<open>RabbitMqMessageStorage\<close>).  The
  broker is outside: publishing a message and its confirmation succeed or fail as given, and the
  consumer is driven by the deliveries that the broker makes.  What has been published, settled
  and handed over is recorded; the two indexes are the state of the storage itself.
\<close>

section \<open>State\<close>

record RabbitMqMessageStorage =
  message_index :: "string \<rightharpoonup> (string \<times> u64) list"
  user_index :: "string \<rightharpoonup> string list"
  rq_default_validity_period :: u32

datatype settlement = Acked | Requeued

record rabbit_state = RabbitMqMessageStorage +
  published :: "(string \<times> json) list"
  settled :: "(u64 \<times> settlement) list"
  handed_over :: "json list"

definition empty_rabbit :: "u32 \<Rightarrow> rabbit_state" where
  "empty_rabbit p =
     \<lparr>message_index = Map.empty, user_index = Map.empty, rq_default_validity_period = p,
      published = [], settled = [], handed_over = []\<rparr>"

text \<open>Connecting, opening a channel and declaring the queue, with the error of each, if any.\<close>

definition RabbitMqMessageStorage_new :: "string option \<Rightarrow> string option \<Rightarrow> string option \<Rightarrow> u32 \<Rightarrow> rabbit_state io" where
  "RabbitMqMessageStorage_new connect create_channel queue_declare p =
     (case connect of
        Some e \<Rightarrow> Err (IoError Other e)
      | None \<Rightarrow>
          (case create_channel of
             Some e \<Rightarrow> Err (IoError Other e)
           | None \<Rightarrow>
               (case queue_declare of
                  Some e \<Rightarrow> Err (IoError Other e)
                | None \<Rightarrow> Ok (empty_rabbit p))))"

text \<open>\<^verbatim>\<open>to_rfc3339\<close> and \<^verbatim>\<open>parse_from_rfc3339\<close>; the second reads what the first writes.\<close>

record time_format =
  to_rfc3339 :: "instant \<Rightarrow> string"
  parse_from_rfc3339 :: "string \<Rightarrow> instant option"

definition time_format_ok :: "time_format \<Rightarrow> bool" where
  "time_format_ok F = (\<forall>t. parse_from_rfc3339 F (to_rfc3339 F t) = Some t)"

section \<open>Saving\<close>

text \<open>The checks that the RabbitMQ and the Redis storage make before they save a message.\<close>

definition queue_check_save :: "chrono \<Rightarrow> instant \<Rightarrow> u32 \<Rightarrow> json \<Rightarrow> (instant option \<times> instant option) io" where
  "queue_check_save C now p v =
     (if str_or_empty ''destination_addr'' v = []
      then Err (IoError InvalidInput ''Missing destination_addr in the message'')
      else
        try_ok (time_or_none (get_schedule_delivery_time C now v)) (\<lambda>schedule.
        if schedule \<noteq> None \<and> the schedule < now
        then Err (IoError InvalidInput ''schedule_delivery_time is in the past'')
        else
          try_ok (time_or_none (get_validity_period C now v p)) (\<lambda>validity.
          if schedule = None \<and> validity = None
          then Err (IoError InvalidInput ''Message has neither schedule_delivery_time nor validity_period'')
          else Ok (schedule, validity))))"

definition time_json :: "time_format \<Rightarrow> instant option \<Rightarrow> json" where
  "time_json F t = (case t of Some x \<Rightarrow> JString (to_rfc3339 F x) | None \<Rightarrow> JNull)"

definition rabbit_envelope :: "time_format \<Rightarrow> string \<Rightarrow> json \<Rightarrow> instant option \<times> instant option \<Rightarrow> json" where
  "rabbit_envelope F i v ts =
     jobject [(''message_id'', JString i), (''dest_address'', JString (str_or_empty ''destination_addr'' v)),
       (''schedule_delivery_time'', time_json F (fst ts)), (''validity_period'', time_json F (snd ts)),
       (''payload'', v)]"

text \<open>A call with its calendar and clock, and the errors of publishing and of the confirmation, if any.\<close>

record rabbit_env =
  rq_chrono :: chrono
  rq_now :: instant
  rq_publish :: "string option"
  rq_confirm :: "string option"

definition rabbit_save :: "time_format \<Rightarrow> rabbit_env \<Rightarrow> string \<Rightarrow> json \<Rightarrow> rabbit_state \<Rightarrow> unit io \<times> rabbit_state" where
  "rabbit_save F E i v s =
     (case queue_check_save (rq_chrono E) (rq_now E) (rq_default_validity_period s) v of
        Ok ts \<Rightarrow>
          (case rq_publish E of
             Some e \<Rightarrow> (Err (IoError Other e), s)
           | None \<Rightarrow>
               let s1 = s\<lparr>published := published s @ [(i, rabbit_envelope F i v ts)]\<rparr> in
               (case rq_confirm E of
                  Some e \<Rightarrow> (Err (IoError Other e), s1)
                | None \<Rightarrow>
                    let dest_address = str_or_empty ''destination_addr'' v in
                    (Ok (), s1\<lparr>message_index := push_at i (dest_address, 0) (message_index s1),
                               user_index := push_at dest_address i (user_index s1)\<rparr>)))
      | Err e \<Rightarrow> (Err e, s)
      | Panic \<Rightarrow> (Panic, s))"

section \<open>Delivering\<close>

definition drop_user_id :: "string \<Rightarrow> string \<Rightarrow> (string \<rightharpoonup> string list) \<Rightarrow> (string \<rightharpoonup> string list)" where
  "drop_user_id i dest u =
     (case u dest of
        Some ids \<Rightarrow> let kept = filter (\<lambda>j. j \<noteq> i) ids in u(dest := if kept = [] then None else Some kept)
      | None \<Rightarrow> u)"

definition clean_indexes :: "json \<Rightarrow> rabbit_state \<Rightarrow> rabbit_state" where
  "clean_indexes envelope s =
     (case get_str ''message_id'' envelope of
        Some msg_id \<Rightarrow>
          s\<lparr>message_index := (message_index s)(msg_id := None),
            user_index := (case get_str ''dest_address'' envelope of
               Some dest \<Rightarrow> drop_user_id msg_id dest (user_index s) | None \<Rightarrow> user_index s)\<rparr>
      | None \<Rightarrow> s)"

definition settle :: "u64 \<Rightarrow> settlement \<Rightarrow> rabbit_state \<Rightarrow> rabbit_state" where
  "settle delivery_tag how s = s\<lparr>settled := settled s @ [(delivery_tag, how)]\<rparr>"

definition envelope_time :: "time_format \<Rightarrow> string \<Rightarrow> json \<Rightarrow> instant option" where
  "envelope_time F k envelope = Option.bind (get_str k envelope) (parse_from_rfc3339 F)"

text \<open>
  One delivery of the consumer: its tag, and its data where they are JSON.  \<open>handled\<close> tells
  whether the delivery handler succeeds on a payload.
\<close>

definition rabbit_deliver ::
    "time_format \<Rightarrow> instant \<Rightarrow> (json \<Rightarrow> bool) \<Rightarrow> u64 \<Rightarrow> json option \<Rightarrow> rabbit_state \<Rightarrow> rabbit_state" where
  "rabbit_deliver F now handled delivery_tag data s =
     (case data of
        None \<Rightarrow> settle delivery_tag Acked s
      | Some envelope \<Rightarrow>
          if (case envelope_time F ''schedule_delivery_time'' envelope of Some sdt \<Rightarrow> now < sdt | None \<Rightarrow> False)
          then settle delivery_tag Requeued s
          else if (case envelope_time F ''validity_period'' envelope of Some vp \<Rightarrow> vp < now | None \<Rightarrow> False)
          then clean_indexes envelope (settle delivery_tag Acked s)
          else
            (case jget ''payload'' envelope of
               None \<Rightarrow> settle delivery_tag Acked s
             | Some payload \<Rightarrow>
                 let s1 = s\<lparr>handed_over := handed_over s @ [payload]\<rparr> in
                 if handled payload then clean_indexes envelope (settle delivery_tag Acked s1)
                 else settle delivery_tag Requeued s1))"

section \<open>Cancelling and replacing\<close>

definition rabbit_cancel_message :: "json \<Rightarrow> rabbit_state \<Rightarrow> bool io \<times> rabbit_state" where
  "rabbit_cancel_message cancel_sm s =
     (let message_id = str_or_empty ''message_id'' cancel_sm in
      if message_id = [] then (Err (IoError InvalidInput ''Missing message_id in the cancel_sm command''), s)
      else case message_index s message_id of
             Some entries \<Rightarrow>
               (Ok True, s\<lparr>message_index := (message_index s)(message_id := None),
                  user_index := fold (\<lambda>(dest, _). drop_user_id message_id dest) entries (user_index s)\<rparr>)
           | None \<Rightarrow> (Ok False, s))"

text \<open>Replacing only logs: neither the queue nor the indexes change.\<close>

definition rabbit_replace_message :: "json \<Rightarrow> rabbit_state \<Rightarrow> bool io \<times> rabbit_state" where
  "rabbit_replace_message replace_sm s =
     (let message_id = str_or_empty ''message_id'' replace_sm in
      if message_id = [] then (Err (IoError InvalidInput ''Missing message_id in the replace_sm command''), s)
      else (Ok (message_index s message_id \<noteq> None), s))"

section \<open>The indexes\<close>

text \<open>One step of the storage: a call or a delivery, with any environment.\<close>

inductive rabbit_step :: "rabbit_state \<Rightarrow> rabbit_state \<Rightarrow> bool" where
  save: "rabbit_save F E i v s = (r, s') \<Longrightarrow> rabbit_step s s'"
| cancel: "rabbit_cancel_message c s = (b, s') \<Longrightarrow> rabbit_step s s'"
| replace: "rabbit_replace_message c s = (b, s') \<Longrightarrow> rabbit_step s s'"
| deliver: "rabbit_step s (rabbit_deliver F now handled delivery_tag data s)"

text \<open>Every indexed message is listed under its destination.\<close>

definition index_sound :: "rabbit_state \<Rightarrow> bool" where
  "index_sound s =
     (\<forall>i entries dest delivery_tag. message_index s i = Some entries \<longrightarrow> (dest, delivery_tag) \<in> set entries \<longrightarrow>
        (\<exists>ids. user_index s dest = Some ids \<and> i \<in> set ids))"

lemma drop_user_id_other:
  assumes "u d = Some ids" "j \<in> set ids" "j \<noteq> i" shows "\<exists>ids'. drop_user_id i dest u d = Some ids' \<and> j \<in> set ids'"
proof -
  have "filter (\<lambda>j. j \<noteq> i) ids \<noteq> []" using assms(2,3) by (auto simp: filter_empty_conv)
  then show ?thesis using assms by (auto simp: drop_user_id_def Let_def split: option.split)
qed

lemma drop_user_ids_other:
  assumes "u d = Some ids" "j \<in> set ids" "j \<noteq> i"
  shows "\<exists>ids'. fold (\<lambda>(dest, _). drop_user_id i dest) es u d = Some ids' \<and> j \<in> set ids'"
  using assms(1,2)
proof (induction es arbitrary: u ids)
  case (Cons e es)
  obtain dest delivery_tag where e: "e = (dest, delivery_tag)" by (cases e)
  obtain ids' where "drop_user_id i dest u d = Some ids'" "j \<in> set ids'"
    using drop_user_id_other [of u d ids j i dest] Cons.prems assms(3) by blast
  then show ?case using Cons.IH [of "drop_user_id i dest u" ids'] by (simp add: e)
qed simp

lemma index_sound_clean: "index_sound s \<Longrightarrow> index_sound (clean_indexes envelope s)"
  unfolding index_sound_def clean_indexes_def
  by (auto split: option.splits if_splits) (metis drop_user_id_other)

lemma index_sound_push:
  assumes "index_sound s"
  shows "index_sound (s\<lparr>message_index := push_at i (d, 0) (message_index s), user_index := push_at d i (user_index s)\<rparr>)"
  using assms unfolding index_sound_def
  by (fastforce simp: push_at_def split: option.splits if_splits)

lemma index_sound_frame:
  "index_sound s \<Longrightarrow> message_index s' = message_index s \<Longrightarrow> user_index s' = user_index s \<Longrightarrow> index_sound s'"
  by (simp add: index_sound_def)


lemma index_sound_save:
  assumes "index_sound s" "rabbit_save F E i v s = (r, s')" shows "index_sound s'"
proof (cases "queue_check_save (rq_chrono E) (rq_now E) (rq_default_validity_period s) v")
  case (Ok ts)
  let ?s1 = "s\<lparr>published := published s @ [(i, rabbit_envelope F i v ts)]\<rparr>"
  have 1: "index_sound ?s1" using assms(1) by (rule index_sound_frame) simp_all
  show ?thesis
    using assms index_sound_push [OF 1] 1
    by (cases "rq_publish E"; cases "rq_confirm E") (auto simp: rabbit_save_def Ok Let_def)
qed (use assms in \<open>simp_all add: rabbit_save_def\<close>)

lemma index_sound_cancel:
  assumes "index_sound s" "rabbit_cancel_message c s = (b, s')" shows "index_sound s'"
proof -
  let ?i = "str_or_empty ''message_id'' c"
  show ?thesis
  proof (cases "?i = [] \<or> message_index s ?i = None")
    case True
    then show ?thesis using assms by (auto simp: rabbit_cancel_message_def Let_def split: if_splits)
  next
    case False
    then obtain es where es: "message_index s ?i = Some es" by blast
    have s': "s' = s\<lparr>message_index := (message_index s)(?i := None),
        user_index := fold (\<lambda>(dest, _). drop_user_id ?i dest) es (user_index s)\<rparr>"
      using assms(2) False by (simp add: rabbit_cancel_message_def es Let_def)
    have "\<exists>ids. user_index s' dest = Some ids \<and> j \<in> set ids"
      if a: "message_index s' j = Some entries" and d: "(dest, n) \<in> set entries" for j entries dest n
    proof -
      have j: "j \<noteq> ?i" "message_index s j = Some entries" using a by (auto simp: s' split: if_splits)
      then obtain ids where "user_index s dest = Some ids" "j \<in> set ids"
        using assms(1) d unfolding index_sound_def by blast
      then show ?thesis using drop_user_ids_other [of "user_index s" dest ids j ?i es] j(1) by (simp add: s')
    qed
    then show ?thesis unfolding index_sound_def by blast
  qed
qed

lemma index_sound_deliver:
  assumes "index_sound s" shows "index_sound (rabbit_deliver F now handled n data s)"
proof -
  have "index_sound (settle n how s)" "index_sound (settle n how (s\<lparr>handed_over := y\<rparr>))" for how y
    using assms by (auto simp: settle_def intro: index_sound_frame)
  then show ?thesis by (simp add: rabbit_deliver_def Let_def index_sound_clean split: option.split)
qed

section \<open>Properties\<close>

text \<open>
  C34.  Whatever calls and deliveries happen, every message that the index of identifiers lists is
  also listed under its destination.
\<close>

theorem rabbit_index_sound: "rabbit_step\<^sup>*\<^sup>* (empty_rabbit p) s \<Longrightarrow> index_sound s"
proof (induction rule: rtranclp_induct)
  case base
  show ?case by (simp add: index_sound_def empty_rabbit_def)
next
  case (step s s')
  have "rabbit_replace_message c s = (b, s') \<Longrightarrow> s' = s" for c b
    by (simp add: rabbit_replace_message_def Let_def split: if_splits)
  with step.hyps(2) step.IH show ?case
    by (cases rule: rabbit_step.cases) (auto intro: index_sound_save index_sound_cancel index_sound_deliver)
qed

definition tally_format :: time_format where
  "tally_format = \<lparr>to_rfc3339 = (\<lambda>t. (if t < 0 then CHR ''-'' else CHR ''+'') # replicate (nat \<bar>t\<bar>) CHR ''t''),
     parse_from_rfc3339 = (\<lambda>s. case s of c # r \<Rightarrow> Some (if c = CHR ''-'' then - int (length r) else int (length r)) | [] \<Rightarrow> None)\<rparr>"

lemma tally_format_ok: "time_format_ok tally_format"
  by (simp add: time_format_ok_def tally_format_def)

definition calm_rabbit :: rabbit_env where
  "calm_rabbit = \<lparr>rq_chrono = plain_chrono, rq_now = 0, rq_publish = None, rq_confirm = None\<rparr>"

definition for_bob :: json where
  "for_bob = jobject [(''destination_addr'', JString ''bob'')]"

definition bob_saved :: rabbit_state where
  "bob_saved = snd (rabbit_save tally_format calm_rabbit ''m1'' for_bob (empty_rabbit 3600))"

lemma for_bob_times: "queue_check_save plain_chrono 0 3600 for_bob = Ok (None, Some (seconds 3600))"
  by (simp add: queue_check_save_def for_bob_def str_or_empty_def get_str_def jget_jobject get_schedule_delivery_time_def
      get_validity_period_def plain_chrono_def)

lemma save_for_bob: "rabbit_save tally_format calm_rabbit ''m1'' for_bob (empty_rabbit 3600) = (Ok (), bob_saved)"
  by (simp add: bob_saved_def rabbit_save_def calm_rabbit_def empty_rabbit_def for_bob_times Let_def)

theorem rabbit_index_sound_witness: "index_sound bob_saved \<and> message_index bob_saved ''m1'' = Some [(''bob'', 0)]"
proof
  have "rabbit_step (empty_rabbit 3600) bob_saved" using save_for_bob by (rule rabbit_step.save)
  then show "index_sound bob_saved" using rabbit_index_sound [of 3600 bob_saved] by blast
  show "message_index bob_saved ''m1'' = Some [(''bob'', 0)]"
    by (simp add: bob_saved_def rabbit_save_def calm_rabbit_def empty_rabbit_def for_bob_times Let_def push_at_def)
      (simp add: for_bob_def str_or_empty_def get_str_def jget_jobject)
qed

lemma envelope_members:
  "get_str ''message_id'' (rabbit_envelope F i v ts) = Some i"
  "get_str ''dest_address'' (rabbit_envelope F i v ts) = Some (str_or_empty ''destination_addr'' v)"
  "jget ''payload'' (rabbit_envelope F i v ts) = Some v"
  by (simp_all add: rabbit_envelope_def get_str_def jget_jobject)

lemma envelope_times:
  assumes "time_format_ok F"
  shows "envelope_time F ''schedule_delivery_time'' (rabbit_envelope F i v ts) = fst ts"
    "envelope_time F ''validity_period'' (rabbit_envelope F i v ts) = snd ts"
  using assms by (simp_all add: envelope_time_def rabbit_envelope_def get_str_def jget_jobject time_json_def time_format_ok_def split: option.split)




end
