(* ===== verification/Redis_Storage.thy ===== *)
theory Redis_Storage
  imports Rabbit_Storage Sql_Storage Actions
begin

text \<open>
  The message storage on Redis (\<^verbatim>\<open>message_storage.rs\<close>, \<^verbatim>\<open>RedisMessageStorage\<close>).  The Redis server is
  outside: the storage is a program over its commands, which are a parameter.  What the commands
  are documented to do, on hashes, sets, sorted sets and counters, is stated as a hypothesis
  where a property needs it.
\<close>

section \<open>Commands\<close>

datatype redis_op = Del string | Sadd string string | Srem string string | Zrem string string

text \<open>
  Each command has the type at which the sources query it: \<^verbatim>\<open>HMGET\<close> fails when one of the fields
  is absent.  The score of a member of a sorted set is a number of milliseconds; as a double it
  is exact below \<open>2 ^ 53\<close>.
\<close>

record 'r redis_commands =
  rd_connect :: "('r, unit) action"
  rd_incr :: "string \<Rightarrow> ('r, int) action"
  rd_hset :: "string \<Rightarrow> (string \<times> string) list \<Rightarrow> ('r, unit) action"
  rd_hmget :: "string \<Rightarrow> string list \<Rightarrow> ('r, string list) action"
  rd_pipe :: "redis_op list \<Rightarrow> ('r, unit) action"
  rd_zadd :: "string \<Rightarrow> string \<Rightarrow> int \<Rightarrow> ('r, unit) action"
  rd_zrangebyscore :: "string \<Rightarrow> int \<Rightarrow> ('r, string list) action"
  rd_smembers :: "string \<Rightarrow> ('r, string list) action"
  rd_scard :: "string \<Rightarrow> ('r, int) action"

record RedisMessageStorage =
  key_prefix :: string
  rd_default_validity_period :: u32

definition RedisMessageStorage_new :: "'r redis_commands \<Rightarrow> ('r, unit) action \<Rightarrow> string option \<Rightarrow> u32 \<Rightarrow> ('r, RedisMessageStorage) action" where
  "RedisMessageStorage_new C ping pre p =
     act_bind (rd_connect C) (\<lambda>_. act_bind ping (\<lambda>_.
     act_return \<lparr>key_prefix = (case pre of Some x \<Rightarrow> x | None \<Rightarrow> ''mq''), rd_default_validity_period = p\<rparr>))"

definition entry_key :: "RedisMessageStorage \<Rightarrow> string \<Rightarrow> string" where
  "entry_key P i = key_prefix P @ '':entry:'' @ i"

definition msgid_key :: "RedisMessageStorage \<Rightarrow> string \<Rightarrow> string" where
  "msgid_key P i = key_prefix P @ '':msgid:'' @ i"

definition user_key :: "RedisMessageStorage \<Rightarrow> string \<Rightarrow> string" where
  "user_key P d = key_prefix P @ '':user:'' @ d"

definition counter_key :: "RedisMessageStorage \<Rightarrow> string" where
  "counter_key P = key_prefix P @ '':counter''"

definition schedule_key :: "RedisMessageStorage \<Rightarrow> string" where
  "schedule_key P = key_prefix P @ '':schedule''"

definition expiry_key :: "RedisMessageStorage \<Rightarrow> string" where
  "expiry_key P = key_prefix P @ '':expiry''"

section \<open>Operations\<close>

text \<open>\<^verbatim>\<open>let _: RedisResult<()> = ...\<close>: the result is ignored.\<close>

definition act_ignore :: "('r, 'a) action \<Rightarrow> ('r, unit) action" where
  "act_ignore m = act_match m (\<lambda>_. act_return ()) (\<lambda>_. act_return ())"

definition delete_entry :: "'r redis_commands \<Rightarrow> RedisMessageStorage \<Rightarrow> string \<Rightarrow> ('r, bool) action" where
  "delete_entry C P i =
     act_match (rd_connect C) (\<lambda>_.
       act_match (rd_hmget C (entry_key P i) [''dest_address'', ''message_id'', ''schedule_delivery_time'', ''validity_period''])
         (\<lambda>fs. case fs of
            [dest_address, message_id, _, _] \<Rightarrow>
              act_bind (act_ignore (rd_pipe C [Del (entry_key P i), Srem (msgid_key P message_id) i,
                 Zrem (schedule_key P) i, Zrem (expiry_key P) i])) (\<lambda>_.
              act_bind (act_match (rd_scard C (msgid_key P message_id)) act_return (\<lambda>_. act_return 0)) (\<lambda>remaining.
              act_bind (if remaining = 0
                then act_ignore (rd_pipe C [Del (msgid_key P message_id), Srem (user_key P dest_address) message_id])
                else act_return ()) (\<lambda>_.
              act_return True)))
          | _ \<Rightarrow> act_return False)
         (\<lambda>_. act_return False))
       (\<lambda>_. act_return False)"

definition millis :: "instant \<Rightarrow> int" where
  "millis t = t div 1000000"

text \<open>The loop of \<^verbatim>\<open>get_delivery_messages\<close> over the entries that are due.\<close>

fun collect_due ::
    "'r redis_commands \<Rightarrow> sql_formats \<Rightarrow> time_format \<Rightarrow> RedisMessageStorage \<Rightarrow> instant \<Rightarrow> string list \<Rightarrow> ('r, (string \<times> json) list) action" where
  "collect_due C S F P now [] = act_return []"
| "collect_due C S F P now (i # is) =
     act_match (rd_hmget C (entry_key P i) [''message'', ''validity_period''])
       (\<lambda>fs. case fs of
          [message_json, validity_period_str] \<Rightarrow>
            if validity_period_str \<noteq> []
              \<and> (case parse_from_rfc3339 F validity_period_str of Some vp \<Rightarrow> vp < now | None \<Rightarrow> False)
            then act_bind (delete_entry C P i) (\<lambda>_. collect_due C S F P now is)
            else
              (case parse_json S message_json of
                 Some msg \<Rightarrow> act_bind (collect_due C S F P now is) (\<lambda>ms. act_return ((i, msg) # ms))
               | None \<Rightarrow> act_bind (delete_entry C P i) (\<lambda>_. collect_due C S F P now is))
        | _ \<Rightarrow> collect_due C S F P now is)
       (\<lambda>_. collect_due C S F P now is)"

definition redis_get_delivery_messages ::
    "'r redis_commands \<Rightarrow> sql_formats \<Rightarrow> time_format \<Rightarrow> RedisMessageStorage \<Rightarrow> instant \<Rightarrow> ('r, (string \<times> json) list) action" where
  "redis_get_delivery_messages C S F P now =
     act_bind (rd_connect C) (\<lambda>_.
     act_bind (rd_zrangebyscore C (schedule_key P) (millis now)) (\<lambda>entry_ids.
     collect_due C S F P now entry_ids))"

fun delete_entries :: "'r redis_commands \<Rightarrow> RedisMessageStorage \<Rightarrow> string list \<Rightarrow> bool \<Rightarrow> ('r, bool) action" where
  "delete_entries C P [] any_deleted = act_return any_deleted"
| "delete_entries C P (i # is) any_deleted =
     act_bind (delete_entry C P i) (\<lambda>d. delete_entries C P is (any_deleted \<or> d))"

definition redis_clean_expired_messages :: "'r redis_commands \<Rightarrow> RedisMessageStorage \<Rightarrow> instant \<Rightarrow> ('r, unit) action" where
  "redis_clean_expired_messages C P now =
     act_bind (rd_connect C) (\<lambda>_.
     act_bind (rd_zrangebyscore C (expiry_key P) (millis now)) (\<lambda>expired_ids.
     act_bind (delete_entries C P expired_ids False) (\<lambda>_. act_return ())))"

definition redis_save ::
    "'r redis_commands \<Rightarrow> sql_formats \<Rightarrow> time_format \<Rightarrow> chrono \<times> instant \<Rightarrow> RedisMessageStorage \<Rightarrow> string \<Rightarrow> json \<Rightarrow> ('r, unit) action" where
  "redis_save C S F E P message_id v =
     act_bind (act_io (queue_check_save (fst E) (snd E) (rd_default_validity_period P) v)) (\<lambda>(schedule, validity).
     act_bind (rd_connect C) (\<lambda>_.
     act_bind (rd_incr C (counter_key P)) (\<lambda>entry_id.
     let i = (if entry_id < 0 then CHR ''-'' # fmt_dec (nat (- entry_id)) else fmt_dec (nat entry_id));
         text_of = (\<lambda>t. case t of Some x \<Rightarrow> to_rfc3339 F x | None \<Rightarrow> []);
         dest_address = str_or_empty ''destination_addr'' v in
     act_bind (rd_hset C (entry_key P i)
       [(''dest_address'', dest_address), (''message_id'', message_id), (''message'', render S v),
        (''schedule_delivery_time'', text_of schedule), (''validity_period'', text_of validity)]) (\<lambda>_.
     act_bind (act_ignore (rd_pipe C [Sadd (msgid_key P message_id) i, Sadd (user_key P dest_address) message_id])) (\<lambda>_.
     act_bind (act_ignore (rd_zadd C (schedule_key P) i (case schedule of Some t \<Rightarrow> millis t | None \<Rightarrow> 0))) (\<lambda>_.
     case validity of
       Some vp \<Rightarrow> act_ignore (rd_zadd C (expiry_key P) i (millis vp))
     | None \<Rightarrow> act_return ()))))))"

text \<open>The delivery timer: an entry is deleted when its delivery has succeeded.\<close>

fun redis_deliver_each ::
    "'r redis_commands \<Rightarrow> RedisMessageStorage \<Rightarrow> (json \<Rightarrow> bool) \<Rightarrow> (string \<times> json) list \<Rightarrow> ('r, unit) action" where
  "redis_deliver_each C P handled [] = act_return ()"
| "redis_deliver_each C P handled ((i, m) # ds) =
     act_bind (if handled m then delete_entry C P i else act_return False) (\<lambda>_. redis_deliver_each C P handled ds)"

definition redis_delivery_tick ::
    "'r redis_commands \<Rightarrow> sql_formats \<Rightarrow> time_format \<Rightarrow> RedisMessageStorage \<Rightarrow> instant \<Rightarrow> (json \<Rightarrow> bool) \<Rightarrow> ('r, unit) action" where
  "redis_delivery_tick C S F P now handled =
     act_match (redis_get_delivery_messages C S F P now) (redis_deliver_each C P handled) (\<lambda>_. act_return ())"

definition redis_cancel_message :: "'r redis_commands \<Rightarrow> RedisMessageStorage \<Rightarrow> json \<Rightarrow> ('r, bool) action" where
  "redis_cancel_message C P cancel_sm =
     (let message_id = str_or_empty ''message_id'' cancel_sm in
      if message_id = [] then act_io (Err (IoError InvalidInput ''Missing message_id in the cancel_sm command''))
      else
        act_bind (rd_connect C) (\<lambda>_.
        act_bind (rd_smembers C (msgid_key P message_id)) (\<lambda>entry_ids.
        delete_entries C P entry_ids False)))"

text \<open>
  The fields that \<^verbatim>\<open>replace_message\<close> sets in its copy of a message.  The copy is dropped: nothing is
  written back, and the flag that is returned is never set.
\<close>

definition set_if_given :: "string \<Rightarrow> string \<Rightarrow> json \<Rightarrow> json \<Rightarrow> json io" where
  "set_if_given k k' cmd m = (case jget k cmd of Some x \<Rightarrow> index_set k' x m | None \<Rightarrow> Ok m)"

definition redis_replaced :: "json \<Rightarrow> json \<Rightarrow> json io" where
  "redis_replaced cmd m =
     try_ok (if jget ''short_message'' cmd \<noteq> None then set_if_given ''short_message'' ''short_message'' cmd m
             else set_if_given ''message_payload'' ''short_message'' cmd m) (\<lambda>m.
     try_ok (set_if_given ''schedule_delivery_time'' ''schedule_delivery_time'' cmd m) (\<lambda>m.
     try_ok (set_if_given ''validity_period'' ''validity_period'' cmd m) (\<lambda>m.
     set_if_given ''registered_delivery'' ''registered_delivery'' cmd m)))"

fun redis_replace_each :: "'r redis_commands \<Rightarrow> sql_formats \<Rightarrow> RedisMessageStorage \<Rightarrow> json \<Rightarrow> string list \<Rightarrow> ('r, unit) action" where
  "redis_replace_each C S P cmd [] = act_return ()"
| "redis_replace_each C S P cmd (i # is) =
     act_match (rd_hmget C (entry_key P i) [''message''])
       (\<lambda>fs. case fs of
          [message_json] \<Rightarrow>
            (case parse_json S message_json of
               Some existing \<Rightarrow> act_bind (act_io (redis_replaced cmd existing)) (\<lambda>_. redis_replace_each C S P cmd is)
             | None \<Rightarrow> redis_replace_each C S P cmd is)
        | _ \<Rightarrow> redis_replace_each C S P cmd is)
       (\<lambda>_. redis_replace_each C S P cmd is)"

definition redis_replace_message :: "'r redis_commands \<Rightarrow> sql_formats \<Rightarrow> RedisMessageStorage \<Rightarrow> json \<Rightarrow> ('r, bool) action" where
  "redis_replace_message C S P cmd =
     (let message_id = str_or_empty ''message_id'' cmd in
      if message_id = [] then act_io (Err (IoError InvalidInput ''Missing message_id in the replace_sm command''))
      else
        act_bind (rd_connect C) (\<lambda>_.
        act_bind (rd_smembers C (msgid_key P message_id)) (\<lambda>entry_ids.
        act_bind (redis_replace_each C S P cmd entry_ids) (\<lambda>_. act_return False))))"

end
