(* ===== verification/Redis_Laws.thy ===== *)
theory Redis_Laws
  imports Redis_Storage
begin

text \<open>
  What the Redis storage promises, given commands that behave as documented: a message that has
  been saved is handed out when it is due, and a replace request never replaces anything.
\<close>

section \<open>The documented commands\<close>

text \<open>What a reachable server holds: hashes, sets and sorted sets, by key.\<close>

record redis_db =
  hash :: "string \<Rightarrow> string \<Rightarrow> string option"
  members :: "string \<Rightarrow> string set"
  scores :: "string \<Rightarrow> string \<Rightarrow> int option"

fun documented_op :: "redis_op \<Rightarrow> redis_db \<Rightarrow> redis_db" where
  "documented_op (Del k) d = d\<lparr>hash := (hash d)(k := (\<lambda>_. None)), members := (members d)(k := {}), scores := (scores d)(k := (\<lambda>_. None))\<rparr>"
| "documented_op (Sadd k x) d = d\<lparr>members := (members d)(k := insert x (members d k))\<rparr>"
| "documented_op (Srem k x) d = d\<lparr>members := (members d)(k := members d k - {x})\<rparr>"
| "documented_op (Zrem k x) d = d\<lparr>scores := (scores d)(k := (scores d k)(x := None))\<rparr>"

text \<open>
  The documented behaviour of the commands on a server that is reachable; \<open>held\<close> is what the
  server holds.  The order in which \<^verbatim>\<open>SMEMBERS\<close> and \<^verbatim>\<open>ZRANGEBYSCORE\<close> list their answers is left open.
\<close>

definition redis_documented :: "'r redis_commands \<Rightarrow> ('r \<Rightarrow> redis_db) \<Rightarrow> bool" where
  "redis_documented C held =
     ((\<forall>s. fst (rd_connect C s) = Ok () \<and> held (snd (rd_connect C s)) = held s)
      \<and> (\<forall>k s. is_ok (fst (rd_incr C k s)) \<and> held (snd (rd_incr C k s)) = held s)
      \<and> (\<forall>k fs s. fst (rd_hset C k fs s) = Ok ()
          \<and> held (snd (rd_hset C k fs s)) = (held s)\<lparr>hash := (hash (held s))(k := hash (held s) k ++ map_of fs)\<rparr>)
      \<and> (\<forall>k fs s. held (snd (rd_hmget C k fs s)) = held s \<and> fst (rd_hmget C k fs s) \<noteq> Panic
          \<and> (\<forall>xs. fst (rd_hmget C k fs s) = Ok xs \<longleftrightarrow> map Some xs = map (hash (held s) k) fs))
      \<and> (\<forall>ops s. fst (rd_pipe C ops s) = Ok () \<and> held (snd (rd_pipe C ops s)) = fold documented_op ops (held s))
      \<and> (\<forall>k x n s. fst (rd_zadd C k x n s) = Ok ()
          \<and> held (snd (rd_zadd C k x n s)) = (held s)\<lparr>scores := (scores (held s))(k := (scores (held s) k)(x \<mapsto> n))\<rparr>)
      \<and> (\<forall>k n s. held (snd (rd_zrangebyscore C k n s)) = held s
          \<and> (\<exists>xs. fst (rd_zrangebyscore C k n s) = Ok xs \<and> distinct xs
              \<and> set xs = {x. case scores (held s) k x of Some m \<Rightarrow> m \<le> n | None \<Rightarrow> False}))
      \<and> (\<forall>k s. held (snd (rd_smembers C k s)) = held s
          \<and> (\<exists>xs. fst (rd_smembers C k s) = Ok xs \<and> distinct xs \<and> set xs = members (held s) k))
      \<and> (\<forall>k s. is_ok (fst (rd_scard C k s)) \<and> held (snd (rd_scard C k s)) = held s))"

lemma redis_documentedD:
  assumes "redis_documented C held"
  shows "fst (rd_connect C s) = Ok ()" "held (snd (rd_connect C s)) = held s"
    "is_ok (fst (rd_incr C k s))" "held (snd (rd_incr C k s)) = held s"
    "fst (rd_hset C k fs s) = Ok ()" "held (snd (rd_hset C k fs s)) = (held s)\<lparr>hash := (hash (held s))(k := hash (held s) k ++ map_of fs)\<rparr>"
    "held (snd (rd_hmget C k gs s)) = held s" "fst (rd_hmget C k gs s) \<noteq> Panic"
    "fst (rd_hmget C k gs s) = Ok xs \<longleftrightarrow> map Some xs = map (hash (held s) k) gs"
    "fst (rd_pipe C ops s) = Ok ()" "held (snd (rd_pipe C ops s)) = fold documented_op ops (held s)"
    "fst (rd_zadd C k x n s) = Ok ()" "held (snd (rd_zadd C k x n s)) = (held s)\<lparr>scores := (scores (held s))(k := (scores (held s) k)(x \<mapsto> n))\<rparr>"
    "held (snd (rd_zrangebyscore C k n s)) = held s" "held (snd (rd_smembers C k s)) = held s"
    "is_ok (fst (rd_scard C k s))" "held (snd (rd_scard C k s)) = held s"
  using assms by (simp_all add: redis_documented_def)

lemma redis_documented_due:
  assumes "redis_documented C held"
  obtains xs where "fst (rd_zrangebyscore C k n s) = Ok xs" "distinct xs"
    "set xs = {x. case scores (held s) k x of Some m \<Rightarrow> m \<le> n | None \<Rightarrow> False}"
  using assms by (simp add: redis_documented_def) metis

section \<open>Keys\<close>

lemma keys_differ:
  "entry_key P i = entry_key P j \<longleftrightarrow> i = j" "entry_key P i \<noteq> msgid_key P j" "entry_key P i \<noteq> user_key P j"
  "schedule_key P \<noteq> msgid_key P j" "schedule_key P \<noteq> entry_key P j" "schedule_key P \<noteq> expiry_key P" "schedule_key P \<noteq> user_key P j"
  by (simp_all add: entry_key_def msgid_key_def user_key_def schedule_key_def expiry_key_def)

section \<open>Deleting another entry\<close>

definition returns :: "('s, 'a) action \<Rightarrow> bool" where
  "returns m = (\<forall>s. is_ok (fst (m s)))"

lemma returns_return: "returns (act_return x)"
  by (simp add: returns_def act_return_def)

lemma returns_bind: "returns m \<Longrightarrow> (\<And>x. returns (f x)) \<Longrightarrow> returns (act_bind m f)"
  unfolding returns_def act_bind_def by (metis (no_types, lifting) case_prod_beta is_ok.elims(2) outcome.case(1) prod.case_eq_if)

lemma returns_match:
  assumes "\<And>s. fst (m s) \<noteq> Panic" "\<And>x. returns (f x)" "\<And>e. returns (g e)" shows "returns (act_match m f g)"
  unfolding returns_def
proof
  fix s
  obtain r s' where m: "m s = (r, s')" by (cases "m s")
  with assms show "is_ok (fst (act_match m f g s))"
    by (cases r) (auto simp: act_match_def returns_def dest: spec [of _ s'], metis fst_conv)
qed

lemma returnsD: "returns m \<Longrightarrow> \<exists>x s'. m s = (Ok x, s')"
  unfolding returns_def by (metis is_ok.elims(2) prod.collapse)


lemma returns_ignore: "(\<And>s. fst (m s) \<noteq> Panic) \<Longrightarrow> returns (act_ignore m)"
  unfolding act_ignore_def by (intro returns_match returns_return)

lemma preserves_ignore: "preserves view m \<Longrightarrow> preserves view (act_ignore m)"
  unfolding act_ignore_def by (intro preserves_match preserves_return)

lemma is_ok_not_Panic: "is_ok r \<Longrightarrow> r \<noteq> Panic" by auto

lemma pipe_not_Panic: "redis_documented C held \<Longrightarrow> fst (rd_pipe C ops s) \<noteq> Panic"
  by (simp add: redis_documentedD(10) [of C held])

lemma delete_entry_returns:
  assumes "redis_documented C held" shows "returns (delete_entry C P i)"
proof -
  note d = redis_documentedD [OF assms]
  have "returns (act_match (rd_scard C k) act_return (\<lambda>_. act_return 0))" for k
    by (intro returns_match returns_return is_ok_not_Panic d(16))
  moreover have "returns (if b then act_ignore (rd_pipe C ops) else act_return ())" for b ops
    by (simp add: returns_ignore [OF pipe_not_Panic [OF assms]] returns_return)
  ultimately have "returns (case fs of [dest_address, message_id, _, _] \<Rightarrow>
      act_bind (act_ignore (rd_pipe C [Del (entry_key P i), Srem (msgid_key P message_id) i, Zrem (schedule_key P) i, Zrem (expiry_key P) i])) (\<lambda>_.
      act_bind (act_match (rd_scard C (msgid_key P message_id)) act_return (\<lambda>_. act_return 0)) (\<lambda>remaining.
      act_bind (if remaining = 0
        then act_ignore (rd_pipe C [Del (msgid_key P message_id), Srem (user_key P dest_address) message_id])
        else act_return ()) (\<lambda>_. act_return True))) | _ \<Rightarrow> act_return False)" for fs
    by (auto intro!: returns_bind returns_return returns_ignore [OF pipe_not_Panic [OF assms]] split: list.split)
  then show ?thesis
    unfolding delete_entry_def using d(1,8) by (intro returns_match returns_return) simp_all
qed

text \<open>Deleting an entry leaves the hashes of all others alone.\<close>

lemma delete_entry_keeps:
  assumes "redis_documented C held" "j \<noteq> i"
  shows "preserves (\<lambda>s. hash (held s) (entry_key P i)) (delete_entry C P j)"
proof -
  note d = redis_documentedD [OF assms(1)]
  let ?view = "\<lambda>s. hash (held s) (entry_key P i)"
  have read: "preserves ?view (rd_connect C)" "preserves ?view (rd_hmget C k fs)" "preserves ?view (rd_scard C k)" for k fs
    by (simp_all add: preserves_def d)
  have pipe: "preserves ?view (rd_pipe C [Del (entry_key P j), Srem k j, Zrem k' j, Zrem k'' j])"
    "preserves ?view (rd_pipe C [Del (msgid_key P m), Srem k m])" for k k' k'' m
    using assms(2) by (simp_all add: preserves_def d keys_differ)
  show ?thesis
    unfolding delete_entry_def
    by (auto intro!: preserves_match preserves_bind preserves_return preserves_ignore preserves_cond read pipe split: list.split simp del: if_split)
qed

section \<open>What is due is handed out\<close>

definition entry_holds :: "sql_formats \<Rightarrow> (string \<rightharpoonup> string) \<Rightarrow> json \<Rightarrow> string \<Rightarrow> bool" where
  "entry_holds S h v validity = (h ''message'' = Some (render S v) \<and> h ''validity_period'' = Some validity)"

lemma collect_due_returns:
  assumes "redis_documented C held" shows "returns (collect_due C S F P now is)"
proof (induction "is")
  case (Cons i "is")
  note r = returns_bind [OF delete_entry_returns [OF assms] Cons.IH] returns_bind [OF Cons.IH returns_return] Cons.IH
  show ?case
    unfolding collect_due.simps
    by (intro returns_match redis_documentedD(8) [OF assms]) (auto simp: r split: list.split option.split)
qed (simp add: returns_return)

lemma collect_due_finds:
  assumes D: "redis_documented C held" and S: "parse_json S (render S v) = Some v"
    and V: "validity \<noteq> [] \<Longrightarrow> case parse_from_rfc3339 F validity of Some vp \<Rightarrow> now \<le> vp | None \<Rightarrow> True"
    and "distinct is" "i \<in> set is" "entry_holds S (hash (held s) (entry_key P i)) v validity"
  shows "\<exists>ms s'. collect_due C S F P now is s = (Ok ms, s') \<and> (i, v) \<in> set ms"
  using assms(4-6)
proof (induction "is" arbitrary: s)
  case (Cons j "is")
  note d = redis_documentedD [OF D]
  obtain q s1 where q: "rd_hmget C (entry_key P j) [''message'', ''validity_period''] s = (q, s1)" by fastforce
  have held: "held s1 = held s" using d(7) [of "entry_key P j" "[''message'', ''validity_period'']" s] q by simp
  show ?case
  proof (cases "j = i")
    case True
    have "q = Ok [render S v, validity]"
      using d(9) [of "entry_key P j" "[''message'', ''validity_period'']" s "[render S v, validity]"] q Cons.prems(3) True
      by (simp add: entry_holds_def)
    moreover obtain ms s2 where "collect_due C S F P now is s1 = (Ok ms, s2)"
      using returnsD [OF collect_due_returns [OF D]] by blast
    moreover have "\<not> (validity \<noteq> [] \<and> (case parse_from_rfc3339 F validity of Some vp \<Rightarrow> vp < now | None \<Rightarrow> False))"
      using V by (auto split: option.splits)
    ultimately show ?thesis using q S True by (auto simp: act_match_def act_bind_def act_return_def)
  next
    case False
    then have i: "i \<in> set is" "distinct is" using Cons.prems by auto
    have IH: "\<exists>ms s'. collect_due C S F P now is t = (Ok ms, s') \<and> (i, v) \<in> set ms"
      if "hash (held t) (entry_key P i) = hash (held s) (entry_key P i)" for t
      using Cons.IH [OF i(2,1), of t] Cons.prems(3) that by simp
    obtain x s2 where x: "delete_entry C P j s1 = (Ok x, s2)" using returnsD [OF delete_entry_returns [OF D]] by blast
    then have "hash (held s2) (entry_key P i) = hash (held s) (entry_key P i)"
      using delete_entry_keeps [OF D False, of P] held unfolding preserves_def by (metis snd_conv)
    from IH [OF this] obtain ms s3 where 2: "collect_due C S F P now is s2 = (Ok ms, s3)" "(i, v) \<in> set ms" by blast
    from IH [of s1] held obtain ms' s3' where 1: "collect_due C S F P now is s1 = (Ok ms', s3')" "(i, v) \<in> set ms'" by auto
    have "q \<noteq> Panic" using d(8) [of "entry_key P j" "[''message'', ''validity_period'']" s] q by simp
    then show ?thesis using 1 2 x
      by (cases q) (auto simp: q act_match_def act_bind_def act_return_def split: list.split option.split)
  qed
qed simp


lemma save_stores:
  assumes D: "redis_documented C held"
    and q: "queue_check_save (fst E) (snd E) (rd_default_validity_period P) v = Ok (schedule, validity)"
  shows "\<exists>i s1. redis_save C S F E P message_id v s = (Ok (), s1)
    \<and> entry_holds S (hash (held s1) (entry_key P i)) v (case validity of Some x \<Rightarrow> to_rfc3339 F x | None \<Rightarrow> [])
    \<and> scores (held s1) (schedule_key P) i = Some (case schedule of Some t \<Rightarrow> millis t | None \<Rightarrow> 0)"
proof -
  note d = redis_documentedD [OF D]
  obtain s0 where 0: "rd_connect C s = (Ok (), s0)" using d(1) by (metis prod.collapse)
  obtain n s1 where 1: "rd_incr C (counter_key P) s0 = (Ok n, s1)" using d(3) by (metis is_ok.elims(2) prod.collapse)
  let ?i = "if n < 0 then CHR ''-'' # fmt_dec (nat (- n)) else fmt_dec (nat n)"
  let ?v = "case validity of Some x \<Rightarrow> to_rfc3339 F x | None \<Rightarrow> []"
  let ?fs = "[(''dest_address'', str_or_empty ''destination_addr'' v), (''message_id'', message_id), (''message'', render S v),
      (''schedule_delivery_time'', case schedule of Some x \<Rightarrow> to_rfc3339 F x | None \<Rightarrow> []), (''validity_period'', ?v)]"
  let ?ops = "[Sadd (msgid_key P message_id) ?i, Sadd (user_key P (str_or_empty ''destination_addr'' v)) message_id]"
  let ?n = "case schedule of Some t \<Rightarrow> millis t | None \<Rightarrow> 0"
  obtain s2 where 2: "rd_hset C (entry_key P ?i) ?fs s1 = (Ok (), s2)" using d(5) by (metis prod.collapse)
  obtain s3 where 3: "rd_pipe C ?ops s2 = (Ok (), s3)" using d(10) by (metis prod.collapse)
  obtain s4 where 4: "rd_zadd C (schedule_key P) ?i ?n s3 = (Ok (), s4)" using d(12) by (metis prod.collapse)
  obtain s5 where 5: "rd_zadd C (expiry_key P) ?i (millis (the validity)) s4 = (Ok (), s5)" using d(12) by (metis prod.collapse)
  have h: "held s2 = (held s1)\<lparr>hash := (hash (held s1))(entry_key P ?i := hash (held s1) (entry_key P ?i) ++ map_of ?fs)\<rparr>"
    "held s3 = fold documented_op ?ops (held s2)"
    "held s4 = (held s3)\<lparr>scores := (scores (held s3))(schedule_key P := (scores (held s3) (schedule_key P))(?i \<mapsto> ?n))\<rparr>"
    "held s5 = (held s4)\<lparr>scores := (scores (held s4))(expiry_key P := (scores (held s4) (expiry_key P))(?i \<mapsto> millis (the validity)))\<rparr>"
    using d(6) [of "entry_key P ?i" ?fs s1] d(11) [of ?ops s2] d(13) [of "schedule_key P" ?i ?n s3]
      d(13) [of "expiry_key P" ?i "millis (the validity)" s4] 2 3 4 5 by simp_all
  have "redis_save C S F E P message_id v s = (Ok (), if validity = None then s4 else s5)"
    using q 0 1 2 3 4 5
    by (cases validity) (simp_all add: redis_save_def act_bind_def act_io_def act_ignore_def act_match_def act_return_def Let_def)
  moreover have "entry_holds S (hash (held (if validity = None then s4 else s5)) (entry_key P ?i)) v ?v"
    using h by (simp add: entry_holds_def)
  moreover have "scores (held (if validity = None then s4 else s5)) (schedule_key P) ?i = Some ?n"
    using h by (simp add: keys_differ)
  ultimately show ?thesis by blast
qed

section \<open>A server in memory\<close>

record list_db =
  list_hash :: "string \<Rightarrow> (string \<times> string) list"
  list_members :: "string \<Rightarrow> string list"
  list_scores :: "string \<Rightarrow> (string \<times> int) list"
  list_counter :: int

definition list_held :: "list_db \<Rightarrow> redis_db" where
  "list_held d = \<lparr>hash = (\<lambda>k. map_of (list_hash d k)), members = (\<lambda>k. set (list_members d k)), scores = (\<lambda>k. map_of (list_scores d k))\<rparr>"

fun list_op :: "redis_op \<Rightarrow> list_db \<Rightarrow> list_db" where
  "list_op (Del k) d = d\<lparr>list_hash := (list_hash d)(k := []), list_members := (list_members d)(k := []), list_scores := (list_scores d)(k := [])\<rparr>"
| "list_op (Sadd k x) d = d\<lparr>list_members := (list_members d)(k := x # list_members d k)\<rparr>"
| "list_op (Srem k x) d = d\<lparr>list_members := (list_members d)(k := removeAll x (list_members d k))\<rparr>"
| "list_op (Zrem k x) d = d\<lparr>list_scores := (list_scores d)(k := filter (\<lambda>p. fst p \<noteq> x) (list_scores d k))\<rparr>"

definition list_commands :: "list_db redis_commands" where
  "list_commands = \<lparr>rd_connect = (\<lambda>d. (Ok (), d)),
     rd_incr = (\<lambda>k d. (Ok (list_counter d + 1), d\<lparr>list_counter := list_counter d + 1\<rparr>)),
     rd_hset = (\<lambda>k fs d. (Ok (), d\<lparr>list_hash := (list_hash d)(k := fs @ list_hash d k)\<rparr>)),
     rd_hmget = (\<lambda>k fs d. (if list_all (\<lambda>f. map_of (list_hash d k) f \<noteq> None) fs then Ok (map (\<lambda>f. the (map_of (list_hash d k) f)) fs)
        else Err (IoError Other ''nil''), d)),
     rd_pipe = (\<lambda>ops d. (Ok (), fold list_op ops d)),
     rd_zadd = (\<lambda>k x n d. (Ok (), d\<lparr>list_scores := (list_scores d)(k := (x, n) # list_scores d k)\<rparr>)),
     rd_zrangebyscore = (\<lambda>k n d. (Ok (filter (\<lambda>x. case map_of (list_scores d k) x of Some m \<Rightarrow> m \<le> n | None \<Rightarrow> False)
        (remdups (map fst (list_scores d k)))), d)),
     rd_smembers = (\<lambda>k d. (Ok (remdups (list_members d k)), d)),
     rd_scard = (\<lambda>k d. (Ok (int (length (remdups (list_members d k)))), d))\<rparr>"

lemma list_op_held: "list_held (list_op p d) = documented_op p (list_held d)"
proof (cases p)
  case (Zrem k x)
  have "map_of (filter (\<lambda>p. fst p \<noteq> x) l) = (map_of l)(x := None)" for l :: "(string \<times> int) list" by (induction l) auto
  then show ?thesis by (auto simp: Zrem list_held_def fun_eq_iff)
qed (auto simp: list_held_def fun_eq_iff)

lemma list_ops_held: "list_held (fold list_op ops d) = fold documented_op ops (list_held d)"
  by (induction ops arbitrary: d) (simp_all add: list_op_held)

lemma hmget_all: "(if list_all (\<lambda>f. h f \<noteq> None) fs then Ok (map (\<lambda>f. the (h f)) fs) else Err e) = Ok xs \<longleftrightarrow> map Some xs = map h fs"
proof (cases "list_all (\<lambda>f. h f \<noteq> None) fs")
  case True
  then have "map h fs = map Some (map (\<lambda>f. the (h f)) fs)" by (simp add: list_all_iff)
  then have "map Some xs = map h fs \<longleftrightarrow> xs = map (\<lambda>f. the (h f)) fs" by (simp only: inj_map_eq_map inj_Some)
  with True show ?thesis by auto
next
  case False
  then have "None \<in> set (map h fs)" by (force simp: list_all_iff)
  then have "map Some xs \<noteq> map h fs" by (metis (no_types, lifting) image_iff list.set_map option.distinct(1))
  with False show ?thesis by simp
qed

lemma list_commands_documented: "redis_documented list_commands list_held"
proof -
  have z: "{x \<in> fst ` set l. case map_of l x of Some m \<Rightarrow> m \<le> n | None \<Rightarrow> False} = {x. case map_of l x of Some m \<Rightarrow> m \<le> n | None \<Rightarrow> False}"
    for l :: "(string \<times> int) list" and n
    by (auto split: option.splits simp: map_of_eq_None_iff)
  have h: "fst (rd_hmget list_commands k fs s) = Ok xs \<longleftrightarrow> map Some xs = map (hash (list_held s) k) fs" for k fs s xs
    using hmget_all [of "map_of (list_hash s k)" fs "IoError Other ''nil''" xs] by (simp add: list_commands_def list_held_def)
  show ?thesis
    unfolding redis_documented_def
    by (intro conjI allI h; simp add: list_commands_def list_ops_held) (simp_all add: list_held_def fun_eq_iff z)
qed


text \<open>
  A replace request never replaces anything on Redis: whatever the commands answer, the result is
  never true, and with documented commands what the server holds does not change.
\<close>

theorem redis_never_replaces:
  "fst (redis_replace_message C S P cmd s) \<noteq> Ok True
   \<and> (redis_documented C held \<longrightarrow> held (snd (redis_replace_message C S P cmd s)) = held s)"
proof
  have "yields (\<lambda>r. r = False) (redis_replace_message C S P cmd)"
    unfolding redis_replace_message_def Let_def
    by (auto intro!: yields_bind_any yields_return yields_io)
  then show "fst (redis_replace_message C S P cmd s) \<noteq> Ok True" by (auto simp: yields_def)
  show "redis_documented C held \<longrightarrow> held (snd (redis_replace_message C S P cmd s)) = held s"
  proof
    assume "redis_documented C held"
    note d = redis_documentedD [OF this]
    have r: "preserves held (rd_connect C)" "preserves held (rd_hmget C k fs)" "preserves held (rd_smembers C k)" for k fs
      by (simp_all add: preserves_def d)
    have "preserves held (redis_replace_each C S P cmd is)" for "is"
    proof (induction "is")
      case (Cons i "is")
      then show ?case
        by (auto intro!: preserves_match preserves_bind preserves_io r split: list.split option.split)
    qed (simp add: preserves_return)
    then have "preserves held (redis_replace_message C S P cmd)"
      unfolding redis_replace_message_def Let_def
      by (auto intro!: preserves_bind preserves_io preserves_return r)
    then show "held (snd (redis_replace_message C S P cmd s)) = held s" by (simp add: preserves_def)
  qed
qed


definition quiet_db :: list_db where
  "quiet_db = \<lparr>list_hash = (\<lambda>_. []), list_members = (\<lambda>_. []), list_scores = (\<lambda>_. []), list_counter = 0\<rparr>"

definition plain_redis :: RedisMessageStorage where
  "plain_redis = \<lparr>key_prefix = ''mq'', rd_default_validity_period = 3600\<rparr>"


theorem redis_never_replaces_witness:
  "\<forall>S. fst (redis_replace_message list_commands S plain_redis (jobject [(''message_id'', JString ''m1'')]) quiet_db) \<noteq> Ok True
   \<and> list_held (snd (redis_replace_message list_commands S plain_redis (jobject [(''message_id'', JString ''m1'')]) quiet_db)) = list_held quiet_db"
  using redis_never_replaces [of list_commands _ plain_redis "jobject [(''message_id'', JString ''m1'')]" quiet_db list_held]
    list_commands_documented by simp

end
