(* ===== verification/Startup.thy ===== *)
theory Startup
  imports Redis_Storage Server_State
begin

text \<open>
  What the server is put together from (\<^verbatim>\<open>main.rs\<close>, \<^verbatim>\<open>create_message_storage\<close>, \<^verbatim>\<open>SmscServer::new\<close>): the
  authentication, the message handler and the storage of pending messages that the configuration
  asks for.  Opening a database, a Redis server or a broker, and reading the file of users, are
  arguments.
\<close>

section \<open>The storage of pending messages\<close>

datatype message_storage =
    InMemoryStorage InMemoryMessageStorage
  | SqlStorage SqlMessageStorage
  | RedisStorage RedisMessageStorage
  | RabbitStorage rabbit_state

text \<open>
  \<^verbatim>\<open>SqlMessageStorage::new\<close>.  A database is what connecting to it with at most so many connections gives, namely the
  table it already has, if any, with the next identifier, and the outcome of the statement that creates a
  missing table.  A database in memory belongs to its connection, so there is only one.
\<close>

record sql_database =
  sql_connect :: "nat option \<Rightarrow> string \<Rightarrow> (string, (sql_row list \<times> nat) option) outcome"
  sql_create_table :: "string \<Rightarrow> (string, unit) outcome"

definition SqlMessageStorage_new :: "sql_database \<Rightarrow> string \<Rightarrow> u32 \<Rightarrow> SqlMessageStorage io" where
  "SqlMessageStorage_new D database_url p =
     try_ok (map_err (IoError Other)
       (sql_connect D (if contains_text '':memory:'' database_url then Some 1 else None) database_url)) (\<lambda>table.
     try_ok (map_err (IoError Other) (sql_create_table D database_url)) (\<lambda>_.
     Ok (case table of
           Some (rs, n) \<Rightarrow> \<lparr>rows = rs, next_row_id = n, sql_default_validity_period = p\<rparr>
         | None \<Rightarrow> \<lparr>rows = [], next_row_id = 1, sql_default_validity_period = p\<rparr>)))"

record storage_backends =
  open_redis :: "string \<Rightarrow> string option \<Rightarrow> u32 \<Rightarrow> RedisMessageStorage io"
  open_rabbit :: "string \<Rightarrow> string \<Rightarrow> u32 \<Rightarrow> rabbit_state io"
  open_sql :: "string \<Rightarrow> u32 \<Rightarrow> SqlMessageStorage io"

text \<open>A backend that cannot be opened is replaced by the storage in memory.\<close>

definition or_in_memory :: "u32 \<Rightarrow> ('s \<Rightarrow> message_storage) \<Rightarrow> 's io \<Rightarrow> message_storage io" where
  "or_in_memory p wrap r =
     (case r of
        Ok s \<Rightarrow> Ok (wrap s)
      | Err _ \<Rightarrow> Ok (InMemoryStorage (InMemoryMessageStorage_new p))
      | Panic \<Rightarrow> Panic)"

definition create_message_storage :: "storage_backends \<Rightarrow> MessageStorageConfig \<Rightarrow> u32 \<Rightarrow> message_storage io" where
  "create_message_storage B config p =
     (case config of
        MSC_Redis url pre \<Rightarrow> or_in_memory p RedisStorage (open_redis B url pre p)
      | MSC_RabbitMQ url queue_name \<Rightarrow> or_in_memory p RabbitStorage (open_rabbit B url queue_name p)
      | MSC_Sqlite db_path \<Rightarrow> or_in_memory p SqlStorage (open_sql B (''sqlite://'' @ db_path) p)
      | MSC_Postgres url \<Rightarrow> or_in_memory p SqlStorage (open_sql B url p)
      | MSC_MySQL url \<Rightarrow> or_in_memory p SqlStorage (open_sql B url p)
      | MSC_InMemory \<Rightarrow> or_in_memory p SqlStorage (open_sql B ''sqlite::memory:'' p))"

text \<open>The parts that the connections of a server share.\<close>

record SmscServer =
  ss_config :: ServerConfig
  ss_ids :: MessageIdGenerator
  ss_seq :: SequenceNumberAllocator
  ss_distribution :: DistrubutionList
  ss_pending :: message_storage
  ss_clients :: ClientManager
  ss_transactions :: TransactionResponseManager

definition SmscServer_new :: "storage_backends \<Rightarrow> id_env \<Rightarrow> IdGeneratorConfig option \<Rightarrow> ServerConfig \<Rightarrow> SmscServer io" where
  "SmscServer_new B R ids config =
     try_ok (create_message_storage B
         (case ServerConfig.message_store config of Some c \<Rightarrow> c | None \<Rightarrow> MSC_InMemory) (get_default_validity_period config)) (\<lambda>pending.
     case create_id_generator R ids of
       Ok g \<Rightarrow> Ok
         \<lparr>ss_config = config, ss_ids = g, ss_seq = SequenceNumberAllocator_new,
          ss_distribution = DistrubutionList_create_from (case ServerConfig.distribution_list config of Some ls \<Rightarrow> ls | None \<Rightarrow> []),
          ss_pending = pending, ss_clients = ClientManager_new, ss_transactions = TransactionResponseManager_new\<rparr>
     | _ \<Rightarrow> Panic)"

section \<open>Authentication and handlers\<close>

text \<open>\<^verbatim>\<open>start_server\<close>: a URL takes precedence over a file of users; without either the program panics.\<close>

definition server_authentication :: "(string \<Rightarrow> UserCredential list io) \<Rightarrow> UserAuthConfig \<Rightarrow> UserAuthentication io" where
  "server_authentication load_users_config config =
     (case auth_url config of
        Some url \<Rightarrow> Ok (HttpUserAuthentication url)
      | None \<Rightarrow>
          (case users_file config of
             Some f \<Rightarrow>
               (case load_users_config f of
                  Ok users \<Rightarrow> Ok (SimpleUserAuthentication (map (\<lambda>u. (uc_system_id u, uc_password u)) users))
                | _ \<Rightarrow> Panic)
           | None \<Rightarrow> Panic))"

definition server_handler :: "regex_compiler \<Rightarrow> ServerConfig \<Rightarrow> message_handler" where
  "server_handler compile config =
     (case request_handlers config of Some hs \<Rightarrow> create_request_handler compile hs | None \<Rightarrow> NoOpHandler)"

section \<open>Properties\<close>

text \<open>
  Starting up never fails for want of a storage: with backends that do not panic there is always
  one, it is the storage in memory exactly when the configured backend cannot be opened, and it
  works with the configured validity period.
\<close>

lemma storage_always_there:
  assumes "\<And>u k. open_redis B u k p \<noteq> Panic" "\<And>u q. open_rabbit B u q p \<noteq> Panic" "\<And>u. open_sql B u p \<noteq> Panic"
  obtains st where "create_message_storage B config p = Ok st" "\<And>m. st = InMemoryStorage m \<Longrightarrow> im_default_validity_period m = p"
proof -
  have r: "\<exists>st. or_in_memory p wrap x = Ok st \<and> (\<forall>m. st = InMemoryStorage m \<longrightarrow> im_default_validity_period m = p)"
    if "x \<noteq> Panic" "\<And>s m. wrap s \<noteq> InMemoryStorage m" for wrap and x :: "'s io"
    using that by (cases x) (auto simp: or_in_memory_def InMemoryMessageStorage_new_def)
  have "\<exists>st. create_message_storage B config p = Ok st \<and> (\<forall>m. st = InMemoryStorage m \<longrightarrow> im_default_validity_period m = p)"
    by (cases config) (simp_all add: create_message_storage_def r assms)
  then show thesis using that by blast
qed

text \<open>
  What an SQL storage holds survives a restart, also with another default validity period: opened on the
  table that a well-formed storage has left, it is well-formed and holds the same messages under the
  same identifiers.
\<close>

lemma sql_survives_restart:
  assumes "sql_wf S t" "SqlMessageStorage_new D url p = Ok t'" "sql_connect D c url = Ok (Some (rows t, next_row_id t))"
    "c = (if contains_text '':memory:'' url then Some 1 else None)"
  shows "sql_wf S t' \<and> sql_stored S t' i = sql_stored S t i"
  using assms by (auto simp: SqlMessageStorage_new_def outcome_elims sql_wf_def sql_stored_def)

text \<open>The user that a file lists is authentic with the listed password.\<close>

lemma listed_user_is_authentic:
  assumes "auth_url config = None" "users_file config = Some f" "load f = Ok users" "u \<in> set users" "distinct (map uc_system_id users)"
  shows "\<exists>a. server_authentication load config = Ok a \<and> authenticate post a (uc_system_id u) (uc_password u)"
proof -
  let ?ps = "map (\<lambda>u. (uc_system_id u, uc_password u)) users"
  have "distinct (map fst (rev ?ps))" using assms(5) by (simp add: comp_def rev_map [symmetric])
  moreover have "(uc_system_id u, uc_password u) \<in> set (rev ?ps)" using assms(4) by auto
  ultimately have "map_of (rev ?ps) (uc_system_id u) = Some (uc_password u)" by (rule map_of_is_SomeI)
  then show ?thesis using assms(1-3) by (simp add: server_authentication_def authenticate_def)
qed

end
