(* ===== verification/Listeners.thy ===== *)
theory Listeners
  imports Startup Smsc_Client Access
begin

text \<open>
  The life of the process (\<^verbatim>\<open>main.rs\<close>, \<^verbatim>\<open>SmscServer::start\<close>, \<^verbatim>\<open>SmscClient::start\<close>): reading the configuration,
  binding the SMPP and REST listeners, with or without TLS, accepting sockets, and when the process
  ends.  The operating system and the TLS library are arguments: which files there are and which
  load, and what the \<open>i\<close>-th attempt of a task to bind an address gives.
\<close>

section \<open>Configuration files\<close>

definition load_config :: "(string \<Rightarrow> string io) \<Rightarrow> (string \<Rightarrow> 'c io) \<Rightarrow> (string \<Rightarrow> 'c io) \<Rightarrow> string \<Rightarrow> 'c io" where
  "load_config read yaml json path =
     try_ok (read path) (\<lambda>config_data.
       if ends_with ''.yaml'' path \<or> ends_with ''.yml'' path then yaml config_data else json config_data)"

definition load_users_config ::
    "(string \<Rightarrow> string io) \<Rightarrow> (string \<Rightarrow> UserCredential list io) \<Rightarrow> (string \<Rightarrow> UserCredential list io) \<Rightarrow> string \<Rightarrow> UserCredential list io" where
  "load_users_config = load_config"

definition load_client_config ::
    "(string \<Rightarrow> string io) \<Rightarrow> (string \<Rightarrow> 'c io) \<Rightarrow> (string \<Rightarrow> 'c io) \<Rightarrow> string \<Rightarrow> 'c io" where
  "load_client_config = load_config"

definition load_server_config ::
    "(string \<Rightarrow> string io) \<Rightarrow> (string \<Rightarrow> 'c io) \<Rightarrow> (string \<Rightarrow> 'c io) \<Rightarrow> string \<Rightarrow> 'c io" where
  "load_server_config = load_config"

record RestAddressConfig =
  ra_address :: string
  ra_key_file :: "string option"
  ra_cert_file :: "string option"
  ra_ca_cert_file :: "string option"

text \<open>The members of \<^verbatim>\<open>ServerConfig\<close> that only the listeners read.\<close>

record ListenConfig =
  listen_addresses :: "string list"
  rest_addresses :: "RestAddressConfig list"
  ip_whitelist_config :: IpWhitelistConfig

record listen_env =
  path_exists :: "string \<Rightarrow> bool"
  from_pem_file :: "string \<Rightarrow> string \<Rightarrow> unit io"
  bind_tcp :: "nat \<Rightarrow> string \<Rightarrow> unit io"
  join_error :: string

section \<open>REST listeners\<close>

text \<open>Whether an address gets TLS: both files are configured, both are there, and they load.\<close>

definition tls_config :: "listen_env \<Rightarrow> RestAddressConfig \<Rightarrow> bool" where
  "tls_config L addr =
     (case (ra_cert_file addr, ra_key_file addr) of
        (Some cert_file, Some key_file) \<Rightarrow>
          if path_exists L cert_file \<and> path_exists L key_file
          then (case from_pem_file L cert_file key_file of Ok _ \<Rightarrow> True | _ \<Rightarrow> False)
          else False
      | _ \<Rightarrow> False)"

text \<open>The loop over the addresses: the plain listeners and those with TLS, in order.\<close>

fun bind_rest :: "listen_env \<Rightarrow> nat \<Rightarrow> RestAddressConfig list \<Rightarrow> string list \<times> string list" where
  "bind_rest L n [] = ([], [])"
| "bind_rest L n (addr # addrs) =
     (let (plain, tls) = bind_rest L (Suc n) addrs in
      if tls_config L addr
      then (case bind_tcp L n (ra_address addr) of Ok _ \<Rightarrow> (plain, ra_address addr # tls) | _ \<Rightarrow> (plain, tls))
      else (case bind_tcp L n (ra_address addr) of Ok _ \<Rightarrow> (ra_address addr # plain, tls) | _ \<Rightarrow> (plain, tls)))"

text \<open>
  \<^verbatim>\<open>start_rest_listener\<close> of the server.  With no listener it returns; otherwise it serves the listeners, and
  its last call, \<^verbatim>\<open>axum::serve\<close> on the first plain listener or a pending future, does not return.
\<close>

datatype 'a ending = Returns 'a | NeverReturns

record rest_servers =
  served_plain :: "string list"
  served_tls :: "string list"

definition start_rest_listener :: "listen_env \<Rightarrow> RestAddressConfig list \<Rightarrow> unit io ending \<times> rest_servers" where
  "start_rest_listener L addrs =
     (let (plain_listeners, tls_configs) = bind_rest L 0 addrs in
      if plain_listeners = [] \<and> tls_configs = []
      then (Returns (Ok ()), \<lparr>served_plain = [], served_tls = []\<rparr>)
      else (NeverReturns, \<lparr>served_plain = plain_listeners, served_tls = tls_configs\<rparr>))"

text \<open>The client has its own copy of this code, without a result.\<close>

definition start_rest :: "listen_env \<Rightarrow> RestAddressConfig list \<Rightarrow> unit ending \<times> rest_servers" where
  "start_rest L addrs =
     (let (plain_listeners, tls_configs) = bind_rest L 0 addrs in
      if plain_listeners = [] \<and> tls_configs = []
      then (Returns (), \<lparr>served_plain = [], served_tls = []\<rparr>)
      else (NeverReturns, \<lparr>served_plain = plain_listeners, served_tls = tls_configs\<rparr>))"

section \<open>SMPP listeners\<close>

text \<open>
  \<^verbatim>\<open>accept_loop\<close> on the sockets it accepts: a peer that the whitelist rejects is dropped, the others are
  served by tasks of their own.  The loop ends with the error of a failed \<^verbatim>\<open>accept\<close>.
\<close>

fun accept_loop :: "whitelist_env \<Rightarrow> IpWhitelist \<Rightarrow> string io list \<Rightarrow> unit io ending \<times> string list" where
  "accept_loop W w [] = (NeverReturns, [])"
| "accept_loop W w (Ok peer_ip # events) =
     (let (r, served) = accept_loop W w events in
      (r, if accept_connection W w peer_ip then peer_ip # served else served))"
| "accept_loop W w (Err e # events) = (Returns (Err e), [])"
| "accept_loop W w (Panic # events) = (Returns Panic, [])"

fun bind_listeners :: "listen_env \<Rightarrow> nat \<Rightarrow> string list \<Rightarrow> string list io" where
  "bind_listeners L n [] = Ok []"
| "bind_listeners L n (addr # addrs) =
     try_ok (bind_tcp L n addr) (\<lambda>_. map_ok (\<lambda>listeners. addr # listeners) (bind_listeners L (Suc n) addrs))"

text \<open>The tasks are joined one after the other; a task that has panicked is an error of the join.\<close>

fun join_handles :: "listen_env \<Rightarrow> unit io ending list \<Rightarrow> unit io ending" where
  "join_handles L [] = Returns (Ok ())"
| "join_handles L (NeverReturns # handles) = NeverReturns"
| "join_handles L (Returns (Ok _) # handles) = join_handles L handles"
| "join_handles L (Returns (Err e) # handles) = Returns (Err e)"
| "join_handles L (Returns Panic # handles) = Returns (Err (IoError Other (join_error L)))"

text \<open>\<open>events i\<close> are the sockets that the \<open>i\<close>-th listener accepts.\<close>

definition start_listener ::
    "listen_env \<Rightarrow> whitelist_env \<Rightarrow> ListenConfig \<Rightarrow> (nat \<Rightarrow> string io list) \<Rightarrow> unit io ending \<times> string list list" where
  "start_listener L W config events =
     (case create_ip_whitelist W (ip_whitelist_config config) of
        Ok w \<Rightarrow>
          (case bind_listeners L 0 (listen_addresses config) of
             Ok listeners \<Rightarrow>
               if listeners = [] then (Returns (Err (IoError InvalidInput ''No listen addresses configured'')), [])
               else let loops = map (\<lambda>i. accept_loop W w (events i)) [0..<length listeners]
                    in (join_handles L (map fst loops), map snd loops)
           | Err e \<Rightarrow> (Returns (Err e), [])
           | Panic \<Rightarrow> (Returns Panic, []))
      | Err e \<Rightarrow> (Returns (Err e), [])
      | Panic \<Rightarrow> (Returns Panic, []))"

section \<open>The process\<close>

text \<open>
  \<^verbatim>\<open>SmscServer::start\<close> spawns the task of the SMPP listeners, whose result is only logged, and returns
  what the REST listeners return.  \<open>L\<close> and \<open>L'\<close> are the environments of the two tasks.
\<close>

record server_process =
  sr_result :: "unit io ending"
  sr_smpp :: "unit io ending"
  sr_peers :: "string list list"
  sr_rest :: rest_servers

definition server_start ::
    "listen_env \<Rightarrow> listen_env \<Rightarrow> whitelist_env \<Rightarrow> ListenConfig \<Rightarrow> (nat \<Rightarrow> string io list) \<Rightarrow> server_process" where
  "server_start L L' W config events =
     (let (smpp, peers) = start_listener L W config events;
          (r, rest) = start_rest_listener L' (rest_addresses config)
      in \<lparr>sr_result = r, sr_smpp = smpp, sr_peers = peers, sr_rest = rest\<rparr>)"

text \<open>A panic of the main task ends the process with status 101.\<close>

datatype process = RunsOn | Exits nat

definition exit_of :: "unit io ending \<Rightarrow> process" where
  "exit_of r =
     (case r of
        NeverReturns \<Rightarrow> RunsOn
      | Returns (Ok _) \<Rightarrow> Exits 0
      | Returns (Err _) \<Rightarrow> Exits 1
      | Returns Panic \<Rightarrow> Exits 101)"

record main_env =
  read_file :: "string \<Rightarrow> string io"
  yaml_users :: "string \<Rightarrow> UserCredential list io"
  json_users :: "string \<Rightarrow> UserCredential list io"
  yaml_server :: "string \<Rightarrow> (ServerConfig \<times> ListenConfig \<times> IdGeneratorConfig option) io"
  json_server :: "string \<Rightarrow> (ServerConfig \<times> ListenConfig \<times> IdGeneratorConfig option) io"
  yaml_client :: "string \<Rightarrow> (ClientConfig \<times> RestAddressConfig list) io"
  json_client :: "string \<Rightarrow> (ClientConfig \<times> RestAddressConfig list) io"
  m_backends :: storage_backends
  m_ids :: id_env
  m_regex :: regex_compiler
  m_notifier :: "AlarmConfig \<Rightarrow> AlarmNotifier io"
  m_whitelist :: whitelist_env
  m_smpp :: listen_env
  m_rest :: listen_env
  m_now :: int

definition start_server :: "main_env \<Rightarrow> (nat \<Rightarrow> string io list) \<Rightarrow> string \<Rightarrow> process \<times> server_process option" where
  "start_server M events config_file =
     (case load_server_config (read_file M) (yaml_server M) (json_server M) config_file of
        Ok (config, listen, ids) \<Rightarrow>
          (case server_authentication (load_users_config (read_file M) (yaml_users M) (json_users M)) (user_auth config) of
             Ok _ \<Rightarrow>
               (case SmscServer_new (m_backends M) (m_ids M) ids config of
                  Ok _ \<Rightarrow>
                    let run = server_start (m_smpp M) (m_rest M) (m_whitelist M) listen events
                    in (exit_of (sr_result run), Some run)
                | _ \<Rightarrow> (Exits 101, None))
           | _ \<Rightarrow> (Exits 101, None))
      | _ \<Rightarrow> (Exits 101, None))"

definition start_client :: "main_env \<Rightarrow> string \<Rightarrow> process \<times> (ClientAppState \<times> rest_servers) option" where
  "start_client M config_file =
     (case load_client_config (read_file M) (yaml_client M) (json_client M) config_file of
        Ok (config, addrs) \<Rightarrow>
          (case client_start (m_notifier M) (m_ids M) (m_now M) (SmscClient_new (m_regex M) (m_now M) config) of
             Ok st \<Rightarrow> let (r, rest) = start_rest (m_rest M) addrs
                     in (case r of Returns _ \<Rightarrow> Exits 0 | NeverReturns \<Rightarrow> RunsOn, Some (st, rest))
           | Err _ \<Rightarrow> (Exits 1, None)
           | Panic \<Rightarrow> (Exits 101, None))
      | _ \<Rightarrow> (Exits 101, None))"

datatype AppConfig = AppClient string | AppServer string

definition main_program :: "main_env \<Rightarrow> (nat \<Rightarrow> string io list) \<Rightarrow> AppConfig \<Rightarrow> process" where
  "main_program M events config =
     (case config of
        AppClient config_file \<Rightarrow> fst (start_client M config_file)
      | AppServer config_file \<Rightarrow> fst (start_server M events config_file))"

section \<open>What is bound and served\<close>

text \<open>The addresses that could be bound, with their positions, and those of them that get TLS.\<close>

abbreviation rest_bound :: "listen_env \<Rightarrow> nat \<Rightarrow> RestAddressConfig list \<Rightarrow> (nat \<times> RestAddressConfig) list" where
  "rest_bound L n addrs \<equiv> filter (\<lambda>(i, a). is_ok (bind_tcp L i (ra_address a))) (enumerate n addrs)"

lemma tls_config_iff:
  "tls_config L a \<longleftrightarrow> (\<exists>c k. ra_cert_file a = Some c \<and> ra_key_file a = Some k
     \<and> path_exists L c \<and> path_exists L k \<and> is_ok (from_pem_file L c k))"
  by (auto simp: tls_config_def split: option.splits outcome.splits)

lemma bind_rest_bound:
  "bind_rest L n addrs =
     (map (ra_address \<circ> snd) (filter (\<lambda>x. \<not> tls_config L (snd x)) (rest_bound L n addrs)),
      map (ra_address \<circ> snd) (filter (\<lambda>x. tls_config L (snd x)) (rest_bound L n addrs)))"
proof (induction addrs arbitrary: n)
  case (Cons a addrs)
  then show ?case by (cases "bind_tcp L n (ra_address a)") simp_all
qed simp

lemma rest_bound_empty:
  "rest_bound L 0 addrs = [] \<longleftrightarrow> \<not> (\<exists>i<length addrs. is_ok (bind_tcp L i (ra_address (addrs ! i))))"
  by (auto simp: filter_empty_conv in_set_enumerate_eq)

lemma filter_both_empty: "filter P xs = [] \<and> filter (\<lambda>x. \<not> P x) xs = [] \<longleftrightarrow> xs = []"
  by (auto simp: filter_empty_conv)

lemma start_rest_listener_ends:
  "fst (start_rest_listener L addrs) =
     (if \<exists>i<length addrs. is_ok (bind_tcp L i (ra_address (addrs ! i))) then NeverReturns else Returns (Ok ()))"
  using filter_both_empty [of "\<lambda>x. tls_config L (snd x)" "rest_bound L 0 addrs"] rest_bound_empty [of L addrs]
  unfolding start_rest_listener_def bind_rest_bound Let_def prod.case map_is_Nil_conv
  by (auto simp del: filter_filter)

lemma start_rest_same: "start_rest L addrs = map_prod (\<lambda>r. case r of Returns _ \<Rightarrow> Returns () | NeverReturns \<Rightarrow> NeverReturns) id
    (start_rest_listener L addrs)"
  by (simp add: start_rest_def start_rest_listener_def Let_def case_prod_unfold)

lemma bind_listeners_all: "bind_listeners L n addrs = Ok ls \<Longrightarrow> ls = addrs"
  by (induction addrs arbitrary: n ls) (auto simp: map_ok_def outcome_elims)

lemma accept_loop_served:
  "snd (accept_loop W w events) = filter (accept_connection W w) [ip. Ok ip \<leftarrow> takeWhile is_ok events]"
  by (induction W w events rule: accept_loop.induct) (simp_all add: case_prod_unfold Let_def)

text \<open>
  As long as the first loop runs, an error of another one is not seen: the tasks are joined in order.
\<close>

lemma later_accept_error_unnoticed:
  "fst (accept_loop W w es) = NeverReturns \<Longrightarrow> join_handles L (fst (accept_loop W w es) # handles) = NeverReturns"
  by simp

section \<open>A sample server\<close>

text \<open>A server that can bind its SMPP address and not its REST address.\<close>

definition sample_smpp_env :: listen_env where
  "sample_smpp_env = \<lparr>path_exists = (\<lambda>_. False), from_pem_file = (\<lambda>_ _. Ok ()), bind_tcp = (\<lambda>_ _. Ok ()), join_error = []\<rparr>"

definition sample_rest_env :: listen_env where
  "sample_rest_env = sample_smpp_env\<lparr>bind_tcp := (\<lambda>_ _. Err (IoError Other ''address in use''))\<rparr>"

definition sample_whitelist_env :: whitelist_env where
  "sample_whitelist_env = \<lparr>read_to_string = (\<lambda>_. Err (IoError NotFound [])), json_strings = (\<lambda>_. Ok []), yaml_strings = (\<lambda>_. Ok []),
     connect_ips = (\<lambda>_. Err (IoError NotFound [])), urlencode = id, http_get = (\<lambda>_. HttpFailed [])\<rparr>"

definition sample_server_config :: ServerConfig where
  "sample_server_config = \<lparr>request_handlers = None, user_auth = \<lparr>users_file = None, auth_url = Some ''http://auth''\<rparr>,
     distribution_list = None, message_store = None, default_validity_period = None, default_mc_mode = None,
     predefined_messages = None, default_service_type = None\<rparr>"

definition sample_listen_config :: ListenConfig where
  "sample_listen_config = \<lparr>listen_addresses = [''0.0.0.0:2775''],
     rest_addresses = [\<lparr>ra_address = ''0.0.0.0:8880'', ra_key_file = None, ra_cert_file = None, ra_ca_cert_file = None\<rparr>],
     ip_whitelist_config = WL_Memory None [''10.0.0.1'']\<rparr>"

definition sample_main :: main_env where
  "sample_main = \<lparr>read_file = (\<lambda>_. Ok []), yaml_users = (\<lambda>_. Ok []), json_users = (\<lambda>_. Ok []),
     yaml_server = (\<lambda>_. Ok (sample_server_config, sample_listen_config, None)), json_server = (\<lambda>_. Err (IoError InvalidData [])),
     yaml_client = (\<lambda>_. Err (IoError InvalidData [])), json_client = (\<lambda>_. Err (IoError InvalidData [])),
     m_backends = \<lparr>open_redis = (\<lambda>_ _ _. Panic), open_rabbit = (\<lambda>_ _ _. Panic), open_sql = (\<lambda>_ _. Err (IoError Other ''no database''))\<rparr>,
     m_ids = \<lparr>new_uuid = ''u'', redis_open = (\<lambda>_. False), redis_incr = (\<lambda>_. Panic)\<rparr>, m_regex = (\<lambda>_. None),
     m_notifier = (\<lambda>_. Panic), m_whitelist = sample_whitelist_env, m_smpp = sample_smpp_env, m_rest = sample_rest_env, m_now = 0\<rparr>"

lemma sample_server_loads:
  "load_server_config (read_file sample_main) (yaml_server sample_main) (json_server sample_main) ''server.yaml''
     = Ok (sample_server_config, sample_listen_config, None)"
  by (simp add: load_server_config_def load_config_def sample_main_def ends_with_def)

lemma sample_server_authenticates:
  "server_authentication (load_users_config (read_file sample_main) (yaml_users sample_main) (json_users sample_main))
     (user_auth sample_server_config) = Ok (HttpUserAuthentication ''http://auth'')"
  by (simp add: server_authentication_def sample_server_config_def)

lemma sample_server_is_built:
  "\<exists>s. SmscServer_new (m_backends sample_main) (m_ids sample_main) None sample_server_config = Ok s"
  by (simp add: SmscServer_new_def create_message_storage_def or_in_memory_def sample_main_def sample_server_config_def
      create_id_generator_def IdGeneratorConfig_default_def)

section \<open>Properties\<close>

text \<open>
  C24.  Which REST addresses are served, and how: exactly those that can be bound, in the order of the
  configuration.  An address is served with TLS exactly when its certificate and its key are configured, present
  and loadable; in every other case, a configured certificate that is missing or broken included, it is
  served in plain text.
\<close>

theorem rest_addresses_served:
  "snd (start_rest_listener L addrs) =
     (let bound = filter (\<lambda>(i, a). is_ok (bind_tcp L i (ra_address a))) (enumerate 0 addrs);
          secure = (\<lambda>(i, a). \<exists>c k. ra_cert_file a = Some c \<and> ra_key_file a = Some k
             \<and> path_exists L c \<and> path_exists L k \<and> is_ok (from_pem_file L c k))
      in \<lparr>served_plain = [ra_address a. (i, a) \<leftarrow> bound, \<not> secure (i, a)],
          served_tls = [ra_address a. (i, a) \<leftarrow> bound, secure (i, a)]\<rparr>)"
proof -
  have c: "[ra_address a. (i, a) \<leftarrow> xs, P a] = map (ra_address \<circ> snd) (filter (\<lambda>x. P (snd x)) xs)" for P and xs :: "(nat \<times> RestAddressConfig) list"
    by (induction xs) auto
  show ?thesis
    unfolding Let_def prod.case tls_config_iff [symmetric] c
    by (simp add: start_rest_listener_def bind_rest_bound del: filter_filter)
qed

text \<open>
  The client lives as long as its REST listeners, too.
\<close>

lemma client_runs_iff_rest_bound:
  assumes "load_client_config (read_file M) (yaml_client M) (json_client M) f = Ok (config, addrs)"
    and "client_start (m_notifier M) (m_ids M) (m_now M) (SmscClient_new (m_regex M) (m_now M) config) = Ok st"
  shows "main_program M events (AppClient f) =
    (if \<exists>i<length addrs. is_ok (bind_tcp (m_rest M) i (ra_address (addrs ! i))) then RunsOn else Exits 0)"
  using start_rest_listener_ends [of "m_rest M" addrs]
  by (simp add: main_program_def start_client_def assms start_rest_same case_prod_unfold Let_def)

text \<open>
  C23.  A server that has been set up runs exactly as long as it has a REST listener: when none of the
  REST addresses can be bound, or none is configured, the process ends with status 0, whatever its SMPP
  listeners do; and when one can be bound, it runs on, also without any SMPP listener.
\<close>

theorem server_runs_iff_rest_bound:
  assumes "load_server_config (read_file M) (yaml_server M) (json_server M) f = Ok (config, listen, ids)"
    and "server_authentication (load_users_config (read_file M) (yaml_users M) (json_users M)) (user_auth config) = Ok auth"
    and "SmscServer_new (m_backends M) (m_ids M) ids config = Ok server"
  shows "main_program M events (AppServer f) =
    (if \<exists>i<length (rest_addresses listen). is_ok (bind_tcp (m_rest M) i (ra_address (rest_addresses listen ! i)))
     then RunsOn else Exits 0)"
  using start_rest_listener_ends [of "m_rest M" "rest_addresses listen"]
  by (simp add: main_program_def start_server_def assms server_start_def exit_of_def case_prod_unfold Let_def)

theorem server_runs_iff_rest_bound_witness:
  "main_program sample_main (\<lambda>_. [Ok ''10.0.0.1'']) (AppServer ''server.yaml'') = Exits 0
   \<and> map_option sr_smpp (snd (start_server sample_main (\<lambda>_. [Ok ''10.0.0.1'']) ''server.yaml'')) = Some NeverReturns"
proof
  obtain s where s: "SmscServer_new (m_backends sample_main) (m_ids sample_main) None sample_server_config = Ok s"
    using sample_server_is_built by blast
  show "main_program sample_main (\<lambda>_. [Ok ''10.0.0.1'']) (AppServer ''server.yaml'') = Exits 0"
    unfolding server_runs_iff_rest_bound [OF sample_server_loads sample_server_authenticates s]
    by (simp add: sample_main_def sample_rest_env_def)
  show "map_option sr_smpp (snd (start_server sample_main (\<lambda>_. [Ok ''10.0.0.1'']) ''server.yaml'')) = Some NeverReturns"
    by (simp add: start_server_def sample_server_loads sample_server_authenticates s server_start_def start_listener_def case_prod_unfold Let_def)
      (simp add: sample_main_def sample_listen_config_def sample_smpp_env_def create_ip_whitelist_def map_ok_def)
qed

text \<open>
  C25.  Who is served by the SMPP listeners of a started server: each listener serves, in order, the peers whose
  sockets it accepts before its first error and that the configured whitelist allows; when the whitelist cannot
  tell whether it is empty, it serves every peer.
\<close>

theorem smpp_peers_served:
  assumes "create_ip_whitelist W (ip_whitelist_config config) = Ok w"
    and "bind_listeners L 0 (listen_addresses config) = Ok listeners"
  shows "snd (start_listener L W config events) =
    map (\<lambda>l. [ip. Ok ip \<leftarrow> takeWhile is_ok (events l),
        case whitelist_is_empty w of Ok _ \<Rightarrow> whitelist_is_allowed W w ip = Ok True | _ \<Rightarrow> True])
      [0..<length (listen_addresses config)]"
proof -
  have f: "filter (accept_connection W w) [ip. Ok ip \<leftarrow> es] = [ip. Ok ip \<leftarrow> es,
      case whitelist_is_empty w of Ok _ \<Rightarrow> whitelist_is_allowed W w ip = Ok True | _ \<Rightarrow> True]" for es :: "string io list"
    unfolding accept_decision [symmetric] by (induction es) (auto split: outcome.split)
  have "listeners = listen_addresses config" using bind_listeners_all [OF assms(2)] .
  then show ?thesis
    by (cases "listeners = []") (simp_all add: start_listener_def assms Let_def comp_def accept_loop_served f)
qed

theorem smpp_peers_served_witness:
  "snd (start_listener sample_smpp_env sample_whitelist_env sample_listen_config
      (\<lambda>_. [Ok ''10.0.0.1'', Ok ''10.0.0.2'', Err (IoError Other []), Ok ''10.0.0.1''])) = [[''10.0.0.1'']]"
proof -
  have w: "create_ip_whitelist sample_whitelist_env (ip_whitelist_config sample_listen_config) = Ok (MemoryIpWhitelist [''10.0.0.1''])"
    and b: "bind_listeners sample_smpp_env 0 (listen_addresses sample_listen_config) = Ok [''0.0.0.0:2775'']"
    by (simp_all add: create_ip_whitelist_def sample_listen_config_def sample_smpp_env_def map_ok_def)
  show ?thesis
    unfolding smpp_peers_served [OF w b] by (simp add: sample_listen_config_def whitelist_is_empty_def whitelist_is_allowed_def)
qed

end
