(* ===== verification/Spec2Isabelle.thy ===== *)
theory Spec2Isabelle
  imports Framing Command_Status Delivery_Receipts Delivery_Queue Gateway_Submit Client_Laws Link_Concurrency Redis_Laws Listeners
begin

text \<open>
  A verification development of \<^verbatim>\<open>rest-smpp-herald\<close>, a gateway between REST clients and SMPP
  (\<^verbatim>\<open>src/src\<close>).

  \<^bold>\<open>The program.\<close>  It runs in one of two roles.  As a \<^emph>\<open>client\<close> (\<^verbatim>\<open>smsc_client/\<close>) it keeps connections to
  SMSCs, binds to them, answers and forwards what they deliver, and offers a REST API that turns
  JSON into SMPP requests and waits for the responses.  As a \<^emph>\<open>server\<close> (\<^verbatim>\<open>smsc_server/\<close>) it accepts SMPP
  connections, authenticates them, and handles submitted messages locally over HTTP, forwards
  them to bound clients, or stores them for later delivery (\<^verbatim>\<open>message_storage.rs\<close>).  Both roles share
  the PDU codec (\<^verbatim>\<open>message.rs\<close>, \<^verbatim>\<open>field_codec.rs\<close>) with its enums, the message handlers, identifiers,
  sequence numbers and configuration.

  \<^bold>\<open>Conventions.\<close>  A \<^verbatim>\<open>struct\<close> is a \<^theory_text>\<open>record\<close>, an \<^verbatim>\<open>enum\<close> a \<^theory_text>\<open>datatype\<close>, a machine integer a word of its
  width.  A result is an \<open>outcome\<close> (\<open>Prelude\<close>): \<open>Ok\<close>, \<open>Err\<close>, or \<open>Panic\<close> where the code would panic;
  \<open>'a io\<close> is \<^verbatim>\<open>std::io::Result\<close>.  Stateful code passes its state explicitly; an \<^verbatim>\<open>async fn\<close> of a connection is an
  \<open>action\<close> (\<open>Actions\<close>), a function from the state to a result and the state after it, also after an
  error.  Loops over data are structural or have a termination proof; loops that can run for ever are
  \<^theory_text>\<open>partial_function (option)\<close>, where \<open>None\<close> is not returning, or take the list of events that drive
  them; there is no fuel.  Hash maps are maps, and where the code walks one, the order is an
  argument.  What is outside (sockets, HTTP and regular expressions, base64, \<^verbatim>\<open>chrono\<close>, SQL errors,
  Redis, RabbitMQ, the clock, UUIDs) is an argument, a member of an environment record, and what a
  property needs of it is a named hypothesis (\<open>chrono_ok\<close>, \<open>formats_ok\<close>, \<open>time_format_ok\<close>,
  \<open>redis_documented\<close>, the base64 law) whose witness instantiates it with a concrete function.

  \<^bold>\<open>Theories.\<close>
  \<^item> \<open>Prelude\<close>, \<open>Rust_Std\<close>, \<open>Rust_Text\<close>, \<open>Json\<close>: results, octets and texts, number formats, UTF-8, sorted
    maps and \<^verbatim>\<open>serde_json\<close> values, with the lemmas that the components share.
  \<^item> \<open>Enums\<close>, \<open>Command_Ids\<close>, \<open>Command_Status\<close>, \<open>Esm_Class\<close>, \<open>Registered_Delivery\<close>: the enums with their
    codes, names and bit fields (\<^verbatim>\<open>ton.rs\<close> to \<^verbatim>\<open>registered_delivery.rs\<close>).  The locale of code tables
    gives decoding after encoding for each of them.
  \<^item> \<open>Wire\<close>, \<open>Field_Codec\<close>, \<open>Message_Tables\<close>, \<open>Message_Codec\<close>: octet readers and writers, \<^verbatim>\<open>SmppMessageBuffer\<close>,
    the field codecs, the tables of commands and optional parameters, \<^verbatim>\<open>from_json\<close> and \<^verbatim>\<open>to_json\<close>.  \<open>Codec_Laws\<close>
    states the contract of a codec as the locale \<open>self_delimiting\<close> and interprets it for every codec and for
    the optional parameters; \<open>Base64_Standard\<close> and \<open>Message_Samples\<close> hold the concrete values of the witnesses.
  \<^item> \<open>Message_Laws\<close>, \<open>Framing\<close>, \<open>Replies\<close>: encoding and decoding are inverse on canonical messages; decoding
    is total and never panics; encoding never panics on ASCII; the header of what is encoded; a
    stream of PDUs is recovered whatever the reads are; the header that never ends; what a response
    carries.
  \<^item> \<open>Config\<close>, \<open>Access\<close>, \<open>Ids\<close>, \<open>Transactions\<close>, \<open>Load_Balancing\<close>, \<open>Message_Handler\<close>, \<open>Connections\<close>,
    \<open>Delivery_Receipts\<close>, \<open>Alarm\<close>: the components of the same names.  Locales: \<open>id_source\<close> (identifiers do
    not repeat), \<open>correlation\<close> (a response reaches its waiter), \<open>failover\<close> (first target that answers), each
    interpreted on the modelled operations.
  \<^item> \<open>Times\<close>, \<open>Delivery_Queue\<close>, \<open>Message_Storage\<close>, \<open>Memory_Delivery\<close>, \<open>Sql_Storage\<close>, \<open>Sql_Delivery\<close>, \<open>Rabbit_Storage\<close>,
    \<open>Redis_Storage\<close>, \<open>Redis_Laws\<close>: times, the queue of scheduled deliveries (equivalent to a sorted list),
    and the four storages.  The locale \<open>message_store\<close> is the contract that an accepted message stays until it is
    cancelled or superseded; the storages in memory and on SQL are interpretations.
  \<^item> \<open>Server_State\<close>, \<open>Smsc_Server\<close>, \<open>Server_Laws\<close>, \<open>Server_Properties\<close>: the server's connection
    (\<^verbatim>\<open>smsc_server.rs\<close>): every command, the modes of delivery, \<^verbatim>\<open>submit_multi\<close>, scheduled delivery.  At most one
    reply per request, with the right command and number; store-and-forward acknowledges what is
    stored; and where the code departs from that.  \<open>Startup\<close>: how a server is put together.  \<open>Listeners\<close>: the process
    (\<^verbatim>\<open>main.rs\<close>, \<^verbatim>\<open>SmscServer::start\<close>, \<^verbatim>\<open>SmscClient::start\<close>): configuration files, SMPP and REST listeners with or without
    TLS, the accept loops, and when the process ends.
  \<^item> \<open>Smsc_Connection\<close>, \<open>Connection_Laws\<close>: the client's connection (\<^verbatim>\<open>smsc_connection.rs\<close>): the bind,
    the main loop on the events it selects, reconnecting and alarms.  \<open>Smsc_Client\<close>, \<open>Client_Laws\<close>: the pool of
    a configured client and its REST handlers; a posted message and its answer; the records of
    connections as a map.  \<open>Link_Concurrency\<close>: the callers of \<^verbatim>\<open>send_message\<close> and the main loop as tasks over
    the lock of the socket, a step relation whose runs are their interleavings: one request outstanding at a time, and
    a request of the SMSC that blocks the response behind it.
  \<^item> \<open>Gateway\<close>, \<open>Gateway_Submit\<close>: the two roles against each other: the bind handshake from the client's
    configuration to the client's verdict through the server's receive loop, and a submission from its octets
    through the server's store to the request that waits in the client.

  \<^bold>\<open>What the loops are driven by.\<close>  The receive loops take the results of reads; the bind loop and the main loop
  of a connection take the events that \<^verbatim>\<open>select!\<close> yields, so every interleaving of reads and timer ticks is
  an input; the loop that reconnects takes the attempts.  Time enters as the clock readings of an environment.
  Elsewhere an operation that holds the lock of what it changes is one step, and what happens while a task
  waits is given by the response that arrives or does not arrive in time; the tasks that share one session of the
  client are interleaved step by step in \<open>Link_Concurrency\<close>, where the processing of an inbound PDU is one step,
  taken when the main loop has the lock it needs.

  \<^bold>\<open>Not modelled.\<close>  What sockets, TLS, HTTP and the deserialisation of configuration and request bodies do
  inside \<^verbatim>\<open>tokio\<close>, \<^verbatim>\<open>axum\<close>, \<^verbatim>\<open>rustls\<close> and \<^verbatim>\<open>serde\<close>, whose outcomes are arguments; the command line and the set-up
  of logging (\<^verbatim>\<open>clap\<close>, \<^verbatim>\<open>tracing\<close>); the registration and rendering of metrics (\<^verbatim>\<open>metrics.rs\<close>); texts made for the log
  only; the SQL text of the statements for the different databases, whose effect on the table is modelled.
\<close>

end
